(* ===== verification/Prelude.thy ===== *)
theory Prelude
  imports Main "HOL-Library.Sublist" "HOL-Library.Word"
begin

text \<open>
  Shared vocabulary of the development: the 64-bit arithmetic of Go and PostgreSQL, programs that
  thread a state and stop at the first error, the table operations every SQL statement is built
  from, and the locales \<open>step_order\<close>, \<open>table\<close> and \<open>keyed_table\<close> whose lemmas the component theories use.
\<close>

named_theorems runs \<open>when a program returns a value, and what it then did\<close>
named_theorems frame \<open>which parts of the state a program leaves alone\<close>

section \<open>64-bit integers\<close>

text \<open>
  An \<open>int64\<close> is an \<open>int\<close> in the signed 64-bit range. Go's arithmetic wraps around
  (\<open>go_add\<close>, \<open>go_sub\<close>, \<open>go_neg\<close>); PostgreSQL's \<open>bigint\<close> arithmetic raises an error when the
  result leaves the range, so the SQL models compute on \<open>int\<close> and test \<open>in_int64\<close>.
\<close>

definition in_int64 :: "int \<Rightarrow> bool" where
  "in_int64 x \<longleftrightarrow> - (2 ^ 63) \<le> x \<and> x < 2 ^ 63"

definition wrap64 :: "int \<Rightarrow> int" where
  "wrap64 x = (x + 2 ^ 63) mod 2 ^ 64 - 2 ^ 63"

definition go_add :: "int \<Rightarrow> int \<Rightarrow> int" where
  "go_add a b = wrap64 (a + b)"

definition go_sub :: "int \<Rightarrow> int \<Rightarrow> int" where
  "go_sub a b = wrap64 (a - b)"

definition go_neg :: "int \<Rightarrow> int" where
  "go_neg a = wrap64 (- a)"

lemma wrap64_id [simp]: "in_int64 x \<Longrightarrow> wrap64 x = x"
  by (simp add: wrap64_def in_int64_def)

lemma in_int64_wrap64 [simp]: "in_int64 (wrap64 x)"
  by (simp add: wrap64_def in_int64_def)

lemma wrap64_cong: "wrap64 x = wrap64 y \<longleftrightarrow> x mod 2 ^ 64 = y mod 2 ^ 64"
proof -
  have "wrap64 x = wrap64 y \<longleftrightarrow> (x + 2 ^ 63) mod 2 ^ 64 = (y + 2 ^ 63) mod 2 ^ 64"
    by (simp add: wrap64_def)
  also have "\<dots> \<longleftrightarrow> x mod 2 ^ 64 = y mod 2 ^ 64"
    by (simp add: mod_eq_dvd_iff)
  finally show ?thesis .
qed

lemma wrap64_mod [simp]: "wrap64 x mod 2 ^ 64 = x mod 2 ^ 64"
  by (metis in_int64_wrap64 wrap64_cong wrap64_id)

lemma go_neg_pos: "0 < a \<Longrightarrow> in_int64 a \<Longrightarrow> go_neg a = - a"
  by (simp add: go_neg_def in_int64_def)

section \<open>Programs with state and errors\<close>

text \<open>
  A program takes a state and returns an error (\<open>Inl\<close>) or a value (\<open>Inr\<close>) with the state it
  leaves. \<open>bindM\<close> is Go's \<open>x, err := f(); if err != nil { return err }\<close>, \<open>failIf c e k\<close> is
  \<open>if c { return e }; k\<close>.
\<close>

type_synonym ('s, 'e, 'a) prog = "'s \<Rightarrow> ('e + 'a) \<times> 's"

definition returnM :: "'a \<Rightarrow> ('s, 'e, 'a) prog" where
  "returnM x s = (Inr x, s)"

definition failM :: "'e \<Rightarrow> ('s, 'e, 'a) prog" where
  "failM e s = (Inl e, s)"

definition bindM :: "('s, 'e, 'a) prog \<Rightarrow> ('a \<Rightarrow> ('s, 'e, 'b) prog) \<Rightarrow> ('s, 'e, 'b) prog" where
  "bindM m f s = (case m s of (Inl e, t) \<Rightarrow> (Inl e, t) | (Inr x, t) \<Rightarrow> f x t)"

definition failIf :: "bool \<Rightarrow> 'e \<Rightarrow> ('s, 'e, 'a) prog \<Rightarrow> ('s, 'e, 'a) prog" where
  "failIf c e k = (if c then failM e else k)"

definition readM :: "('s \<Rightarrow> 'a) \<Rightarrow> ('s, 'e, 'a) prog" where
  "readM f s = (Inr (f s), s)"

definition tryM :: "('s, 'e, 'a) prog \<Rightarrow> ('s, 'e, 'e + 'a) prog" where
  \<comment> \<open>Go keeps the error in a variable and goes on.\<close>
  "tryM m s = (case m s of (r, t) \<Rightarrow> (Inr r, t))"

definition mapErrM :: "('e \<Rightarrow> 'e) \<Rightarrow> ('s, 'e, 'a) prog \<Rightarrow> ('s, 'e, 'a) prog" where
  "mapErrM g m s = (case m s of (Inl e, t) \<Rightarrow> (Inl (g e), t) | (Inr x, t) \<Rightarrow> (Inr x, t))"

fun forM :: "'x list \<Rightarrow> ('x \<Rightarrow> ('s, 'e, 'y) prog) \<Rightarrow> ('s, 'e, 'y list) prog" where
  "forM [] f = returnM []"
| "forM (x # xs) f = bindM (f x) (\<lambda>y. bindM (forM xs f) (\<lambda>ys. returnM (y # ys)))"

lemma returnM_iff [runs]: "returnM x s = (Inr r, s') \<longleftrightarrow> r = x \<and> s' = s"
  by (auto simp: returnM_def)

lemma failM_iff [runs]: "failM e s = (Inr r, s') \<longleftrightarrow> False"
  by (simp add: failM_def)

lemma bindM_iff [runs]:
  "bindM m f s = (Inr r, s') \<longleftrightarrow> (\<exists>x t. m s = (Inr x, t) \<and> f x t = (Inr r, s'))"
  by (auto simp: bindM_def split: prod.splits sum.splits)

lemma failIf_iff [runs]: "failIf c e k s = (Inr r, s') \<longleftrightarrow> \<not> c \<and> k s = (Inr r, s')"
  by (auto simp: failIf_def failM_def)

lemma readM_iff [runs]: "readM f s = (Inr r, s') \<longleftrightarrow> r = f s \<and> s' = s"
  by (auto simp: readM_def)

lemma tryM_iff [runs]: "tryM m s = (Inr r, s') \<longleftrightarrow> m s = (r, s')"
  by (auto simp: tryM_def split: prod.splits)

lemma mapErrM_iff [runs]: "mapErrM g m s = (Inr r, s') \<longleftrightarrow> m s = (Inr r, s')"
  by (auto simp: mapErrM_def split: prod.splits sum.splits)

lemma forM_Nil_iff [runs]: "forM [] f s = (Inr r, s') \<longleftrightarrow> r = [] \<and> s' = s"
  by (auto simp: returnM_def)

lemma forM_results:
  "forM xs f s = (Inr ys, t) \<Longrightarrow> y \<in> set ys \<Longrightarrow> \<exists>x\<in>set xs. \<exists>u v. f x u = (Inr y, v)"
  by (induction xs arbitrary: s ys) (auto simp: returnM_def bindM_def split: prod.splits sum.splits, blast+)

lemma forM_Cons_iff [runs]:
  "forM (x # xs) f s = (Inr r, s') \<longleftrightarrow>
     (\<exists>y ys t. f x s = (Inr y, t) \<and> forM xs f t = (Inr ys, s') \<and> r = y # ys)"
  by (auto simp: runs)

text \<open>Elimination rules that take a successful run apart, one statement at a time.\<close>

lemma bindM_elim:
  assumes "bindM m f s = (Inr r, s')"
  obtains x t where "m s = (Inr x, t)" "f x t = (Inr r, s')"
  using assms by (auto simp: bindM_iff)

lemma bindM_pair_elim:
  assumes "bindM m (\<lambda>(x, y). f x y) s = (Inr r, s')"
  obtains x y t where "m s = (Inr (x, y), t)" "f x y t = (Inr r, s')"
  using assms by (auto simp: bindM_iff)

lemma failIf_elim:
  assumes "failIf c e k s = (Inr r, s')"
  obtains "\<not> c" "k s = (Inr r, s')"
  using assms by (simp add: failIf_iff)

lemma readM_elim:
  assumes "readM f s = (Inr r, s')"
  obtains "r = f s" "s' = s"
  using assms by (simp add: readM_iff)

lemma returnM_elim:
  assumes "returnM x s = (Inr r, s')"
  obtains "r = x" "s' = s"
  using assms by (simp add: returnM_iff)

lemmas run_elims = bindM_pair_elim bindM_elim failIf_elim readM_elim returnM_elim

lemma bindM_run [simp]:
  "m s = (Inr x, t) \<Longrightarrow> bindM m f s = f x t"
  "m s = (Inl e, t) \<Longrightarrow> bindM m f s = (Inl e, t)"
  by (simp_all add: bindM_def)

lemma returnM_run [simp]: "returnM x s = (Inr x, s)"
  by (simp add: returnM_def)

lemma failM_run [simp]: "failM e s = (Inl e, s)"
  by (simp add: failM_def)

lemma readM_run [simp]: "readM f s = (Inr (f s), s)"
  by (simp add: readM_def)

lemma failIf_run [simp]:
  "c \<Longrightarrow> failIf c e k s = (Inl e, s)" "\<not> c \<Longrightarrow> failIf c e k s = k s"
  by (simp_all add: failIf_def)

section \<open>What every program step keeps\<close>

text \<open>
  \<open>step_order R\<close>: a reflexive and transitive relation between the state before and the state after.
  Its lemmas say that programs built from steps in \<open>R\<close> stay in \<open>R\<close>, whether they fail or not.
\<close>

definition within :: "('s \<Rightarrow> 's \<Rightarrow> bool) \<Rightarrow> ('s, 'e, 'a) prog \<Rightarrow> bool" where
  "within R m \<longleftrightarrow> (\<forall>s. R s (snd (m s)))"

lemma withinD: "within R m \<Longrightarrow> m s = (r, t) \<Longrightarrow> R s t"
  by (metis snd_conv within_def)

locale step_order =
  fixes R :: "'s \<Rightarrow> 's \<Rightarrow> bool"
  assumes refl: "R s s"
    and trans: "R s t \<Longrightarrow> R t u \<Longrightarrow> R s u"
begin

lemma returnM: "within R (returnM x)"
  by (simp add: within_def refl)

lemma failM: "within R (failM e)"
  by (simp add: within_def refl)

lemma readM: "within R (readM f)"
  by (simp add: within_def refl)

lemma bindM: "within R m \<Longrightarrow> (\<And>x. within R (f x)) \<Longrightarrow> within R (bindM m f)"
  unfolding within_def bindM_def
  by (auto split: prod.splits sum.splits intro: trans) (metis snd_conv trans)+

lemma failIf: "within R k \<Longrightarrow> within R (failIf c e k)"
  by (simp add: failIf_def failM)

lemma tryM: "within R m \<Longrightarrow> within R (tryM m)"
  by (auto simp: within_def tryM_def split: prod.splits) (metis snd_conv)

lemma mapErrM: "within R m \<Longrightarrow> within R (mapErrM g m)"
  unfolding within_def mapErrM_def
  by (auto split: prod.splits sum.splits) (metis snd_conv)+

lemma forM: "(\<And>x. within R (f x)) \<Longrightarrow> within R (forM xs f)"
  by (induction xs) (auto intro!: bindM returnM)

lemma cases:
  "within R m \<Longrightarrow> within R n \<Longrightarrow> within R (if c then m else n)"
  "within R m' \<Longrightarrow> (\<And>x. within R (k x)) \<Longrightarrow> within R (case v of None \<Rightarrow> m' | Some x \<Rightarrow> k x)"
  "(\<And>x y. within R (h x y)) \<Longrightarrow> within R (case p of (x, y) \<Rightarrow> h x y)"
  "(\<And>e. within R (l e)) \<Longrightarrow> (\<And>x. within R (k' x)) \<Longrightarrow>
     within R (case r of Inl e \<Rightarrow> l e | Inr x \<Rightarrow> k' x)"
  "within R m'' \<Longrightarrow> (\<And>x xs. within R (k'' x xs)) \<Longrightarrow> within R (case zs of [] \<Rightarrow> m'' | x # xs \<Rightarrow> k'' x xs)"
  by (simp_all split: option.split prod.split sum.split list.split)

lemmas rules = returnM failM readM bindM failIf tryM mapErrM forM cases

end

text \<open>The instance used for frames: a component \<open>f\<close> of the state is unchanged.\<close>

definition keeps :: "('s \<Rightarrow> 'c) \<Rightarrow> ('s, 'e, 'a) prog \<Rightarrow> bool" where
  "keeps f m \<longleftrightarrow> within (\<lambda>s t. f t = f s) m"

interpretation keep: step_order "\<lambda>s t. f t = f s" for f :: "'s \<Rightarrow> 'c"
  by unfold_locales auto

lemma keepsD: "keeps f m \<Longrightarrow> m s = (r, t) \<Longrightarrow> f t = f s"
  by (auto simp: keeps_def dest: withinD)

lemma keeps_rules [frame]:
  "keeps f (returnM x)" "keeps f (failM e)" "keeps f (readM g)"
  "keeps f m \<Longrightarrow> (\<And>x. keeps f (k x)) \<Longrightarrow> keeps f (bindM m k)"
  "keeps f k' \<Longrightarrow> keeps f (failIf c e k')"
  "keeps f m \<Longrightarrow> keeps f (tryM m)"
  "keeps f m \<Longrightarrow> keeps f (mapErrM h m)"
  "(\<And>x. keeps f (l x)) \<Longrightarrow> keeps f (forM xs l)"
  "keeps f m1 \<Longrightarrow> keeps f m2 \<Longrightarrow> keeps f (if c then m1 else m2)"
  "keeps f n \<Longrightarrow> (\<And>x. keeps f (k1 x)) \<Longrightarrow> keeps f (case v of None \<Rightarrow> n | Some x \<Rightarrow> k1 x)"
  "(\<And>x y. keeps f (k2 x y)) \<Longrightarrow> keeps f (case p of (x, y) \<Rightarrow> k2 x y)"
  "(\<And>d. keeps f (k3 d)) \<Longrightarrow> (\<And>x. keeps f (k4 x)) \<Longrightarrow> keeps f (case r of Inl d \<Rightarrow> k3 d | Inr x \<Rightarrow> k4 x)"
  "keeps f n' \<Longrightarrow> (\<And>x zs. keeps f (k5 x zs)) \<Longrightarrow> keeps f (case ys of [] \<Rightarrow> n' | x # zs \<Rightarrow> k5 x zs)"
  unfolding keeps_def
  by (rule keep.rules; assumption)+

text \<open>The instance used for append-only tables: the list \<open>f\<close> only grows at its end.\<close>

definition appends :: "('s \<Rightarrow> 'c list) \<Rightarrow> ('s, 'e, 'a) prog \<Rightarrow> bool" where
  "appends f m \<longleftrightarrow> within (\<lambda>s t. prefix (f s) (f t)) m"

interpretation append: step_order "\<lambda>s t. prefix (f s) (f t)" for f :: "'s \<Rightarrow> 'c list"
  by unfold_locales auto

lemma appendsD: "appends f m \<Longrightarrow> m s = (r, t) \<Longrightarrow> prefix (f s) (f t)"
  unfolding appends_def by (drule withinD)

lemma appends_rules [frame]:
  "appends f (returnM x)" "appends f (failM e)" "appends f (readM g)"
  "appends f m \<Longrightarrow> (\<And>x. appends f (k x)) \<Longrightarrow> appends f (bindM m k)"
  "appends f k' \<Longrightarrow> appends f (failIf c e k')"
  "appends f m \<Longrightarrow> appends f (tryM m)"
  "appends f m \<Longrightarrow> appends f (mapErrM h m)"
  "(\<And>x. appends f (l x)) \<Longrightarrow> appends f (forM xs l)"
  "appends f m1 \<Longrightarrow> appends f m2 \<Longrightarrow> appends f (if c then m1 else m2)"
  "appends f n \<Longrightarrow> (\<And>x. appends f (k1 x)) \<Longrightarrow> appends f (case v of None \<Rightarrow> n | Some x \<Rightarrow> k1 x)"
  "(\<And>x y. appends f (k2 x y)) \<Longrightarrow> appends f (case p of (x, y) \<Rightarrow> k2 x y)"
  "(\<And>d. appends f (k3 d)) \<Longrightarrow> (\<And>x. appends f (k4 x)) \<Longrightarrow> appends f (case r of Inl d \<Rightarrow> k3 d | Inr x \<Rightarrow> k4 x)"
  unfolding appends_def
  by (rule append.rules; assumption)+

lemma keeps_appends: "keeps f m \<Longrightarrow> appends f m"
  unfolding keeps_def appends_def within_def by simp

section \<open>Tables\<close>

text \<open>
  A table is a list of rows in insertion order, a component \<open>tbl\<close> of the state with its update
  function \<open>upd\<close>. A SQL statement is one of the operations below: \<open>selectOne\<close> returns the first row
  that satisfies the condition (the \<open>:one\<close> queries of sqlc, whose \<open>Scan\<close> fails on an empty
  result), \<open>insertRow\<close> and \<open>updateRow\<close> test the table's constraints and stop at the first one the
  new row violates.
\<close>

fun firstError :: "(bool \<times> 'e) list \<Rightarrow> 'e option" where
  "firstError [] = None"
| "firstError ((violated, e) # cs) = (if violated then Some e else firstError cs)"

definition checkM :: "(bool \<times> 'e) list \<Rightarrow> ('s, 'e, unit) prog" where
  "checkM cs = (case firstError cs of Some e \<Rightarrow> failM e | None \<Rightarrow> returnM ())"

definition selectOne :: "'e \<Rightarrow> ('s \<Rightarrow> 'r list) \<Rightarrow> ('r \<Rightarrow> bool) \<Rightarrow> ('s, 'e, 'r) prog" where
  "selectOne none tbl p s = (case find p (tbl s) of None \<Rightarrow> (Inl none, s) | Some r \<Rightarrow> (Inr r, s))"

definition insertRow ::
  "('s \<Rightarrow> 'r \<Rightarrow> (bool \<times> 'e) list) \<Rightarrow> (('r list \<Rightarrow> 'r list) \<Rightarrow> 's \<Rightarrow> 's) \<Rightarrow> 'r \<Rightarrow> ('s, 'e, 'r) prog"
where
  "insertRow checks upd r s =
     (case firstError (checks s r) of
        Some e \<Rightarrow> (Inl e, s)
      | None \<Rightarrow> (Inr r, upd (\<lambda>t. t @ [r]) s))"

definition updateRow ::
  "'e \<Rightarrow> ('s \<Rightarrow> 'r \<Rightarrow> (bool \<times> 'e) list) \<Rightarrow> ('s \<Rightarrow> 'r list) \<Rightarrow> (('r list \<Rightarrow> 'r list) \<Rightarrow> 's \<Rightarrow> 's) \<Rightarrow>
   ('r \<Rightarrow> bool) \<Rightarrow> ('r \<Rightarrow> 'r) \<Rightarrow> ('s, 'e, 'r) prog"
where
  \<comment> \<open>\<open>p\<close> includes the table's key, so at most one row satisfies it.\<close>
  "updateRow none checks tbl upd p f s =
     (case find p (tbl s) of
        None \<Rightarrow> (Inl none, s)
      | Some r \<Rightarrow>
         (case firstError (checks s (f r)) of
            Some e \<Rightarrow> (Inl e, s)
          | None \<Rightarrow> (Inr (f r), upd (map (\<lambda>x. if p x then f x else x)) s)))"

definition updateMany ::
  "('r \<Rightarrow> (bool \<times> 'e) list) \<Rightarrow> ('s \<Rightarrow> 'r list) \<Rightarrow> (('r list \<Rightarrow> 'r list) \<Rightarrow> 's \<Rightarrow> 's) \<Rightarrow>
   ('r \<Rightarrow> bool) \<Rightarrow> ('r \<Rightarrow> 'r) \<Rightarrow> ('s, 'e, 'r list) prog"
where
  \<comment> \<open>An \<open>UPDATE\<close> of every row that satisfies \<open>p\<close>; it returns the new rows.\<close>
  "updateMany checks tbl upd p f s =
     (case firstError (concat (map (\<lambda>r. checks (f r)) (filter p (tbl s)))) of
        Some e \<Rightarrow> (Inl e, s)
      | None \<Rightarrow> (Inr (map f (filter p (tbl s))), upd (map (\<lambda>x. if p x then f x else x)) s))"

definition deleteWhere ::
  "('s \<Rightarrow> 'r list) \<Rightarrow> (('r list \<Rightarrow> 'r list) \<Rightarrow> 's \<Rightarrow> 's) \<Rightarrow> ('r \<Rightarrow> bool) \<Rightarrow> ('s, 'e, int) prog"
where
  "deleteWhere tbl upd p s =
     (Inr (int (length (filter p (tbl s)))), upd (filter (\<lambda>r. \<not> p r)) s)"

lemma firstError_None [simp]: "firstError cs = None \<longleftrightarrow> (\<forall>c\<in>set cs. \<not> fst c)"
  by (induction cs rule: firstError.induct) auto

lemma firstError_append:
  "firstError (cs @ ds) = (case firstError cs of Some e \<Rightarrow> Some e | None \<Rightarrow> firstError ds)"
  by (induction cs rule: firstError.induct) auto

lemma checkM_iff [runs]: "checkM cs s = (Inr r, s') \<longleftrightarrow> (\<forall>c\<in>set cs. \<not> fst c) \<and> s' = s"
  by (auto simp: checkM_def simp flip: firstError_None split: option.splits)

lemma selectOne_iff [runs]:
  "selectOne none tbl p s = (Inr r, s') \<longleftrightarrow> find p (tbl s) = Some r \<and> s' = s"
  by (auto simp: selectOne_def split: option.splits)

lemma insertRow_iff [runs]:
  "insertRow checks upd r s = (Inr r', s') \<longleftrightarrow>
     (\<forall>c\<in>set (checks s r). \<not> fst c) \<and> r' = r \<and> s' = upd (\<lambda>t. t @ [r]) s"
  by (auto simp: insertRow_def simp flip: firstError_None split: option.splits)

lemma updateRow_iff [runs]:
  "updateRow none checks tbl upd p f s = (Inr r', s') \<longleftrightarrow>
     (\<exists>r. find p (tbl s) = Some r \<and> (\<forall>c\<in>set (checks s (f r)). \<not> fst c) \<and> r' = f r \<and>
        s' = upd (map (\<lambda>x. if p x then f x else x)) s)"
  by (auto simp: updateRow_def simp flip: firstError_None split: option.splits)

lemma updateMany_iff [runs]:
  "updateMany checks tbl upd p f s = (Inr rs, s') \<longleftrightarrow>
     (\<forall>r\<in>set (tbl s). p r \<longrightarrow> (\<forall>c\<in>set (checks (f r)). \<not> fst c)) \<and>
     rs = map f (filter p (tbl s)) \<and> s' = upd (map (\<lambda>x. if p x then f x else x)) s"
proof -
  have "(\<forall>r\<in>set (tbl s). p r \<longrightarrow> (\<forall>c\<in>set (checks (f r)). \<not> fst c)) \<longleftrightarrow>
        firstError (concat (map (\<lambda>r. checks (f r)) (filter p (tbl s)))) = None"
    by auto
  then show ?thesis
    by (auto simp: updateMany_def simp del: firstError_None split: option.splits)
qed

lemma deleteWhere_iff [runs]:
  "deleteWhere tbl upd p s = (Inr n, s') \<longleftrightarrow>
     n = int (length (filter p (tbl s))) \<and> s' = upd (filter (\<lambda>r. \<not> p r)) s"
  by (auto simp: deleteWhere_def)

lemma table_frame [frame]:
  "keeps f (checkM cs)"
  "keeps f (selectOne none tbl p)"
  "(\<And>g s. f (upd g s) = f s) \<Longrightarrow> keeps f (insertRow checks upd r)"
  "(\<And>g s. f (upd g s) = f s) \<Longrightarrow> keeps f (updateRow none checks tbl upd p h)"
  "(\<And>g s. f (upd g s) = f s) \<Longrightarrow> keeps f (updateMany rchecks tbl upd p h)"
  "(\<And>g s. f (upd g s) = f s) \<Longrightarrow> keeps f (deleteWhere tbl upd p)"
  unfolding keeps_def within_def
  by (auto simp: checkM_def selectOne_def insertRow_def updateRow_def updateMany_def deleteWhere_def
      split: option.splits)

lemma find_Some_iff2: "find p xs = Some x \<Longrightarrow> x \<in> set xs \<and> p x"
  by (auto simp: find_Some_iff)

lemma find_append:
  "find p (xs @ ys) = (case find p xs of None \<Rightarrow> find p ys | Some x \<Rightarrow> Some x)"
  by (induction xs) simp_all

text \<open>
  \<open>table tbl upd\<close>: reading a table after an update gives the updated list. \<open>keyed_table\<close> adds a key that the
  table's constraints keep unique: after any insert, or any update that does not touch the key, no
  two rows share it.
\<close>

locale table =
  fixes tbl :: "'s \<Rightarrow> 'r list"
    and upd :: "('r list \<Rightarrow> 'r list) \<Rightarrow> 's \<Rightarrow> 's"
  assumes tbl_upd: "tbl (upd g s) = g (tbl s)"
begin

lemma insert_appends: "appends tbl (insertRow checks upd r)"
  unfolding appends_def within_def
  by (auto simp: insertRow_def tbl_upd split: option.splits)

lemma after_insert: "insertRow checks upd r s = (Inr r', s') \<Longrightarrow> tbl s' = tbl s @ [r]"
  by (simp add: runs tbl_upd)

lemma after_update:
  "updateRow none checks tbl upd p f s = (Inr r', s') \<Longrightarrow>
     tbl s' = map (\<lambda>x. if p x then f x else x) (tbl s)"
  by (auto simp: runs tbl_upd)

end

lemma map_if_key:
  "(\<And>x. key (f x) = key x) \<Longrightarrow> map key (map (\<lambda>x. if p x then f x else x) xs) = map key xs"
  by (induction xs) auto

locale keyed_table = table tbl upd
  for tbl :: "'s \<Rightarrow> 'r list" and upd :: "('r list \<Rightarrow> 'r list) \<Rightarrow> 's \<Rightarrow> 's" +
  fixes key :: "'r \<Rightarrow> 'k"
    and checks :: "'s \<Rightarrow> 'r \<Rightarrow> (bool \<times> 'e) list"
  assumes key_checked: "\<forall>c\<in>set (checks s r). \<not> fst c \<Longrightarrow> key r \<notin> key ` set (tbl s)"
begin

lemma insert_distinct:
  assumes "insertRow checks upd r s = (Inr r', s')" and "distinct (map key (tbl s))"
  shows "distinct (map key (tbl s'))"
proof -
  have "key r \<notin> key ` set (tbl s)"
    using assms(1) key_checked by (simp add: runs)
  then show ?thesis
    using after_insert [OF assms(1)] assms(2) by simp
qed

lemma update_distinct:
  assumes "updateRow none checks' tbl upd p f s = (Inr r', s')"
    and "\<And>x. key (f x) = key x" and "distinct (map key (tbl s))"
  shows "distinct (map key (tbl s'))"
  using assms by (simp add: after_update map_if_key del: map_map)

end

text \<open>\<open>ORDER BY\<close> a key, largest first.\<close>

definition sortDesc :: "('r \<Rightarrow> int) \<Rightarrow> 'r list \<Rightarrow> 'r list" where
  "sortDesc key = sort_key (\<lambda>r. - key r)"

lemma set_sortDesc [simp]: "set (sortDesc key rs) = set rs"
  by (simp add: sortDesc_def)

text \<open>Rows found by a unique key.\<close>

lemma find_key:
  "distinct (map key t) \<Longrightarrow> find (\<lambda>r. key r = k) t = Some r \<longleftrightarrow> r \<in> set t \<and> key r = k"
  by (induction t) auto

lemma find_key_inject:
  "distinct (map key t) \<Longrightarrow> r \<in> set t \<Longrightarrow> r' \<in> set t \<Longrightarrow> key r = key r' \<Longrightarrow> r = r'"
  by (metis find_key option.inject)

lemma find_key_None: "find (\<lambda>r. key r = k) t = None \<longleftrightarrow> k \<notin> key ` set t"
  by (auto simp: find_None_iff)

end
