(* ===== verification/GoStrings.thy ===== *)
theory GoStrings
  imports Prelude
begin

text \<open>
  The string operations of Go's standard library that the program uses, on byte strings (a
  \<open>string\<close> is a list of 8-bit characters, as Go's strings are): \<open>strings.TrimSpace\<close>, the length in
  runes, \<open>strings.ToUpper\<close> and \<open>strings.ReplaceAll\<close> where they are applied to the text of a UUID,
  and the zero-padded decimal of \<open>fmt.Sprintf\<close>. UUIDs are 128-bit words.
\<close>

type_synonym uuid = "128 word"

section \<open>Trimming white space\<close>

text \<open>The UTF-8 encodings of the runes \<open>unicode.IsSpace\<close> accepts.\<close>

definition goSpaces :: "string list" where
  "goSpaces = map (map char_of)
     ([[9], [10], [11], [12], [13], [32], [194, 133], [194, 160], [225, 154, 128],
       [226, 128, 168], [226, 128, 169], [226, 128, 175], [226, 129, 159], [227, 128, 128]]
      @ map (\<lambda>k. [226, 128, k]) [128 .. 138] :: int list list)"

function trimSeqs :: "string list \<Rightarrow> string \<Rightarrow> string" where
  "trimSeqs ws s =
     (case find (\<lambda>w. w \<noteq> [] \<and> take (length w) s = w) ws of
        None \<Rightarrow> s
      | Some w \<Rightarrow> trimSeqs ws (drop (length w) s))"
  by pat_completeness auto
termination
proof (relation "measure (length \<circ> snd)")
  fix ws :: "string list" and s w
  assume "find (\<lambda>w. w \<noteq> [] \<and> take (length w) s = w) ws = Some w"
  then have "w \<noteq> []" and "take (length w) s = w"
    by (auto dest: find_Some_iff2)
  then have "0 < length w" and "length w \<le> length s"
    by (auto simp: min_def dest!: arg_cong [where f = length] split: if_splits)
  then have "length s - length w < length s"
    by linarith
  then show "((ws, drop (length w) s), ws, s) \<in> measure (length \<circ> snd)"
    by simp
qed simp

declare trimSeqs.simps [simp del]

definition trimSpace :: "string \<Rightarrow> string" where
  "trimSpace s = rev (trimSeqs (map rev goSpaces) (rev (trimSeqs goSpaces s)))"

definition trimmed :: "string list \<Rightarrow> string \<Rightarrow> bool" where
  "trimmed ws s \<longleftrightarrow> (\<forall>w\<in>set ws. w \<noteq> [] \<longrightarrow> take (length w) s \<noteq> w)"

lemma trimSeqs_trimmed: "trimmed ws (trimSeqs ws s)"
proof (induction ws s rule: trimSeqs.induct)
  case (1 ws s)
  then show ?case
    by (subst trimSeqs.simps)
      (auto simp: trimmed_def find_None_iff split: option.splits)
qed

lemma trimSeqs_id: "trimmed ws s \<Longrightarrow> trimSeqs ws s = s"
  by (subst trimSeqs.simps) (auto simp: trimmed_def split: option.splits dest: find_Some_iff2)

lemma trimSeqs_suffix: "\<exists>t. s = t @ trimSeqs ws s"
proof (induction ws s rule: trimSeqs.induct)
  case (1 ws s)
  show ?case
  proof (cases "find (\<lambda>w. w \<noteq> [] \<and> take (length w) s = w) ws")
    case None
    then show ?thesis by (simp add: trimSeqs.simps [of ws s])
  next
    case (Some w)
    then obtain t where "drop (length w) s = t @ trimSeqs ws (drop (length w) s)"
      using 1 by blast
    then have "s = (take (length w) s @ t) @ trimSeqs ws (drop (length w) s)"
      by (metis append_assoc append_take_drop_id)
    moreover have "trimSeqs ws s = trimSeqs ws (drop (length w) s)"
      using Some by (simp add: trimSeqs.simps [of ws s])
    ultimately show ?thesis by metis
  qed
qed

lemma trimmed_prefix: "trimmed ws (s @ t) \<Longrightarrow> trimmed ws s"
  by (auto simp: trimmed_def)

lemma trimSpace_trimmed: "trimmed goSpaces (trimSpace s)"
proof -
  obtain t where "rev (trimSeqs goSpaces s) = t @ trimSeqs (map rev goSpaces) (rev (trimSeqs goSpaces s))"
    using trimSeqs_suffix by blast
  then have "trimSeqs goSpaces s = trimSpace s @ rev t"
    unfolding trimSpace_def by (metis rev_append rev_rev_ident)
  then show ?thesis
    by (metis trimSeqs_trimmed trimmed_prefix)
qed

lemma trimSpace_idem [simp]: "trimSpace (trimSpace s) = trimSpace s"
proof -
  have "trimSeqs (map rev goSpaces) (rev (trimSpace s)) = rev (trimSpace s)"
    by (simp add: trimSpace_def trimSeqs_id trimSeqs_trimmed)
  then show ?thesis
    using trimSeqs_id [OF trimSpace_trimmed] by (metis rev_rev_ident trimSpace_def)
qed

section \<open>Counting runes\<close>

text \<open>
  The number of bytes \<open>utf8.RuneCount\<close> steps over at the front of a byte string: a well-formed
  encoding of one to four bytes, or one byte when the front is not well-formed.
\<close>

definition cont :: "int \<Rightarrow> bool" where
  "cont b \<longleftrightarrow> 128 \<le> b \<and> b \<le> 191"

fun runeSize :: "int list \<Rightarrow> nat" where
  "runeSize (b0 # b1 # b2 # b3 # bs) =
     (if (b0 = 240 \<and> 144 \<le> b1 \<and> b1 \<le> 191 \<or> 241 \<le> b0 \<and> b0 \<le> 243 \<and> cont b1
          \<or> b0 = 244 \<and> 128 \<le> b1 \<and> b1 \<le> 143) \<and> cont b2 \<and> cont b3 then 4
      else runeSize [b0, b1, b2])"
| "runeSize [b0, b1, b2] =
     (if (b0 = 224 \<and> 160 \<le> b1 \<and> b1 \<le> 191 \<or> b0 = 237 \<and> 128 \<le> b1 \<and> b1 \<le> 159
          \<or> 225 \<le> b0 \<and> b0 \<le> 239 \<and> b0 \<noteq> 237 \<and> cont b1) \<and> cont b2 then 3
      else runeSize [b0, b1])"
| "runeSize [b0, b1] = (if 194 \<le> b0 \<and> b0 \<le> 223 \<and> cont b1 then 2 else 1)"
| "runeSize _ = 1"

lemma runeSize_pos: "0 < runeSize bs"
  by (induction bs rule: runeSize.induct) auto

function runeCountBytes :: "int list \<Rightarrow> nat" where
  "runeCountBytes bs = (if bs = [] then 0 else Suc (runeCountBytes (drop (runeSize bs) bs)))"
  by pat_completeness auto
termination
  by (relation "measure length") (auto simp: runeSize_pos)

declare runeCountBytes.simps [simp del]

definition runeCount :: "string \<Rightarrow> nat" where
  "runeCount s = runeCountBytes (map of_char s)"

lemma runeCountBytes_le: "runeCountBytes bs \<le> length bs"
proof (induction bs rule: runeCountBytes.induct)
  case (1 bs)
  show ?case
  proof (cases "bs = []")
    case True
    then show ?thesis by (simp add: runeCountBytes.simps)
  next
    case False
    then have "runeCountBytes (drop (runeSize bs) bs) \<le> length bs - runeSize bs"
      using 1 by simp
    with False show ?thesis
      using runeSize_pos [of bs] by (subst runeCountBytes.simps) (cases bs; fastforce)
  qed
qed

lemma runeCount_le: "runeCount s \<le> length s"
  using runeCountBytes_le [of "map of_char s"] by (simp add: runeCount_def)

lemma runeCount_zero [simp]: "runeCount s = 0 \<longleftrightarrow> s = []"
  by (simp add: runeCount_def runeCountBytes.simps)

section \<open>The text of a UUID\<close>

definition hexDigits :: "nat \<Rightarrow> uuid \<Rightarrow> nat list" where
  "hexDigits n w = map (\<lambda>i. nat (uint w div 16 ^ i mod 16)) (rev [0..<n])"

definition hexString :: "uuid \<Rightarrow> string" where
  "hexString w = map (\<lambda>d. ''0123456789abcdef'' ! d) (hexDigits 32 w)"

definition uuidString :: "uuid \<Rightarrow> string" where
  "uuidString w =
     (let h = hexString w
      in take 8 h @ ''-'' @ take 4 (drop 8 h) @ ''-'' @ take 4 (drop 12 h) @ ''-''
         @ take 4 (drop 16 h) @ ''-'' @ drop 20 h)"

definition removeDashes :: "string \<Rightarrow> string" where
  "removeDashes = filter (\<lambda>c. c \<noteq> CHR ''-'')"

definition toUpperASCII :: "string \<Rightarrow> string" where
  "toUpperASCII = map (\<lambda>c. if 97 \<le> (of_char c :: int) \<and> of_char c \<le> (122 :: int)
                          then char_of (of_char c - 32 :: int) else c)"

text \<open>The same on the bits of a character, for evaluation.\<close>

definition upperChar :: "char \<Rightarrow> char" where
  "upperChar c = (case c of Char b0 b1 b2 b3 b4 b5 b6 b7 \<Rightarrow>
     Char b0 b1 b2 b3 b4
       (b5 \<and> \<not> (\<not> b7 \<and> b6 \<and> (b0 \<or> b1 \<or> b2 \<or> b3 \<or> b4) \<and> \<not> (b4 \<and> b3 \<and> (b2 \<or> b1 \<and> b0)))) b6 b7)"

lemma upperChar_eq:
  "(if 97 \<le> (of_char c :: int) \<and> of_char c \<le> (122 :: int) then char_of (of_char c - 32 :: int) else c) = upperChar c"
proof (cases c)
  case (Char b0 b1 b2 b3 b4 b5 b6 b7)
  then show ?thesis
    by (cases b0; cases b1; cases b2; cases b3; cases b4; cases b5; cases b6; cases b7;
        simp add: upperChar_def char_of_def bit_simps)
qed

lemma toUpperASCII_code [code]: "toUpperASCII = map upperChar"
  by (rule ext) (simp add: toUpperASCII_def upperChar_eq)

lemma hexDigits_small: "d \<in> set (hexDigits n w) \<Longrightarrow> d < 16"
  by (auto simp: hexDigits_def)

lemma less_16_cases:
  "(d :: nat) < 16 \<Longrightarrow> d = 0 \<or> d = 1 \<or> d = 2 \<or> d = 3 \<or> d = 4 \<or> d = 5 \<or> d = 6 \<or> d = 7 \<or>
     d = 8 \<or> d = 9 \<or> d = 10 \<or> d = 11 \<or> d = 12 \<or> d = 13 \<or> d = 14 \<or> d = 15"
  by arith

lemma hexString_no_dash: "c \<in> set (hexString w) \<Longrightarrow> c \<noteq> CHR ''-''"
  by (auto simp: hexString_def dest!: hexDigits_small less_16_cases)

lemma length_hexString [simp]: "length (hexString w) = 32"
  by (simp add: hexString_def hexDigits_def)

lemma removeDashes_uuidString [simp]: "removeDashes (uuidString w) = hexString w"
proof -
  have nodash: "filter (\<lambda>c. c \<noteq> CHR ''-'') xs = xs" if "set xs \<subseteq> set (hexString w)" for xs
    using that hexString_no_dash by (auto simp: filter_id_conv)
  have parts: "take 8 h @ take 4 (drop 8 h) @ take 4 (drop 12 h) @ take 4 (drop 16 h) @ drop 20 h = h"
    for h :: string
    using take_add [of 8 4 h] take_add [of 12 4 h] take_add [of 16 4 h] append_take_drop_id [of 20 h]
    by simp
  show ?thesis
    unfolding removeDashes_def uuidString_def Let_def
    by (simp add: nodash parts set_take_subset set_drop_subset
        subset_trans [OF set_take_subset set_drop_subset])
qed

lemma digits_inject:
  "x < 16 ^ n \<Longrightarrow> y < 16 ^ n \<Longrightarrow> \<forall>i<n. x div 16 ^ i mod 16 = y div 16 ^ i mod 16 \<Longrightarrow> x = (y :: nat)"
proof (induction n arbitrary: x y)
  case 0
  then show ?case by simp
next
  case (Suc n)
  have "x div 16 = y div 16"
  proof (rule Suc.IH)
    show "x div 16 < 16 ^ n" "y div 16 < 16 ^ n"
      using Suc.prems(1,2) by (auto simp: less_mult_imp_div_less mult.commute)
    show "\<forall>i<n. x div 16 div 16 ^ i mod 16 = y div 16 div 16 ^ i mod 16"
      using Suc.prems(3) by (auto simp flip: div_mult2_eq power_Suc)
  qed
  moreover have "x mod 16 = y mod 16"
    using Suc.prems(3) by (metis div_by_1 power_0 zero_less_Suc)
  ultimately show ?case
    by (metis div_mult_mod_eq)
qed

lemma nat_digit: "0 \<le> x \<Longrightarrow> nat (x div 16 ^ i mod 16) = nat x div 16 ^ i mod 16"
  by (simp add: nat_mod_distrib nat_div_distrib pos_imp_zdiv_nonneg_iff nat_power_eq)

lemma hexDigits_nth: "i < n \<Longrightarrow> hexDigits n w ! (n - Suc i) = nat (uint w) div 16 ^ i mod 16"
  by (simp only: nat_digit [symmetric] uint_ge_0) (simp add: hexDigits_def rev_nth)

lemma uuid_bound: "nat (uint (w :: uuid)) < 16 ^ 32"
  using unsigned_less [of w, where ?'a = nat] by simp

lemma hexDigits_inject:
  assumes "hexDigits 32 v = hexDigits 32 w"
  shows "v = w"
proof -
  have "nat (uint v) div 16 ^ i mod 16 = nat (uint w) div 16 ^ i mod 16" if "i < 32" for i
    using hexDigits_nth [OF that, of v] hexDigits_nth [OF that, of w] assms by metis
  then have "nat (uint v) = nat (uint w)"
    using uuid_bound digits_inject by metis
  then show ?thesis
    by (simp add: word_unat_eq_iff)
qed

lemma upper_hex_distinct: "distinct (toUpperASCII ''0123456789abcdef'')"
  by code_simp

lemma toUpperASCII_nth: "i < length s \<Longrightarrow> toUpperASCII [s ! i] = [toUpperASCII s ! i]"
  by (simp add: toUpperASCII_def)

lemma length_upper_hex: "length (toUpperASCII ''0123456789abcdef'') = 16"
  "length ''0123456789abcdef'' = 16"
  by (simp_all add: toUpperASCII_def)

lemma upper_hex_inject:
  "d < 16 \<Longrightarrow> e < 16 \<Longrightarrow>
   toUpperASCII [''0123456789abcdef'' ! d] = toUpperASCII [''0123456789abcdef'' ! e] \<Longrightarrow> d = e"
  using upper_hex_distinct
  by (simp only: toUpperASCII_nth distinct_conv_nth length_upper_hex list.size list.inject) blast

lemma map_inject_on:
  "(\<And>x y. x \<in> set xs \<Longrightarrow> y \<in> set ys \<Longrightarrow> f x = f y \<Longrightarrow> x = y) \<Longrightarrow> map f xs = map f ys \<Longrightarrow> xs = ys"
  by (induction xs arbitrary: ys) (auto simp: Cons_eq_map_conv)

lemma upper_hexString_inject:
  assumes "toUpperASCII (hexString v) = toUpperASCII (hexString w)"
  shows "v = w"
proof -
  let ?f = "\<lambda>d. toUpperASCII [''0123456789abcdef'' ! d]"
  have "toUpperASCII (map (\<lambda>d. ''0123456789abcdef'' ! d) ds) = concat (map ?f ds)" for ds
    by (induction ds) (auto simp: toUpperASCII_def)
  moreover have "concat (map ?f ds) = map (\<lambda>d. hd (?f d)) ds" for ds
    by (induction ds) (auto simp: toUpperASCII_def)
  ultimately have "map (\<lambda>d. hd (?f d)) (hexDigits 32 v) = map (\<lambda>d. hd (?f d)) (hexDigits 32 w)"
    using assms by (simp add: hexString_def)
  then have "hexDigits 32 v = hexDigits 32 w"
  proof (rule map_inject_on [rotated])
    fix x y
    assume "x \<in> set (hexDigits 32 v)" "y \<in> set (hexDigits 32 w)" "hd (?f x) = hd (?f y)"
    moreover from this(3) have "?f x = ?f y"
      by (simp add: toUpperASCII_def)
    ultimately show "x = y"
      by (blast intro: upper_hex_inject dest: hexDigits_small)
  qed
  then show ?thesis by (rule hexDigits_inject)
qed

section \<open>Zero-padded decimals\<close>

definition decimalPadded :: "nat \<Rightarrow> int \<Rightarrow> string" where
  \<comment> \<open>\<open>fmt.Sprintf("%0kd", n)\<close> for \<open>n\<close> of at most \<open>k\<close> digits\<close>
  "decimalPadded k n = map (\<lambda>i. ''0123456789'' ! nat (n div 10 ^ i mod 10)) (rev [0..<k])"

definition isDigit :: "char \<Rightarrow> bool" where
  "isDigit c \<longleftrightarrow> 48 \<le> (of_char c :: int) \<and> of_char c \<le> (57 :: int)"

lemma decimalPadded_digits: "c \<in> set (decimalPadded k n) \<Longrightarrow> isDigit c"
proof -
  assume "c \<in> set (decimalPadded k n)"
  then obtain i where "c = ''0123456789'' ! nat (n div 10 ^ i mod 10)"
    by (auto simp: decimalPadded_def simp del: nth_Cons_numeral)
  then obtain d :: nat where "d < 10" and "c = ''0123456789'' ! d"
    using that [of "nat (n div 10 ^ i mod 10)"] by (simp add: nat_less_iff)
  moreover from \<open>d < 10\<close> have
    "d = 0 \<or> d = 1 \<or> d = 2 \<or> d = 3 \<or> d = 4 \<or> d = 5 \<or> d = 6 \<or> d = 7 \<or> d = 8 \<or> d = 9"
    by arith
  ultimately show ?thesis
    by (auto simp: isDigit_def)
qed

lemma length_decimalPadded [simp]: "length (decimalPadded k n) = k"
  by (simp add: decimalPadded_def)

end
