(* ===== verification/Schema.thy ===== *)
theory Schema
  imports GoStrings
begin

text \<open>
  The data of the program: the error values, JSON documents, the row types of \<open>db/sqlc/models.go\<close>,
  the world (the database tables with their sequences, and what the program draws from outside) and
  the primitives every component uses: sequences, the clock and random UUIDs.
\<close>

section \<open>Errors\<close>

text \<open>
  An \<open>error\<close> is what a Go call returns: a sentinel of the program, an error of the driver
  (\<open>pgx.ErrNoRows\<close>, a \<open>pgconn.PgError\<close> with its constraint name, a connection error), an error made
  by \<open>fmt.Errorf\<close> from a text, one that wraps another (\<open>%w\<close>), a join of two (\<open>errors.Join\<close>), the
  \<open>PermanentError\<close> of \<open>mailer/mailer.go\<close> around another, or a sentinel of the task queue (\<open>asynq\<close>).
\<close>

datatype error =
    ErrNoRows
  | PgNotNull string
  | PgCheck string
  | PgUnique string
  | PgForeignKey string
  | PgRaise string
  | PgOutOfRange
  | PgStringTooLong
  | PgSequenceLimit string
  | ConnError string
  | GoErr string
  | WrapErr string error
  | JoinErr error error
  | PermanentError error
  | SkipRetry
  | ErrTaskIDConflict
  | ErrInvalidToken
  | ErrExpiredToken
  | ErrAccountNotFound
  | ErrAccountNotOwned
  | ErrAccountBalanceNotZero
  | ErrAccountFrozen
  | ErrAccountClosed
  | ErrCurrencyMismatch
  | ErrSameAccount
  | ErrInsufficientBalance
  | ErrRecipientNotFound
  | ErrIdempotencyConflict
  | ErrInvalidIdempotencyKey
  | ErrPerTransferLimitExceeded
  | ErrDailyTransferLimitExceeded
  | ErrInvalidOperatorAction
  | ErrAccountAlreadyFrozen
  | ErrAccountAlreadyActive
  | ErrTransactionNotFound
  | ErrTransactionNotPosted
  | ErrTransactionAlreadyReversed
  | ErrTransactionNotReversible
  | ErrReversalInsufficientFunds
  | ErrEmailJobNotDeadLetter
  | ErrEmailAlreadyVerified
  | ErrEmailVerificationCooldown
  | ErrEmailVerificationJobMismatch
  | ErrEmailVerificationAddressStale
  | ErrEmailVerificationTokenExpired
  | ErrEmailAddressUndeliverable
  | ErrRegistrationDisabled
  | ErrSessionExpired
  | ErrSessionRevoked
  | ErrSessionMismatch
  | ErrDeviceMismatch
  | ErrRefreshTokenReuse
  | ErrBeneficiaryAlreadyExists

text \<open>\<open>errors.Is(err, target)\<close> for a sentinel target.\<close>

fun errIs :: "error \<Rightarrow> error \<Rightarrow> bool" where
  "errIs e t \<longleftrightarrow> e = t \<or>
     (case e of
        WrapErr m e' \<Rightarrow> errIs e' t
      | JoinErr a b \<Rightarrow> errIs a t \<or> errIs b t
      | PermanentError e' \<Rightarrow> errIs e' t
      | _ \<Rightarrow> False)"

declare errIs.simps [simp del]

text \<open>\<open>errors.As(err, &pgErr)\<close> followed by \<open>pgErr.ConstraintName\<close>: the first driver error in the tree.\<close>

fun pgConstraint :: "error \<Rightarrow> string option" where
  "pgConstraint e =
     (case e of
        PgNotNull c \<Rightarrow> Some ''''
      | PgCheck c \<Rightarrow> Some c
      | PgUnique c \<Rightarrow> Some c
      | PgForeignKey c \<Rightarrow> Some c
      | PgRaise c \<Rightarrow> Some ''''
      | PgOutOfRange \<Rightarrow> Some ''''
      | PgStringTooLong \<Rightarrow> Some ''''
      | PgSequenceLimit c \<Rightarrow> Some ''''
      | WrapErr m e' \<Rightarrow> pgConstraint e'
      | JoinErr a b \<Rightarrow> (case pgConstraint a of Some c \<Rightarrow> Some c | None \<Rightarrow> pgConstraint b)
      | PermanentError e' \<Rightarrow> pgConstraint e'
      | _ \<Rightarrow> None)"

declare pgConstraint.simps [simp del]

text \<open>
  \<open>err.Error()\<close>. The texts of driver and queue errors are not the program's, so they are a parameter.
\<close>

fun errorText :: "(error \<Rightarrow> string) \<Rightarrow> error \<Rightarrow> string" where
  "errorText drv e =
     (case e of
        ErrNoRows \<Rightarrow> ''no rows in result set''
      | GoErr m \<Rightarrow> m
      | WrapErr m e' \<Rightarrow> m @ '': '' @ errorText drv e'
      | JoinErr a b \<Rightarrow> errorText drv a @ [CHR 0x0A] @ errorText drv b
      | PermanentError e' \<Rightarrow> errorText drv e'
      | ErrInvalidToken \<Rightarrow> ''token is not valid''
      | ErrExpiredToken \<Rightarrow> ''token has expired''
      | ErrAccountNotFound \<Rightarrow> ''account not found''
      | ErrAccountNotOwned \<Rightarrow> ''account does not belong to user''
      | ErrAccountBalanceNotZero \<Rightarrow> ''account balance must be zero before closure''
      | ErrAccountFrozen \<Rightarrow> ''account is frozen''
      | ErrAccountClosed \<Rightarrow> ''account is closed''
      | ErrCurrencyMismatch \<Rightarrow> ''account currency mismatch''
      | ErrSameAccount \<Rightarrow> ''source and destination accounts must differ''
      | ErrInsufficientBalance \<Rightarrow> ''insufficient balance''
      | ErrRecipientNotFound \<Rightarrow> ''recipient not found''
      | ErrIdempotencyConflict \<Rightarrow> ''idempotency key was already used with a different request''
      | ErrInvalidIdempotencyKey \<Rightarrow> ''invalid idempotency key''
      | ErrPerTransferLimitExceeded \<Rightarrow> ''per-transfer limit exceeded''
      | ErrDailyTransferLimitExceeded \<Rightarrow> ''daily transfer limit exceeded''
      | ErrInvalidOperatorAction \<Rightarrow> ''valid operator actor, reason, and correlation ID are required''
      | ErrAccountAlreadyFrozen \<Rightarrow> ''account is already frozen''
      | ErrAccountAlreadyActive \<Rightarrow> ''account is already active''
      | ErrTransactionNotFound \<Rightarrow> ''transaction not found''
      | ErrTransactionNotPosted \<Rightarrow> ''only posted transactions can be reversed''
      | ErrTransactionAlreadyReversed \<Rightarrow> ''transaction has already been reversed''
      | ErrTransactionNotReversible \<Rightarrow> ''reversal transactions cannot be reversed''
      | ErrReversalInsufficientFunds \<Rightarrow> ''insufficient funds to reverse transaction''
      | ErrEmailJobNotDeadLetter \<Rightarrow> ''email job is not dead-lettered''
      | ErrEmailAlreadyVerified \<Rightarrow> ''email is already verified''
      | ErrEmailVerificationCooldown \<Rightarrow> ''wait before requesting another verification email''
      | ErrEmailVerificationJobMismatch \<Rightarrow> ''verification token does not match the email job''
      | ErrEmailVerificationAddressStale \<Rightarrow> ''verification token is for an old email address''
      | ErrEmailVerificationTokenExpired \<Rightarrow> ''verification token expired''
      | ErrEmailAddressUndeliverable \<Rightarrow> ''change the undeliverable email address before requesting another verification email''
      | ErrRegistrationDisabled \<Rightarrow> ''registration is disabled''
      | ErrSessionExpired \<Rightarrow> ''session expired''
      | ErrSessionRevoked \<Rightarrow> ''session revoked''
      | ErrSessionMismatch \<Rightarrow> ''session does not match token''
      | ErrDeviceMismatch \<Rightarrow> ''session device does not match''
      | ErrRefreshTokenReuse \<Rightarrow> ''refresh token reuse detected''
      | ErrBeneficiaryAlreadyExists \<Rightarrow> ''beneficiary already exists''
      | _ \<Rightarrow> drv e)"

declare errorText.simps [simp del]

section \<open>JSON\<close>

text \<open>
  JSON documents (\<open>[]byte\<close> columns of type \<open>jsonb\<close>). Timestamps and UUIDs are leaves of their own:
  their text formats (RFC 3339, the hexadecimal form) are not modelled here.
\<close>

type_synonym time = int

datatype json =
    JNull
  | JBool bool
  | JInt int
  | JStr string
  | JTime time
  | JUuid uuid
  | JArr "json list"
  | JObj "(string \<times> json) list"

section \<open>Rows\<close>

text \<open>
  One record per struct of \<open>models.go\<close>. Columns that are \<open>NOT NULL\<close> have the plain type, nullable
  ones (\<open>pgtype\<close> values with \<open>Valid\<close>) an option. A \<open>time\<close> counts microseconds since 1970 (UTC).
\<close>

record User =
  us_username :: string
  us_hashed_password :: string
  us_full_name :: string
  us_email :: string
  us_password_changed_at :: time
  us_created_at :: time
  us_email_verified_at :: "time option"
  us_email_deliverability_status :: string
  us_email_deliverability_updated_at :: "time option"
  us_email_bounced_at :: "time option"
  us_account_status :: string
  us_registration_expires_at :: "time option"

record Account =
  ac_id :: int
  ac_owner :: string
  ac_balance :: int
  ac_currency :: string
  ac_created_at :: time
  ac_public_id :: uuid
  ac_status :: string
  ac_updated_at :: time
  ac_closed_at :: "time option"
  ac_account_number :: string

record LedgerAccount =
  la_id :: int
  la_public_id :: uuid
  la_customer_account_id :: "int option"
  la_code :: "string option"
  la_kind :: string
  la_currency :: string
  la_created_at :: time

record BankingTransaction =
  bt_id :: uuid
  bt_reference :: string
  bt_transaction_type :: string
  bt_status :: string
  bt_currency :: string
  bt_amount :: int
  bt_narration :: string
  bt_initiated_by :: string
  bt_reversal_of :: "uuid option"
  bt_created_at :: time
  bt_posted_at :: "time option"
  bt_failed_at :: "time option"
  bt_reversed_at :: "time option"

record LedgerPosting =
  lp_id :: int
  lp_transaction_id :: uuid
  lp_ledger_account_id :: int
  lp_amount :: int
  lp_created_at :: time

record IdempotencyKey =
  ik_id :: int
  ik_username :: string
  ik_operation :: string
  ik_idempotency_key :: string
  ik_request_hash :: string
  ik_transaction_id :: "uuid option"
  ik_response_status :: "int option"
  ik_result_snapshot :: "json option"
  ik_created_at :: time
  ik_expires_at :: time

record AuditLog =
  au_id :: int
  au_entity_type :: string
  au_entity_id :: uuid
  au_correlation_id :: uuid
  au_event_type :: string
  au_actor :: string
  au_from_state :: "string option"
  au_to_state :: "string option"
  au_message :: "string option"
  au_metadata :: json
  au_created_at :: time

record EmailJob =
  ej_id :: uuid
  ej_parent_job_id :: "uuid option"
  ej_job_type :: string
  ej_username :: string
  ej_recipient :: string
  ej_payload :: json
  ej_status :: string
  ej_attempt_count :: int
  ej_max_attempts :: int
  ej_provider_message_id :: "string option"
  ej_last_error :: "string option"
  ej_created_at :: time
  ej_updated_at :: time
  ej_queued_at :: "time option"
  ej_processing_at :: "time option"
  ej_last_attempt_at :: "time option"
  ej_sent_at :: "time option"
  ej_dead_lettered_at :: "time option"
  ej_delivery_status :: string
  ej_delivery_event_at :: "time option"
  ej_accepted_at :: "time option"
  ej_delivered_at :: "time option"
  ej_bounced_at :: "time option"
  ej_bounce_type :: "string option"
  ej_bounce_subtype :: "string option"
  ej_bounce_message :: "string option"
  ej_verification_token_hash :: "string option"
  ej_verification_token_expires_at :: "time option"

record OutboxEvent =
  ob_id :: uuid
  ob_email_job_id :: uuid
  ob_event_type :: string
  ob_payload :: json
  ob_status :: string
  ob_publish_attempts :: int
  ob_available_at :: time
  ob_claimed_by :: "string option"
  ob_claimed_until :: "time option"
  ob_last_error :: "string option"
  ob_created_at :: time
  ob_published_at :: "time option"
  ob_correlation_id :: uuid
  ob_entity_type :: string
  ob_entity_id :: uuid

record EmailDeliveryEvent =
  ed_webhook_id :: string
  ed_email_job_id :: "uuid option"
  ed_provider_message_id :: string
  ed_event_type :: string
  ed_occurred_at :: time
  ed_received_at :: time
  ed_payload :: json

record Session =
  se_id :: uuid
  se_username :: string
  se_user_agent :: string
  se_client_ip :: string
  se_expires_at :: time
  se_created_at :: time
  se_refresh_token_hash :: string
  se_refresh_token_id :: uuid
  se_last_refreshed_at :: "time option"
  se_revoked_at :: "time option"
  se_revoked_reason :: "string option"
  se_device_token_hash :: string

record Beneficiary =
  be_id :: uuid
  be_owner :: string
  be_destination_account_id :: int
  be_nickname :: string
  be_created_at :: time
  be_updated_at :: time

section \<open>The world\<close>

text \<open>
  What the program draws from outside, as parameters: the n-th random UUID, clock reading and random
  number, and what the n-th transaction meets: a failing \<open>BEGIN\<close>, a failing \<open>ROLLBACK\<close>, or a failing
  \<open>COMMIT\<close>, where the flag says that the server had committed although the client saw an error (the
  acknowledgement was lost). Nothing is assumed of them: the clock may even run backwards.
  \<open>driverText\<close> gives the texts of driver errors and \<open>lowerCase\<close> is \<open>lower()\<close> of the database's
  collation, and \<open>foldCase\<close> Unicode's simple case folding, by which \<open>strings.EqualFold\<close> compares.
\<close>

record env =
  uuidAt :: "nat \<Rightarrow> uuid"
  clockAt :: "nat \<Rightarrow> time"
  randAt :: "nat \<Rightarrow> error + int"
  beginFault :: "nat \<Rightarrow> error option"
  rollbackFault :: "nat \<Rightarrow> error option"
  commitFault :: "nat \<Rightarrow> (error \<times> bool) option"
  driverText :: "error \<Rightarrow> string"
  lowerCase :: "string \<Rightarrow> string"
  foldCase :: "string \<Rightarrow> string"

text \<open>
  The tables, the sequences behind the \<open>bigserial\<close> columns (the next value), the counters of the
  draws, \<open>now()\<close> of the transaction in progress, and the gauge of \<open>observability/metrics.go\<close> that
  reconciliation sets.
\<close>

record world =
  envir :: env
  users :: "User list"
  accounts :: "Account list"
  ledger_accounts :: "LedgerAccount list"
  banking_transactions :: "BankingTransaction list"
  ledger_postings :: "LedgerPosting list"
  idempotency_keys :: "IdempotencyKey list"
  audit_logs :: "AuditLog list"
  email_jobs :: "EmailJob list"
  outbox_events :: "OutboxEvent list"
  email_delivery_events :: "EmailDeliveryEvent list"
  sessions :: "Session list"
  beneficiaries :: "Beneficiary list"
  accounts_id_seq :: int
  ledger_accounts_id_seq :: int
  ledger_postings_id_seq :: int
  idempotency_keys_id_seq :: int
  audit_logs_id_seq :: int
  uuid_ctr :: nat
  clock_ctr :: nat
  rand_ctr :: nat
  tx_ctr :: nat
  tx_now :: time
  reconciliationDrift :: int

type_synonym 'a query = "(world, error, 'a) prog"

section \<open>Primitives\<close>

definition nextUUID :: "uuid query" where
  \<comment> \<open>\<open>uuid.New()\<close> in Go and \<open>gen_random_uuid()\<close> in SQL\<close>
  "nextUUID s = (Inr (uuidAt (envir s) (uuid_ctr s)), s\<lparr>uuid_ctr := uuid_ctr s + 1\<rparr>)"

definition timeNow :: "time query" where
  \<comment> \<open>\<open>time.Now().UTC()\<close>\<close>
  "timeNow s = (Inr (clockAt (envir s) (clock_ctr s)), s\<lparr>clock_ctr := clock_ctr s + 1\<rparr>)"

definition nextval :: "string \<Rightarrow> (world \<Rightarrow> int) \<Rightarrow> ((int \<Rightarrow> int) \<Rightarrow> world \<Rightarrow> world) \<Rightarrow> int query" where
  \<comment> \<open>A sequence keeps its new value when the transaction rolls back.\<close>
  "nextval name sq upd s =
     (if in_int64 (sq s) then (Inr (sq s), upd (\<lambda>n. n + 1) s) else (Inl (PgSequenceLimit name), s))"

definition notNull :: "string \<Rightarrow> 'a option \<Rightarrow> 'a query" where
  "notNull column v = (case v of None \<Rightarrow> failM (PgNotNull column) | Some x \<Rightarrow> returnM x)"

definition errIfNoRows :: "error \<Rightarrow> error \<Rightarrow> error" where
  \<comment> \<open>\<open>if errors.Is(err, pgx.ErrNoRows) { return e }; if err != nil { return err }\<close>\<close>
  "errIfNoRows e err = (if errIs err ErrNoRows then e else err)"

text \<open>A \<open>coalesce(sum(...), 0)::bigint\<close>: the sum is \<open>numeric\<close>, the cast checks the range.\<close>

definition sumBigint :: "int list \<Rightarrow> int query" where
  "sumBigint xs = (if in_int64 (sum_list xs) then returnM (sum_list xs) else failM PgOutOfRange)"

definition textValue :: "string \<Rightarrow> string option" where
  \<comment> \<open>\<open>pgtype.Text{String: value, Valid: value != ""}\<close>\<close>
  "textValue v = (if v = '''' then None else Some v)"

definition uuidStringOrEmpty :: "uuid option \<Rightarrow> string" where
  "uuidStringOrEmpty v = (case v of None \<Rightarrow> '''' | Some u \<Rightarrow> uuidString u)"

definition goZeroTime :: time where
  \<comment> \<open>0001-01-01 00:00:00 UTC, the zero \<open>time.Time\<close>\<close>
  "goZeroTime = -62135596800000000"

definition dayMicros :: int where
  "dayMicros = 86400000000"

definition startOfDay :: "time \<Rightarrow> time" where
  \<comment> \<open>\<open>date_trunc('day', t AT TIME ZONE 'UTC') AT TIME ZONE 'UTC'\<close>\<close>
  "startOfDay t = t - t mod dayMicros"

definition equalFold :: "string \<Rightarrow> string \<Rightarrow> bool query" where
  \<comment> \<open>\<open>strings.EqualFold\<close>\<close>
  "equalFold a b = readM (\<lambda>s. foldCase (envir s) a = foldCase (envir s) b)"

lemma nextUUID_iff [runs]:
  "nextUUID s = (Inr u, s') \<longleftrightarrow>
     u = uuidAt (envir s) (uuid_ctr s) \<and> s' = s\<lparr>uuid_ctr := uuid_ctr s + 1\<rparr>"
  by (auto simp: nextUUID_def)

lemma timeNow_iff [runs]:
  "timeNow s = (Inr t, s') \<longleftrightarrow>
     t = clockAt (envir s) (clock_ctr s) \<and> s' = s\<lparr>clock_ctr := clock_ctr s + 1\<rparr>"
  by (auto simp: timeNow_def)

lemma nextval_iff [runs]:
  "nextval name sq upd s = (Inr n, s') \<longleftrightarrow> in_int64 (sq s) \<and> n = sq s \<and> s' = upd (\<lambda>n. n + 1) s"
  by (auto simp: nextval_def)

lemma notNull_iff [runs]: "notNull c v s = (Inr x, s') \<longleftrightarrow> v = Some x \<and> s' = s"
  by (auto simp: notNull_def runs split: option.splits)

lemma sumBigint_iff [runs]:
  "sumBigint xs s = (Inr n, s') \<longleftrightarrow> in_int64 (sum_list xs) \<and> n = sum_list xs \<and> s' = s"
  by (auto simp: sumBigint_def runs)

lemma primitive_frame [frame]:
  "(\<And>g s. f (uuid_ctr_update g s) = f s) \<Longrightarrow> keeps f nextUUID"
  "(\<And>g s. f (clock_ctr_update g s) = f s) \<Longrightarrow> keeps f timeNow"
  "(\<And>g s. f (upd g s) = f s) \<Longrightarrow> keeps f (nextval name sq upd)"
  "keeps f (notNull c v)"
  "keeps f (sumBigint xs)"
  "keeps f (equalFold a b)"
  unfolding keeps_def within_def
  by (auto simp: equalFold_def readM_def nextUUID_def timeNow_def nextval_def notNull_def sumBigint_def split: option.splits)

lemma errIs_refl [simp]: "errIs e e"
  by (simp add: errIs.simps)

lemma startOfDay_le: "startOfDay t \<le> t" "t < startOfDay t + dayMicros"
  by (simp_all add: startOfDay_def dayMicros_def)

lemma startOfDay_idem [simp]: "startOfDay (startOfDay t) = startOfDay t"
  by (simp add: startOfDay_def)

lemma startOfDay_mono: "t \<le> u \<Longrightarrow> startOfDay t \<le> startOfDay u"
proof -
  have "startOfDay v = dayMicros * (v div dayMicros)" for v
    by (simp add: startOfDay_def minus_mod_eq_mult_div)
  then show "t \<le> u \<Longrightarrow> startOfDay t \<le> startOfDay u"
    by (simp add: zdiv_mono1 dayMicros_def)
qed

end
