(* ===== verification/AccountQueries.thy ===== *)
theory AccountQueries
  imports Schema
begin

text \<open>
  The statements of \<open>db/sqlc/account.sql.go\<close> on the table \<open>accounts\<close> with its constraints
  (migrations 1 to 3, 13 and 22). The row locks of the \<open>FOR NO KEY UPDATE\<close> variants carry no
  state: transactions run one after the other in this model.
\<close>

section \<open>Constraints\<close>

definition FinancialAccountStatusActive :: string where
  "FinancialAccountStatusActive = ''active''"

definition FinancialAccountStatusFrozen :: string where
  "FinancialAccountStatusFrozen = ''frozen''"

definition FinancialAccountStatusClosed :: string where
  "FinancialAccountStatusClosed = ''closed''"

lemmas FinancialAccountStatus_defs [simp] =
  FinancialAccountStatusActive_def FinancialAccountStatusFrozen_def FinancialAccountStatusClosed_def

definition accountRowChecks :: "Account \<Rightarrow> (bool \<times> error) list" where
  "accountRowChecks a =
     [(\<not> (length (ac_account_number a) = 10 \<and> list_all isDigit (ac_account_number a)),
         PgCheck ''accounts_account_number_format_check''),
      (ac_balance a < 0, PgCheck ''accounts_balance_non_negative''),
      (\<not> (ac_status a = ''closed'' \<and> ac_closed_at a \<noteq> None \<and> ac_balance a = 0
          \<or> ac_status a \<noteq> ''closed'' \<and> ac_closed_at a = None),
         PgCheck ''accounts_closed_at_check''),
      (\<not> List.member [''active'', ''frozen'', ''closed''] (ac_status a), PgCheck ''accounts_status_check'')]"

definition accountChecks :: "world \<Rightarrow> Account \<Rightarrow> (bool \<times> error) list" where
  "accountChecks s a =
     accountRowChecks a @
     [(list_ex (\<lambda>b. ac_id b = ac_id a) (accounts s), PgUnique ''accounts_pkey''),
      (list_ex (\<lambda>b. ac_owner b = ac_owner a \<and> ac_currency b = ac_currency a) (accounts s),
         PgUnique ''accounts_owner_currency_idx''),
      (list_ex (\<lambda>b. ac_public_id b = ac_public_id a) (accounts s), PgUnique ''accounts_public_id_key''),
      (list_ex (\<lambda>b. ac_account_number b = ac_account_number a) (accounts s),
         PgUnique ''accounts_account_number_key''),
      (\<not> list_ex (\<lambda>u. us_username u = ac_owner a) (users s), PgForeignKey ''accounts_owner_fkey'')]"

definition updateAccount :: "(Account \<Rightarrow> bool) \<Rightarrow> (Account \<Rightarrow> Account) \<Rightarrow> Account query" where
  \<comment> \<open>An \<open>UPDATE\<close> that leaves the keys alone tests the row constraints only.\<close>
  "updateAccount = updateRow ErrNoRows (\<lambda>s. accountRowChecks) accounts accounts_update"

section \<open>Statements\<close>

definition AddAccountBalanceInternal :: "int \<Rightarrow> int \<Rightarrow> Account query" where
  \<comment> \<open>Arguments: the amount and the account's id. \<open>balance + amount\<close> is \<open>bigint\<close> arithmetic.\<close>
  "AddAccountBalanceInternal amount aid =
     bindM (selectOne ErrNoRows accounts (\<lambda>a. ac_id a = aid)) (\<lambda>a.
     failIf (\<not> in_int64 (ac_balance a + amount)) PgOutOfRange
     (bindM (readM tx_now) (\<lambda>now.
      updateAccount
        (\<lambda>a. ac_id a = aid \<and> 0 \<le> ac_balance a + amount)
        (\<lambda>a. a\<lparr>ac_balance := ac_balance a + amount, ac_updated_at := now\<rparr>))))"

definition CloseAccount :: "int \<Rightarrow> Account query" where
  "CloseAccount aid =
     bindM (readM tx_now) (\<lambda>now.
     updateAccount
       (\<lambda>a. ac_id a = aid \<and> ac_balance a = 0 \<and> ac_status a \<noteq> ''closed'')
       (\<lambda>a. a\<lparr>ac_status := ''closed'', ac_closed_at := Some now, ac_updated_at := now\<rparr>))"

definition CreateAccount :: "string \<Rightarrow> string \<Rightarrow> string \<Rightarrow> Account query" where
  \<comment> \<open>Arguments: owner, currency and account number (\<open>varchar(10)\<close>; the program passes ten digits).\<close>
  "CreateAccount owner currency account_number =
     bindM (nextval ''accounts_id_seq'' accounts_id_seq accounts_id_seq_update) (\<lambda>id.
     bindM nextUUID (\<lambda>public_id.
     bindM (readM tx_now) (\<lambda>now.
     failIf (10 < runeCount account_number) PgStringTooLong
     (insertRow accountChecks accounts_update
       \<lparr>ac_id = id, ac_owner = owner, ac_balance = 0, ac_currency = currency, ac_created_at = now,
        ac_public_id = public_id, ac_status = ''active'', ac_updated_at = now,
        ac_closed_at = None, ac_account_number = account_number\<rparr>))))"

definition GetAccount :: "int \<Rightarrow> Account query" where
  "GetAccount aid = selectOne ErrNoRows accounts (\<lambda>a. ac_id a = aid)"

definition GetAccountByAccountNumber :: "string \<Rightarrow> Account query" where
  "GetAccountByAccountNumber number = selectOne ErrNoRows accounts (\<lambda>a. ac_account_number a = number)"

definition GetAccountByPublicID :: "uuid option \<Rightarrow> Account query" where
  "GetAccountByPublicID public_id = selectOne ErrNoRows accounts (\<lambda>a. Some (ac_public_id a) = public_id)"

definition GetAccountByPublicIDForUpdate :: "uuid option \<Rightarrow> Account query" where
  "GetAccountByPublicIDForUpdate public_id =
     selectOne ErrNoRows accounts (\<lambda>a. Some (ac_public_id a) = public_id)"

definition GetAccountForUpdate :: "int \<Rightarrow> Account query" where
  "GetAccountForUpdate aid = selectOne ErrNoRows accounts (\<lambda>a. ac_id a = aid)"

definition GetOwnedAccountByPublicID :: "uuid option \<Rightarrow> string \<Rightarrow> Account query" where
  "GetOwnedAccountByPublicID public_id owner =
     selectOne ErrNoRows accounts (\<lambda>a. Some (ac_public_id a) = public_id \<and> ac_owner a = owner)"

definition ListAccount :: "string \<Rightarrow> int \<Rightarrow> int \<Rightarrow> Account list query" where
  \<comment> \<open>Arguments: owner, limit and offset. A negative one is an error of PostgreSQL.\<close>
  "ListAccount owner lim off =
     failIf (lim < 0) (PgRaise ''LIMIT must not be negative'')
     (failIf (off < 0) (PgRaise ''OFFSET must not be negative'')
     (readM (\<lambda>s. take (nat lim) (drop (nat off)
        (sort_key (\<lambda>a. ac_created_at a) (sort_key (\<lambda>a. ac_id a)
           (filter (\<lambda>a. ac_owner a = owner) (accounts s))))))))"

record ResolveReceivableAccountRow =
  rr_account_number :: string
  rr_account_name :: string
  rr_currency :: string
  rr_status :: string

definition ResolveReceivableAccount :: "string \<Rightarrow> ResolveReceivableAccountRow query" where
  \<comment> \<open>The join with \<open>users\<close> keeps an account only when its owner exists.\<close>
  "ResolveReceivableAccount number =
     bindM (readM users) (\<lambda>us.
     bindM (selectOne ErrNoRows accounts
       (\<lambda>a. ac_account_number a = number \<and> List.member [''active'', ''frozen''] (ac_status a)
            \<and> list_ex (\<lambda>u. us_username u = ac_owner a) us)) (\<lambda>a.
     bindM (selectOne ErrNoRows users (\<lambda>u. us_username u = ac_owner a)) (\<lambda>u.
     returnM \<lparr>rr_account_number = ac_account_number a, rr_account_name = us_full_name u,
       rr_currency = ac_currency a, rr_status = ac_status a\<rparr>)))"

definition SetAccountStatus :: "int \<Rightarrow> string \<Rightarrow> Account query" where
  "SetAccountStatus aid status =
     bindM (readM tx_now) (\<lambda>now.
     updateAccount
       (\<lambda>a. ac_id a = aid \<and> List.member [''active'', ''frozen''] status)
       (\<lambda>a. a\<lparr>ac_status := status, ac_closed_at := None, ac_updated_at := now\<rparr>))"

section \<open>What the statements do\<close>

lemmas account_select_defs =
  GetAccount_def GetAccountByAccountNumber_def GetAccountByPublicID_def
  GetAccountByPublicIDForUpdate_def GetAccountForUpdate_def GetOwnedAccountByPublicID_def

interpretation accounts: table accounts accounts_update
  by unfold_locales simp

interpretation account_ids: keyed_table accounts accounts_update ac_id accountChecks
  by unfold_locales (auto simp: accountChecks_def list_ex_iff)

interpretation account_public_ids: keyed_table accounts accounts_update ac_public_id accountChecks
  by unfold_locales (auto simp: accountChecks_def list_ex_iff)

interpretation account_numbers: keyed_table accounts accounts_update ac_account_number accountChecks
  by unfold_locales (auto simp: accountChecks_def list_ex_iff)

interpretation account_owner_currency:
  keyed_table accounts accounts_update "\<lambda>a. (ac_owner a, ac_currency a)" accountChecks
  by unfold_locales (auto simp: accountChecks_def list_ex_iff)

text \<open>A row the table accepts: what the \<open>CHECK\<close> constraints say together.\<close>

definition accountRowOk :: "Account \<Rightarrow> bool" where
  "accountRowOk a \<longleftrightarrow>
     length (ac_account_number a) = 10 \<and> list_all isDigit (ac_account_number a) \<and>
     0 \<le> ac_balance a \<and> (ac_status a = ''closed'' \<longrightarrow> ac_balance a = 0) \<and>
     (ac_status a = ''closed'' \<longleftrightarrow> ac_closed_at a \<noteq> None) \<and>
     (ac_status a = ''active'' \<or> ac_status a = ''frozen'' \<or> ac_status a = ''closed'')"

lemma accountRowChecks_pass: "(\<forall>c\<in>set (accountRowChecks a). \<not> fst c) \<longleftrightarrow> accountRowOk a"
  by (auto simp: accountRowChecks_def accountRowOk_def)

lemma updateAccount_iff [runs]:
  "updateAccount p f s = (Inr a', s') \<longleftrightarrow>
     (\<exists>a. find p (accounts s) = Some a \<and> accountRowOk (f a) \<and> a' = f a \<and>
        s' = s\<lparr>accounts := map (\<lambda>x. if p x then f x else x) (accounts s)\<rparr>)"
  unfolding updateAccount_def updateRow_iff accountRowChecks_pass by auto

lemma account_queries_frame [frame]:
  assumes "\<And>g s. f (accounts_update g s) = f s"
  shows "keeps f (updateAccount p h)"
    and "keeps f (AddAccountBalanceInternal amount aid)"
    and "keeps f (CloseAccount aid)"
    and "keeps f (SetAccountStatus aid status)"
  unfolding AddAccountBalanceInternal_def CloseAccount_def SetAccountStatus_def updateAccount_def
  by (intro frame assms)+

lemma CreateAccount_frame [frame]:
  assumes "\<And>g s. f (accounts_update g s) = f s" "\<And>g s. f (accounts_id_seq_update g s) = f s"
    "\<And>g s. f (uuid_ctr_update g s) = f s"
  shows "keeps f (CreateAccount owner currency number)"
  unfolding CreateAccount_def by (intro frame assms)

lemma account_selects_frame [frame]:
  "keeps f (GetAccount aid)" "keeps f (GetAccountByAccountNumber number)"
  "keeps f (GetAccountByPublicID pid)" "keeps f (GetAccountByPublicIDForUpdate pid)"
  "keeps f (GetAccountForUpdate aid)" "keeps f (GetOwnedAccountByPublicID pid owner)"
  "keeps f (ListAccount owner lim off)" "keeps f (ResolveReceivableAccount number)"
  unfolding account_select_defs ListAccount_def ResolveReceivableAccount_def
  by (intro frame)+

end
