(* ===== verification/LedgerQueries.thy ===== *)
theory LedgerQueries
  imports Schema
begin

text \<open>
  The statements of \<open>db/sqlc/ledger.sql.go\<close> on the tables \<open>ledger_accounts\<close>,
  \<open>banking_transactions\<close> and \<open>ledger_postings\<close>, with the constraints and triggers of migrations 14
  and 18. The deferred trigger that tests the balance of a transaction at commit is
  \<open>validateBankingTransaction\<close>; \<open>execTx\<close> (theory \<open>Store\<close>) runs it.
\<close>

section \<open>Constraints and triggers\<close>

definition ledgerAccountChecks :: "world \<Rightarrow> LedgerAccount \<Rightarrow> (bool \<times> error) list" where
  "ledgerAccountChecks s l =
     [(\<not> List.member [''customer'', ''settlement''] (la_kind l), PgCheck ''ledger_accounts_kind_check''),
      (\<not> (la_kind l = ''customer'' \<and> la_customer_account_id l \<noteq> None \<and> la_code l = None
          \<or> la_kind l = ''settlement'' \<and> la_customer_account_id l = None \<and> la_code l \<noteq> None),
         PgCheck ''ledger_accounts_shape_check''),
      (list_ex (\<lambda>k. la_id k = la_id l) (ledger_accounts s), PgUnique ''ledger_accounts_pkey''),
      (list_ex (\<lambda>k. la_public_id k = la_public_id l) (ledger_accounts s),
         PgUnique ''ledger_accounts_public_id_key''),
      (la_customer_account_id l \<noteq> None \<and>
         list_ex (\<lambda>k. la_customer_account_id k = la_customer_account_id l) (ledger_accounts s),
         PgUnique ''ledger_accounts_customer_account_id_key''),
      (la_code l \<noteq> None \<and> list_ex (\<lambda>k. la_code k = la_code l) (ledger_accounts s),
         PgUnique ''ledger_accounts_code_key''),
      (la_customer_account_id l \<noteq> None \<and>
         \<not> list_ex (\<lambda>a. Some (ac_id a) = la_customer_account_id l) (accounts s),
         PgForeignKey ''ledger_accounts_customer_account_id_fkey'')]"

definition bankingTransactionRowChecks :: "BankingTransaction \<Rightarrow> (bool \<times> error) list" where
  "bankingTransactionRowChecks t =
     [(\<not> in_int64 (bt_amount t), PgOutOfRange),
      (bt_amount t \<le> 0, PgCheck ''banking_transactions_amount_positive''),
      (\<not> (bt_transaction_type t = ''reversal'' \<and> bt_reversal_of t \<noteq> None \<and> bt_reversal_of t \<noteq> Some (bt_id t)
          \<or> bt_transaction_type t \<noteq> ''reversal'' \<and> bt_reversal_of t = None),
         PgCheck ''banking_transactions_reversal_shape_check''),
      (\<not> List.member [''pending'', ''posted'', ''failed'', ''reversed''] (bt_status t),
         PgCheck ''banking_transactions_status_check''),
      (\<not> (bt_status t = ''pending'' \<and> bt_posted_at t = None \<and> bt_failed_at t = None \<and> bt_reversed_at t = None
          \<or> bt_status t = ''posted'' \<and> bt_posted_at t \<noteq> None \<and> bt_failed_at t = None \<and> bt_reversed_at t = None
          \<or> bt_status t = ''failed'' \<and> bt_posted_at t = None \<and> bt_failed_at t \<noteq> None \<and> bt_reversed_at t = None
          \<or> bt_status t = ''reversed'' \<and> bt_posted_at t \<noteq> None \<and> bt_failed_at t = None \<and> bt_reversed_at t \<noteq> None),
         PgCheck ''banking_transactions_status_timestamp_check''),
      (\<not> List.member [''deposit'', ''withdrawal'', ''internal_transfer'', ''reversal''] (bt_transaction_type t),
         PgCheck ''banking_transactions_type_check'')]"

definition bankingTransactionChecks :: "world \<Rightarrow> BankingTransaction \<Rightarrow> (bool \<times> error) list" where
  "bankingTransactionChecks s t =
     bankingTransactionRowChecks t @
     [(list_ex (\<lambda>u. bt_id u = bt_id t) (banking_transactions s), PgUnique ''banking_transactions_pkey''),
      (list_ex (\<lambda>u. bt_reference u = bt_reference t) (banking_transactions s),
         PgUnique ''banking_transactions_reference_key''),
      (bt_reversal_of t \<noteq> None \<and> list_ex (\<lambda>u. bt_reversal_of u = bt_reversal_of t) (banking_transactions s),
         PgUnique ''banking_transactions_reversal_of_key''),
      (bt_reversal_of t \<noteq> None \<and>
         \<not> list_ex (\<lambda>u. Some (bt_id u) = bt_reversal_of t) (banking_transactions s),
         PgForeignKey ''banking_transactions_reversal_of_fkey'')]"

text \<open>The trigger \<open>protect_banking_transaction\<close> on the old and the new row of an \<open>UPDATE\<close>.\<close>

definition protectBankingTransaction ::
  "BankingTransaction \<Rightarrow> BankingTransaction \<Rightarrow> (bool \<times> error) list" where
  "protectBankingTransaction old new =
     [(bt_id new \<noteq> bt_id old \<or> bt_reference new \<noteq> bt_reference old
       \<or> bt_transaction_type new \<noteq> bt_transaction_type old \<or> bt_currency new \<noteq> bt_currency old
       \<or> bt_amount new \<noteq> bt_amount old \<or> bt_narration new \<noteq> bt_narration old
       \<or> bt_initiated_by new \<noteq> bt_initiated_by old \<or> bt_reversal_of new \<noteq> bt_reversal_of old
       \<or> bt_created_at new \<noteq> bt_created_at old,
         PgRaise ''banking transaction financial details are immutable''),
      (\<not> (bt_status old = ''pending'' \<and> bt_status new = ''posted'' \<and> bt_posted_at old = None
          \<and> bt_posted_at new \<noteq> None \<and> bt_failed_at new = None \<and> bt_reversed_at new = None
         \<or> bt_status old = ''pending'' \<and> bt_status new = ''failed'' \<and> bt_failed_at old = None
          \<and> bt_failed_at new \<noteq> None \<and> bt_posted_at new = None \<and> bt_reversed_at new = None
         \<or> bt_status old = ''posted'' \<and> bt_status new = ''reversed'' \<and> bt_reversed_at old = None
          \<and> bt_reversed_at new \<noteq> None \<and> bt_posted_at new \<noteq> None \<and> bt_failed_at new = None),
         PgRaise (''invalid banking transaction state transition from '' @ bt_status old @ '' to '' @ bt_status new))]"

definition ledgerPostingChecks :: "world \<Rightarrow> LedgerPosting \<Rightarrow> (bool \<times> error) list" where
  \<comment> \<open>The first test is the \<open>BEFORE INSERT\<close> trigger \<open>enforce_pending_transaction_posting\<close>.\<close>
  "ledgerPostingChecks s p =
     [(map_option bt_status (find (\<lambda>t. bt_id t = lp_transaction_id p) (banking_transactions s)) \<noteq> Some ''pending'',
         PgRaise ''postings may only be added to pending transactions''),
      (\<not> in_int64 (lp_amount p), PgOutOfRange),
      (lp_amount p = 0, PgCheck ''ledger_postings_amount_nonzero''),
      (list_ex (\<lambda>q. lp_id q = lp_id p) (ledger_postings s), PgUnique ''ledger_postings_pkey''),
      (list_ex (\<lambda>q. lp_transaction_id q = lp_transaction_id p
                 \<and> lp_ledger_account_id q = lp_ledger_account_id p) (ledger_postings s),
         PgUnique ''ledger_postings_transaction_account_key''),
      (\<not> list_ex (\<lambda>l. la_id l = lp_ledger_account_id p) (ledger_accounts s),
         PgForeignKey ''ledger_postings_ledger_account_id_fkey'')]"

text \<open>
  The deferred trigger \<open>validate_banking_transaction_balance\<close> for one transaction, as the list of
  its tests on the state at commit. The local variables of the trigger are \<open>bigint\<close>.
\<close>

definition postingsOf :: "uuid \<Rightarrow> LedgerPosting list \<Rightarrow> LedgerPosting list" where
  "postingsOf tid ps = filter (\<lambda>p. lp_transaction_id p = tid) ps"

definition ledgerCurrency :: "LedgerAccount list \<Rightarrow> int \<Rightarrow> string option" where
  "ledgerCurrency ls lid = map_option la_currency (find (\<lambda>l. la_id l = lid) ls)"

definition validateBankingTransaction :: "world \<Rightarrow> uuid \<Rightarrow> (bool \<times> error) list" where
  "validateBankingTransaction s tid =
     (case find (\<lambda>t. bt_id t = tid) (banking_transactions s) of
        None \<Rightarrow> []
      | Some t \<Rightarrow>
          let ps = filter (\<lambda>p. ledgerCurrency (ledger_accounts s) (lp_ledger_account_id p) \<noteq> None)
                     (postingsOf tid (ledger_postings s));
              total = sum_list (map lp_amount ps);
              absolute = sum_list (map (\<lambda>p. \<bar>lp_amount p\<bar>) ps);
              mismatches = filter (\<lambda>p. ledgerCurrency (ledger_accounts s) (lp_ledger_account_id p)
                                        \<noteq> Some (bt_currency t)) ps
          in if List.member [''posted'', ''reversed''] (bt_status t) then
               [(\<not> in_int64 total \<or> \<not> in_int64 absolute \<or> \<not> in_int64 (bt_amount t * 2)
                 \<or> list_ex (\<lambda>p. \<not> in_int64 \<bar>lp_amount p\<bar>) ps, PgOutOfRange),
                (length ps < 2 \<or> total \<noteq> 0 \<or> absolute \<noteq> bt_amount t * 2 \<or> mismatches \<noteq> [],
                   PgRaise ''invalid ledger postings for transaction'')]
             else if bt_status t = ''failed'' then
               [(postingsOf tid (ledger_postings s) \<noteq> [],
                   PgRaise ''failed transaction cannot retain postings'')]
             else [])"

section \<open>Statements\<close>

definition CreateBankingTransaction ::
  "uuid option \<Rightarrow> string \<Rightarrow> string \<Rightarrow> string \<Rightarrow> int \<Rightarrow> string \<Rightarrow> string \<Rightarrow> uuid option \<Rightarrow>
   BankingTransaction query" where
  "CreateBankingTransaction tid reference transaction_type currency amount narration initiated_by reversal_of =
     bindM (notNull ''id'' tid) (\<lambda>u.
     bindM (readM tx_now) (\<lambda>now.
     insertRow bankingTransactionChecks banking_transactions_update
       \<lparr>bt_id = u, bt_reference = reference, bt_transaction_type = transaction_type,
        bt_status = ''pending'', bt_currency = currency, bt_amount = amount,
        bt_narration = narration, bt_initiated_by = initiated_by, bt_reversal_of = reversal_of,
        bt_created_at = now, bt_posted_at = None, bt_failed_at = None, bt_reversed_at = None\<rparr>))"

definition CreateCustomerLedgerAccount :: "int option \<Rightarrow> string \<Rightarrow> LedgerAccount query" where
  "CreateCustomerLedgerAccount customer_account_id currency =
     bindM (nextval ''ledger_accounts_id_seq'' ledger_accounts_id_seq ledger_accounts_id_seq_update) (\<lambda>lid.
     bindM nextUUID (\<lambda>public_id.
     bindM (readM tx_now) (\<lambda>now.
     insertRow ledgerAccountChecks ledger_accounts_update
       \<lparr>la_id = lid, la_public_id = public_id, la_customer_account_id = customer_account_id,
        la_code = None, la_kind = ''customer'', la_currency = currency, la_created_at = now\<rparr>)))"

definition CreateLedgerPosting :: "uuid option \<Rightarrow> int \<Rightarrow> int \<Rightarrow> LedgerPosting query" where
  \<comment> \<open>For a NULL transaction the trigger finds no pending transaction.\<close>
  "CreateLedgerPosting transaction_id ledger_account_id amount =
     bindM (nextval ''ledger_postings_id_seq'' ledger_postings_id_seq ledger_postings_id_seq_update) (\<lambda>pid.
     bindM (readM tx_now) (\<lambda>now.
     case transaction_id of
       None \<Rightarrow> failM (PgRaise ''postings may only be added to pending transactions'')
     | Some tid \<Rightarrow>
         insertRow ledgerPostingChecks ledger_postings_update
           \<lparr>lp_id = pid, lp_transaction_id = tid, lp_ledger_account_id = ledger_account_id,
            lp_amount = amount, lp_created_at = now\<rparr>))"

definition GetBankingTransaction :: "uuid option \<Rightarrow> BankingTransaction query" where
  "GetBankingTransaction tid = selectOne ErrNoRows banking_transactions (\<lambda>t. Some (bt_id t) = tid)"

definition GetBankingTransactionByReference :: "string \<Rightarrow> BankingTransaction query" where
  "GetBankingTransactionByReference reference =
     selectOne ErrNoRows banking_transactions (\<lambda>t. bt_reference t = reference)"

definition GetBankingTransactionForUpdate :: "uuid option \<Rightarrow> BankingTransaction query" where
  "GetBankingTransactionForUpdate tid =
     selectOne ErrNoRows banking_transactions (\<lambda>t. Some (bt_id t) = tid)"

definition GetCustomerLedgerAccount :: "int option \<Rightarrow> LedgerAccount query" where
  "GetCustomerLedgerAccount customer_account_id =
     selectOne ErrNoRows ledger_accounts
       (\<lambda>l. customer_account_id \<noteq> None \<and> la_customer_account_id l = customer_account_id
            \<and> la_kind l = ''customer'')"

definition dailyOutgoing ::
  "LedgerPosting list \<Rightarrow> BankingTransaction list \<Rightarrow> int \<Rightarrow> time \<Rightarrow> int list" where
  \<comment> \<open>The amounts the query below adds up, for transactions created at \<open>since\<close> or later.\<close>
  "dailyOutgoing ps ts lid since =
     [bt_amount t. p \<leftarrow> ps, t \<leftarrow> ts,
        bt_id t = lp_transaction_id p \<and> lp_ledger_account_id p = lid \<and> lp_amount p < 0
        \<and> bt_transaction_type t = ''internal_transfer''
        \<and> List.member [''posted'', ''reversed''] (bt_status t) \<and> since \<le> bt_created_at t]"

definition GetDailyOutgoingTransferTotal :: "int \<Rightarrow> int query" where
  "GetDailyOutgoingTransferTotal ledger_account_id =
     bindM (readM (\<lambda>s. dailyOutgoing (ledger_postings s) (banking_transactions s) ledger_account_id
                         (startOfDay (tx_now s)))) sumBigint"

definition GetLedgerAccountBalance :: "int \<Rightarrow> int query" where
  "GetLedgerAccountBalance ledger_account_id =
     bindM (readM (\<lambda>s. map lp_amount
       (filter (\<lambda>p. lp_ledger_account_id p = ledger_account_id) (ledger_postings s)))) sumBigint"

definition GetLedgerPostingTotal :: "uuid option \<Rightarrow> int query" where
  "GetLedgerPostingTotal transaction_id =
     bindM (readM (\<lambda>s. map lp_amount
       (filter (\<lambda>p. Some (lp_transaction_id p) = transaction_id) (ledger_postings s)))) sumBigint"

definition GetSettlementLedgerAccount :: "string option \<Rightarrow> LedgerAccount query" where
  "GetSettlementLedgerAccount currency =
     selectOne ErrNoRows ledger_accounts
       (\<lambda>l. currency \<noteq> None \<and> la_code l = map_option (\<lambda>c. ''settlement:'' @ c) currency
            \<and> la_kind l = ''settlement'')"

record ListFinancialAuditPostingsRow =
  fp_amount :: int
  fp_kind :: string
  fp_code :: "string option"
  fp_currency :: string
  fp_account_public_id :: "uuid option"
  fp_created_at :: time

definition ListFinancialAuditPostings :: "uuid option \<Rightarrow> ListFinancialAuditPostingsRow list query" where
  "ListFinancialAuditPostings transaction_id = readM (\<lambda>s.
     [\<lparr>fp_amount = lp_amount p, fp_kind = la_kind l, fp_code = la_code l, fp_currency = la_currency l,
       fp_account_public_id =
         map_option ac_public_id (find (\<lambda>a. Some (ac_id a) = la_customer_account_id l) (accounts s)),
       fp_created_at = lp_created_at p\<rparr>.
        p \<leftarrow> sort_key lp_id (filter (\<lambda>p. Some (lp_transaction_id p) = transaction_id) (ledger_postings s)),
        l \<leftarrow> ledger_accounts s, la_id l = lp_ledger_account_id p])"

definition ListLedgerPostingsByTransaction :: "uuid option \<Rightarrow> LedgerPosting list query" where
  "ListLedgerPostingsByTransaction transaction_id = readM (\<lambda>s.
     sort_key lp_id (filter (\<lambda>p. Some (lp_transaction_id p) = transaction_id) (ledger_postings s)))"

record ListReversalSourcePostingsRow =
  rs_ledger_account_id :: int
  rs_amount :: int
  rs_kind :: string
  rs_customer_account_id :: "int option"

definition ListReversalSourcePostings :: "uuid option \<Rightarrow> ListReversalSourcePostingsRow list query" where
  "ListReversalSourcePostings transaction_id = readM (\<lambda>s.
     [\<lparr>rs_ledger_account_id = lp_ledger_account_id p, rs_amount = lp_amount p, rs_kind = la_kind l,
       rs_customer_account_id = la_customer_account_id l\<rparr>.
        p \<leftarrow> sort_key lp_id (filter (\<lambda>p. Some (lp_transaction_id p) = transaction_id) (ledger_postings s)),
        l \<leftarrow> ledger_accounts s, la_id l = lp_ledger_account_id p])"

definition updateBankingTransaction ::
  "(BankingTransaction \<Rightarrow> bool) \<Rightarrow> (BankingTransaction \<Rightarrow> BankingTransaction) \<Rightarrow> BankingTransaction query" where
  "updateBankingTransaction p f =
     bindM (selectOne ErrNoRows banking_transactions p) (\<lambda>old.
     bindM (checkM (protectBankingTransaction old (f old))) (\<lambda>_.
     updateRow ErrNoRows (\<lambda>s. bankingTransactionRowChecks) banking_transactions
       banking_transactions_update p f))"

definition MarkBankingTransactionPosted :: "uuid option \<Rightarrow> BankingTransaction query" where
  "MarkBankingTransactionPosted tid =
     bindM (readM tx_now) (\<lambda>now.
     updateBankingTransaction
       (\<lambda>t. Some (bt_id t) = tid \<and> bt_status t = ''pending'')
       (\<lambda>t. t\<lparr>bt_status := ''posted'', bt_posted_at := Some now\<rparr>))"

definition MarkBankingTransactionReversed :: "uuid option \<Rightarrow> BankingTransaction query" where
  "MarkBankingTransactionReversed tid =
     bindM (readM tx_now) (\<lambda>now.
     updateBankingTransaction
       (\<lambda>t. Some (bt_id t) = tid \<and> bt_status t = ''posted'')
       (\<lambda>t. t\<lparr>bt_status := ''reversed'', bt_reversed_at := Some now\<rparr>))"

section \<open>What the statements do\<close>

interpretation ledger_accounts: table ledger_accounts ledger_accounts_update
  by unfold_locales simp

interpretation ledger_postings: table ledger_postings ledger_postings_update
  by unfold_locales simp

interpretation ledger_account_ids: keyed_table ledger_accounts ledger_accounts_update la_id ledgerAccountChecks
  by unfold_locales (auto simp: ledgerAccountChecks_def list_ex_iff)

interpretation transaction_ids:
  keyed_table banking_transactions banking_transactions_update bt_id bankingTransactionChecks
  by unfold_locales (auto simp: bankingTransactionChecks_def list_ex_iff)

interpretation transaction_references:
  keyed_table banking_transactions banking_transactions_update bt_reference bankingTransactionChecks
  by unfold_locales (auto simp: bankingTransactionChecks_def list_ex_iff)

interpretation posting_ids: keyed_table ledger_postings ledger_postings_update lp_id ledgerPostingChecks
  by unfold_locales (auto simp: ledgerPostingChecks_def list_ex_iff)

interpretation posting_accounts:
  keyed_table ledger_postings ledger_postings_update
    "\<lambda>p. (lp_transaction_id p, lp_ledger_account_id p)" ledgerPostingChecks
  by unfold_locales (auto simp: ledgerPostingChecks_def list_ex_iff)

lemma updateBankingTransaction_iff [runs]:
  "updateBankingTransaction p f s = (Inr t', s') \<longleftrightarrow>
     (\<exists>t. find p (banking_transactions s) = Some t \<and>
        (\<forall>c\<in>set (protectBankingTransaction t (f t)). \<not> fst c) \<and>
        (\<forall>c\<in>set (bankingTransactionRowChecks (f t)). \<not> fst c) \<and> t' = f t \<and>
        s' = s\<lparr>banking_transactions := map (\<lambda>x. if p x then f x else x) (banking_transactions s)\<rparr>)"
  by (auto simp: updateBankingTransaction_def runs)

lemma ledger_updates_frame [frame]:
  assumes "\<And>g s. f (banking_transactions_update g s) = f s"
  shows "keeps f (updateBankingTransaction p h)"
    and "keeps f (MarkBankingTransactionPosted tid)"
    and "keeps f (MarkBankingTransactionReversed tid)"
    and "keeps f (CreateBankingTransaction id' reference tt currency amount narration initiator rev_of)"
  unfolding updateBankingTransaction_def MarkBankingTransactionPosted_def
    MarkBankingTransactionReversed_def CreateBankingTransaction_def
  by (intro frame assms)+

lemma CreateCustomerLedgerAccount_frame [frame]:
  assumes "\<And>g s. f (ledger_accounts_update g s) = f s"
    "\<And>g s. f (ledger_accounts_id_seq_update g s) = f s" "\<And>g s. f (uuid_ctr_update g s) = f s"
  shows "keeps f (CreateCustomerLedgerAccount aid currency)"
  unfolding CreateCustomerLedgerAccount_def by (intro frame assms)

lemma CreateLedgerPosting_frame [frame]:
  assumes "\<And>g s. f (ledger_postings_update g s) = f s" "\<And>g s. f (ledger_postings_id_seq_update g s) = f s"
  shows "keeps f (CreateLedgerPosting tid lid amount)"
  unfolding CreateLedgerPosting_def by (intro frame assms)

lemma ledger_selects_frame [frame]:
  "keeps f (GetBankingTransaction tid)" "keeps f (GetBankingTransactionByReference ref)"
  "keeps f (GetBankingTransactionForUpdate tid)" "keeps f (GetCustomerLedgerAccount caid)"
  "keeps f (GetDailyOutgoingTransferTotal lid)" "keeps f (GetLedgerAccountBalance lid)"
  "keeps f (GetLedgerPostingTotal tid)" "keeps f (GetSettlementLedgerAccount currency)"
  "keeps f (ListFinancialAuditPostings tid)" "keeps f (ListLedgerPostingsByTransaction tid)"
  "keeps f (ListReversalSourcePostings tid)"
  unfolding GetBankingTransaction_def GetBankingTransactionByReference_def
    GetBankingTransactionForUpdate_def GetCustomerLedgerAccount_def GetDailyOutgoingTransferTotal_def
    GetLedgerAccountBalance_def GetLedgerPostingTotal_def GetSettlementLedgerAccount_def
    ListFinancialAuditPostings_def ListLedgerPostingsByTransaction_def ListReversalSourcePostings_def
  by (intro frame)+

text \<open>Postings are only ever appended: no statement changes or removes one.\<close>

lemma CreateLedgerPosting_appends: "appends ledger_postings (CreateLedgerPosting tid lid amount)"
  unfolding CreateLedgerPosting_def
  by (intro appends_rules keeps_appends [OF primitive_frame(3)] ledger_postings.insert_appends) simp

end
