(* ===== verification/AuditQueries.thy ===== *)
theory AuditQueries
  imports Schema
begin

text \<open>
  The statements of \<open>db/sqlc/audit_log.sql.go\<close> on the append-only table \<open>audit_logs\<close> (migration 8;
  no statement of the program updates or deletes a row, and a trigger forbids it).
\<close>

definition auditChecks :: "world \<Rightarrow> AuditLog \<Rightarrow> (bool \<times> error) list" where
  "auditChecks s a = [(list_ex (\<lambda>b. au_id b = au_id a) (audit_logs s), PgUnique ''audit_logs_pkey'')]"

definition CreateAuditLog ::
  "string \<Rightarrow> uuid option \<Rightarrow> uuid option \<Rightarrow> string \<Rightarrow> string \<Rightarrow> string option \<Rightarrow> string option \<Rightarrow>
   string option \<Rightarrow> json \<Rightarrow> AuditLog query" where
  \<comment> \<open>Arguments: entity type, entity id, correlation id, event type, actor, from state, to state,
     message and metadata.\<close>
  "CreateAuditLog entity_type entity_id correlation_id event_type actor from_state to_state message metadata =
     bindM (nextval ''audit_logs_id_seq'' audit_logs_id_seq audit_logs_id_seq_update) (\<lambda>aid.
     bindM (notNull ''entity_id'' entity_id) (\<lambda>eid.
     bindM (notNull ''correlation_id'' correlation_id) (\<lambda>cid.
     bindM (readM tx_now) (\<lambda>now.
     insertRow auditChecks audit_logs_update
       \<lparr>au_id = aid, au_entity_type = entity_type, au_entity_id = eid, au_correlation_id = cid,
        au_event_type = event_type, au_actor = actor, au_from_state = from_state,
        au_to_state = to_state, au_message = message, au_metadata = metadata,
        au_created_at = now\<rparr>))))"

definition jsonTextIs :: "json \<Rightarrow> string \<Rightarrow> string \<Rightarrow> bool" where
  \<comment> \<open>\<open>doc->>'key' = text\<close>, where \<open>text\<close> is the text of a UUID\<close>
  "jsonTextIs doc key text =
     (case doc of JObj kvs \<Rightarrow> map_of kvs key = Some (JStr text) | _ \<Rightarrow> False)"

definition ListAccountFinancialAuditLogs :: "uuid option \<Rightarrow> AuditLog list query" where
  "ListAccountFinancialAuditLogs account_public_id = readM (\<lambda>s.
     sort_key au_created_at (sort_key au_id (filter (\<lambda>a.
       account_public_id \<noteq> None \<and>
       (au_entity_type a = ''account'' \<and> Some (au_entity_id a) = account_public_id
        \<or> au_entity_type a = ''banking_transaction'' \<and>
            list_ex (\<lambda>p. lp_transaction_id p = au_entity_id a \<and>
              list_ex (\<lambda>l. la_id l = lp_ledger_account_id p \<and>
                list_ex (\<lambda>c. Some (ac_id c) = la_customer_account_id l
                           \<and> Some (ac_public_id c) = account_public_id) (accounts s))
                (ledger_accounts s)) (ledger_postings s)
        \<or> au_entity_type a = ''transfer_attempt'' \<and>
            (jsonTextIs (au_metadata a) ''from_account_id'' (uuidStringOrEmpty account_public_id)
             \<or> jsonTextIs (au_metadata a) ''to_account_id'' (uuidStringOrEmpty account_public_id))))
       (audit_logs s))))"

definition ListAuditLogsByEntity :: "string \<Rightarrow> uuid option \<Rightarrow> AuditLog list query" where
  "ListAuditLogsByEntity entity_type entity_id = readM (\<lambda>s.
     sort_key au_created_at (sort_key au_id
       (filter (\<lambda>a. au_entity_type a = entity_type \<and> Some (au_entity_id a) = entity_id) (audit_logs s))))"

definition ListAuditLogsByJob :: "uuid option \<Rightarrow> int \<Rightarrow> AuditLog list query" where
  "ListAuditLogsByJob entity_id lim =
     failIf (lim < 0) (PgRaise ''LIMIT must not be negative'') (readM (\<lambda>s.
     take (nat lim) (sortDesc au_created_at (sortDesc au_id
       (filter (\<lambda>a. Some (au_entity_id a) = entity_id \<or> Some (au_correlation_id a) = entity_id)
          (audit_logs s))))))"

definition ListRecentAuditLogs :: "int \<Rightarrow> AuditLog list query" where
  "ListRecentAuditLogs lim =
     failIf (lim < 0) (PgRaise ''LIMIT must not be negative'') (readM (\<lambda>s.
     take (nat lim) (sortDesc au_created_at (sortDesc au_id (audit_logs s)))))"

interpretation audit_logs: table audit_logs audit_logs_update
  by unfold_locales simp

interpretation audit_ids: keyed_table audit_logs audit_logs_update au_id auditChecks
  by unfold_locales (auto simp: auditChecks_def list_ex_iff)

lemma CreateAuditLog_frame [frame]:
  assumes "\<And>g s. f (audit_logs_update g s) = f s" "\<And>g s. f (audit_logs_id_seq_update g s) = f s"
  shows "keeps f (CreateAuditLog et eid cid ev actor fs ts msg md)"
  unfolding CreateAuditLog_def by (intro frame assms)

lemma audit_selects_frame [frame]:
  "keeps f (ListAccountFinancialAuditLogs pid)" "keeps f (ListAuditLogsByEntity et eid)"
  "keeps f (ListAuditLogsByJob eid lim)" "keeps f (ListRecentAuditLogs lim)"
  unfolding ListAccountFinancialAuditLogs_def ListAuditLogsByEntity_def ListAuditLogsByJob_def
    ListRecentAuditLogs_def
  by (intro frame)+

lemma CreateAuditLog_appends [frame]:
  "appends audit_logs (CreateAuditLog et eid cid ev actor fs ts msg md)"
  unfolding CreateAuditLog_def
  by (intro appends_rules keeps_appends [OF primitive_frame(3)] keeps_appends [OF primitive_frame(4)]
      audit_logs.insert_appends) simp

end
