(* ===== verification/IdempotencyQueries.thy ===== *)
theory IdempotencyQueries
  imports Schema
begin

text \<open>
  The statements of \<open>db/sqlc/idempotency.sql.go\<close> on the table \<open>idempotency_keys\<close> (migration 15).
\<close>

definition idempotencyRowChecks :: "IdempotencyKey \<Rightarrow> (bool \<times> error) list" where
  "idempotencyRowChecks k =
     [(\<not> (ik_transaction_id k = None \<and> ik_response_status k = None \<and> ik_result_snapshot k = None
          \<or> ik_transaction_id k \<noteq> None \<and> ik_response_status k \<noteq> None \<and> ik_result_snapshot k \<noteq> None),
         PgCheck ''idempotency_keys_completion_check''),
      (ik_expires_at k \<le> ik_created_at k, PgCheck ''idempotency_keys_expiry_check''),
      (\<not> (1 \<le> runeCount (ik_idempotency_key k) \<and> runeCount (ik_idempotency_key k) \<le> 128),
         PgCheck ''idempotency_keys_key_length_check''),
      (ik_operation k \<noteq> ''internal_transfer'', PgCheck ''idempotency_keys_operation_check''),
      (length (ik_request_hash k) \<noteq> 32, PgCheck ''idempotency_keys_request_hash_length_check'')]"

definition sameKey :: "string \<Rightarrow> string \<Rightarrow> string \<Rightarrow> IdempotencyKey \<Rightarrow> bool" where
  "sameKey username operation key k \<longleftrightarrow>
     ik_username k = username \<and> ik_operation k = operation \<and> ik_idempotency_key k = key"

definition CompleteIdempotencyKey ::
  "string \<Rightarrow> string \<Rightarrow> string \<Rightarrow> uuid option \<Rightarrow> int option \<Rightarrow> json option \<Rightarrow> IdempotencyKey query" where
  "CompleteIdempotencyKey username operation key transaction_id response_status result_snapshot =
     bindM (readM banking_transactions) (\<lambda>ts.
     updateRow ErrNoRows
       (\<lambda>s k. idempotencyRowChecks k @
          [(ik_transaction_id k \<noteq> None \<and> \<not> list_ex (\<lambda>t. Some (bt_id t) = ik_transaction_id k) ts,
              PgForeignKey ''idempotency_keys_transaction_id_fkey'')])
       idempotency_keys idempotency_keys_update
       (\<lambda>k. sameKey username operation key k \<and> ik_transaction_id k = None)
       (\<lambda>k. k\<lparr>ik_transaction_id := transaction_id, ik_response_status := response_status,
              ik_result_snapshot := result_snapshot\<rparr>))"

definition CountIdempotencyKeysByTransaction :: "uuid option \<Rightarrow> int query" where
  "CountIdempotencyKeysByTransaction transaction_id = readM (\<lambda>s.
     int (length (filter (\<lambda>k. transaction_id \<noteq> None \<and> ik_transaction_id k = transaction_id)
       (idempotency_keys s))))"

definition CreateIdempotencyKey ::
  "string \<Rightarrow> string \<Rightarrow> string \<Rightarrow> string \<Rightarrow> IdempotencyKey query" where
  \<comment> \<open>\<open>ON CONFLICT DO NOTHING\<close> returns no row when the key exists; the sequence has moved on. The
     row constraints are tested before the conflict.\<close>
  "CreateIdempotencyKey username operation key request_hash =
     bindM (nextval ''idempotency_keys_id_seq'' idempotency_keys_id_seq idempotency_keys_id_seq_update) (\<lambda>kid.
     bindM (readM tx_now) (\<lambda>now.
     insertRow
       (\<lambda>s k. idempotencyRowChecks k @
          [(list_ex (sameKey username operation key) (idempotency_keys s), ErrNoRows),
           (list_ex (\<lambda>j. ik_id j = ik_id k) (idempotency_keys s), PgUnique ''idempotency_keys_pkey''),
           (\<not> list_ex (\<lambda>u. us_username u = username) (users s),
              PgForeignKey ''idempotency_keys_username_fkey'')])
       idempotency_keys_update
       \<lparr>ik_id = kid, ik_username = username, ik_operation = operation, ik_idempotency_key = key,
        ik_request_hash = request_hash, ik_transaction_id = None, ik_response_status = None,
        ik_result_snapshot = None, ik_created_at = now, ik_expires_at = now + dayMicros\<rparr>))"

definition DeleteExpiredIdempotencyKey :: "string \<Rightarrow> string \<Rightarrow> string \<Rightarrow> int query" where
  "DeleteExpiredIdempotencyKey username operation key =
     bindM (readM tx_now) (\<lambda>now.
     deleteWhere idempotency_keys idempotency_keys_update
       (\<lambda>k. sameKey username operation key k \<and> ik_expires_at k \<le> now))"

definition DeleteExpiredIdempotencyKeys :: "int query" where
  "DeleteExpiredIdempotencyKeys =
     bindM (readM tx_now) (\<lambda>now.
     deleteWhere idempotency_keys idempotency_keys_update (\<lambda>k. ik_expires_at k \<le> now))"

definition GetIdempotencyKeyForUpdate :: "string \<Rightarrow> string \<Rightarrow> string \<Rightarrow> IdempotencyKey query" where
  "GetIdempotencyKeyForUpdate username operation key =
     selectOne ErrNoRows idempotency_keys (sameKey username operation key)"

lemma idempotency_frame [frame]:
  assumes "\<And>g s. f (idempotency_keys_update g s) = f s"
  shows "keeps f (CompleteIdempotencyKey username operation key tid st snap)"
    and "keeps f (DeleteExpiredIdempotencyKey username operation key)"
    and "keeps f DeleteExpiredIdempotencyKeys"
  unfolding CompleteIdempotencyKey_def DeleteExpiredIdempotencyKey_def DeleteExpiredIdempotencyKeys_def
  by (intro frame assms)+

lemma CreateIdempotencyKey_frame [frame]:
  assumes "\<And>g s. f (idempotency_keys_update g s) = f s"
    "\<And>g s. f (idempotency_keys_id_seq_update g s) = f s"
  shows "keeps f (CreateIdempotencyKey username operation key hash)"
  unfolding CreateIdempotencyKey_def by (intro frame assms)

lemma idempotency_selects_frame [frame]:
  "keeps f (CountIdempotencyKeysByTransaction tid)"
  "keeps f (GetIdempotencyKeyForUpdate username operation key)"
  unfolding CountIdempotencyKeysByTransaction_def GetIdempotencyKeyForUpdate_def
  by (intro frame)+

end
