(* ===== verification/UserQueries.thy ===== *)
theory UserQueries
  imports Schema
begin

text \<open>
  The statements of \<open>db/sqlc/user.sql.go\<close> on the table \<open>users\<close> with its constraints (migrations 2, 4,
  9, 11 and 21). \<open>lower()\<close> of the database is the parameter \<open>lowerCase\<close>.
\<close>

definition btrim :: "string \<Rightarrow> string" where
  \<comment> \<open>\<open>btrim(text)\<close> removes the blank only.\<close>
  "btrim s = rev (dropWhile (\<lambda>c. c = CHR '' '') (rev (dropWhile (\<lambda>c. c = CHR '' '') s)))"

definition userChecks :: "world \<Rightarrow> User \<Rightarrow> (bool \<times> error) list" where
  \<comment> \<open>For an \<open>UPDATE\<close>: the row constraints, and the unique index on \<open>lower(email)\<close> against the other
     rows. The user name does not change.\<close>
  "userChecks s u =
     [(\<not> List.member [''pending'', ''active'', ''disabled''] (us_account_status u),
         PgCheck ''users_account_status_check''),
      (\<not> List.member [''unknown'', ''pending'', ''deliverable'', ''undeliverable'']
           (us_email_deliverability_status u), PgCheck ''users_email_deliverability_status_check''),
      (\<not> (3 \<le> runeCount (us_email u) \<and> runeCount (us_email u) \<le> 254), PgCheck ''users_email_length_check''),
      (\<not> (1 \<le> runeCount (btrim (us_full_name u)) \<and> runeCount (btrim (us_full_name u)) \<le> 100),
         PgCheck ''users_full_name_length_check''),
      (\<not> (3 \<le> runeCount (us_username u) \<and> runeCount (us_username u) \<le> 32),
         PgCheck ''users_username_length_check''),
      (list_ex (\<lambda>v. us_username v \<noteq> us_username u \<and>
                 lowerCase (envir s) (us_email v) = lowerCase (envir s) (us_email u)) (users s),
         PgUnique ''users_email_lower_idx'')]"

definition userInsertChecks :: "world \<Rightarrow> User \<Rightarrow> (bool \<times> error) list" where
  \<comment> \<open>The primary key is older than the index on the address, so it is tested first.\<close>
  "userInsertChecks s u =
     butlast (userChecks s u) @
     [(list_ex (\<lambda>v. us_username v = us_username u) (users s), PgUnique ''users_pkey''),
      last (userChecks s u)]"

definition updateUserRow :: "(User \<Rightarrow> bool) \<Rightarrow> (User \<Rightarrow> User) \<Rightarrow> User query" where
  "updateUserRow = updateRow ErrNoRows userChecks users users_update"

definition sevenDays :: int where
  "sevenDays = 7 * dayMicros"

definition CreateUser :: "string \<Rightarrow> string \<Rightarrow> string \<Rightarrow> string \<Rightarrow> User query" where
  "CreateUser username hashed_password full_name email =
     bindM (readM tx_now) (\<lambda>now.
     insertRow userInsertChecks users_update
       \<lparr>us_username = username, us_hashed_password = hashed_password, us_full_name = full_name,
        us_email = email, us_password_changed_at = goZeroTime, us_created_at = now,
        us_email_verified_at = None, us_email_deliverability_status = ''pending'',
        us_email_deliverability_updated_at = None, us_email_bounced_at = None,
        us_account_status = ''pending'', us_registration_expires_at = Some (now + sevenDays)\<rparr>)"

definition expiredPending :: "time \<Rightarrow> User \<Rightarrow> bool" where
  "expiredPending now u \<longleftrightarrow> us_account_status u = ''pending'' \<and>
     (case us_registration_expires_at u of None \<Rightarrow> False | Some t \<Rightarrow> t \<le> now)"

definition DisableExpiredPendingUser :: "string \<Rightarrow> User query" where
  "DisableExpiredPendingUser username =
     bindM (readM tx_now) (\<lambda>now.
     updateUserRow (\<lambda>u. us_username u = username \<and> expiredPending now u)
       (\<lambda>u. u\<lparr>us_account_status := ''disabled''\<rparr>))"

definition DisableExpiredPendingUsers :: "int query" where
  \<comment> \<open>'disabled' satisfies the constraint on the status and nothing else changes.\<close>
  "DisableExpiredPendingUsers =
     bindM (readM tx_now) (\<lambda>now.
     bindM (updateMany (\<lambda>u. []) users users_update (expiredPending now)
       (\<lambda>u. u\<lparr>us_account_status := ''disabled''\<rparr>)) (\<lambda>rows.
     returnM (int (length rows))))"

definition GetUser :: "string \<Rightarrow> User query" where
  "GetUser username = selectOne ErrNoRows users (\<lambda>u. us_username u = username)"

definition GetUserForUpdate :: "string \<Rightarrow> User query" where
  "GetUserForUpdate username = selectOne ErrNoRows users (\<lambda>u. us_username u = username)"

definition MarkUserEmailVerified :: "string \<Rightarrow> string \<Rightarrow> User query" where
  "MarkUserEmailVerified username email =
     bindM (readM tx_now) (\<lambda>now.
     bindM (readM (\<lambda>s. lowerCase (envir s))) (\<lambda>lower.
     updateUserRow (\<lambda>u. us_username u = username \<and> lower (us_email u) = lower email)
       (\<lambda>u. u\<lparr>us_email_verified_at :=
                (case us_email_verified_at u of None \<Rightarrow> Some now | Some t \<Rightarrow> Some t),
              us_email_deliverability_status := ''deliverable'',
              us_email_deliverability_updated_at := Some now,
              us_email_bounced_at := None,
              us_account_status := ''active'',
              us_registration_expires_at := None\<rparr>)))"

definition RestartUserEmailVerification :: "string \<Rightarrow> User query" where
  "RestartUserEmailVerification username =
     bindM (readM tx_now) (\<lambda>now.
     updateUserRow (\<lambda>u. us_username u = username)
       (\<lambda>u. u\<lparr>us_account_status := ''pending'',
              us_registration_expires_at :=
                (if us_account_status u = ''disabled'' then Some (now + sevenDays)
                 else us_registration_expires_at u),
              us_email_verified_at := None,
              us_email_deliverability_status := ''pending'',
              us_email_deliverability_updated_at := None,
              us_email_bounced_at := None\<rparr>))"

definition before :: "time option \<Rightarrow> time option \<Rightarrow> bool" where
  \<comment> \<open>SQL's \<open><\<close>, which is not true of NULL\<close>
  "before a b = (case (a, b) of (Some x, Some y) \<Rightarrow> x < y | _ \<Rightarrow> False)"

definition UpdateCurrentUserEmailDeliverability ::
  "string \<Rightarrow> time option \<Rightarrow> time option \<Rightarrow> string \<Rightarrow> string \<Rightarrow> User query" where
  "UpdateCurrentUserEmailDeliverability deliverability_status occurred_at bounced_at username recipient =
     bindM (readM tx_now) (\<lambda>now.
     bindM (readM (\<lambda>s. lowerCase (envir s))) (\<lambda>lower.
     updateUserRow
       (\<lambda>u. us_username u = username \<and> lower (us_email u) = lower recipient
          \<and> (us_email_deliverability_updated_at u = None
             \<or> before (us_email_deliverability_updated_at u) occurred_at)
          \<and> (us_email_deliverability_status u \<noteq> ''undeliverable''
             \<or> deliverability_status = ''undeliverable''))
       (\<lambda>u. u\<lparr>us_email_deliverability_status := deliverability_status,
              us_email_deliverability_updated_at := occurred_at,
              us_email_bounced_at :=
                (if bounced_at \<noteq> None then bounced_at
                 else if deliverability_status = ''deliverable'' then None else us_email_bounced_at u),
              us_email_verified_at :=
                (if deliverability_status = ''undeliverable'' then None else us_email_verified_at u),
              us_account_status :=
                (if deliverability_status = ''undeliverable'' then ''pending'' else us_account_status u),
              us_registration_expires_at :=
                (if deliverability_status = ''undeliverable'' then Some (now + sevenDays)
                 else us_registration_expires_at u)\<rparr>)))"

definition orElse :: "'a option \<Rightarrow> 'a \<Rightarrow> 'a" where
  \<comment> \<open>\<open>COALESCE($n, column)\<close>\<close>
  "orElse v d = (case v of None \<Rightarrow> d | Some x \<Rightarrow> x)"

definition UpdateUser ::
  "string option \<Rightarrow> string option \<Rightarrow> string option \<Rightarrow> string \<Rightarrow> User query" where
  "UpdateUser hashed_password full_name email username =
     bindM (readM tx_now) (\<lambda>now.
     bindM (readM (\<lambda>s. lowerCase (envir s))) (\<lambda>lower.
     updateUserRow (\<lambda>u. us_username u = username)
       (\<lambda>u. let changed = (case email of None \<Rightarrow> False | Some e \<Rightarrow> lower e \<noteq> lower (us_email u))
            in u\<lparr>us_hashed_password := orElse hashed_password (us_hashed_password u),
                us_full_name := orElse full_name (us_full_name u),
                us_email := orElse email (us_email u),
                us_email_verified_at := (if changed then None else us_email_verified_at u),
                us_email_deliverability_status :=
                  (if changed then ''pending'' else us_email_deliverability_status u),
                us_email_deliverability_updated_at :=
                  (if changed then None else us_email_deliverability_updated_at u),
                us_email_bounced_at := (if changed then None else us_email_bounced_at u),
                us_account_status := (if changed then ''pending'' else us_account_status u),
                us_registration_expires_at :=
                  (if changed then Some (now + sevenDays) else us_registration_expires_at u),
                us_password_changed_at :=
                  (if hashed_password \<noteq> None then now else us_password_changed_at u)\<rparr>)))"

interpretation users: table users users_update
  by unfold_locales simp

interpretation usernames: keyed_table users users_update us_username userInsertChecks
  by unfold_locales (auto simp: userInsertChecks_def list_ex_iff)

lemma user_updates_frame [frame]:
  assumes "\<And>g s. f (users_update g s) = f s"
  shows "keeps f (updateUserRow p h)" "keeps f (CreateUser n h' fn e)"
    and "keeps f (DisableExpiredPendingUser n)" "keeps f DisableExpiredPendingUsers"
    and "keeps f (MarkUserEmailVerified n e)" "keeps f (RestartUserEmailVerification n)"
    and "keeps f (UpdateCurrentUserEmailDeliverability st oa ba n r)"
    and "keeps f (UpdateUser hp fn' e' n)"
  unfolding updateUserRow_def CreateUser_def DisableExpiredPendingUser_def
    DisableExpiredPendingUsers_def MarkUserEmailVerified_def RestartUserEmailVerification_def
    UpdateCurrentUserEmailDeliverability_def UpdateUser_def
  by (intro frame assms)+

lemma user_selects_frame [frame]: "keeps f (GetUser n)" "keeps f (GetUserForUpdate n)"
  unfolding GetUser_def GetUserForUpdate_def by (intro frame)+

end
