(* ===== verification/EmailQueries.thy ===== *)
theory EmailQueries
  imports AuditQueries UserQueries
begin

text \<open>
  The statements of \<open>db/sqlc/email_job.sql.go\<close>, \<open>outbox.sql.go\<close> and \<open>email_delivery_event.sql.go\<close>
  with the constraints of their tables (migrations 7, 9, 19, 21 and 23) and the triggers that write an
  audit record for every change of a job or an event (migrations 8 and 19).
\<close>

section \<open>Constraints\<close>

definition emailJobRowChecks :: "world \<Rightarrow> EmailJob \<Rightarrow> (bool \<times> error) list" where
  \<comment> \<open>Row constraints and the partial unique indexes, which compare with the other jobs. The counters
     are \<open>integer\<close> columns.\<close>
  "emailJobRowChecks s j =
     [(2 ^ 31 \<le> ej_attempt_count j \<or> 2 ^ 31 \<le> ej_max_attempts j, PgOutOfRange),
      (ej_attempt_count j < 0, PgCheck ''email_jobs_attempt_count_check''),
      (\<not> List.member [''pending'', ''accepted'', ''delivered'', ''delayed'', ''bounced'', ''failed'',
          ''suppressed'', ''complained''] (ej_delivery_status j), PgCheck ''email_jobs_delivery_status_check''),
      (ej_max_attempts j \<le> 0, PgCheck ''email_jobs_max_attempts_check''),
      (\<not> List.member [''pending'', ''queued'', ''processing'', ''retrying'', ''sent'', ''dead_letter'']
          (ej_status j), PgCheck ''email_jobs_status_check''),
      (case ej_verification_token_hash j of None \<Rightarrow> False | Some h \<Rightarrow> length h \<noteq> 32,
         PgCheck ''email_jobs_verification_token_hash_length_check''),
      ((ej_verification_token_hash j = None) \<noteq> (ej_verification_token_expires_at j = None),
         PgCheck ''email_jobs_verification_token_pair_check''),
      (ej_provider_message_id j \<noteq> None \<and> list_ex (\<lambda>k. ej_id k \<noteq> ej_id j \<and>
          ej_provider_message_id k = ej_provider_message_id j) (email_jobs s),
         PgUnique ''email_jobs_provider_message_id_idx''),
      (ej_verification_token_hash j \<noteq> None \<and> list_ex (\<lambda>k. ej_id k \<noteq> ej_id j \<and>
          ej_verification_token_hash k = ej_verification_token_hash j) (email_jobs s),
         PgUnique ''email_jobs_verification_token_hash_idx'')]"

definition emailJobInsertChecks :: "world \<Rightarrow> EmailJob \<Rightarrow> (bool \<times> error) list" where
  \<comment> \<open>A new job has no provider id and no token yet, so the partial indexes cannot refuse it.\<close>
  "emailJobInsertChecks s j =
     emailJobRowChecks s j @
     [(list_ex (\<lambda>k. ej_id k = ej_id j) (email_jobs s), PgUnique ''email_jobs_pkey''),
      (\<not> list_ex (\<lambda>u. us_username u = ej_username j) (users s), PgForeignKey ''email_jobs_username_fkey''),
      (ej_parent_job_id j \<noteq> None \<and> \<not> list_ex (\<lambda>k. Some (ej_id k) = ej_parent_job_id j) (email_jobs s),
         PgForeignKey ''email_jobs_parent_job_id_fkey'')]"

definition outboxRowChecks :: "OutboxEvent \<Rightarrow> (bool \<times> error) list" where
  "outboxRowChecks e =
     [(2 ^ 31 \<le> ob_publish_attempts e, PgOutOfRange),
      (ob_publish_attempts e < 0, PgCheck ''outbox_events_publish_attempts_check''),
      (\<not> List.member [''pending'', ''publishing'', ''published''] (ob_status e),
         PgCheck ''outbox_events_status_check'')]"

definition outboxInsertChecks :: "world \<Rightarrow> OutboxEvent \<Rightarrow> (bool \<times> error) list" where
  "outboxInsertChecks s e =
     outboxRowChecks e @
     [(list_ex (\<lambda>f. ob_id f = ob_id e) (outbox_events s), PgUnique ''outbox_events_pkey''),
      (list_ex (\<lambda>f. ob_email_job_id f = ob_email_job_id e) (outbox_events s),
         PgUnique ''outbox_events_email_job_id_key''),
      (\<not> list_ex (\<lambda>j. ej_id j = ob_email_job_id e) (email_jobs s),
         PgForeignKey ''outbox_events_email_job_id_fkey'')]"

section \<open>Audit triggers\<close>

definition textOrNull :: "string option \<Rightarrow> json" where
  "textOrNull v = (case v of None \<Rightarrow> JNull | Some t \<Rightarrow> JStr t)"

definition timeOrNull :: "time option \<Rightarrow> json" where
  "timeOrNull v = (case v of None \<Rightarrow> JNull | Some t \<Rightarrow> JTime t)"

text \<open>\<open>audit_email_job_changes\<close>, for an \<open>INSERT\<close> and for an \<open>UPDATE\<close>.\<close>

definition auditEmailJobInsert :: "EmailJob \<Rightarrow> unit query" where
  "auditEmailJobInsert new =
     bindM (CreateAuditLog ''email_job'' (Some (ej_id new)) (Some (ej_id new))
       (if ej_parent_job_id new = None then ''email_job_created'' else ''email_job_replay_created'')
       (if ej_parent_job_id new = None then ''api'' else ''operator_cli'')
       None (Some (ej_status new)) None
       (case ej_parent_job_id new of None \<Rightarrow> JObj [] | Some p \<Rightarrow> JObj [(''parent_job_id'', JUuid p)]))
     (\<lambda>_. returnM ())"

definition emailJobAuditEvent ::
  "EmailJob \<Rightarrow> EmailJob \<Rightarrow> (string \<times> string \<times> string option \<times> json) option" where
  \<comment> \<open>Event, actor, message and metadata of the record, if one is written.\<close>
  "emailJobAuditEvent old new =
     (if ej_attempt_count old < ej_attempt_count new \<and> ej_status new = ''processing'' then
        Some (''email_attempt_started'', ''worker'', None,
          JObj [(''attempt'', JInt (ej_attempt_count new)), (''max_attempts'', JInt (ej_max_attempts new))])
      else if ej_status new \<noteq> ej_status old then
        (let actor = (if ej_status new = ''queued'' then ''relay'' else ''worker'') in
         if ej_status new = ''queued'' then Some (''email_job_queued'', actor, None, JObj [])
         else if ej_status new = ''retrying'' then
           Some (''email_send_failed'', actor, ej_last_error new, JObj [(''attempt'', JInt (ej_attempt_count new))])
         else if ej_status new = ''sent'' then
           Some (''email_sent'', actor, None, JObj [(''attempt'', JInt (ej_attempt_count new)),
             (''provider_message_id'', textOrNull (ej_provider_message_id new))])
         else if ej_status new = ''dead_letter'' then
           Some (''email_dead_lettered'', actor, ej_last_error new, JObj [(''attempt'', JInt (ej_attempt_count new))])
         else Some (''email_status_changed'', actor, None, JObj []))
      else None)"

definition auditEmailJobUpdate :: "EmailJob \<Rightarrow> EmailJob \<Rightarrow> unit query" where
  "auditEmailJobUpdate old new =
     (case emailJobAuditEvent old new of
        None \<Rightarrow> returnM ()
      | Some (event, actor, message, metadata) \<Rightarrow>
          bindM (CreateAuditLog ''email_job'' (Some (ej_id new)) (Some (ej_id new)) event actor
            (Some (ej_status old)) (Some (ej_status new)) message metadata) (\<lambda>_. returnM ()))"

text \<open>\<open>audit_domain_outbox_event_changes\<close>, for an \<open>INSERT\<close> and for an \<open>UPDATE\<close>.\<close>

definition auditOutboxInsert :: "OutboxEvent \<Rightarrow> unit query" where
  "auditOutboxInsert new =
     bindM (CreateAuditLog ''outbox_event'' (Some (ob_id new)) (Some (ob_correlation_id new))
       ''outbox_event_created'' ''application'' None (Some (ob_status new)) None
       (JObj [(''event_type'', JStr (ob_event_type new)), (''email_job_id'', JUuid (ob_email_job_id new)),
              (''source_entity_type'', JStr (ob_entity_type new)),
              (''source_entity_id'', JUuid (ob_entity_id new))]))
     (\<lambda>_. returnM ())"

definition outboxAuditEvent ::
  "OutboxEvent \<Rightarrow> OutboxEvent \<Rightarrow> (string \<times> string option \<times> json) option" where
  "outboxAuditEvent old new =
     (if ob_status new = ''publishing'' \<and> ob_publish_attempts old < ob_publish_attempts new then
        Some (if ob_status old = ''publishing'' then ''outbox_event_reclaimed'' else ''outbox_event_claimed'',
          None, JObj [(''publish_attempt'', JInt (ob_publish_attempts new)),
                      (''claimed_by'', textOrNull (ob_claimed_by new)),
                      (''claimed_until'', timeOrNull (ob_claimed_until new))])
      else if ob_status new \<noteq> ob_status old then
        (if ob_status new = ''pending'' then
           Some (''outbox_publish_failed'', ob_last_error new,
             JObj [(''publish_attempt'', JInt (ob_publish_attempts new)),
                   (''available_at'', JTime (ob_available_at new))])
         else if ob_status new = ''published'' then
           Some (''outbox_event_published'', None, JObj [(''publish_attempt'', JInt (ob_publish_attempts new))])
         else Some (''outbox_status_changed'', None, JObj []))
      else None)"

definition auditOutboxUpdate :: "OutboxEvent \<Rightarrow> OutboxEvent \<Rightarrow> unit query" where
  "auditOutboxUpdate old new =
     (case outboxAuditEvent old new of
        None \<Rightarrow> returnM ()
      | Some (event, message, metadata) \<Rightarrow>
          bindM (CreateAuditLog ''outbox_event'' (Some (ob_id new)) (Some (ob_correlation_id new)) event
            ''relay'' (Some (ob_status old)) (Some (ob_status new)) message metadata) (\<lambda>_. returnM ()))"

section \<open>Email jobs\<close>

definition CreateEmailJob ::
  "uuid option \<Rightarrow> uuid option \<Rightarrow> string \<Rightarrow> string \<Rightarrow> string \<Rightarrow> json \<Rightarrow> int \<Rightarrow> EmailJob query" where
  "CreateEmailJob jid parent_job_id job_type username recipient payload max_attempts =
     bindM (notNull ''id'' jid) (\<lambda>u.
     bindM (readM tx_now) (\<lambda>now.
     bindM (insertRow emailJobInsertChecks email_jobs_update
       \<lparr>ej_id = u, ej_parent_job_id = parent_job_id, ej_job_type = job_type, ej_username = username,
        ej_recipient = recipient, ej_payload = payload, ej_status = ''pending'', ej_attempt_count = 0,
        ej_max_attempts = max_attempts, ej_provider_message_id = None, ej_last_error = None,
        ej_created_at = now, ej_updated_at = now, ej_queued_at = None, ej_processing_at = None,
        ej_last_attempt_at = None, ej_sent_at = None, ej_dead_lettered_at = None,
        ej_delivery_status = ''pending'', ej_delivery_event_at = None, ej_accepted_at = None,
        ej_delivered_at = None, ej_bounced_at = None, ej_bounce_type = None, ej_bounce_subtype = None,
        ej_bounce_message = None, ej_verification_token_hash = None,
        ej_verification_token_expires_at = None\<rparr>) (\<lambda>job.
     bindM (auditEmailJobInsert job) (\<lambda>_. returnM job))))"

definition updateEmailJob :: "(EmailJob \<Rightarrow> bool) \<Rightarrow> (EmailJob \<Rightarrow> EmailJob) \<Rightarrow> EmailJob query" where
  "updateEmailJob p f =
     bindM (selectOne ErrNoRows email_jobs p) (\<lambda>old.
     bindM (updateRow ErrNoRows emailJobRowChecks email_jobs email_jobs_update p f) (\<lambda>new.
     bindM (auditEmailJobUpdate old new) (\<lambda>_. returnM new)))"

definition DeleteExpiredSentEmailJobs :: "time option \<Rightarrow> int query" where
  \<comment> \<open>The foreign keys refuse to delete a job that another row still names.\<close>
  "DeleteExpiredSentEmailJobs sent_before =
     bindM (readM (\<lambda>s. s)) (\<lambda>s.
     let doomed = (\<lambda>j. ej_status j = ''sent'' \<and> before (ej_sent_at j) sent_before);
         gone = filter doomed (email_jobs s)
     in bindM (checkM
          [(list_ex (\<lambda>j. \<not> doomed j \<and> list_ex (\<lambda>g. ej_parent_job_id j = Some (ej_id g)) gone) (email_jobs s),
              PgForeignKey ''email_jobs_parent_job_id_fkey''),
           (list_ex (\<lambda>e. list_ex (\<lambda>g. ob_email_job_id e = ej_id g) gone) (outbox_events s),
              PgForeignKey ''outbox_events_email_job_id_fkey'')]) (\<lambda>_.
        deleteWhere email_jobs email_jobs_update doomed))"

definition GetEmailJob :: "uuid option \<Rightarrow> EmailJob query" where
  "GetEmailJob jid = selectOne ErrNoRows email_jobs (\<lambda>j. Some (ej_id j) = jid)"

definition GetEmailJobByProviderMessageID :: "string option \<Rightarrow> EmailJob query" where
  "GetEmailJobByProviderMessageID mid =
     selectOne ErrNoRows email_jobs (\<lambda>j. mid \<noteq> None \<and> ej_provider_message_id j = mid)"

definition GetEmailJobByProviderMessageIDForUpdate :: "string option \<Rightarrow> EmailJob query" where
  "GetEmailJobByProviderMessageIDForUpdate mid =
     selectOne ErrNoRows email_jobs (\<lambda>j. mid \<noteq> None \<and> ej_provider_message_id j = mid)"

definition GetEmailJobByVerificationTokenHash :: "string \<Rightarrow> EmailJob query" where
  "GetEmailJobByVerificationTokenHash h =
     selectOne ErrNoRows email_jobs (\<lambda>j. ej_verification_token_hash j = Some h)"

definition GetEmailJobForUpdate :: "uuid option \<Rightarrow> EmailJob query" where
  "GetEmailJobForUpdate jid = selectOne ErrNoRows email_jobs (\<lambda>j. Some (ej_id j) = jid)"

definition GetLatestEmailJobForCurrentAddress :: "string \<Rightarrow> EmailJob query" where
  "GetLatestEmailJobForCurrentAddress username =
     selectOne ErrNoRows
       (\<lambda>s. sortDesc ej_created_at (filter (\<lambda>j. ej_username j = username \<and>
          list_ex (\<lambda>u. us_username u = ej_username j \<and>
            lowerCase (envir s) (ej_recipient j) = lowerCase (envir s) (us_email u)) (users s)) (email_jobs s)))
       (\<lambda>j. True)"

definition ListDeadLetterEmailJobs :: "int \<Rightarrow> EmailJob list query" where
  \<comment> \<open>Descending order puts NULL first; a dead letter always has the time.\<close>
  "ListDeadLetterEmailJobs lim =
     failIf (lim < 0) (PgRaise ''LIMIT must not be negative'') (readM (\<lambda>s.
     take (nat lim)
       (filter (\<lambda>j. ej_dead_lettered_at j = None) (filter (\<lambda>j. ej_status j = ''dead_letter'') (email_jobs s))
        @ sortDesc (\<lambda>j. orElse (ej_dead_lettered_at j) 0)
            (filter (\<lambda>j. ej_dead_lettered_at j \<noteq> None)
               (filter (\<lambda>j. ej_status j = ''dead_letter'') (email_jobs s))))))"

definition MarkEmailJobDeadLetter :: "uuid option \<Rightarrow> string option \<Rightarrow> EmailJob query" where
  "MarkEmailJobDeadLetter jid last_error =
     bindM (readM tx_now) (\<lambda>now.
     updateEmailJob (\<lambda>j. Some (ej_id j) = jid \<and> ej_status j \<noteq> ''sent'')
       (\<lambda>j. j\<lparr>ej_status := ''dead_letter'', ej_last_error := last_error,
              ej_dead_lettered_at := Some now, ej_updated_at := now\<rparr>))"

definition MarkEmailJobQueued :: "uuid option \<Rightarrow> EmailJob query" where
  "MarkEmailJobQueued jid =
     bindM (readM tx_now) (\<lambda>now.
     updateEmailJob (\<lambda>j. Some (ej_id j) = jid)
       (\<lambda>j. j\<lparr>ej_status := (if ej_status j = ''pending'' then ''queued'' else ej_status j),
              ej_queued_at := (if ej_status j = ''pending'' then Some now else ej_queued_at j),
              ej_updated_at := now\<rparr>))"

definition MarkEmailJobRetrying :: "uuid option \<Rightarrow> string option \<Rightarrow> EmailJob query" where
  "MarkEmailJobRetrying jid last_error =
     bindM (readM tx_now) (\<lambda>now.
     updateEmailJob (\<lambda>j. Some (ej_id j) = jid \<and> ej_status j \<noteq> ''sent'')
       (\<lambda>j. j\<lparr>ej_status := ''retrying'', ej_last_error := last_error, ej_updated_at := now\<rparr>))"

definition MarkEmailJobSent :: "uuid option \<Rightarrow> string option \<Rightarrow> EmailJob query" where
  "MarkEmailJobSent jid provider_message_id =
     bindM (readM tx_now) (\<lambda>now.
     updateEmailJob (\<lambda>j. Some (ej_id j) = jid)
       (\<lambda>j. j\<lparr>ej_status := ''sent'', ej_provider_message_id := provider_message_id,
              ej_delivery_status :=
                (if ej_delivery_event_at j = None then ''accepted'' else ej_delivery_status j),
              ej_accepted_at := Some (orElse (ej_accepted_at j) now),
              ej_last_error := None, ej_sent_at := Some now, ej_updated_at := now\<rparr>))"

definition SetEmailJobVerificationToken :: "uuid option \<Rightarrow> string \<Rightarrow> time option \<Rightarrow> EmailJob query" where
  "SetEmailJobVerificationToken jid h expires_at =
     bindM (readM tx_now) (\<lambda>now.
     updateEmailJob (\<lambda>j. Some (ej_id j) = jid \<and> ej_job_type j = ''verify_email'')
       (\<lambda>j. j\<lparr>ej_verification_token_hash := Some h, ej_verification_token_expires_at := expires_at,
              ej_updated_at := now\<rparr>))"

definition StartEmailJobAttempt :: "uuid option \<Rightarrow> EmailJob query" where
  "StartEmailJobAttempt jid =
     bindM (readM tx_now) (\<lambda>now.
     updateEmailJob
       (\<lambda>j. Some (ej_id j) = jid \<and>
            List.member [''pending'', ''queued'', ''processing'', ''retrying''] (ej_status j))
       (\<lambda>j. j\<lparr>ej_status := ''processing'', ej_attempt_count := ej_attempt_count j + 1,
              ej_processing_at := Some now, ej_last_attempt_at := Some now, ej_updated_at := now\<rparr>))"

definition UpdateEmailJobDelivery ::
  "string option \<Rightarrow> string \<Rightarrow> time option \<Rightarrow> string option \<Rightarrow> string option \<Rightarrow> string option \<Rightarrow> uuid option \<Rightarrow>
   EmailJob query" where
  "UpdateEmailJobDelivery mid delivery_status occurred_at bounce_type bounce_subtype bounce_message jid =
     bindM (readM tx_now) (\<lambda>now.
     updateEmailJob
       (\<lambda>j. Some (ej_id j) = jid \<and>
            (ej_delivery_event_at j = None \<or> before (ej_delivery_event_at j) occurred_at))
       (\<lambda>j. j\<lparr>ej_provider_message_id :=
                (if ej_provider_message_id j \<noteq> None then ej_provider_message_id j else mid),
              ej_delivery_status := delivery_status, ej_delivery_event_at := occurred_at,
              ej_accepted_at :=
                (if delivery_status = ''accepted'' \<and> ej_accepted_at j = None then occurred_at
                 else ej_accepted_at j),
              ej_delivered_at := (if delivery_status = ''delivered'' then occurred_at else ej_delivered_at j),
              ej_bounced_at :=
                (if List.member [''bounced'', ''suppressed''] delivery_status then occurred_at
                 else ej_bounced_at j),
              ej_bounce_type := (if delivery_status = ''bounced'' then bounce_type else ej_bounce_type j),
              ej_bounce_subtype :=
                (if delivery_status = ''bounced'' then bounce_subtype else ej_bounce_subtype j),
              ej_bounce_message :=
                (if delivery_status = ''bounced'' then bounce_message else ej_bounce_message j),
              ej_updated_at := now\<rparr>))"

section \<open>Outbox events\<close>

definition claimable :: "time \<Rightarrow> OutboxEvent \<Rightarrow> bool" where
  "claimable now e \<longleftrightarrow> ob_available_at e \<le> now \<and>
     (ob_status e = ''pending'' \<or> ob_status e = ''publishing'' \<and> before (ob_claimed_until e) (Some now))"

definition ClaimOutboxEvents :: "string option \<Rightarrow> time option \<Rightarrow> int \<Rightarrow> OutboxEvent list query" where
  \<comment> \<open>The rows are returned in the order of the candidates; the relay treats each on its own.\<close>
  "ClaimOutboxEvents claimed_by claimed_until batch_size =
     failIf (batch_size < 0) (PgRaise ''LIMIT must not be negative'')
     (bindM (readM tx_now) (\<lambda>now.
      bindM (readM (\<lambda>s. take (nat batch_size) (sort_key ob_created_at (filter (claimable now) (outbox_events s)))))
      (\<lambda>candidates.
      bindM (updateMany outboxRowChecks outbox_events outbox_events_update
        (\<lambda>e. list_ex (\<lambda>c. ob_id c = ob_id e) candidates)
        (\<lambda>e. e\<lparr>ob_status := ''publishing'', ob_claimed_by := claimed_by, ob_claimed_until := claimed_until,
               ob_publish_attempts := ob_publish_attempts e + 1\<rparr>)) (\<lambda>_.
      forM candidates (\<lambda>c.
        bindM (selectOne ErrNoRows outbox_events (\<lambda>e. ob_id e = ob_id c)) (\<lambda>new.
        bindM (auditOutboxUpdate c new) (\<lambda>_. returnM new)))))))"

definition CreateOutboxEvent ::
  "uuid option \<Rightarrow> uuid option \<Rightarrow> string \<Rightarrow> json \<Rightarrow> uuid option \<Rightarrow> string \<Rightarrow> uuid option \<Rightarrow> OutboxEvent query" where
  "CreateOutboxEvent eid email_job_id event_type payload correlation_id entity_type entity_id =
     bindM (notNull ''id'' eid) (\<lambda>u.
     bindM (notNull ''email_job_id'' email_job_id) (\<lambda>job.
     bindM (notNull ''correlation_id'' correlation_id) (\<lambda>cid.
     bindM (notNull ''entity_id'' entity_id) (\<lambda>ent.
     bindM (readM tx_now) (\<lambda>now.
     bindM (insertRow outboxInsertChecks outbox_events_update
       \<lparr>ob_id = u, ob_email_job_id = job, ob_event_type = event_type, ob_payload = payload,
        ob_status = ''pending'', ob_publish_attempts = 0, ob_available_at = now, ob_claimed_by = None,
        ob_claimed_until = None, ob_last_error = None, ob_created_at = now, ob_published_at = None,
        ob_correlation_id = cid, ob_entity_type = entity_type, ob_entity_id = ent\<rparr>) (\<lambda>event.
     bindM (auditOutboxInsert event) (\<lambda>_. returnM event)))))))"

definition updateOutboxEvent :: "(OutboxEvent \<Rightarrow> bool) \<Rightarrow> (OutboxEvent \<Rightarrow> OutboxEvent) \<Rightarrow> OutboxEvent query" where
  "updateOutboxEvent p f =
     bindM (selectOne ErrNoRows outbox_events p) (\<lambda>old.
     bindM (updateRow ErrNoRows (\<lambda>s. outboxRowChecks) outbox_events outbox_events_update p f) (\<lambda>new.
     bindM (auditOutboxUpdate old new) (\<lambda>_. returnM new)))"

definition DeleteExpiredPublishedOutboxEvents :: "time option \<Rightarrow> int query" where
  "DeleteExpiredPublishedOutboxEvents published_before =
     deleteWhere outbox_events outbox_events_update
       (\<lambda>e. ob_status e = ''published'' \<and> before (ob_published_at e) published_before)"

definition GetOutboxEvent :: "uuid option \<Rightarrow> OutboxEvent query" where
  "GetOutboxEvent eid = selectOne ErrNoRows outbox_events (\<lambda>e. Some (ob_id e) = eid)"

definition GetOutboxEventByEmailJobID :: "uuid option \<Rightarrow> OutboxEvent query" where
  "GetOutboxEventByEmailJobID jid = selectOne ErrNoRows outbox_events (\<lambda>e. Some (ob_email_job_id e) = jid)"

definition ListOutboxEventsByEntity :: "string \<Rightarrow> uuid option \<Rightarrow> OutboxEvent list query" where
  "ListOutboxEventsByEntity entity_type entity_id = readM (\<lambda>s.
     sort_key ob_created_at (sort_key ob_id
       (filter (\<lambda>e. ob_entity_type e = entity_type \<and> Some (ob_entity_id e) = entity_id) (outbox_events s))))"

definition MarkOutboxEventPublished :: "uuid option \<Rightarrow> OutboxEvent query" where
  "MarkOutboxEventPublished eid =
     bindM (readM tx_now) (\<lambda>now.
     updateOutboxEvent (\<lambda>e. Some (ob_id e) = eid)
       (\<lambda>e. e\<lparr>ob_status := ''published'', ob_published_at := Some now, ob_claimed_by := None,
              ob_claimed_until := None, ob_last_error := None\<rparr>))"

definition ReleaseOutboxEvent :: "uuid option \<Rightarrow> time option \<Rightarrow> string option \<Rightarrow> OutboxEvent query" where
  "ReleaseOutboxEvent eid available_at last_error =
     bindM (notNull ''available_at'' available_at) (\<lambda>t.
     updateOutboxEvent (\<lambda>e. Some (ob_id e) = eid)
       (\<lambda>e. e\<lparr>ob_status := ''pending'', ob_available_at := t, ob_claimed_by := None,
              ob_claimed_until := None, ob_last_error := last_error\<rparr>))"

section \<open>Delivery events\<close>

definition CreateEmailDeliveryEvent ::
  "string \<Rightarrow> uuid option \<Rightarrow> string \<Rightarrow> string \<Rightarrow> time option \<Rightarrow> json \<Rightarrow> EmailDeliveryEvent query" where
  \<comment> \<open>\<open>ON CONFLICT (webhook_id) DO NOTHING\<close> returns no row for a webhook already recorded.\<close>
  "CreateEmailDeliveryEvent webhook_id email_job_id provider_message_id event_type occurred_at payload =
     bindM (notNull ''occurred_at'' occurred_at) (\<lambda>t.
     bindM (readM tx_now) (\<lambda>now.
     insertRow (\<lambda>s d. [(list_ex (\<lambda>c. ed_webhook_id c = ed_webhook_id d) (email_delivery_events s), ErrNoRows)])
       email_delivery_events_update
       \<lparr>ed_webhook_id = webhook_id, ed_email_job_id = email_job_id,
        ed_provider_message_id = provider_message_id, ed_event_type = event_type,
        ed_occurred_at = t, ed_received_at = now, ed_payload = payload\<rparr>))"

definition GetEmailDeliveryEvent :: "string \<Rightarrow> EmailDeliveryEvent query" where
  "GetEmailDeliveryEvent webhook_id =
     selectOne ErrNoRows email_delivery_events (\<lambda>d. ed_webhook_id d = webhook_id)"

definition ListEmailDeliveryEventsByJob :: "uuid option \<Rightarrow> int \<Rightarrow> EmailDeliveryEvent list query" where
  "ListEmailDeliveryEventsByJob jid lim =
     failIf (lim < 0) (PgRaise ''LIMIT must not be negative'') (readM (\<lambda>s.
     take (nat lim) (sortDesc ed_occurred_at (sortDesc ed_received_at
       (filter (\<lambda>d. jid \<noteq> None \<and> ed_email_job_id d = jid) (email_delivery_events s))))))"

section \<open>Frames\<close>

text \<open>
  \<open>unnoticed f\<close>: the component \<open>f\<close> of the world is not among what notifications and audit records
  write: the tables \<open>audit_logs\<close>, \<open>email_jobs\<close> and \<open>outbox_events\<close>, the sequence of the audit ids and
  the counters of UUIDs and clock readings.
\<close>

definition unnoticed :: "(world \<Rightarrow> 'c) \<Rightarrow> bool" where
  "unnoticed f \<longleftrightarrow>
     (\<forall>g s. f (audit_logs_update g s) = f s) \<and> (\<forall>g s. f (audit_logs_id_seq_update g s) = f s) \<and>
     (\<forall>g s. f (email_jobs_update g s) = f s) \<and> (\<forall>g s. f (outbox_events_update g s) = f s) \<and>
     (\<forall>g s. f (uuid_ctr_update g s) = f s) \<and> (\<forall>g s. f (clock_ctr_update g s) = f s)"

lemma unnoticed_fields [simp]:
  "unnoticed envir" "unnoticed users" "unnoticed accounts" "unnoticed ledger_accounts"
  "unnoticed banking_transactions" "unnoticed ledger_postings" "unnoticed idempotency_keys"
  "unnoticed email_delivery_events" "unnoticed sessions" "unnoticed beneficiaries"
  "unnoticed accounts_id_seq" "unnoticed ledger_accounts_id_seq" "unnoticed ledger_postings_id_seq"
  "unnoticed idempotency_keys_id_seq" "unnoticed tx_now" "unnoticed tx_ctr" "unnoticed rand_ctr"
  "unnoticed reconciliationDrift"
  by (simp_all add: unnoticed_def)

lemma unnoticedD:
  assumes "unnoticed f"
  shows "f (audit_logs_update g s) = f s" "f (audit_logs_id_seq_update g' s) = f s"
    "f (email_jobs_update h s) = f s" "f (outbox_events_update h' s) = f s"
    "f (uuid_ctr_update k s) = f s" "f (clock_ctr_update k s) = f s"
  using assms by (simp_all add: unnoticed_def)

lemma audit_triggers_frame:
  assumes "unnoticed f"
  shows "keeps f (auditEmailJobInsert j)" "keeps f (auditEmailJobUpdate j j')"
    "keeps f (auditOutboxInsert e)" "keeps f (auditOutboxUpdate e e')"
  unfolding auditEmailJobInsert_def auditEmailJobUpdate_def auditOutboxInsert_def auditOutboxUpdate_def
  by (intro frame unnoticedD [OF assms])+

lemma email_writes_frame:
  assumes "unnoticed f"
  shows "keeps f (CreateEmailJob jid pid jt n r pl ma)" "keeps f (updateEmailJob p h)"
    "keeps f (CreateOutboxEvent eid ejid et pl' cid ent entid)" "keeps f (updateOutboxEvent p' h')"
  unfolding CreateEmailJob_def updateEmailJob_def CreateOutboxEvent_def updateOutboxEvent_def
  by (intro frame audit_triggers_frame assms unnoticedD [OF assms])+

lemma email_job_frame:
  assumes "unnoticed f"
  shows "keeps f (MarkEmailJobDeadLetter jid le)" "keeps f (MarkEmailJobQueued jid)"
    "keeps f (MarkEmailJobRetrying jid le)" "keeps f (MarkEmailJobSent jid mid)"
    "keeps f (SetEmailJobVerificationToken jid h ex)" "keeps f (StartEmailJobAttempt jid)"
    "keeps f (UpdateEmailJobDelivery mid ds oc bt bs bm jid)"
    "keeps f (DeleteExpiredSentEmailJobs sb)"
  unfolding MarkEmailJobDeadLetter_def MarkEmailJobQueued_def MarkEmailJobRetrying_def
    MarkEmailJobSent_def SetEmailJobVerificationToken_def StartEmailJobAttempt_def
    UpdateEmailJobDelivery_def DeleteExpiredSentEmailJobs_def Let_def
  by (intro frame email_writes_frame assms unnoticedD [OF assms])+

lemma outbox_frame:
  assumes "unnoticed f"
  shows "keeps f (ClaimOutboxEvents cb cu bs)" "keeps f (MarkOutboxEventPublished eid)"
    "keeps f (ReleaseOutboxEvent eid av le)" "keeps f (DeleteExpiredPublishedOutboxEvents pb)"
  unfolding ClaimOutboxEvents_def MarkOutboxEventPublished_def ReleaseOutboxEvent_def
    DeleteExpiredPublishedOutboxEvents_def
  by (intro frame email_writes_frame audit_triggers_frame assms unnoticedD [OF assms])+

lemma email_selects_frame [frame]:
  "keeps f (GetEmailJob jid)" "keeps f (GetEmailJobByProviderMessageID mid)"
  "keeps f (GetEmailJobByProviderMessageIDForUpdate mid)" "keeps f (GetEmailJobByVerificationTokenHash h)"
  "keeps f (GetEmailJobForUpdate jid)" "keeps f (GetLatestEmailJobForCurrentAddress n)"
  "keeps f (ListDeadLetterEmailJobs lim)" "keeps f (GetOutboxEvent eid)"
  "keeps f (GetOutboxEventByEmailJobID jid)" "keeps f (ListOutboxEventsByEntity et eid)"
  "keeps f (GetEmailDeliveryEvent w)" "keeps f (ListEmailDeliveryEventsByJob jid lim)"
  unfolding GetEmailJob_def GetEmailJobByProviderMessageID_def
    GetEmailJobByProviderMessageIDForUpdate_def GetEmailJobByVerificationTokenHash_def
    GetEmailJobForUpdate_def GetLatestEmailJobForCurrentAddress_def ListDeadLetterEmailJobs_def
    GetOutboxEvent_def GetOutboxEventByEmailJobID_def ListOutboxEventsByEntity_def
    GetEmailDeliveryEvent_def ListEmailDeliveryEventsByJob_def
  by (intro frame)+

lemma CreateEmailDeliveryEvent_frame [frame]:
  "(\<And>g s. f (email_delivery_events_update g s) = f s) \<Longrightarrow>
     keeps f (CreateEmailDeliveryEvent w jid mid et oc pl)"
  unfolding CreateEmailDeliveryEvent_def by (intro frame)

interpretation email_jobs: table email_jobs email_jobs_update
  by unfold_locales simp

interpretation email_job_ids: keyed_table email_jobs email_jobs_update ej_id emailJobInsertChecks
  by unfold_locales (auto simp: emailJobInsertChecks_def list_ex_iff)

interpretation outbox_events: table outbox_events outbox_events_update
  by unfold_locales simp

interpretation outbox_event_ids: keyed_table outbox_events outbox_events_update ob_id outboxInsertChecks
  by unfold_locales (auto simp: outboxInsertChecks_def list_ex_iff)

end
