(* ===== verification/Store.thy ===== *)
theory Store
  imports AccountQueries LedgerQueries AuditQueries IdempotencyQueries UserQueries EmailQueries
begin

text \<open>
  Database transactions: \<open>SQLStore.execTx\<close> of \<open>db/sqlc/store.go\<close>, and single statements outside a
  transaction. A transaction runs to its end before the next one starts. It may fail to begin, its
  body may return an error (the tables are restored, the sequences and the clock are not), the
  deferred trigger may refuse it at commit, and \<open>COMMIT\<close> itself may report an error, with or without
  effect on the server.
\<close>

definition tablesOf ::
  "world \<Rightarrow> (User list \<times> Account list \<times> LedgerAccount list \<times> BankingTransaction list \<times>
     LedgerPosting list \<times> IdempotencyKey list) \<times> (AuditLog list \<times> EmailJob list \<times>
     OutboxEvent list \<times> EmailDeliveryEvent list \<times> Session list \<times> Beneficiary list)" where
  "tablesOf s =
     ((users s, accounts s, ledger_accounts s, banking_transactions s, ledger_postings s,
       idempotency_keys s),
      (audit_logs s, email_jobs s, outbox_events s, email_delivery_events s, sessions s, beneficiaries s))"

definition rollbackTo :: "world \<Rightarrow> world \<Rightarrow> world" where
  "rollbackTo s t =
     t\<lparr>users := users s, accounts := accounts s, ledger_accounts := ledger_accounts s,
       banking_transactions := banking_transactions s, ledger_postings := ledger_postings s,
       idempotency_keys := idempotency_keys s, audit_logs := audit_logs s, email_jobs := email_jobs s,
       outbox_events := outbox_events s, email_delivery_events := email_delivery_events s,
       sessions := sessions s, beneficiaries := beneficiaries s\<rparr>"

text \<open>The transactions the deferred triggers look at: rows inserted or changed, and those of new postings.\<close>

definition touchedTransactions :: "world \<Rightarrow> world \<Rightarrow> uuid list" where
  "touchedTransactions s t =
     map bt_id (filter (\<lambda>r. r \<notin> set (banking_transactions s)) (banking_transactions t)) @
     map lp_transaction_id (drop (length (ledger_postings s)) (ledger_postings t))"

definition deferredChecks :: "world \<Rightarrow> world \<Rightarrow> (bool \<times> error) list" where
  "deferredChecks s t = concat (map (validateBankingTransaction t) (touchedTransactions s t))"

definition startTx :: "world \<Rightarrow> world" where
  "startTx s = s\<lparr>tx_ctr := tx_ctr s + 1, tx_now := clockAt (envir s) (clock_ctr s),
                 clock_ctr := clock_ctr s + 1\<rparr>"

definition commitTx :: "world \<Rightarrow> 'a \<Rightarrow> world \<Rightarrow> (error + 'a) \<times> world" where
  "commitTx s x t =
     (case firstError (deferredChecks s t) of
        Some e \<Rightarrow> (Inl e, rollbackTo s t)
      | None \<Rightarrow>
          (case commitFault (envir s) (tx_ctr s) of
             None \<Rightarrow> (Inr x, t)
           | Some (e, committed) \<Rightarrow> (Inl e, if committed then t else rollbackTo s t)))"

definition runTx :: "(error \<Rightarrow> error \<Rightarrow> error) \<Rightarrow> 'a query \<Rightarrow> 'a query" where
  "runTx rbErr body s =
     (case beginFault (envir s) (tx_ctr s) of
        Some e \<Rightarrow> (Inl e, s\<lparr>tx_ctr := tx_ctr s + 1\<rparr>)
      | None \<Rightarrow>
          (case body (startTx s) of
             (Inl e, t) \<Rightarrow>
               (Inl (case rollbackFault (envir s) (tx_ctr s) of None \<Rightarrow> e | Some rb \<Rightarrow> rbErr e rb),
                rollbackTo s t)
           | (Inr x, t) \<Rightarrow> commitTx s x t))"

definition execTx :: "'a query \<Rightarrow> 'a query" where
  \<comment> \<open>The error of a failed rollback is formatted with \<open>%v\<close>, so it wraps nothing.\<close>
  "execTx body s =
     runTx (\<lambda>e rb. GoErr (''tx error: '' @ errorText (driverText (envir s)) e @ '', rb err: '' @
                         errorText (driverText (envir s)) rb)) body s"

definition autocommit :: "'a query \<Rightarrow> 'a query" where
  \<comment> \<open>A statement on the pool: a transaction of its own, with nothing to roll back by hand.\<close>
  "autocommit q = runTx (\<lambda>e rb. e) q"

section \<open>What a transaction can do\<close>

lemma tablesOf_rollbackTo [simp]: "tablesOf (rollbackTo s t) = tablesOf s"
  by (simp add: tablesOf_def rollbackTo_def)

lemma tablesOf_startTx [simp]: "tablesOf (startTx s) = tablesOf s"
  by (simp add: tablesOf_def startTx_def)

lemma startTx_simps [simp]:
  "users (startTx s) = users s" "accounts (startTx s) = accounts s"
  "ledger_accounts (startTx s) = ledger_accounts s"
  "banking_transactions (startTx s) = banking_transactions s"
  "ledger_postings (startTx s) = ledger_postings s"
  "idempotency_keys (startTx s) = idempotency_keys s" "audit_logs (startTx s) = audit_logs s"
  "email_jobs (startTx s) = email_jobs s" "outbox_events (startTx s) = outbox_events s"
  "email_delivery_events (startTx s) = email_delivery_events s"
  "sessions (startTx s) = sessions s" "beneficiaries (startTx s) = beneficiaries s"
  "envir (startTx s) = envir s" "tx_now (startTx s) = clockAt (envir s) (clock_ctr s)"
  by (simp_all add: startTx_def)

lemma rollbackTo_simps [simp]:
  "users (rollbackTo s t) = users s" "accounts (rollbackTo s t) = accounts s"
  "ledger_accounts (rollbackTo s t) = ledger_accounts s"
  "banking_transactions (rollbackTo s t) = banking_transactions s"
  "ledger_postings (rollbackTo s t) = ledger_postings s"
  "idempotency_keys (rollbackTo s t) = idempotency_keys s" "audit_logs (rollbackTo s t) = audit_logs s"
  "email_jobs (rollbackTo s t) = email_jobs s" "outbox_events (rollbackTo s t) = outbox_events s"
  "email_delivery_events (rollbackTo s t) = email_delivery_events s"
  "sessions (rollbackTo s t) = sessions s" "beneficiaries (rollbackTo s t) = beneficiaries s"
  "envir (rollbackTo s t) = envir t"
  by (simp_all add: rollbackTo_def)

text \<open>
  Atomicity: afterwards the tables are those before, or the body has succeeded and the tables are
  those it left. The second case includes an error whose commit had taken effect.
\<close>

lemma runTx_cases:
  assumes "runTx g body s = (r, s')"
  obtains (restored) e where "r = Inl e" "tablesOf s' = tablesOf s"
  | (committed) x where "body (startTx s) = (Inr x, s')"
      "\<forall>c\<in>set (deferredChecks s s'). \<not> fst c" "r = Inr x \<or> (\<exists>e. r = Inl e)"
proof -
  have "(\<exists>e. r = Inl e \<and> tablesOf s' = tablesOf s) \<or>
    (\<exists>x. body (startTx s) = (Inr x, s') \<and> (\<forall>c\<in>set (deferredChecks s s'). \<not> fst c) \<and>
       (r = Inr x \<or> (\<exists>e. r = Inl e)))"
  proof (cases "beginFault (envir s) (tx_ctr s)")
    case (Some e)
    with assms show ?thesis
      by (auto simp: runTx_def tablesOf_def)
  next
    case None
    then have run: "runTx g body s = (case body (startTx s) of
        (Inl e, t) \<Rightarrow> (Inl (case rollbackFault (envir s) (tx_ctr s) of None \<Rightarrow> e | Some rb \<Rightarrow> g e rb), rollbackTo s t)
      | (Inr x, t) \<Rightarrow> commitTx s x t)"
      by (simp add: runTx_def)
    obtain b t where bt: "body (startTx s) = (b, t)"
      by (cases "body (startTx s)")
    show ?thesis
    proof (cases b)
      case (Inl e)
      with assms run bt show ?thesis by auto
    next
      case (Inr x)
      show ?thesis
      proof (cases "firstError (deferredChecks s t)")
        case (Some e)
        with assms run bt Inr show ?thesis
          by (auto simp: commitTx_def)
      next
        case N: None
        then have ok: "\<forall>c\<in>set (deferredChecks s t). \<not> fst c"
          by simp
        from assms run bt Inr N have "(r, s') = (case commitFault (envir s) (tx_ctr s) of
             None \<Rightarrow> (Inr x, t) | Some (e, committed) \<Rightarrow> (Inl e, if committed then t else rollbackTo s t))"
          by (simp add: commitTx_def del: firstError_None)
        then consider "r = Inr x" "s' = t" | e where "r = Inl e" "s' = t"
          | e where "r = Inl e" "s' = rollbackTo s t"
          by (auto split: option.splits prod.splits if_splits)
        then show ?thesis
          using bt Inr ok by cases auto
      qed
    qed
  qed
  then show thesis
    using that by blast
qed

lemma runTx_ok:
  assumes "runTx g body s = (Inr x, s')"
  shows "body (startTx s) = (Inr x, s')" and "\<forall>c\<in>set (deferredChecks s s'). \<not> fst c"
  using assms by (auto elim!: runTx_cases)

lemma execTx_cases:
  assumes "execTx body s = (r, s')"
  obtains (restored) e where "r = Inl e" "tablesOf s' = tablesOf s"
  | (committed) x where "body (startTx s) = (Inr x, s')"
      "\<forall>c\<in>set (deferredChecks s s'). \<not> fst c" "r = Inr x \<or> (\<exists>e. r = Inl e)"
  using assms unfolding execTx_def by (rule runTx_cases)

lemma autocommit_cases:
  assumes "autocommit body s = (r, s')"
  obtains (restored) e where "r = Inl e" "tablesOf s' = tablesOf s"
  | (committed) x where "body (startTx s) = (Inr x, s')"
      "\<forall>c\<in>set (deferredChecks s s'). \<not> fst c" "r = Inr x \<or> (\<exists>e. r = Inl e)"
  using assms unfolding autocommit_def by (rule runTx_cases)

lemma execTx_ok:
  assumes "execTx body s = (Inr x, s')"
  shows "body (startTx s) = (Inr x, s')" and "\<forall>c\<in>set (deferredChecks s s'). \<not> fst c"
  using assms unfolding execTx_def by (rule runTx_ok)+

lemmas autocommit_ok = runTx_ok [where g = "\<lambda>e rb. e", folded autocommit_def]

text \<open>A transaction whose body succeeds commits when the connection holds and the trigger finds nothing.\<close>

lemma runTx_through:
  assumes "beginFault (envir s) (tx_ctr s) = None" "commitFault (envir s) (tx_ctr s) = None"
    and "body (startTx s) = (Inr x, t)" "\<forall>c\<in>set (deferredChecks s t). \<not> fst c"
  shows "runTx g body s = (Inr x, t)"
proof -
  have "firstError (deferredChecks s t) = None"
    using assms(4) by simp
  then show ?thesis
    using assms(1-3) by (simp add: runTx_def commitTx_def del: firstError_None)
qed

lemma execTx_through:
  assumes "beginFault (envir s) (tx_ctr s) = None" "commitFault (envir s) (tx_ctr s) = None"
    and "body (startTx s) = (Inr x, t)" "\<forall>c\<in>set (deferredChecks s t). \<not> fst c"
  shows "execTx body s = (Inr x, t)"
  unfolding execTx_def using assms by (rule runTx_through)

lemma deferredChecks_none:
  "banking_transactions t = banking_transactions s \<Longrightarrow> ledger_postings t = ledger_postings s \<Longrightarrow> deferredChecks s t = []"
  by (simp add: deferredChecks_def touchedTransactions_def filter_empty_conv)

text \<open>
  \<open>table_relation R\<close>: a reflexive and transitive relation that looks at the tables only. A
  transaction stays in it when its body does.
\<close>

locale table_relation = step_order R for R :: "world \<Rightarrow> world \<Rightarrow> bool" +
  assumes tables_only: "tablesOf s = tablesOf s' \<Longrightarrow> tablesOf t = tablesOf t' \<Longrightarrow> R s t \<Longrightarrow> R s' t'"
begin

lemma same_tables: "tablesOf s = tablesOf t \<Longrightarrow> R s t"
  using tables_only [OF HOL.refl] refl by blast

text \<open>A body that fails is rolled back, so only its successful runs have to stay in the relation.\<close>

lemma runTx_successful:
  assumes "\<And>s x t. body s = (Inr x, t) \<Longrightarrow> R s t"
  shows "within R (runTx g body)"
proof (unfold within_def [of R "runTx g body"], intro allI)
  fix s
  obtain r s' where run: "runTx g body s = (r, s')"
    by (cases "runTx g body s")
  then show "R s (snd (runTx g body s))"
  proof (cases rule: runTx_cases)
    case (restored e)
    then show ?thesis
      using run same_tables by simp
  next
    case (committed x)
    from committed(1) have "R (startTx s) s'"
      by (rule assms)
    then show ?thesis
      using run tables_only [of "startTx s" s s' s'] by simp
  qed
qed

lemma execTx_successful: "(\<And>s x t. body s = (Inr x, t) \<Longrightarrow> R s t) \<Longrightarrow> within R (execTx body)"
  using runTx_successful unfolding within_def execTx_def by blast

lemma runTx: "within R body \<Longrightarrow> within R (runTx g body)"
  by (rule runTx_successful) (rule withinD)

lemma execTx: "within R body \<Longrightarrow> within R (execTx body)"
  using runTx unfolding within_def execTx_def by blast

lemma autocommit: "within R q \<Longrightarrow> within R (autocommit q)"
  unfolding autocommit_def by (rule runTx)

end

text \<open>Every table is kept, or grows, across a transaction whose body keeps it, or lets it grow.\<close>

definition tableField :: "(world \<Rightarrow> 'c) \<Rightarrow> bool" where
  "tableField f \<longleftrightarrow> (\<forall>s t. tablesOf s = tablesOf t \<longrightarrow> f s = f t)"

lemma tableFields [simp]:
  "tableField users" "tableField accounts" "tableField ledger_accounts"
  "tableField banking_transactions" "tableField ledger_postings" "tableField idempotency_keys"
  "tableField audit_logs" "tableField email_jobs" "tableField outbox_events"
  "tableField email_delivery_events" "tableField sessions" "tableField beneficiaries"
  unfolding tableField_def tablesOf_def by simp_all

lemma tableField_comp: "tableField f \<Longrightarrow> tableField g \<Longrightarrow> tableField (\<lambda>s. (f s, g s))"
  unfolding tableField_def by metis

lemma tableFieldD: "tableField f \<Longrightarrow> tablesOf s = tablesOf t \<Longrightarrow> f s = f t"
  unfolding tableField_def by blast

interpretation audit_growth: table_relation "\<lambda>s t. prefix (audit_logs s) (audit_logs t)"
  by unfold_locales (metis tableFields(7) tableFieldD)

interpretation posting_growth: table_relation "\<lambda>s t. prefix (ledger_postings s) (ledger_postings t)"
  by unfold_locales (metis tableFields(5) tableFieldD)

lemma kept_field: "tableField f \<Longrightarrow> table_relation (\<lambda>s t. f t = f s)"
  by unfold_locales (metis tableFieldD)

lemma tx_keeps [frame]:
  assumes "tableField f" "keeps f body"
  shows "keeps f (execTx body)" "keeps f (autocommit body)"
  using assms table_relation.execTx table_relation.autocommit kept_field
  unfolding keeps_def by blast+

lemma tx_appends [frame]:
  "appends audit_logs body \<Longrightarrow> appends audit_logs (execTx body)"
  "appends audit_logs body \<Longrightarrow> appends audit_logs (autocommit body)"
  "appends ledger_postings body \<Longrightarrow> appends ledger_postings (execTx body)"
  "appends ledger_postings body \<Longrightarrow> appends ledger_postings (autocommit body)"
  unfolding appends_def
  by (rule audit_growth.execTx audit_growth.autocommit posting_growth.execTx
      posting_growth.autocommit; assumption)+

text \<open>\<open>table_invariant P\<close>: a property of the tables; a transaction keeps it when its body does.\<close>

definition preserves :: "(world \<Rightarrow> bool) \<Rightarrow> 'a query \<Rightarrow> bool" where
  "preserves P m \<longleftrightarrow> (\<forall>s. P s \<longrightarrow> P (snd (m s)))"

text \<open>An implication from the state before to the state after is a \<open>step_order\<close>, so its rules apply.\<close>

lemma preserves_within: "within (\<lambda>s t. P s \<longrightarrow> P t) m \<longleftrightarrow> preserves P m"
  by (simp add: preserves_def within_def)

interpretation implied: step_order "\<lambda>s t. P s \<longrightarrow> P t" for P :: "world \<Rightarrow> bool"
  by unfold_locales auto

lemma preserves_rules:
  "preserves P (returnM x)" "preserves P (failM e)" "preserves P (readM f)"
  "preserves P m \<Longrightarrow> (\<And>x. preserves P (k x)) \<Longrightarrow> preserves P (bindM m k)"
  "preserves P k0 \<Longrightarrow> preserves P (failIf c e k0)"
  "preserves P m \<Longrightarrow> preserves P (tryM m)"
  "preserves P m0 \<Longrightarrow> preserves P (mapErrM h m0)"
  "(\<And>x. preserves P (l x)) \<Longrightarrow> preserves P (forM xs l)"
  "preserves P m1 \<Longrightarrow> preserves P m2 \<Longrightarrow> preserves P (if c then m1 else m2)"
  "preserves P n \<Longrightarrow> (\<And>x. preserves P (k1 x)) \<Longrightarrow> preserves P (case v of None \<Rightarrow> n | Some x \<Rightarrow> k1 x)"
  "(\<And>x y. preserves P (k2 x y)) \<Longrightarrow> preserves P (case p of (x, y) \<Rightarrow> k2 x y)"
  "(\<And>d. preserves P (k3 d)) \<Longrightarrow> (\<And>x. preserves P (k4 x)) \<Longrightarrow> preserves P (case r of Inl d \<Rightarrow> k3 d | Inr x \<Rightarrow> k4 x)"
  "preserves P n' \<Longrightarrow> (\<And>x zs. preserves P (k5 x zs)) \<Longrightarrow> preserves P (case ys of [] \<Rightarrow> n' | x # zs \<Rightarrow> k5 x zs)"
  unfolding preserves_within [symmetric] by (rule implied.rules; assumption)+

lemma preservesD: "preserves P m \<Longrightarrow> P s \<Longrightarrow> m s = (r, t) \<Longrightarrow> P t"
  unfolding preserves_def by (metis snd_conv)

lemma preservesI: "(\<And>s r t. m s = (r, t) \<Longrightarrow> P s \<Longrightarrow> P t) \<Longrightarrow> preserves P m"
  unfolding preserves_def by (metis prod.collapse)

lemma row_writes_preserve:
  "(\<And>s. \<forall>c\<in>set (checks s r). \<not> fst c \<Longrightarrow> P s \<Longrightarrow> P (upd (\<lambda>t. t @ [r]) s)) \<Longrightarrow> preserves P (insertRow checks upd r)"
  "(\<And>s. P s \<Longrightarrow> P (upd (map (\<lambda>x. if p x then f x else x)) s)) \<Longrightarrow> preserves P (updateRow none checks' tbl upd p f)"
  "(\<And>s. P s \<Longrightarrow> P (upd (map (\<lambda>x. if p x then f x else x)) s)) \<Longrightarrow> preserves P (updateMany rchecks tbl upd p f)"
  "(\<And>s. P s \<Longrightarrow> P (upd (filter (\<lambda>x. \<not> p x)) s)) \<Longrightarrow> preserves P (deleteWhere tbl upd p)"
  unfolding preserves_def insertRow_def updateRow_def updateMany_def deleteWhere_def
  by (auto split: option.split)

locale table_invariant =
  fixes P :: "world \<Rightarrow> bool"
  assumes tables_only: "tablesOf s = tablesOf t \<Longrightarrow> P s \<longleftrightarrow> P t"
begin

lemma keeps_preserves: "keeps tablesOf m \<Longrightarrow> preserves P m"
  unfolding preserves_def keeps_def within_def using tables_only by metis

lemma runTx:
  assumes "\<And>s x t. body s = (Inr x, t) \<Longrightarrow> P s \<Longrightarrow> P t"
  shows "preserves P (runTx g body)"
  unfolding preserves_def
proof (intro allI impI)
  fix s
  assume "P s"
  obtain r t where run: "runTx g body s = (r, t)"
    by (cases "runTx g body s")
  then have "P t"
  proof (cases rule: runTx_cases)
    case (restored e)
    then show ?thesis using \<open>P s\<close> tables_only by blast
  next
    case (committed x)
    moreover have "P (startTx s)"
      using \<open>P s\<close> tables_only [of "startTx s" s] by simp
    ultimately show ?thesis using assms by blast
  qed
  then show "P (snd (runTx g body s))"
    by (simp add: run)
qed

lemma execTx: "(\<And>s x t. body s = (Inr x, t) \<Longrightarrow> P s \<Longrightarrow> P t) \<Longrightarrow> preserves P (execTx body)"
  using runTx unfolding preserves_def execTx_def by blast

lemma autocommit: "(\<And>s x t. q s = (Inr x, t) \<Longrightarrow> P s \<Longrightarrow> P t) \<Longrightarrow> preserves P (autocommit q)"
  unfolding autocommit_def by (rule runTx)

lemmas rules = preserves_rules [where P = P]
lemmas bindM = rules(4)
lemmas failIf = rules(5)

end

text \<open>What an invariant is before a step implies what it is after: a relation between tables.\<close>

sublocale table_invariant \<subseteq> implies: table_relation "\<lambda>s t. P s \<longrightarrow> P t"
  by unfold_locales (use tables_only in blast)

end
