(* ===== verification/Financial.thy ===== *)
theory Financial
  imports Store
begin

text \<open>
  Audit records and notifications of the financial operations: \<open>db/sqlc/financial_audit.go\<close> and
  \<open>financial_notification.go\<close>. A notification is an email job together with its outbox event, written
  in the transaction of the operation it reports.
\<close>

section \<open>Audit records\<close>

record financialAuditParams =
  fa_EntityType :: string
  fa_EntityID :: "uuid option"
  fa_CorrelationID :: "uuid option"
  fa_EventType :: string
  fa_Actor :: string
  fa_FromState :: string
  fa_ToState :: string
  fa_Message :: string
  fa_Metadata :: "(string \<times> json) list option"

definition zeroAuditParams :: financialAuditParams where
  \<comment> \<open>The zero value: fields a Go literal leaves out\<close>
  "zeroAuditParams =
     \<lparr>fa_EntityType = '''', fa_EntityID = None, fa_CorrelationID = None, fa_EventType = '''',
      fa_Actor = '''', fa_FromState = '''', fa_ToState = '''', fa_Message = '''', fa_Metadata = None\<rparr>"

definition createFinancialAudit :: "financialAuditParams \<Rightarrow> AuditLog query" where
  "createFinancialAudit arg =
     CreateAuditLog (fa_EntityType arg) (fa_EntityID arg) (fa_CorrelationID arg) (fa_EventType arg)
       (fa_Actor arg) (textValue (fa_FromState arg)) (textValue (fa_ToState arg))
       (textValue (fa_Message arg))
       (JObj (case fa_Metadata arg of None \<Rightarrow> [] | Some kvs \<Rightarrow> kvs))"

definition newPGUUID :: "uuid option query" where
  "newPGUUID = bindM nextUUID (\<lambda>u. returnM (Some u))"

definition auditCorrelation :: "uuid option \<Rightarrow> uuid option query" where
  "auditCorrelation v = (case v of Some u \<Rightarrow> returnM (Some u) | None \<Rightarrow> newPGUUID)"

definition transactionAuditMetadata :: "BankingTransaction \<Rightarrow> (string \<times> json) list" where
  "transactionAuditMetadata t =
     [(''amount'', JInt (bt_amount t)), (''currency'', JStr (bt_currency t)),
      (''reference'', JStr (bt_reference t)), (''reversal_of'', JStr (uuidStringOrEmpty (bt_reversal_of t))),
      (''type'', JStr (bt_transaction_type t))]"

record LoginFailureAuditParams =
  lf_Username :: string
  lf_ClientIP :: string
  lf_UserAgent :: string
  lf_Reason :: string

definition RecordLoginFailure :: "LoginFailureAuditParams \<Rightarrow> unit query" where
  "RecordLoginFailure arg =
     bindM (auditCorrelation None) (\<lambda>correlationID.
     bindM (autocommit (createFinancialAudit (zeroAuditParams
       \<lparr>fa_EntityType := ''authentication_attempt'', fa_EntityID := correlationID,
        fa_CorrelationID := correlationID, fa_EventType := ''login_failed'',
        fa_Actor := (if lf_Username arg = '''' then ''anonymous'' else lf_Username arg),
        fa_ToState := ''rejected'', fa_Message := lf_Reason arg,
        fa_Metadata := Some [(''attempted_username'', JStr (lf_Username arg)),
          (''client_ip'', JStr (lf_ClientIP arg)), (''user_agent'', JStr (lf_UserAgent arg))]\<rparr>))) (\<lambda>_.
     returnM ()))"

section \<open>Notifications\<close>

definition EmailJobTypeFinancialNotification :: string where
  "EmailJobTypeFinancialNotification = ''financial_notification''"

definition DomainEventTransactionPosted :: string where
  "DomainEventTransactionPosted = ''transaction.posted''"

definition DomainEventTransactionFailed :: string where
  "DomainEventTransactionFailed = ''transaction.failed''"

definition DomainEventTransactionReversed :: string where
  "DomainEventTransactionReversed = ''transaction.reversed''"

definition DomainEventAccountFrozen :: string where
  "DomainEventAccountFrozen = ''account.frozen''"

definition DomainEventAccountUnfrozen :: string where
  "DomainEventAccountUnfrozen = ''account.unfrozen''"

definition DomainEventAccountClosed :: string where
  "DomainEventAccountClosed = ''account.closed''"

definition DefaultEmailMaxAttempts :: int where
  "DefaultEmailMaxAttempts = 10"

record financialNotificationParams =
  fn_Username :: string
  fn_EventType :: string
  fn_EntityType :: string
  fn_EntityID :: "uuid option"
  fn_CorrelationID :: "uuid option"
  fn_Reference :: string
  fn_Amount :: int
  fn_Currency :: string
  fn_Direction :: string
  fn_OccurredAt :: time
  fn_AccountStatus :: string
  fn_Reason :: string

definition zeroNotificationParams :: financialNotificationParams where
  "zeroNotificationParams =
     \<lparr>fn_Username = '''', fn_EventType = '''', fn_EntityType = '''', fn_EntityID = None,
      fn_CorrelationID = None, fn_Reference = '''', fn_Amount = 0, fn_Currency = '''',
      fn_Direction = '''', fn_OccurredAt = goZeroTime, fn_AccountStatus = '''', fn_Reason = ''''\<rparr>"

definition rawUuidString :: "uuid option \<Rightarrow> string" where
  \<comment> \<open>\<open>uuidString\<close>: the bytes of the value, zero when it is not valid\<close>
  "rawUuidString v = uuidString (case v of None \<Rightarrow> 0 | Some u \<Rightarrow> u)"

definition omitEmpty :: "string \<Rightarrow> string \<Rightarrow> (string \<times> json) list" where
  "omitEmpty key v = (if v = '''' then [] else [(key, JStr v)])"

definition notificationPayload :: "uuid option \<Rightarrow> time \<Rightarrow> financialNotificationParams \<Rightarrow> json" where
  "notificationPayload eventID occurredAt arg = JObj
     ([(''event_id'', JStr (rawUuidString eventID)),
       (''correlation_id'', JStr (rawUuidString (fn_CorrelationID arg))),
       (''event_type'', JStr (fn_EventType arg))]
      @ omitEmpty ''reference'' (fn_Reference arg)
      @ (if fn_Amount arg = 0 then [] else [(''amount'', JInt (fn_Amount arg))])
      @ omitEmpty ''currency'' (fn_Currency arg)
      @ omitEmpty ''direction'' (fn_Direction arg)
      @ [(''occurred_at'', JTime occurredAt)]
      @ omitEmpty ''account_status'' (fn_AccountStatus arg)
      @ omitEmpty ''reason'' (fn_Reason arg))"

definition outboxEmailPayload :: "string \<Rightarrow> string \<Rightarrow> string \<Rightarrow> json" where
  "outboxEmailPayload jobID eventID correlationID = JObj
     ([(''job_id'', JStr jobID)] @ omitEmpty ''event_id'' eventID @ omitEmpty ''correlation_id'' correlationID)"

definition createFinancialNotification ::
  "financialNotificationParams \<Rightarrow> (EmailJob \<times> OutboxEvent) query" where
  "createFinancialNotification arg =
     bindM (GetUser (fn_Username arg)) (\<lambda>user.
     bindM newPGUUID (\<lambda>eventID.
     bindM newPGUUID (\<lambda>jobID.
     bindM (if fn_OccurredAt arg = goZeroTime then timeNow else returnM (fn_OccurredAt arg)) (\<lambda>occurredAt.
     bindM (CreateEmailJob jobID None EmailJobTypeFinancialNotification (us_username user)
              (us_email user) (notificationPayload eventID occurredAt arg) DefaultEmailMaxAttempts) (\<lambda>job.
     bindM (CreateOutboxEvent eventID jobID (fn_EventType arg)
              (outboxEmailPayload (rawUuidString jobID) (rawUuidString eventID)
                 (rawUuidString (fn_CorrelationID arg)))
              (fn_CorrelationID arg) (fn_EntityType arg) (fn_EntityID arg)) (\<lambda>event.
     returnM (job, event)))))))"

section \<open>Frames\<close>

text \<open>Neither writes anything outside the audit and email tables.\<close>

lemma financial_frame [frame]:
  assumes "unnoticed f"
  shows "keeps f (createFinancialAudit arg)" "keeps f newPGUUID" "keeps f (auditCorrelation v)"
    "keeps f (createFinancialNotification narg)"
  unfolding createFinancialAudit_def newPGUUID_def auditCorrelation_def createFinancialNotification_def
  by (intro frame email_writes_frame assms unnoticedD [OF assms])+

lemma RecordLoginFailure_frame:
  assumes "tableField f" "unnoticed f"
  shows "keeps f (RecordLoginFailure arg)"
  unfolding RecordLoginFailure_def by (intro frame assms)

text \<open>
  A notification leaves exactly one new job, pending and addressed to the user, and one new outbox
  event for it.
\<close>

lemma auditEmailJobInsert_keeps:
  "keeps email_jobs (auditEmailJobInsert j)" "keeps outbox_events (auditEmailJobInsert j)"
  "keeps email_jobs (auditOutboxInsert e)" "keeps outbox_events (auditOutboxInsert e)"
  unfolding auditEmailJobInsert_def auditOutboxInsert_def by (intro frame; simp)+

lemma CreateEmailJob_ok:
  assumes "CreateEmailJob jid pid jt n r pl ma s = (Inr job, s')"
  shows "email_jobs s' = email_jobs s @ [job]" "outbox_events s' = outbox_events s"
    "Some (ej_id job) = jid" "ej_username job = n" "ej_recipient job = r" "ej_payload job = pl"
    "ej_status job = ''pending''" "ej_job_type job = jt" "ej_attempt_count job = 0"
  using assms unfolding CreateEmailJob_def bindM_iff returnM_iff notNull_iff readM_iff insertRow_iff
  by (elim exE conjE, hypsubst, simp add: keepsD [OF auditEmailJobInsert_keeps(1)]
        keepsD [OF auditEmailJobInsert_keeps(2)])+

lemma CreateOutboxEvent_ok:
  assumes "CreateOutboxEvent eid ejid et pl cid ent entid s = (Inr ev, s')"
  shows "outbox_events s' = outbox_events s @ [ev]" "email_jobs s' = email_jobs s"
    "Some (ob_id ev) = eid" "Some (ob_email_job_id ev) = ejid" "ob_event_type ev = et"
    "Some (ob_correlation_id ev) = cid" "Some (ob_entity_id ev) = entid" "ob_status ev = ''pending''"
  using assms unfolding CreateOutboxEvent_def bindM_iff returnM_iff notNull_iff readM_iff insertRow_iff
  by (elim exE conjE, hypsubst, simp add: keepsD [OF auditEmailJobInsert_keeps(3)]
        keepsD [OF auditEmailJobInsert_keeps(4)])+

lemma createFinancialNotification_ok:
  assumes "createFinancialNotification arg s = (Inr (job, event), s')"
  shows "email_jobs s' = email_jobs s @ [job]" "outbox_events s' = outbox_events s @ [event]"
    "ob_email_job_id event = ej_id job" "ob_event_type event = fn_EventType arg"
    "ej_username job = fn_Username arg" "ej_status job = ''pending''"
    "Some (ob_correlation_id event) = fn_CorrelationID arg"
proof -
  obtain user eventID jobID occurredAt t0 t1 t2 t3 t4 pl pl' where
    steps: "GetUser (fn_Username arg) s = (Inr user, t0)"
      "newPGUUID t0 = (Inr eventID, t1)" "newPGUUID t1 = (Inr jobID, t2)"
      "(if fn_OccurredAt arg = goZeroTime then timeNow else returnM (fn_OccurredAt arg)) t2 = (Inr occurredAt, t3)"
      "CreateEmailJob jobID None EmailJobTypeFinancialNotification (us_username user) (us_email user) pl
         DefaultEmailMaxAttempts t3 = (Inr job, t4)"
      "CreateOutboxEvent eventID jobID (fn_EventType arg) pl' (fn_CorrelationID arg) (fn_EntityType arg)
         (fn_EntityID arg) t4 = (Inr event, s')"
    using assms unfolding createFinancialNotification_def bindM_iff returnM_iff by blast
  have "us_username user = fn_Username arg" "t0 = s"
    using steps(1) by (auto simp: GetUser_def runs dest: find_Some_iff2)
  moreover have "email_jobs t3 = email_jobs s" "outbox_events t3 = outbox_events s"
    using steps(2-4) \<open>t0 = s\<close> by (auto simp: newPGUUID_def runs split: if_splits)
  ultimately show "email_jobs s' = email_jobs s @ [job]" "outbox_events s' = outbox_events s @ [event]"
    "ob_email_job_id event = ej_id job" "ob_event_type event = fn_EventType arg"
    "ej_username job = fn_Username arg" "ej_status job = ''pending''"
    "Some (ob_correlation_id event) = fn_CorrelationID arg"
    using CreateEmailJob_ok [OF steps(5)] CreateOutboxEvent_ok [OF steps(6)] by auto
qed

end
