(* ===== verification/Snapshot.thy ===== *)
theory Snapshot
  imports Schema
begin

text \<open>
  The result of a transfer and its JSON snapshot, which \<open>IdempotentTransferTx\<close> stores with the key and
  reads back for a retry: \<open>encoding/json\<close> on \<open>TransferTxResult\<close> of \<open>db/sqlc/transaction_tx.go\<close> and on
  the row structs it contains. \<open>Replayed\<close> has the tag \<open>json:"-"\<close> and is not part of the document.
\<close>

record TransferTxResult =
  tr_Transaction :: BankingTransaction
  tr_Postings :: "LedgerPosting list"
  tr_FromAccount :: Account
  tr_ToAccount :: Account
  tr_Replayed :: bool

section \<open>Marshal\<close>

definition optTime :: "time option \<Rightarrow> json" where
  "optTime v = (case v of None \<Rightarrow> JNull | Some t \<Rightarrow> JTime t)"

definition optUuid :: "uuid option \<Rightarrow> json" where
  "optUuid v = (case v of None \<Rightarrow> JNull | Some u \<Rightarrow> JUuid u)"

definition marshalAccount :: "Account \<Rightarrow> json" where
  "marshalAccount a = JObj
     [(''id'', JInt (ac_id a)), (''owner'', JStr (ac_owner a)), (''balance'', JInt (ac_balance a)),
      (''currency'', JStr (ac_currency a)), (''created_at'', JTime (ac_created_at a)),
      (''public_id'', JUuid (ac_public_id a)), (''status'', JStr (ac_status a)),
      (''updated_at'', JTime (ac_updated_at a)), (''closed_at'', optTime (ac_closed_at a)),
      (''account_number'', JStr (ac_account_number a))]"

definition marshalTransaction :: "BankingTransaction \<Rightarrow> json" where
  "marshalTransaction t = JObj
     [(''id'', JUuid (bt_id t)), (''reference'', JStr (bt_reference t)),
      (''transaction_type'', JStr (bt_transaction_type t)), (''status'', JStr (bt_status t)),
      (''currency'', JStr (bt_currency t)), (''amount'', JInt (bt_amount t)),
      (''narration'', JStr (bt_narration t)), (''initiated_by'', JStr (bt_initiated_by t)),
      (''reversal_of'', optUuid (bt_reversal_of t)), (''created_at'', JTime (bt_created_at t)),
      (''posted_at'', optTime (bt_posted_at t)), (''failed_at'', optTime (bt_failed_at t)),
      (''reversed_at'', optTime (bt_reversed_at t))]"

definition marshalPosting :: "LedgerPosting \<Rightarrow> json" where
  "marshalPosting p = JObj
     [(''id'', JInt (lp_id p)), (''transaction_id'', JUuid (lp_transaction_id p)),
      (''ledger_account_id'', JInt (lp_ledger_account_id p)), (''amount'', JInt (lp_amount p)),
      (''created_at'', JTime (lp_created_at p))]"

definition marshalTransferResult :: "TransferTxResult \<Rightarrow> json" where
  "marshalTransferResult r = JObj
     [(''transaction'', marshalTransaction (tr_Transaction r)),
      (''postings'', JArr (map marshalPosting (tr_Postings r))),
      (''from_account'', marshalAccount (tr_FromAccount r)),
      (''to_account'', marshalAccount (tr_ToAccount r))]"

section \<open>Unmarshal\<close>

text \<open>
  A missing field and \<open>null\<close> leave the zero value, another JSON type is an error, and so is a number
  outside \<open>int64\<close>. (For columns that are never NULL the zero value stands for an invalid \<open>pgtype\<close>
  value; documents written by \<open>marshalTransferResult\<close> always have them.)
\<close>

definition jsonErr :: "error + 'a" where
  "jsonErr = Inl (GoErr ''json: cannot unmarshal value'')"

definition lookupField :: "json \<Rightarrow> string \<Rightarrow> json" where
  "lookupField doc key =
     (case doc of JObj kvs \<Rightarrow> (case map_of kvs key of None \<Rightarrow> JNull | Some v \<Rightarrow> v) | _ \<Rightarrow> JNull)"

definition getInt :: "json \<Rightarrow> error + int" where
  "getInt j = (case j of JNull \<Rightarrow> Inr 0 | JInt n \<Rightarrow> if in_int64 n then Inr n else jsonErr | _ \<Rightarrow> jsonErr)"

definition getStr :: "json \<Rightarrow> error + string" where
  "getStr j = (case j of JNull \<Rightarrow> Inr '''' | JStr t \<Rightarrow> Inr t | _ \<Rightarrow> jsonErr)"

definition getOptTime :: "json \<Rightarrow> error + time option" where
  "getOptTime j = (case j of JNull \<Rightarrow> Inr None | JTime t \<Rightarrow> Inr (Some t) | _ \<Rightarrow> jsonErr)"

definition getOptUuid :: "json \<Rightarrow> error + uuid option" where
  "getOptUuid j = (case j of JNull \<Rightarrow> Inr None | JUuid u \<Rightarrow> Inr (Some u) | _ \<Rightarrow> jsonErr)"

definition thenE :: "error + 'a \<Rightarrow> ('a \<Rightarrow> error + 'b) \<Rightarrow> error + 'b" where
  "thenE m k = (case m of Inl e \<Rightarrow> Inl e | Inr x \<Rightarrow> k x)"

definition orZeroTime :: "time option \<Rightarrow> time" where
  "orZeroTime v = (case v of None \<Rightarrow> goZeroTime | Some t \<Rightarrow> t)"

definition orZeroUuid :: "uuid option \<Rightarrow> uuid" where
  "orZeroUuid v = (case v of None \<Rightarrow> 0 | Some u \<Rightarrow> u)"

definition isObject :: "json \<Rightarrow> bool" where
  "isObject j = (case j of JObj _ \<Rightarrow> True | JNull \<Rightarrow> True | _ \<Rightarrow> False)"

definition unmarshalAccount :: "json \<Rightarrow> error + Account" where
  "unmarshalAccount j =
     (if \<not> isObject j then jsonErr else
      thenE (getInt (lookupField j ''id'')) (\<lambda>i.
      thenE (getStr (lookupField j ''owner'')) (\<lambda>owner.
      thenE (getInt (lookupField j ''balance'')) (\<lambda>balance.
      thenE (getStr (lookupField j ''currency'')) (\<lambda>currency.
      thenE (getOptTime (lookupField j ''created_at'')) (\<lambda>created.
      thenE (getOptUuid (lookupField j ''public_id'')) (\<lambda>public_id.
      thenE (getStr (lookupField j ''status'')) (\<lambda>status.
      thenE (getOptTime (lookupField j ''updated_at'')) (\<lambda>updated.
      thenE (getOptTime (lookupField j ''closed_at'')) (\<lambda>closed.
      thenE (getStr (lookupField j ''account_number'')) (\<lambda>number.
      Inr \<lparr>ac_id = i, ac_owner = owner, ac_balance = balance, ac_currency = currency,
           ac_created_at = orZeroTime created, ac_public_id = orZeroUuid public_id,
           ac_status = status, ac_updated_at = orZeroTime updated, ac_closed_at = closed,
           ac_account_number = number\<rparr>)))))))))))"

definition unmarshalTransaction :: "json \<Rightarrow> error + BankingTransaction" where
  "unmarshalTransaction j =
     (if \<not> isObject j then jsonErr else
      thenE (getOptUuid (lookupField j ''id'')) (\<lambda>i.
      thenE (getStr (lookupField j ''reference'')) (\<lambda>reference.
      thenE (getStr (lookupField j ''transaction_type'')) (\<lambda>ttype.
      thenE (getStr (lookupField j ''status'')) (\<lambda>status.
      thenE (getStr (lookupField j ''currency'')) (\<lambda>currency.
      thenE (getInt (lookupField j ''amount'')) (\<lambda>amount.
      thenE (getStr (lookupField j ''narration'')) (\<lambda>narration.
      thenE (getStr (lookupField j ''initiated_by'')) (\<lambda>initiated_by.
      thenE (getOptUuid (lookupField j ''reversal_of'')) (\<lambda>reversal_of.
      thenE (getOptTime (lookupField j ''created_at'')) (\<lambda>created.
      thenE (getOptTime (lookupField j ''posted_at'')) (\<lambda>posted.
      thenE (getOptTime (lookupField j ''failed_at'')) (\<lambda>failed.
      thenE (getOptTime (lookupField j ''reversed_at'')) (\<lambda>reversed.
      Inr \<lparr>bt_id = orZeroUuid i, bt_reference = reference, bt_transaction_type = ttype,
           bt_status = status, bt_currency = currency, bt_amount = amount, bt_narration = narration,
           bt_initiated_by = initiated_by, bt_reversal_of = reversal_of,
           bt_created_at = orZeroTime created, bt_posted_at = posted, bt_failed_at = failed,
           bt_reversed_at = reversed\<rparr>))))))))))))))"

definition unmarshalPosting :: "json \<Rightarrow> error + LedgerPosting" where
  "unmarshalPosting j =
     (if \<not> isObject j then jsonErr else
      thenE (getInt (lookupField j ''id'')) (\<lambda>i.
      thenE (getOptUuid (lookupField j ''transaction_id'')) (\<lambda>tid.
      thenE (getInt (lookupField j ''ledger_account_id'')) (\<lambda>lid.
      thenE (getInt (lookupField j ''amount'')) (\<lambda>amount.
      thenE (getOptTime (lookupField j ''created_at'')) (\<lambda>created.
      Inr \<lparr>lp_id = i, lp_transaction_id = orZeroUuid tid, lp_ledger_account_id = lid,
           lp_amount = amount, lp_created_at = orZeroTime created\<rparr>))))))"

fun unmarshalList :: "(json \<Rightarrow> error + 'a) \<Rightarrow> json list \<Rightarrow> error + 'a list" where
  "unmarshalList f [] = Inr []"
| "unmarshalList f (j # js) = thenE (f j) (\<lambda>x. thenE (unmarshalList f js) (\<lambda>xs. Inr (x # xs)))"

definition unmarshalTransferResult :: "json \<Rightarrow> error + TransferTxResult" where
  "unmarshalTransferResult j =
     (if \<not> isObject j then jsonErr else
      thenE (unmarshalTransaction (lookupField j ''transaction'')) (\<lambda>t.
      thenE (case lookupField j ''postings'' of
               JNull \<Rightarrow> Inr [] | JArr js \<Rightarrow> unmarshalList unmarshalPosting js | _ \<Rightarrow> jsonErr) (\<lambda>ps.
      thenE (unmarshalAccount (lookupField j ''from_account'')) (\<lambda>from.
      thenE (unmarshalAccount (lookupField j ''to_account'')) (\<lambda>to.
      Inr \<lparr>tr_Transaction = t, tr_Postings = ps, tr_FromAccount = from, tr_ToAccount = to,
           tr_Replayed = False\<rparr>)))))"

section \<open>The round trip\<close>

text \<open>The integers of the result are \<open>int64\<close> values.\<close>

definition resultInRange :: "TransferTxResult \<Rightarrow> bool" where
  "resultInRange r \<longleftrightarrow>
     in_int64 (bt_amount (tr_Transaction r)) \<and>
     list_all (\<lambda>p. in_int64 (lp_id p) \<and> in_int64 (lp_ledger_account_id p) \<and> in_int64 (lp_amount p))
       (tr_Postings r) \<and>
     list_all (\<lambda>a. in_int64 (ac_id a) \<and> in_int64 (ac_balance a)) [tr_FromAccount r, tr_ToAccount r]"

lemma thenE_Inr [simp]: "thenE (Inr x) k = k x"
  by (simp add: thenE_def)

lemma get_simps [simp]:
  "in_int64 n \<Longrightarrow> getInt (JInt n) = Inr n" "getStr (JStr c) = Inr c"
  "getOptTime (optTime v) = Inr v" "getOptTime (JTime t) = Inr (Some t)"
  "getOptUuid (optUuid u) = Inr u" "getOptUuid (JUuid w) = Inr (Some w)"
  "orZeroTime (Some t) = t" "orZeroUuid (Some w) = w"
  by (simp_all add: getInt_def getStr_def getOptTime_def getOptUuid_def optTime_def optUuid_def
      orZeroTime_def orZeroUuid_def split: option.splits)

lemma unmarshal_marshalAccount:
  "in_int64 (ac_id a) \<Longrightarrow> in_int64 (ac_balance a) \<Longrightarrow> unmarshalAccount (marshalAccount a) = Inr a"
  by (simp add: unmarshalAccount_def marshalAccount_def isObject_def lookupField_def)

lemma unmarshal_marshalTransaction:
  "in_int64 (bt_amount t) \<Longrightarrow> unmarshalTransaction (marshalTransaction t) = Inr t"
  by (simp add: unmarshalTransaction_def marshalTransaction_def isObject_def lookupField_def)

lemma unmarshal_marshalPosting:
  "in_int64 (lp_id p) \<Longrightarrow> in_int64 (lp_ledger_account_id p) \<Longrightarrow> in_int64 (lp_amount p) \<Longrightarrow>
     unmarshalPosting (marshalPosting p) = Inr p"
  by (simp add: unmarshalPosting_def marshalPosting_def isObject_def lookupField_def)

lemma unmarshalList_map:
  "list_all (\<lambda>x. f (g x) = Inr x) xs \<Longrightarrow> unmarshalList f (map g xs) = Inr xs"
  by (induction xs) simp_all

lemma unmarshal_marshal:
  assumes "resultInRange r"
  shows "unmarshalTransferResult (marshalTransferResult r) = Inr (r\<lparr>tr_Replayed := False\<rparr>)"
proof -
  have "unmarshalList unmarshalPosting (map marshalPosting (tr_Postings r)) = Inr (tr_Postings r)"
    using assms by (intro unmarshalList_map)
      (auto simp: resultInRange_def list_all_iff unmarshal_marshalPosting)
  moreover have "in_int64 (bt_amount (tr_Transaction r))" "in_int64 (ac_id (tr_FromAccount r))"
    "in_int64 (ac_balance (tr_FromAccount r))" "in_int64 (ac_id (tr_ToAccount r))"
    "in_int64 (ac_balance (tr_ToAccount r))"
    using assms by (simp_all add: resultInRange_def)
  ultimately show ?thesis
    by (simp add: unmarshalTransferResult_def marshalTransferResult_def isObject_def lookupField_def
        unmarshal_marshalTransaction unmarshal_marshalAccount)
qed

end
