(* ===== verification/Transfers.thy ===== *)
theory Transfers
  imports Financial Snapshot
begin

text \<open>
  Money movements: \<open>db/sqlc/transaction_tx.go\<close>. Transfers between customers (plain and idempotent),
  deposits and withdrawals against the settlement ledger, and the routine that writes a balanced
  transaction with its postings.
\<close>

section \<open>Constants and parameters\<close>

definition BankingTransactionTypeDeposit :: string where
  "BankingTransactionTypeDeposit = ''deposit''"

definition BankingTransactionTypeWithdrawal :: string where
  "BankingTransactionTypeWithdrawal = ''withdrawal''"

definition BankingTransactionTypeInternalTransfer :: string where
  "BankingTransactionTypeInternalTransfer = ''internal_transfer''"

definition BankingTransactionTypeReversal :: string where
  "BankingTransactionTypeReversal = ''reversal''"

definition BankingTransactionStatusPending :: string where
  "BankingTransactionStatusPending = ''pending''"

definition BankingTransactionStatusPosted :: string where
  "BankingTransactionStatusPosted = ''posted''"

definition BankingTransactionStatusReversed :: string where
  "BankingTransactionStatusReversed = ''reversed''"

definition IdempotencyOperationInternalTransfer :: string where
  "IdempotencyOperationInternalTransfer = ''internal_transfer''"

definition idempotencyResponseStatusCreated :: int where
  "idempotencyResponseStatusCreated = 201"

definition USDPerTransferLimit :: int where "USDPerTransferLimit = 1000000"
definition USDDailyLimit :: int where "USDDailyLimit = 2500000"
definition EURPerTransferLimit :: int where "EURPerTransferLimit = 1000000"
definition EURDailyLimit :: int where "EURDailyLimit = 2500000"

lemmas BankingTransaction_constants [simp] =
  BankingTransactionTypeDeposit_def BankingTransactionTypeWithdrawal_def
  BankingTransactionTypeInternalTransfer_def BankingTransactionTypeReversal_def
  BankingTransactionStatusPending_def BankingTransactionStatusPosted_def
  BankingTransactionStatusReversed_def

record TransferTxParams =
  tp_FromAccountPublicID :: "uuid option"
  tp_ToAccountNumber :: string
  tp_Amount :: int
  tp_Currency :: string
  tp_Username :: string
  tp_Narration :: string
  tp_CorrelationID :: "uuid option"

record IdempotentTransferTxParams =
  it_TransferTxParams :: TransferTxParams
  it_IdempotencyKey :: string
  it_RequestHash :: string

record DepositTxParams =
  dp_AccountPublicID :: "uuid option"
  dp_Amount :: int
  dp_Narration :: string
  dp_Actor :: string
  dp_CorrelationID :: "uuid option"

record WithdrawTxParams =
  wp_AccountPublicID :: "uuid option"
  wp_Amount :: int
  wp_Narration :: string
  wp_Actor :: string
  wp_CorrelationID :: "uuid option"

record MoneyMovementTxResult =
  mm_Transaction :: BankingTransaction
  mm_Postings :: "LedgerPosting list"
  mm_Account :: Account
  mm_AuditLog :: AuditLog

record pendingTransactionParams =
  pt_TransactionType :: string
  pt_Currency :: string
  pt_Amount :: int
  pt_Narration :: string
  pt_InitiatedBy :: string
  pt_ReversalOf :: "uuid option"

record postingParams =
  pp_LedgerAccountID :: int
  pp_Amount :: int

section \<open>Balanced transactions\<close>

definition newTransactionIdentity :: "(uuid option \<times> string) query" where
  "newTransactionIdentity =
     bindM nextUUID (\<lambda>u.
     returnM (Some u, ''TXN-'' @ toUpperASCII (removeDashes (uuidString u))))"

fun sumPostings :: "int \<Rightarrow> postingParams list \<Rightarrow> error + int" where
  \<comment> \<open>The loop that adds up the amounts and refuses a zero one\<close>
  "sumPostings acc [] = Inr acc"
| "sumPostings acc (p # ps) =
     (if pp_Amount p = 0 then Inl (GoErr ''posting amount cannot be zero'')
      else sumPostings (go_add acc (pp_Amount p)) ps)"

definition liftE :: "error + 'a \<Rightarrow> 'a query" where
  "liftE r = (case r of Inl e \<Rightarrow> failM e | Inr x \<Rightarrow> returnM x)"

definition createBalancedTransaction ::
  "pendingTransactionParams \<Rightarrow> postingParams list \<Rightarrow> (BankingTransaction \<times> LedgerPosting list) query" where
  "createBalancedTransaction arg postings =
     failIf (pt_Amount arg \<le> 0) (GoErr ''amount must be positive'')
     (failIf (length postings < 2) (GoErr ''at least two postings are required'')
     (bindM (liftE (sumPostings 0 postings)) (\<lambda>total.
      failIf (total \<noteq> 0) (GoErr ''postings must balance to zero'')
     (bindM newTransactionIdentity (\<lambda>(tid, reference).
      bindM (CreateBankingTransaction tid reference (pt_TransactionType arg) (pt_Currency arg)
               (pt_Amount arg) (trimSpace (pt_Narration arg)) (pt_InitiatedBy arg) (pt_ReversalOf arg)) (\<lambda>transaction.
      bindM (forM postings (\<lambda>posting.
               CreateLedgerPosting (Some (bt_id transaction)) (pp_LedgerAccountID posting) (pp_Amount posting))) (\<lambda>created.
      returnM (transaction, created))))))))"

definition customerLedgerAccount :: "int \<Rightarrow> LedgerAccount query" where
  "customerLedgerAccount accountID = GetCustomerLedgerAccount (Some accountID)"

definition subtractAccountBalance :: "int \<Rightarrow> int \<Rightarrow> Account query" where
  "subtractAccountBalance accountID amount =
     mapErrM (errIfNoRows ErrInsufficientBalance) (AddAccountBalanceInternal (go_neg amount) accountID)"

section \<open>Transfers\<close>

definition transferLimits :: "string \<Rightarrow> error + int \<times> int" where
  "transferLimits currency =
     (if currency = ''USD'' then Inr (USDPerTransferLimit, USDDailyLimit)
      else if currency = ''EUR'' then Inr (EURPerTransferLimit, EURDailyLimit)
      else Inl ErrCurrencyMismatch)"

definition lockTransferAccounts :: "int \<Rightarrow> int \<Rightarrow> (Account \<times> Account) query" where
  "lockTransferAccounts fromAccountID toAccountID =
     (let (firstID, secondID) =
            (if fromAccountID > toAccountID then (toAccountID, fromAccountID)
             else (fromAccountID, toAccountID))
      in bindM (GetAccountForUpdate firstID) (\<lambda>first.
         bindM (GetAccountForUpdate secondID) (\<lambda>second.
         returnM (if ac_id first = fromAccountID then (first, second) else (second, first)))))"

definition loadAndLockTransferAccounts :: "uuid option \<Rightarrow> string \<Rightarrow> (Account \<times> Account) query" where
  "loadAndLockTransferAccounts fromPublicID toAccountNumber =
     bindM (mapErrM (errIfNoRows ErrAccountNotFound) (GetAccountByPublicID fromPublicID)) (\<lambda>fromAccount.
     bindM (mapErrM (errIfNoRows ErrRecipientNotFound) (GetAccountByAccountNumber toAccountNumber)) (\<lambda>toAccount.
     failIf (ac_id fromAccount = ac_id toAccount) ErrSameAccount
     (lockTransferAccounts (ac_id fromAccount) (ac_id toAccount))))"

definition transferNotification ::
  "TransferTxParams \<Rightarrow> BankingTransaction \<Rightarrow> string \<Rightarrow> string \<Rightarrow> financialNotificationParams" where
  "transferNotification arg t username direction = zeroNotificationParams
     \<lparr>fn_Username := username, fn_EventType := DomainEventTransactionPosted,
      fn_EntityType := ''banking_transaction'', fn_EntityID := Some (bt_id t),
      fn_CorrelationID := tp_CorrelationID arg, fn_Reference := bt_reference t,
      fn_Amount := bt_amount t, fn_Currency := bt_currency t, fn_Direction := direction,
      fn_OccurredAt := orZeroTime (bt_posted_at t)\<rparr>"

definition transferWithQueries :: "TransferTxParams \<Rightarrow> TransferTxResult query" where
  "transferWithQueries arg =
     bindM (loadAndLockTransferAccounts (tp_FromAccountPublicID arg) (tp_ToAccountNumber arg)) (\<lambda>(fromAccount, toAccount).
     failIf (ac_owner fromAccount \<noteq> tp_Username arg) ErrAccountNotOwned
     (failIf (ac_currency fromAccount \<noteq> tp_Currency arg \<or> ac_currency toAccount \<noteq> tp_Currency arg) ErrCurrencyMismatch
     (failIf (ac_status fromAccount = FinancialAccountStatusFrozen) ErrAccountFrozen
     (failIf (ac_status fromAccount = FinancialAccountStatusClosed
              \<or> ac_status toAccount = FinancialAccountStatusClosed) ErrAccountClosed
     (bindM (liftE (transferLimits (tp_Currency arg))) (\<lambda>(perTransferLimit, dailyLimit).
      failIf (tp_Amount arg > perTransferLimit) ErrPerTransferLimitExceeded
     (bindM (customerLedgerAccount (ac_id fromAccount)) (\<lambda>fromLedger.
      bindM (GetDailyOutgoingTransferTotal (la_id fromLedger)) (\<lambda>dailyTotal.
      failIf (dailyTotal > go_sub dailyLimit (tp_Amount arg)) ErrDailyTransferLimitExceeded
     (bindM (customerLedgerAccount (ac_id toAccount)) (\<lambda>toLedger.
      bindM (createBalancedTransaction
        \<lparr>pt_TransactionType = BankingTransactionTypeInternalTransfer, pt_Currency = tp_Currency arg,
         pt_Amount = tp_Amount arg, pt_Narration = tp_Narration arg,
         pt_InitiatedBy = tp_Username arg, pt_ReversalOf = None\<rparr>
        [\<lparr>pp_LedgerAccountID = la_id fromLedger, pp_Amount = go_neg (tp_Amount arg)\<rparr>,
         \<lparr>pp_LedgerAccountID = la_id toLedger, pp_Amount = tp_Amount arg\<rparr>]) (\<lambda>(transaction, postings).
      bindM (createFinancialAudit (zeroAuditParams
        \<lparr>fa_EntityType := ''banking_transaction'', fa_EntityID := Some (bt_id transaction),
         fa_CorrelationID := tp_CorrelationID arg, fa_EventType := ''transfer_created'',
         fa_Actor := tp_Username arg, fa_ToState := BankingTransactionStatusPending,
         fa_Metadata := Some (transactionAuditMetadata transaction)\<rparr>)) (\<lambda>_.
      bindM (subtractAccountBalance (ac_id fromAccount) (tp_Amount arg)) (\<lambda>resultFrom.
      bindM (AddAccountBalanceInternal (tp_Amount arg) (ac_id toAccount)) (\<lambda>resultTo.
      bindM (MarkBankingTransactionPosted (Some (bt_id transaction))) (\<lambda>posted.
      bindM (createFinancialAudit (zeroAuditParams
        \<lparr>fa_EntityType := ''banking_transaction'', fa_EntityID := Some (bt_id posted),
         fa_CorrelationID := tp_CorrelationID arg, fa_EventType := ''transfer_posted'',
         fa_Actor := tp_Username arg, fa_FromState := BankingTransactionStatusPending,
         fa_ToState := BankingTransactionStatusPosted,
         fa_Metadata := Some (transactionAuditMetadata posted)\<rparr>)) (\<lambda>_.
      bindM (forM [transferNotification arg posted (ac_owner resultFrom) ''outgoing'',
                   transferNotification arg posted (ac_owner resultTo) ''incoming'']
              createFinancialNotification) (\<lambda>_.
      returnM \<lparr>tr_Transaction = posted, tr_Postings = postings, tr_FromAccount = resultFrom,
               tr_ToAccount = resultTo, tr_Replayed = False\<rparr>))))))))))))))))))"

definition transferFailureEvent :: "error \<Rightarrow> string" where
  "transferFailureEvent e =
     (if errIs e ErrInsufficientBalance then ''transfer_rejected_insufficient_funds''
      else if errIs e ErrPerTransferLimitExceeded \<or> errIs e ErrDailyTransferLimitExceeded
      then ''transfer_rejected_limit''
      else ''transfer_failed'')"

definition transferNotificationFailureReason :: "error \<Rightarrow> string" where
  "transferNotificationFailureReason e =
     (if errIs e ErrInsufficientBalance then ''Insufficient funds''
      else if errIs e ErrPerTransferLimitExceeded \<or> errIs e ErrDailyTransferLimitExceeded
      then ''Transfer limit exceeded''
      else if errIs e ErrAccountFrozen then ''The sending account is frozen''
      else if errIs e ErrAccountClosed then ''An account involved in the transfer is closed''
      else ''The transfer could not be completed'')"

definition auditTransferFailure :: "TransferTxParams \<Rightarrow> error \<Rightarrow> error query" where
  \<comment> \<open>It returns the error the caller reports; it never fails itself.\<close>
  "auditTransferFailure arg transferErr =
     bindM (readM (\<lambda>s. errorText (driverText (envir s)) transferErr)) (\<lambda>message.
     bindM (tryM (execTx
       (bindM (createFinancialAudit (zeroAuditParams
          \<lparr>fa_EntityType := ''transfer_attempt'', fa_EntityID := tp_CorrelationID arg,
           fa_CorrelationID := tp_CorrelationID arg, fa_EventType := transferFailureEvent transferErr,
           fa_Actor := tp_Username arg, fa_ToState := ''rejected'', fa_Message := message,
           fa_Metadata := Some [(''amount'', JInt (tp_Amount arg)), (''currency'', JStr (tp_Currency arg)),
             (''from_account_id'', JStr (uuidStringOrEmpty (tp_FromAccountPublicID arg)))]\<rparr>)) (\<lambda>_.
        bindM timeNow (\<lambda>now.
        bindM (createFinancialNotification (zeroNotificationParams
          \<lparr>fn_Username := tp_Username arg, fn_EventType := DomainEventTransactionFailed,
           fn_EntityType := ''transfer_attempt'', fn_EntityID := tp_CorrelationID arg,
           fn_CorrelationID := tp_CorrelationID arg,
           fn_Reference := ''ATTEMPT-'' @ toUpperASCII (removeDashes (uuidStringOrEmpty (tp_CorrelationID arg))),
           fn_Amount := tp_Amount arg, fn_Currency := tp_Currency arg, fn_Direction := ''outgoing'',
           fn_OccurredAt := now, fn_Reason := transferNotificationFailureReason transferErr\<rparr>)) (\<lambda>_.
        returnM ())))))) (\<lambda>audit.
     returnM (case audit of
        Inr _ \<Rightarrow> transferErr
      | Inl auditErr \<Rightarrow> JoinErr transferErr (WrapErr ''record transfer failure audit'' auditErr))))"

definition orAudit :: "'a query \<Rightarrow> (error \<Rightarrow> error query) \<Rightarrow> 'a query" where
  \<comment> \<open>\<open>if err != nil { return zero, store.audit...(ctx, ..., err) }; return result, nil\<close>\<close>
  "orAudit body audit =
     bindM (tryM body) (\<lambda>r.
     case r of
       Inr x \<Rightarrow> returnM x
     | Inl e \<Rightarrow> bindM (audit e) failM)"

definition TransferTx :: "TransferTxParams \<Rightarrow> TransferTxResult query" where
  "TransferTx arg0 =
     bindM (auditCorrelation (tp_CorrelationID arg0)) (\<lambda>correlationID.
     let arg = arg0\<lparr>tp_CorrelationID := correlationID\<rparr>
     in orAudit (execTx (transferWithQueries arg)) (auditTransferFailure arg))"

definition replayIdempotentTransfer :: "IdempotentTransferTxParams \<Rightarrow> TransferTxResult query" where
  \<comment> \<open>The branch taken when the key is already there\<close>
  "replayIdempotentTransfer arg =
     bindM (GetIdempotencyKeyForUpdate (tp_Username (it_TransferTxParams arg))
              IdempotencyOperationInternalTransfer (it_IdempotencyKey arg)) (\<lambda>existing.
     failIf (ik_request_hash existing \<noteq> it_RequestHash arg) ErrIdempotencyConflict
     (case (ik_transaction_id existing, ik_result_snapshot existing) of
        (Some tid, Some snapshot) \<Rightarrow>
          (case unmarshalTransferResult snapshot of
             Inl e \<Rightarrow> failM (WrapErr ''decode idempotency result'' e)
           | Inr r \<Rightarrow> returnM (r\<lparr>tr_Replayed := True\<rparr>))
      | _ \<Rightarrow> failM (GoErr ''incomplete idempotency record'')))"

definition idempotentTransferBody :: "IdempotentTransferTxParams \<Rightarrow> TransferTxResult query" where
  "idempotentTransferBody arg =
     (let tp = it_TransferTxParams arg; username = tp_Username tp; key = it_IdempotencyKey arg;
          operation = IdempotencyOperationInternalTransfer
      in bindM (DeleteExpiredIdempotencyKey username operation key) (\<lambda>_.
         bindM (tryM (CreateIdempotencyKey username operation key (it_RequestHash arg))) (\<lambda>created.
         case created of
           Inl e \<Rightarrow> if errIs e ErrNoRows then replayIdempotentTransfer arg else failM e
         | Inr _ \<Rightarrow>
             bindM (transferWithQueries tp) (\<lambda>result.
             bindM (CompleteIdempotencyKey username operation key (Some (bt_id (tr_Transaction result)))
                      (Some idempotencyResponseStatusCreated) (Some (marshalTransferResult result))) (\<lambda>_.
             returnM result)))))"

definition IdempotentTransferTx :: "IdempotentTransferTxParams \<Rightarrow> TransferTxResult query" where
  "IdempotentTransferTx arg0 =
     failIf (it_IdempotencyKey arg0 = '''' \<or> 128 < length (it_IdempotencyKey arg0)
             \<or> length (it_RequestHash arg0) \<noteq> 32) ErrInvalidIdempotencyKey
     (bindM (auditCorrelation (tp_CorrelationID (it_TransferTxParams arg0))) (\<lambda>correlationID.
      let tp = (it_TransferTxParams arg0)\<lparr>tp_CorrelationID := correlationID\<rparr>;
          arg = arg0\<lparr>it_TransferTxParams := tp\<rparr>
      in orAudit (execTx (idempotentTransferBody arg)) (auditTransferFailure tp)))"

section \<open>Deposits and withdrawals\<close>

definition settlementBody ::
  "uuid option \<Rightarrow> int \<Rightarrow> string \<Rightarrow> string \<Rightarrow> string \<Rightarrow> uuid option \<Rightarrow> MoneyMovementTxResult query" where
  "settlementBody accountPublicID amount narration transactionType actor correlationID =
     bindM (mapErrM (errIfNoRows ErrAccountNotFound) (GetAccountByPublicID accountPublicID)) (\<lambda>account0.
     bindM (GetAccountForUpdate (ac_id account0)) (\<lambda>account.
     failIf (ac_status account = FinancialAccountStatusClosed) ErrAccountClosed
     (failIf (transactionType = BankingTransactionTypeWithdrawal
              \<and> ac_status account = FinancialAccountStatusFrozen) ErrAccountFrozen
     (bindM (customerLedgerAccount (ac_id account)) (\<lambda>customerLedger.
      bindM (GetSettlementLedgerAccount (Some (ac_currency account))) (\<lambda>settlementLedger.
      bindM (createBalancedTransaction
        \<lparr>pt_TransactionType = transactionType, pt_Currency = ac_currency account, pt_Amount = amount,
         pt_Narration = narration, pt_InitiatedBy = actor, pt_ReversalOf = None\<rparr>
        (if transactionType = BankingTransactionTypeWithdrawal
         then [\<lparr>pp_LedgerAccountID = la_id settlementLedger, pp_Amount = amount\<rparr>,
               \<lparr>pp_LedgerAccountID = la_id customerLedger, pp_Amount = go_neg amount\<rparr>]
         else [\<lparr>pp_LedgerAccountID = la_id settlementLedger, pp_Amount = go_neg amount\<rparr>,
               \<lparr>pp_LedgerAccountID = la_id customerLedger, pp_Amount = amount\<rparr>])) (\<lambda>(transaction, createdPostings).
      bindM (createFinancialAudit (zeroAuditParams
        \<lparr>fa_EntityType := ''banking_transaction'', fa_EntityID := Some (bt_id transaction),
         fa_CorrelationID := correlationID, fa_EventType := ''operator_transaction_created'',
         fa_Actor := actor, fa_ToState := BankingTransactionStatusPending,
         fa_Metadata := Some (transactionAuditMetadata transaction)\<rparr>)) (\<lambda>_.
      bindM (if transactionType = BankingTransactionTypeWithdrawal
             then subtractAccountBalance (ac_id account) amount
             else AddAccountBalanceInternal amount (ac_id account)) (\<lambda>resultAccount.
      bindM (MarkBankingTransactionPosted (Some (bt_id transaction))) (\<lambda>posted.
      bindM (createFinancialAudit (zeroAuditParams
        \<lparr>fa_EntityType := ''banking_transaction'', fa_EntityID := Some (bt_id posted),
         fa_CorrelationID := correlationID, fa_EventType := ''operator_transaction_posted'',
         fa_Actor := actor, fa_FromState := BankingTransactionStatusPending,
         fa_ToState := BankingTransactionStatusPosted,
         fa_Metadata := Some (transactionAuditMetadata posted)\<rparr>)) (\<lambda>auditLog.
      bindM (createFinancialNotification (zeroNotificationParams
        \<lparr>fn_Username := ac_owner resultAccount, fn_EventType := DomainEventTransactionPosted,
         fn_EntityType := ''banking_transaction'', fn_EntityID := Some (bt_id posted),
         fn_CorrelationID := correlationID, fn_Reference := bt_reference posted,
         fn_Amount := bt_amount posted, fn_Currency := bt_currency posted,
         fn_Direction := (if transactionType = BankingTransactionTypeWithdrawal then ''outgoing'' else ''incoming''),
         fn_OccurredAt := orZeroTime (bt_posted_at posted)\<rparr>)) (\<lambda>_.
      returnM \<lparr>mm_Transaction = posted, mm_Postings = createdPostings, mm_Account = resultAccount,
               mm_AuditLog = auditLog\<rparr>))))))))))))"

definition settlementMovementTx ::
  "uuid option \<Rightarrow> int \<Rightarrow> string \<Rightarrow> string \<Rightarrow> string \<Rightarrow> uuid option \<Rightarrow> MoneyMovementTxResult query" where
  "settlementMovementTx accountPublicID amount narration transactionType actor0 correlationID0 =
     failIf (amount \<le> 0) (GoErr ''amount must be positive'')
     (bindM (auditCorrelation correlationID0) (\<lambda>correlationID.
      execTx (settlementBody accountPublicID amount narration transactionType
        (if actor0 = '''' then ''operator_cli'' else actor0) correlationID)))"

definition DepositTx :: "DepositTxParams \<Rightarrow> MoneyMovementTxResult query" where
  "DepositTx arg = settlementMovementTx (dp_AccountPublicID arg) (dp_Amount arg) (dp_Narration arg)
     BankingTransactionTypeDeposit (dp_Actor arg) (dp_CorrelationID arg)"

definition WithdrawTx :: "WithdrawTxParams \<Rightarrow> MoneyMovementTxResult query" where
  "WithdrawTx arg = settlementMovementTx (wp_AccountPublicID arg) (wp_Amount arg) (wp_Narration arg)
     BankingTransactionTypeWithdrawal (wp_Actor arg) (wp_CorrelationID arg)"

end
