(* ===== verification/Books.thy ===== *)
theory Books
  imports Store
begin

text \<open>
  The invariant of the double-entry books, on the four tables that hold money: accounts, ledger
  accounts, banking transactions and ledger postings. The lemmas of this theory are about table
  contents only: adding a balanced transaction, changing a status and opening an account keep the
  invariant. The theories of the operations show that they do nothing else to the books.
\<close>

section \<open>Definitions\<close>

definition ledgerTotal :: "LedgerPosting list \<Rightarrow> int \<Rightarrow> int" where
  "ledgerTotal ps lid = sum_list (map lp_amount (filter (\<lambda>p. lp_ledger_account_id p = lid) ps))"

definition settled :: "BankingTransaction \<Rightarrow> bool" where
  "settled t \<longleftrightarrow> bt_status t = ''posted'' \<or> bt_status t = ''reversed''"

definition txBalanced :: "LedgerAccount list \<Rightarrow> LedgerPosting list \<Rightarrow> BankingTransaction \<Rightarrow> bool" where
  "txBalanced ls ps t \<longleftrightarrow>
     (let qs = postingsOf (bt_id t) ps
      in 2 \<le> length qs \<and> sum_list (map lp_amount qs) = 0 \<and>
         sum_list (map (\<lambda>q. \<bar>lp_amount q\<bar>) qs) = 2 * bt_amount t \<and>
         (\<forall>q\<in>set qs. ledgerCurrency ls (lp_ledger_account_id q) = Some (bt_currency t)))"

definition ledgerFor :: "Account \<Rightarrow> LedgerAccount \<Rightarrow> bool" where
  "ledgerFor a l \<longleftrightarrow> la_customer_account_id l = Some (ac_id a)"

definition ledgerRowOk :: "LedgerAccount \<Rightarrow> bool" where
  "ledgerRowOk l \<longleftrightarrow> in_int64 (la_id l) \<and>
     (la_kind l = ''customer'' \<longleftrightarrow> la_customer_account_id l \<noteq> None) \<and>
     (la_kind l \<noteq> ''customer'' \<longrightarrow> la_code l = Some (''settlement:'' @ la_currency l))"

text \<open>
  A transaction has status \<open>reversed\<close> exactly when a reversal of it exists, at most one does, and a
  reversal is itself never reversed.
\<close>

definition reversalsOk :: "BankingTransaction list \<Rightarrow> bool" where
  "reversalsOk T \<longleftrightarrow>
     (\<forall>t\<in>set T. \<forall>u\<in>set T. bt_reversal_of t = bt_reversal_of u \<longrightarrow> bt_reversal_of t = None \<or> bt_id t = bt_id u) \<and>
     (\<forall>t\<in>set T. bt_status t = ''reversed'' \<longleftrightarrow> Some (bt_id t) \<in> bt_reversal_of ` set T) \<and>
     (\<forall>t\<in>set T. bt_transaction_type t = ''reversal'' \<longleftrightarrow> bt_reversal_of t \<noteq> None) \<and>
     (\<forall>t\<in>set T. bt_reversal_of t \<noteq> None \<longrightarrow> bt_status t \<noteq> ''reversed'' \<and> bt_reversal_of t \<in> (Some \<circ> bt_id) ` set T)"

definition booksOk ::
  "Account list \<Rightarrow> LedgerAccount list \<Rightarrow> BankingTransaction list \<Rightarrow> LedgerPosting list \<Rightarrow> bool" where
  "booksOk A L T P \<longleftrightarrow>
     distinct (map ac_id A) \<and> distinct (map la_id L) \<and> distinct (map bt_id T) \<and>
     (\<forall>a\<in>set A. accountRowOk a \<and> in_int64 (ac_balance a) \<and> in_int64 (ac_id a)) \<and>
     (\<forall>a\<in>set A. \<exists>l\<in>set L. ledgerFor a l \<and> la_currency l = ac_currency a \<and>
        ac_balance a = ledgerTotal P (la_id l)) \<and>
     (\<forall>l\<in>set L. ledgerRowOk l) \<and>
     (\<forall>l\<in>set L. \<forall>l'\<in>set L. la_customer_account_id l = la_customer_account_id l' \<longrightarrow>
        la_customer_account_id l = None \<or> l = l') \<and>
     (\<forall>l\<in>set L. la_customer_account_id l \<noteq> None \<longrightarrow> (\<exists>a\<in>set A. ledgerFor a l)) \<and>
     (\<forall>p\<in>set P. lp_transaction_id p \<in> bt_id ` set T \<and> lp_ledger_account_id p \<in> la_id ` set L) \<and>
     (\<forall>t\<in>set T. settled t \<and> txBalanced L P t \<and> 0 < bt_amount t \<and> in_int64 (bt_amount t)) \<and>
     reversalsOk T"

abbreviation books :: "world \<Rightarrow> bool" where
  "books s \<equiv> booksOk (accounts s) (ledger_accounts s) (banking_transactions s) (ledger_postings s)"

section \<open>Reading the invariant\<close>

lemma booksD:
  assumes "booksOk A L T P"
  shows "distinct (map ac_id A)" "distinct (map la_id L)" "distinct (map bt_id T)"
    and "a \<in> set A \<Longrightarrow> accountRowOk a" "a \<in> set A \<Longrightarrow> in_int64 (ac_balance a)"
    and "a \<in> set A \<Longrightarrow> in_int64 (ac_id a)"
    and "l \<in> set L \<Longrightarrow> ledgerRowOk l"
    and "l \<in> set L \<Longrightarrow> la_kind l = ''customer'' \<longleftrightarrow> la_customer_account_id l \<noteq> None"
    and "p \<in> set P \<Longrightarrow> lp_transaction_id p \<in> bt_id ` set T"
    and "p \<in> set P \<Longrightarrow> lp_ledger_account_id p \<in> la_id ` set L"
    and "t \<in> set T \<Longrightarrow> settled t" "t \<in> set T \<Longrightarrow> txBalanced L P t"
    and "t \<in> set T \<Longrightarrow> 0 < bt_amount t" "t \<in> set T \<Longrightarrow> in_int64 (bt_amount t)"
    and "reversalsOk T"
  using assms by (auto simp: booksOk_def ledgerRowOk_def)

lemma books_ledger:
  assumes "booksOk A L T P" "a \<in> set A"
  obtains l where "l \<in> set L" "ledgerFor a l" "la_currency l = ac_currency a"
    "ac_balance a = ledgerTotal P (la_id l)"
  using assms unfolding booksOk_def by metis

lemma books_ledger_unique:
  "booksOk A L T P \<Longrightarrow> l \<in> set L \<Longrightarrow> l' \<in> set L \<Longrightarrow> ledgerFor a l \<Longrightarrow> ledgerFor a l' \<Longrightarrow> l = l'"
  unfolding booksOk_def ledgerFor_def by (metis option.distinct(1))

lemma books_account_of_ledger:
  assumes "booksOk A L T P" "l \<in> set L" "la_customer_account_id l = Some c"
  obtains a where "a \<in> set A" "ac_id a = c" "ledgerFor a l"
proof -
  obtain a where "a \<in> set A" "ledgerFor a l"
    using assms unfolding booksOk_def by (metis option.distinct(1))
  with assms(3) that show thesis
    by (auto simp: ledgerFor_def)
qed

lemma books_balance:
  assumes "booksOk A L T P" "a \<in> set A" "l \<in> set L" "ledgerFor a l"
  shows "ac_balance a = ledgerTotal P (la_id l)" and "la_currency l = ac_currency a"
  using assms books_ledger books_ledger_unique by metis+

lemma booksI:
  assumes "distinct (map ac_id A)" "distinct (map la_id L)" "distinct (map bt_id T)"
    and "\<And>a. a \<in> set A \<Longrightarrow> accountRowOk a \<and> in_int64 (ac_balance a) \<and> in_int64 (ac_id a)"
    and "\<And>a. a \<in> set A \<Longrightarrow> \<exists>l\<in>set L. ledgerFor a l \<and> la_currency l = ac_currency a \<and>
        ac_balance a = ledgerTotal P (la_id l)"
    and "\<And>l. l \<in> set L \<Longrightarrow> ledgerRowOk l"
    and "\<And>l l'. l \<in> set L \<Longrightarrow> l' \<in> set L \<Longrightarrow> la_customer_account_id l = la_customer_account_id l' \<Longrightarrow>
        la_customer_account_id l = None \<or> l = l'"
    and "\<And>l. l \<in> set L \<Longrightarrow> la_customer_account_id l \<noteq> None \<Longrightarrow> \<exists>a\<in>set A. ledgerFor a l"
    and "\<And>p. p \<in> set P \<Longrightarrow> lp_transaction_id p \<in> bt_id ` set T \<and> lp_ledger_account_id p \<in> la_id ` set L"
    and "\<And>t. t \<in> set T \<Longrightarrow> settled t \<and> txBalanced L P t \<and> 0 < bt_amount t \<and> in_int64 (bt_amount t)"
    and "reversalsOk T"
  shows "booksOk A L T P"
  unfolding booksOk_def using assms by (intro conjI ballI impI) simp_all

section \<open>Postings\<close>

lemma ledgerTotal_simps [simp]:
  "ledgerTotal [] lid = 0"
  "ledgerTotal (p # ps) lid = (if lp_ledger_account_id p = lid then lp_amount p else 0) + ledgerTotal ps lid"
  "ledgerTotal (ps @ qs) lid = ledgerTotal ps lid + ledgerTotal qs lid"
  by (simp_all add: ledgerTotal_def)

lemma postingsOf_append [simp]: "postingsOf tid (ps @ qs) = postingsOf tid ps @ postingsOf tid qs"
  by (simp add: postingsOf_def)

lemma postingsOf_none: "tid \<notin> lp_transaction_id ` set ps \<Longrightarrow> postingsOf tid ps = []"
  by (auto simp: postingsOf_def filter_empty_conv)

lemma postingsOf_all: "\<forall>q\<in>set qs. lp_transaction_id q = tid \<Longrightarrow> postingsOf tid qs = qs"
  by (simp add: postingsOf_def)

lemma txBalanced_cong:
  "postingsOf (bt_id t') ps' = postingsOf (bt_id t) ps \<Longrightarrow> bt_amount t' = bt_amount t \<Longrightarrow>
   bt_currency t' = bt_currency t \<Longrightarrow> txBalanced ls ps' t' = txBalanced ls ps t"
  by (simp add: txBalanced_def)

section \<open>Reversals\<close>

lemma reversalsI:
  assumes "\<And>t u. t \<in> set T \<Longrightarrow> u \<in> set T \<Longrightarrow> bt_reversal_of t = bt_reversal_of u \<Longrightarrow>
      bt_reversal_of t \<noteq> None \<Longrightarrow> bt_id t = bt_id u"
    and "\<And>t. t \<in> set T \<Longrightarrow> bt_status t = ''reversed'' \<longleftrightarrow> Some (bt_id t) \<in> bt_reversal_of ` set T"
    and "\<And>t. t \<in> set T \<Longrightarrow> bt_transaction_type t = ''reversal'' \<longleftrightarrow> bt_reversal_of t \<noteq> None"
    and "\<And>t. t \<in> set T \<Longrightarrow> bt_reversal_of t \<noteq> None \<Longrightarrow> bt_status t \<noteq> ''reversed'' \<and> bt_reversal_of t \<in> (Some \<circ> bt_id) ` set T"
  shows "reversalsOk T"
  unfolding reversalsOk_def
proof (intro conjI ballI impI)
  fix t u
  assume "t \<in> set T" "u \<in> set T" "bt_reversal_of t = bt_reversal_of u"
  then show "bt_reversal_of t = None \<or> bt_id t = bt_id u"
    using assms(1) by blast
qed (use assms(2-4) in blast)+

lemma reversalsD:
  assumes "reversalsOk T" "t \<in> set T"
  shows "u \<in> set T \<Longrightarrow> bt_reversal_of t = bt_reversal_of u \<Longrightarrow> bt_reversal_of t \<noteq> None \<Longrightarrow> bt_id t = bt_id u"
    and "bt_status t = ''reversed'' \<longleftrightarrow> Some (bt_id t) \<in> bt_reversal_of ` set T"
    and "bt_transaction_type t = ''reversal'' \<longleftrightarrow> bt_reversal_of t \<noteq> None"
    and "bt_reversal_of t \<noteq> None \<Longrightarrow> bt_status t \<noteq> ''reversed''"
    and "bt_reversal_of t \<noteq> None \<Longrightarrow> bt_reversal_of t \<in> (Some \<circ> bt_id) ` set T"
  using assms unfolding reversalsOk_def by blast+

lemma fresh_not_reversed:
  assumes "reversalsOk T" "i \<notin> bt_id ` set T"
  shows "Some i \<notin> bt_reversal_of ` set T"
proof
  assume "Some i \<in> bt_reversal_of ` set T"
  then obtain t where t: "t \<in> set T" "bt_reversal_of t = Some i"
    by (metis imageE)
  then have "Some i \<in> (Some \<circ> bt_id) ` set T"
    using reversalsD(5) [OF assms(1) t(1)] by simp
  with assms(2) show False
    by (simp add: image_iff)
qed

lemma plain_keeps_reversals:
  assumes ok: "reversalsOk T" and t: "bt_reversal_of t = None" "bt_status t \<noteq> ''reversed''"
    "bt_transaction_type t \<noteq> ''reversal''" "bt_id t \<notin> bt_id ` set T"
  shows "reversalsOk (map (\<lambda>u. u) T @ [t])"
proof -
  have revs: "bt_reversal_of ` set (T @ [t]) = insert None (bt_reversal_of ` set T)"
    using t(1) by simp
  have "reversalsOk (T @ [t])"
  proof (rule reversalsI, goal_cases)
    case (1 x y)
    then show ?case using reversalsD(1) [OF ok] t(1) by (metis UnE empty_iff empty_set set_ConsD set_append)
  next
    case (2 x)
    then show ?case
      using reversalsD(2) [OF ok] t fresh_not_reversed [OF ok t(4)] unfolding revs by (cases "x = t") simp_all
  next
    case (3 x)
    then show ?case using reversalsD(3) [OF ok] t by (cases "x = t") simp_all
  next
    case (4 x)
    then have "x \<in> set T" using t(1) by (cases "x = t") simp_all
    then show ?case using reversalsD(4,5) [OF ok _ 4(2)] by simp
  qed
  then show ?thesis by simp
qed

lemma reversal_keeps_reversals:
  assumes ok: "reversalsOk T" and ids: "distinct (map bt_id T)" and t: "t \<in> set T" "bt_transaction_type t \<noteq> ''reversal''"
    and u: "bt_reversal_of u = Some (bt_id t)" "bt_status u \<noteq> ''reversed''" "bt_transaction_type u = ''reversal''"
      "bt_id u \<notin> bt_id ` set T" "Some (bt_id t) \<notin> bt_reversal_of ` set T"
    and g: "\<And>x. bt_id (g x) = bt_id x" "\<And>x. bt_reversal_of (g x) = bt_reversal_of x"
      "\<And>x. bt_transaction_type (g x) = bt_transaction_type x"
      "\<And>x. bt_status (g x) = (if bt_id x = bt_id t then ''reversed'' else bt_status x)"
  shows "reversalsOk (map g T @ [u])"
proof -
  have tn: "bt_reversal_of t = None"
    using reversalsD(3) [OF ok t(1)] t(2) by blast
  have same: "x = t" if "x \<in> set T" "bt_id x = bt_id t" for x
    using find_key_inject [OF ids that(1) t(1) that(2)] .
  have revs: "bt_reversal_of ` set (map g T @ [u]) = insert (Some (bt_id t)) (bt_reversal_of ` set T)"
    using u(1) by (simp add: image_image g)
  have idset: "(Some \<circ> bt_id) ` set (map g T @ [u]) = insert (Some (bt_id u)) ((Some \<circ> bt_id) ` set T)"
    by (simp add: image_image g)
  have mem: "x = u \<or> (\<exists>y\<in>set T. x = g y)" if "x \<in> set (map g T @ [u])" for x
    using that by auto
  show ?thesis
  proof (rule reversalsI, unfold revs idset, goal_cases)
    case (1 x y)
    have nu: "bt_reversal_of z \<noteq> bt_reversal_of u" if "z \<in> set T" for z
      using u(1,5) that by (metis imageI)
    from 1 mem [OF 1(1)] mem [OF 1(2)] show ?case
      using nu reversalsD(1) [OF ok] by (metis g(1,2))
  next
    case (2 x)
    from mem [OF 2] show ?case
    proof (elim disjE bexE)
      assume "x = u"
      moreover have "bt_id u \<noteq> bt_id t" using u(4) t(1) by (metis imageI)
      ultimately show ?case using fresh_not_reversed [OF ok u(4)] u(2) by simp
    next
      fix y assume "y \<in> set T" "x = g y"
      then show ?case using reversalsD(2) [OF ok] by (simp add: g)
    qed
  next
    case (3 x)
    from mem [OF 3] show ?case
      using reversalsD(3) [OF ok] u(1,3) by (elim disjE bexE) (simp_all add: g)
  next
    case (4 x)
    from mem [OF 4(1)] show ?case
    proof (elim disjE bexE)
      assume "x = u"
      then show ?case using u(1,2) t(1) by simp
    next
      fix y assume y: "y \<in> set T" "x = g y"
      then have ry: "bt_reversal_of y \<noteq> None" using 4(2) by (simp add: g)
      then have "bt_id y \<noteq> bt_id t" using same [OF y(1)] tn by metis
      then show ?case
        using y reversalsD(4,5) [OF ok y(1) ry] by (simp add: g)
    qed
  qed
qed

section \<open>What keeps the books\<close>

text \<open>
  Posting: a new settled transaction with its postings, every customer balance moved by the postings
  of its ledger account, and possibly an older transaction changed from posted to reversed.
\<close>

lemma post_keeps_books:
  assumes ok: "booksOk A L T P"
    and new: "bt_id t \<notin> bt_id ` set T" "settled t" "0 < bt_amount t" "in_int64 (bt_amount t)"
    and qs: "\<forall>q\<in>set qs. lp_transaction_id q = bt_id t \<and> lp_ledger_account_id q \<in> la_id ` set L"
      "txBalanced L qs t"
    and g: "\<forall>u\<in>set T. bt_id (g u) = bt_id u \<and> bt_amount (g u) = bt_amount u \<and>
              bt_currency (g u) = bt_currency u \<and> settled (g u)"
    and revs: "reversalsOk (map g T @ [t])"
    and adj: "\<forall>a\<in>set A. ac_id (adj a) = ac_id a \<and> ac_currency (adj a) = ac_currency a \<and>
              accountRowOk (adj a) \<and> in_int64 (ac_balance (adj a))"
    and bal: "\<forall>a\<in>set A. \<forall>l\<in>set L. ledgerFor a l \<longrightarrow>
              ac_balance (adj a) = ac_balance a + ledgerTotal qs (la_id l)"
  shows "booksOk (map adj A) L (map g T @ [t]) (P @ qs)"
proof (rule booksI)
  note D = booksD [OF ok]
  have ids: "map ac_id (map adj A) = map ac_id A" "map bt_id (map g T) = map bt_id T"
    using adj g by (auto intro: map_cong)
  show "distinct (map ac_id (map adj A))" "distinct (map la_id L)"
    using D(1,2) ids(1) by metis+
  have Tids: "map bt_id (map g T @ [t]) = map bt_id T @ [bt_id t]"
    by (simp only: map_append ids(2) list.map)
  show "distinct (map bt_id (map g T @ [t]))"
    using D(3) new(1) unfolding Tids by simp
  show "reversalsOk (map g T @ [t])"
    by (fact revs)
  show "accountRowOk a \<and> in_int64 (ac_balance a) \<and> in_int64 (ac_id a)" if "a \<in> set (map adj A)" for a
    using that adj D(6) by auto
  show "\<exists>l\<in>set L. ledgerFor a l \<and> la_currency l = ac_currency a \<and> ac_balance a = ledgerTotal (P @ qs) (la_id l)"
    if a: "a \<in> set (map adj A)" for a
  proof -
    from a obtain b where b: "b \<in> set A" "a = adj b"
      by auto
    obtain l where "l \<in> set L" "ledgerFor b l" "la_currency l = ac_currency b"
      "ac_balance b = ledgerTotal P (la_id l)"
      using books_ledger [OF ok b(1)] .
    then show ?thesis
      using b adj bal by (intro bexI [of _ l]) (auto simp: ledgerFor_def)
  qed
  show "ledgerRowOk l" if "l \<in> set L" for l
    using that D(7) by blast
  show "la_customer_account_id l = None \<or> l = l'"
    if "l \<in> set L" "l' \<in> set L" "la_customer_account_id l = la_customer_account_id l'" for l l'
    using that ok unfolding booksOk_def by metis
  show "\<exists>a\<in>set (map adj A). ledgerFor a l" if l: "l \<in> set L" "la_customer_account_id l \<noteq> None" for l
  proof -
    obtain a where "a \<in> set A" "ledgerFor a l"
      using l(2) books_account_of_ledger [OF ok l(1)] by (metis option.exhaust)
    then show ?thesis
      using adj by (intro bexI [of _ "adj a"]) (simp_all add: ledgerFor_def)
  qed
  have "bt_id ` set (map g T @ [t]) = insert (bt_id t) (bt_id ` set T)"
    unfolding set_map [symmetric] Tids by simp
  then show "lp_transaction_id p \<in> bt_id ` set (map g T @ [t]) \<and> lp_ledger_account_id p \<in> la_id ` set L"
    if "p \<in> set (P @ qs)" for p
    using that qs(1) D(9,10) by (metis UnE insert_iff set_append)
  show "settled u \<and> txBalanced L (P @ qs) u \<and> 0 < bt_amount u \<and> in_int64 (bt_amount u)"
    if u: "u \<in> set (map g T @ [t])" for u
  proof (cases "u = t")
    case True
    have "postingsOf (bt_id t) P = []"
      using D(9) new(1) by (intro postingsOf_none) auto
    then have "txBalanced L (P @ qs) t"
      using qs(2) by (simp add: txBalanced_cong [of t "P @ qs" t qs])
    with True new show ?thesis by simp
  next
    case False
    with u obtain v where v: "v \<in> set T" "u = g v"
      by auto
    then have "bt_id v \<noteq> bt_id t"
      using new(1) by (metis imageI)
    then have "postingsOf (bt_id v) qs = []"
      using qs(1) by (intro postingsOf_none) auto
    then have "txBalanced L (P @ qs) u = txBalanced L P v"
      using v g by (intro txBalanced_cong) auto
    then show ?thesis
      using v g D(12-14) by auto
  qed
qed

text \<open>A change of status: same keys, same balances.\<close>

lemma status_keeps_books:
  assumes ok: "booksOk A L T P"
    and adj: "\<forall>a\<in>set A. ac_id (adj a) = ac_id a \<and> ac_currency (adj a) = ac_currency a \<and>
              ac_balance (adj a) = ac_balance a \<and> accountRowOk (adj a)"
  shows "booksOk (map adj A) L T P"
proof (rule booksI)
  note D = booksD [OF ok]
  have "map ac_id (map adj A) = map ac_id A"
    using adj by auto
  then show "distinct (map ac_id (map adj A))" "distinct (map la_id L)" "distinct (map bt_id T)"
    using D(1-3) by metis+
  show "accountRowOk a \<and> in_int64 (ac_balance a) \<and> in_int64 (ac_id a)" if "a \<in> set (map adj A)" for a
    using that adj D(5,6) by auto
  show "\<exists>l\<in>set L. ledgerFor a l \<and> la_currency l = ac_currency a \<and> ac_balance a = ledgerTotal P (la_id l)"
    if "a \<in> set (map adj A)" for a
  proof -
    from that obtain b where b: "b \<in> set A" "a = adj b" by auto
    obtain l where "l \<in> set L" "ledgerFor b l" "la_currency l = ac_currency b"
      "ac_balance b = ledgerTotal P (la_id l)"
      using books_ledger [OF ok b(1)] .
    then show ?thesis
      using b adj by (intro bexI [of _ l]) (simp_all add: ledgerFor_def)
  qed
  show "\<exists>a\<in>set (map adj A). ledgerFor a l" if l: "l \<in> set L" "la_customer_account_id l \<noteq> None" for l
  proof -
    obtain a where "a \<in> set A" "ledgerFor a l"
      using l(2) books_account_of_ledger [OF ok l(1)] by (metis option.exhaust)
    then show ?thesis
      using adj by (intro bexI [of _ "adj a"]) (simp_all add: ledgerFor_def)
  qed
  show "la_customer_account_id l = None \<or> l = l'"
    if "l \<in> set L" "l' \<in> set L" "la_customer_account_id l = la_customer_account_id l'" for l l'
    using that ok unfolding booksOk_def by metis
qed (use booksD [OF ok] in blast)+

text \<open>Opening: a new account without money, together with its ledger account.\<close>

lemma open_keeps_books:
  assumes ok: "booksOk A L T P"
    and a: "ac_id a \<notin> ac_id ` set A" "accountRowOk a" "ac_balance a = 0" "in_int64 (ac_id a)"
    and l: "la_id l \<notin> la_id ` set L" "ledgerFor a l" "la_currency l = ac_currency a"
      "la_kind l = ''customer''" "in_int64 (la_id l)"
  shows "booksOk (A @ [a]) (L @ [l]) T P"
proof (rule booksI)
  note D = booksD [OF ok]
  have nopost: "ledgerTotal P (la_id l) = 0"
  proof -
    have "filter (\<lambda>p. lp_ledger_account_id p = la_id l) P = []"
      by (rule filter_False) (metis D(10) l(1))
    then show ?thesis by (simp add: ledgerTotal_def)
  qed
  show "reversalsOk T"
    by (fact D(15))
  show "distinct (map ac_id (A @ [a]))" "distinct (map la_id (L @ [l]))" "distinct (map bt_id T)"
    using D(1-3) a(1) l(1) by auto
  show "accountRowOk b \<and> in_int64 (ac_balance b) \<and> in_int64 (ac_id b)" if "b \<in> set (A @ [a])" for b
    using that D(4-6) a by (auto simp: in_int64_def)
  show "\<exists>l'\<in>set (L @ [l]). ledgerFor b l' \<and> la_currency l' = ac_currency b \<and>
      ac_balance b = ledgerTotal P (la_id l')" if "b \<in> set (A @ [a])" for b
  proof (cases "b \<in> set A")
    case True
    then show ?thesis using books_ledger [OF ok True] by (metis UnCI set_append)
  next
    case False
    then have "b = a" using that by simp
    then show ?thesis using l a nopost by auto
  qed
  show "ledgerRowOk k" if "k \<in> set (L @ [l])" for k
    using that D(7) l by (auto simp: ledgerFor_def ledgerRowOk_def)
  have fresh: "la_customer_account_id k \<noteq> la_customer_account_id l" if k: "k \<in> set L" for k
  proof
    assume "la_customer_account_id k = la_customer_account_id l"
    then have "la_customer_account_id k = Some (ac_id a)"
      using l(2) by (simp add: ledgerFor_def)
    then obtain b where "b \<in> set A" "ac_id b = ac_id a"
      using books_account_of_ledger [OF ok k] by blast
    with a(1) show False by (metis imageI)
  qed
  show "la_customer_account_id k = None \<or> k = k'"
    if "k \<in> set (L @ [l])" "k' \<in> set (L @ [l])" "la_customer_account_id k = la_customer_account_id k'" for k k'
    using that fresh ok unfolding booksOk_def by (metis Un_iff empty_iff empty_set set_ConsD set_append)
  show "\<exists>b\<in>set (A @ [a]). ledgerFor b k" if "k \<in> set (L @ [l])" "la_customer_account_id k \<noteq> None" for k
  proof (cases "k \<in> set L")
    case True
    with that(2) show ?thesis
      using ok unfolding booksOk_def by (metis UnCI set_append)
  next
    case False
    with that(1) l(2) show ?thesis by auto
  qed
  show "lp_transaction_id p \<in> bt_id ` set T \<and> lp_ledger_account_id p \<in> la_id ` set (L @ [l])"
    if "p \<in> set P" for p
    using that D(9,10) by auto
  show "settled t \<and> txBalanced (L @ [l]) P t \<and> 0 < bt_amount t \<and> in_int64 (bt_amount t)" if "t \<in> set T" for t
  proof -
    have "ledgerCurrency (L @ [l]) (lp_ledger_account_id q) = ledgerCurrency L (lp_ledger_account_id q)"
      if q: "q \<in> set P" for q
    proof -
      obtain k where "k \<in> set L" "la_id k = lp_ledger_account_id q"
        using D(10) [OF q] by (metis imageE)
      then have "find (\<lambda>k. la_id k = lp_ledger_account_id q) L \<noteq> None"
        by (auto simp: find_None_iff)
      then show ?thesis
        by (auto simp: ledgerCurrency_def find_append)
    qed
    then have "txBalanced (L @ [l]) P t = txBalanced L P t"
      by (auto simp: txBalanced_def postingsOf_def)
    then show ?thesis
      using that D(11-14) by simp
  qed
qed

text \<open>Two legs: the form of a transfer, a deposit and a withdrawal.\<close>

lemma ledgerCurrency_mem: "booksOk A L T P \<Longrightarrow> l \<in> set L \<Longrightarrow> ledgerCurrency L (la_id l) = Some (la_currency l)"
  using find_key [OF booksD(2)] by (fastforce simp: ledgerCurrency_def)

lemma ledger_iff_account:
  assumes "booksOk A L T P" "l \<in> set L" "l' \<in> set L" "ledgerFor a l" "ledgerFor b l'"
  shows "la_id l = la_id l' \<longleftrightarrow> ac_id a = ac_id b"
proof
  assume "la_id l = la_id l'"
  then have "l = l'"
    using find_key_inject [OF booksD(2) [OF assms(1)]] assms(2,3) by blast
  with assms(4,5) show "ac_id a = ac_id b"
    by (simp add: ledgerFor_def)
next
  assume "ac_id a = ac_id b"
  then have "ledgerFor b l" using assms(4) by (simp add: ledgerFor_def)
  then show "la_id l = la_id l'"
    using books_ledger_unique assms by metis
qed

lemma two_legs_balanced:
  assumes "booksOk A L T P" "l \<in> set L" "l' \<in> set L"
    "la_currency l = bt_currency t" "la_currency l' = bt_currency t"
    "lp_transaction_id p = bt_id t" "lp_transaction_id q = bt_id t"
    "lp_ledger_account_id p = la_id l" "lp_ledger_account_id q = la_id l'"
    "lp_amount p + lp_amount q = 0" "\<bar>lp_amount p\<bar> = bt_amount t"
  shows "txBalanced L [p, q] t"
  using assms ledgerCurrency_mem [OF assms(1)] by (auto simp: txBalanced_def postingsOf_def)

section \<open>Conservation\<close>

text \<open>
  In every currency the customers' balances and the totals of the settlement ledgers add up to zero:
  money enters and leaves the customers' accounts only through settlement.
\<close>

definition customerMoney :: "string \<Rightarrow> Account list \<Rightarrow> int" where
  "customerMoney c A = (\<Sum>a\<leftarrow>filter (\<lambda>a. ac_currency a = c) A. ac_balance a)"

definition settlementMoney :: "string \<Rightarrow> LedgerAccount list \<Rightarrow> LedgerPosting list \<Rightarrow> int" where
  "settlementMoney c L P =
     (\<Sum>l\<leftarrow>filter (\<lambda>l. la_kind l \<noteq> ''customer'' \<and> la_currency l = c) L. ledgerTotal P (la_id l))"

lemma sum_single:
  "distinct ks \<Longrightarrow> k \<in> set ks \<Longrightarrow> (\<Sum>j\<leftarrow>ks. if k = j then (x :: int) else 0) = x"
  by (simp add: sum_list_distinct_conv_sum_set)

lemma sum_partition:
  fixes f :: "'p \<Rightarrow> int"
  assumes "distinct ks" "\<forall>p\<in>set ps. key p \<in> set ks"
  shows "(\<Sum>p\<leftarrow>ps. f p) = (\<Sum>k\<leftarrow>ks. \<Sum>p\<leftarrow>filter (\<lambda>p. key p = k) ps. f p)"
  using assms(2)
proof (induction ps)
  case Nil
  then show ?case by (simp add: sum_list_0)
next
  case (Cons p ps)
  have "(\<Sum>k\<leftarrow>ks. \<Sum>q\<leftarrow>filter (\<lambda>q. key q = k) (p # ps). f q) =
        (\<Sum>k\<leftarrow>ks. (if key p = k then f p else 0) + (\<Sum>q\<leftarrow>filter (\<lambda>q. key q = k) ps. f q))"
    by (rule arg_cong [where f = sum_list], rule map_cong) simp_all
  also have "\<dots> = f p + (\<Sum>q\<leftarrow>ps. f q)"
    using Cons by (simp add: sum_list_addf sum_single [OF assms(1)])
  finally show ?case by simp
qed

lemma sum_zero: "(\<And>x. x \<in> set xs \<Longrightarrow> f x = (0 :: int)) \<Longrightarrow> (\<Sum>x\<leftarrow>xs. f x) = 0"
  by (induction xs) simp_all

lemma currency_total_zero:
  assumes ok: "booksOk A L T P"
  shows "(\<Sum>l\<leftarrow>filter (\<lambda>l. la_currency l = c) L. ledgerTotal P (la_id l)) = 0"
proof -
  note D = booksD [OF ok]
  let ?inC = "\<lambda>p. ledgerCurrency L (lp_ledger_account_id p) = Some c"
  let ?ks = "map la_id (filter (\<lambda>l. la_currency l = c) L)"
  have cur: "ledgerCurrency L (la_id l) = Some (la_currency l)" if "l \<in> set L" for l
  proof -
    have "find (\<lambda>k. la_id k = la_id l) L = Some l"
      using find_key [OF D(2)] that by metis
    then show ?thesis by (simp add: ledgerCurrency_def)
  qed
  have "distinct ?ks"
    using D(2) by (rule distinct_map_filter)
  moreover have "\<forall>p\<in>set (filter ?inC P). lp_ledger_account_id p \<in> set ?ks"
  proof
    fix p assume "p \<in> set (filter ?inC P)"
    then have p: "p \<in> set P" "?inC p" by auto
    obtain l where "l \<in> set L" "la_id l = lp_ledger_account_id p"
      using D(10) [OF p(1)] by (metis imageE)
    with p(2) cur [of l] show "lp_ledger_account_id p \<in> set ?ks"
      by (auto intro!: image_eqI [of _ _ l])
  qed
  ultimately have "(\<Sum>p\<leftarrow>filter ?inC P. lp_amount p) =
      (\<Sum>k\<leftarrow>?ks. \<Sum>p\<leftarrow>filter (\<lambda>p. lp_ledger_account_id p = k) (filter ?inC P). lp_amount p)"
    by (rule sum_partition)
  also have "\<dots> = (\<Sum>l\<leftarrow>filter (\<lambda>l. la_currency l = c) L. ledgerTotal P (la_id l))"
    by (simp add: ledgerTotal_def comp_def, rule arg_cong [where f = sum_list], rule map_cong)
      (auto simp: cur intro!: arg_cong [where f = "\<lambda>ps. sum_list (map lp_amount ps)"] filter_cong)
  finally have byLedger: "(\<Sum>p\<leftarrow>filter ?inC P. lp_amount p) =
      (\<Sum>l\<leftarrow>filter (\<lambda>l. la_currency l = c) L. ledgerTotal P (la_id l))" .
  have "(\<Sum>p\<leftarrow>filter ?inC P. lp_amount p) =
      (\<Sum>i\<leftarrow>map bt_id T. \<Sum>p\<leftarrow>filter (\<lambda>p. lp_transaction_id p = i) (filter ?inC P). lp_amount p)"
    using D(3) D(9) by (intro sum_partition) auto
  also have "\<dots> = 0"
  proof (rule sum_zero)
    fix i assume "i \<in> set (map bt_id T)"
    then obtain t where t: "t \<in> set T" "i = bt_id t" by auto
    have bal: "txBalanced L P t" using D(12) [OF t(1)] .
    have "filter (\<lambda>p. lp_transaction_id p = i) (filter ?inC P) = filter ?inC (postingsOf (bt_id t) P)"
      by (simp add: postingsOf_def conj_commute t(2))
    also have "\<dots> = (if bt_currency t = c then postingsOf (bt_id t) P else [])"
      using bal by (auto simp: txBalanced_def Let_def filter_empty_conv filter_id_conv)
    finally show "(\<Sum>p\<leftarrow>filter (\<lambda>p. lp_transaction_id p = i) (filter ?inC P). lp_amount p) = 0"
      using bal by (simp add: txBalanced_def Let_def)
  qed
  finally show ?thesis using byLedger by simp
qed

lemma distinct_keys: "distinct (map key xs) \<Longrightarrow> distinct xs"
  by (simp add: distinct_map)

text \<open>Accounts and customer ledgers of a currency correspond one to one.\<close>

lemma customer_money_in_ledgers:
  assumes ok: "booksOk A L T P"
  shows "customerMoney c A =
    (\<Sum>l\<leftarrow>filter (\<lambda>l. la_kind l = ''customer'' \<and> la_currency l = c) L. ledgerTotal P (la_id l))"
proof -
  note D = booksD [OF ok]
  let ?A = "set (filter (\<lambda>a. ac_currency a = c) A)"
  let ?L = "set (filter (\<lambda>l. la_kind l = ''customer'' \<and> la_currency l = c) L)"
  define ledger where "ledger a = (SOME l. l \<in> set L \<and> ledgerFor a l)" for a
  have ledger: "ledger a \<in> set L" "ledgerFor a (ledger a)" if "a \<in> set A" for a
    using someI_ex [of "\<lambda>l. l \<in> set L \<and> ledgerFor a l"] books_ledger [OF ok that]
    unfolding ledger_def by metis+
  have bij: "bij_betw ledger ?A ?L"
  proof (rule bij_betw_imageI)
    show "inj_on ledger ?A"
    proof (rule inj_onI)
      fix a b assume ab: "a \<in> ?A" "b \<in> ?A" "ledger a = ledger b"
      then have "ac_id a = ac_id b"
        using ledger(2) [of a] ledger(2) [of b] by (simp add: ledgerFor_def)
      then show "a = b"
        using find_key_inject [OF D(1)] ab by simp
    qed
    show "ledger ` ?A = ?L"
    proof (intro equalityI subsetI)
      fix l assume "l \<in> ledger ` ?A"
      then obtain a where a: "a \<in> set A" "ac_currency a = c" "l = ledger a" by auto
      then show "l \<in> ?L"
        using ledger [OF a(1)] books_balance(2) [OF ok a(1)] D(8) by (simp add: ledgerFor_def)
    next
      fix l assume l: "l \<in> ?L"
      then obtain i where "la_customer_account_id l = Some i"
        using D(8) by auto
      then obtain a where a: "a \<in> set A" "ledgerFor a l"
        using books_account_of_ledger [OF ok, of l i] l by auto
      then have "ledger a = l"
        using books_ledger_unique [OF ok ledger(1) _ ledger(2)] l by simp
      then show "l \<in> ledger ` ?A"
        using a l books_balance(2) [OF ok a(1) _ a(2)] by auto
    qed
  qed
  have "customerMoney c A = sum ac_balance ?A"
    unfolding customerMoney_def
    by (rule sum_list_distinct_conv_sum_set) (simp add: distinct_keys [OF D(1)])
  also have "\<dots> = sum (\<lambda>a. ledgerTotal P (la_id (ledger a))) ?A"
    using books_balance(1) [OF ok] ledger by (intro sum.cong) auto
  also have "\<dots> = sum (\<lambda>l. ledgerTotal P (la_id l)) ?L"
    by (rule sum.reindex_bij_betw [OF bij])
  also have "\<dots> = (\<Sum>l\<leftarrow>filter (\<lambda>l. la_kind l = ''customer'' \<and> la_currency l = c) L. ledgerTotal P (la_id l))"
    by (rule sum_list_distinct_conv_sum_set [symmetric]) (simp add: distinct_keys [OF D(2)])
  finally show ?thesis .
qed

lemma sum_filter_split:
  "(\<Sum>x\<leftarrow>filter p xs. f x) = (\<Sum>x\<leftarrow>filter (\<lambda>x. q x \<and> p x) xs. f x) + (\<Sum>x\<leftarrow>filter (\<lambda>x. \<not> q x \<and> p x) xs. (f x :: int))"
  by (induction xs) auto

theorem books_conserve_money:
  assumes "booksOk A L T P"
  shows "customerMoney c A + settlementMoney c L P = 0"
  using currency_total_zero [OF assms, of c] customer_money_in_ledgers [OF assms, of c]
    sum_filter_split [of "\<lambda>l. ledgerTotal P (la_id l)" "\<lambda>l. la_currency l = c" L "\<lambda>l. la_kind l = ''customer''"]
  by (simp add: settlementMoney_def)

end
