(* ===== verification/Effects.thy ===== *)
theory Effects
  imports Transfers Books
begin

text \<open>
  What the money-moving statements and routines do to the books when they succeed: balances, the
  transaction and its postings. These lemmas are what the preservation and behaviour proofs of the
  operations rest on.
\<close>

section \<open>Account balances\<close>

definition creditAccount :: "time \<Rightarrow> int \<Rightarrow> int \<Rightarrow> Account \<Rightarrow> Account" where
  "creditAccount now aid amount a =
     (if ac_id a = aid then a\<lparr>ac_balance := ac_balance a + amount, ac_updated_at := now\<rparr> else a)"

lemma creditAccount_simps [simp]:
  "ac_id (creditAccount now aid amount a) = ac_id a"
  "ac_owner (creditAccount now aid amount a) = ac_owner a"
  "ac_currency (creditAccount now aid amount a) = ac_currency a"
  "ac_public_id (creditAccount now aid amount a) = ac_public_id a"
  "ac_account_number (creditAccount now aid amount a) = ac_account_number a"
  "ac_status (creditAccount now aid amount a) = ac_status a"
  "ac_closed_at (creditAccount now aid amount a) = ac_closed_at a"
  "ac_balance (creditAccount now aid amount a) = (if ac_id a = aid then ac_balance a + amount else ac_balance a)"
  by (simp_all add: creditAccount_def)

lemma AddAccountBalanceInternal_ok:
  assumes run: "AddAccountBalanceInternal amount aid s = (Inr a', s')"
    and ids: "distinct (map ac_id (accounts s))"
  obtains a where "a \<in> set (accounts s)" "ac_id a = aid" "0 \<le> ac_balance a + amount"
    "in_int64 (ac_balance a + amount)" "a' = creditAccount (tx_now s) aid amount a" "accountRowOk a'"
    "s' = s\<lparr>accounts := map (creditAccount (tx_now s) aid amount) (accounts s)\<rparr>"
proof -
  let ?p = "\<lambda>a. ac_id a = aid \<and> 0 \<le> ac_balance a + amount"
  let ?f = "\<lambda>a. a\<lparr>ac_balance := ac_balance a + amount, ac_updated_at := tx_now s\<rparr>"
  obtain b a where b: "find (\<lambda>a. ac_id a = aid) (accounts s) = Some b" "in_int64 (ac_balance b + amount)"
    and a: "find ?p (accounts s) = Some a" "accountRowOk (?f a)" "a' = ?f a"
    and s': "s' = s\<lparr>accounts := map (\<lambda>x. if ?p x then ?f x else x) (accounts s)\<rparr>"
    using run unfolding AddAccountBalanceInternal_def by (auto simp: runs)
  have mem: "a \<in> set (accounts s)" "ac_id a = aid" "0 \<le> ac_balance a + amount"
    using find_Some_iff2 [OF a(1)] by auto
  have "b \<in> set (accounts s)" "ac_id b = aid"
    using find_Some_iff2 [OF b(1)] by auto
  then have "b = a"
    using find_key_inject [OF ids] mem by metis
  have "(if ?p x then ?f x else x) = creditAccount (tx_now s) aid amount x" if "x \<in> set (accounts s)" for x
    using find_key_inject [OF ids that mem(1)] mem by (auto simp: creditAccount_def)
  then have "map (\<lambda>x. if ?p x then ?f x else x) (accounts s) = map (creditAccount (tx_now s) aid amount) (accounts s)"
    by (intro map_cong) auto
  with s' have "s' = s\<lparr>accounts := map (creditAccount (tx_now s) aid amount) (accounts s)\<rparr>"
    by simp
  moreover have "a' = creditAccount (tx_now s) aid amount a"
    using a(3) mem by (simp add: creditAccount_def)
  ultimately show thesis
    using mem b(2) \<open>b = a\<close> a by (intro that [of a]) simp_all
qed

lemma subtractAccountBalance_ok:
  assumes "subtractAccountBalance aid amount s = (Inr a', s')"
  shows "AddAccountBalanceInternal (go_neg amount) aid s = (Inr a', s')"
  using assms by (simp add: subtractAccountBalance_def mapErrM_iff)

section \<open>Transactions and postings\<close>

lemma CreateLedgerPosting_ok:
  assumes "CreateLedgerPosting (Some tid) lid amount s = (Inr q, s')"
  shows "ledger_postings s' = ledger_postings s @ [q]" "lp_transaction_id q = tid"
    "lp_ledger_account_id q = lid" "lp_amount q = amount" "amount \<noteq> 0" "in_int64 amount" "in_int64 (lp_id q)"
    "lid \<in> la_id ` set (ledger_accounts s)"
    "(tid, lid) \<notin> (\<lambda>p. (lp_transaction_id p, lp_ledger_account_id p)) ` set (ledger_postings s)"
    "lp_created_at q = tx_now s"
  using assms unfolding CreateLedgerPosting_def
  by (auto simp: runs ledgerPostingChecks_def list_ex_iff)

definition postingsFor :: "uuid \<Rightarrow> postingParams list \<Rightarrow> LedgerPosting list \<Rightarrow> bool" where
  \<comment> \<open>The postings a list of parameters gives for a transaction\<close>
  "postingsFor tid ps qs \<longleftrightarrow>
     map lp_ledger_account_id qs = map pp_LedgerAccountID ps \<and> map lp_amount qs = map pp_Amount ps \<and>
     (\<forall>q\<in>set qs. lp_transaction_id q = tid \<and> lp_amount q \<noteq> 0 \<and> in_int64 (lp_amount q) \<and> in_int64 (lp_id q))"

lemma forM_postings:
  assumes "forM ps (\<lambda>p. CreateLedgerPosting (Some tid) (pp_LedgerAccountID p) (pp_Amount p)) s = (Inr qs, s')"
  shows "ledger_postings s' = ledger_postings s @ qs \<and> postingsFor tid ps qs \<and>
    set (map lp_ledger_account_id qs) \<subseteq> la_id ` set (ledger_accounts s) \<and>
    distinct (map lp_ledger_account_id qs) \<and>
    (\<forall>p\<in>set (ledger_postings s). lp_transaction_id p = tid \<longrightarrow>
       lp_ledger_account_id p \<notin> set (map lp_ledger_account_id qs))"
  using assms
proof (induction ps arbitrary: s qs)
  case Nil
  then show ?case by (simp add: returnM_iff postingsFor_def)
next
  case (Cons p ps)
  from Cons.prems obtain q qs' t
    where q: "CreateLedgerPosting (Some tid) (pp_LedgerAccountID p) (pp_Amount p) s = (Inr q, t)"
    and rest: "forM ps (\<lambda>p. CreateLedgerPosting (Some tid) (pp_LedgerAccountID p) (pp_Amount p)) t = (Inr qs', s')"
    and qs: "qs = q # qs'"
    unfolding forM_Cons_iff by blast
  have la: "ledger_accounts t = ledger_accounts s"
    using q by (rule keepsD [rotated]) (intro frame; simp)
  note q = CreateLedgerPosting_ok [OF q] and IH = Cons.IH [OF rest]
  show ?case
  proof (intro conjI)
    show "ledger_postings s' = ledger_postings s @ qs"
      using q(1) IH qs by simp
    show "postingsFor tid (p # ps) qs"
      using q IH qs by (simp add: postingsFor_def)
    show "set (map lp_ledger_account_id qs) \<subseteq> la_id ` set (ledger_accounts s)"
      using q(3,8) IH qs la by auto
    show "distinct (map lp_ledger_account_id qs)"
      using IH q(1-3) qs by auto
    show "\<forall>p\<in>set (ledger_postings s). lp_transaction_id p = tid \<longrightarrow>
        lp_ledger_account_id p \<notin> set (map lp_ledger_account_id qs)"
      using IH q(1-3,9) qs by (auto simp: image_iff)
  qed
qed

lemma sumPostings_wraps:
  "sumPostings acc ps = Inr n \<Longrightarrow> n mod 2 ^ 64 = (acc + sum_list (map pp_Amount ps)) mod 2 ^ 64"
proof (induction acc ps rule: sumPostings.induct)
  case (1 acc)
  then show ?case by simp
next
  case (2 acc p ps)
  then have "n mod 2 ^ 64 = (go_add acc (pp_Amount p) + sum_list (map pp_Amount ps)) mod 2 ^ 64"
    by (simp split: if_splits)
  also have "\<dots> = (acc + sum_list (map pp_Amount (p # ps))) mod 2 ^ 64"
    by (metis add.assoc go_add_def list.simps(9) mod_add_left_eq sum_list.Cons wrap64_mod)
  finally show ?case .
qed

lemma createBalancedTransaction_ok:
  assumes "createBalancedTransaction arg ps s = (Inr (t, qs), s')"
  shows "banking_transactions s' = banking_transactions s @ [t]"
    and "ledger_postings s' = ledger_postings s @ qs" and "postingsFor (bt_id t) ps qs"
    and "set (map lp_ledger_account_id qs) \<subseteq> la_id ` set (ledger_accounts s)"
    and "distinct (map lp_ledger_account_id qs)"
    and "0 < pt_Amount arg" "in_int64 (pt_Amount arg)" "2 \<le> length ps"
    and "sum_list (map pp_Amount ps) mod 2 ^ 64 = 0"
    and "bt_id t \<notin> bt_id ` set (banking_transactions s)"
    and "bt_amount t = pt_Amount arg" "bt_currency t = pt_Currency arg" "bt_status t = ''pending''"
    and "bt_transaction_type t = pt_TransactionType arg" "bt_reversal_of t = pt_ReversalOf arg"
    and "bt_initiated_by t = pt_InitiatedBy arg" "bt_narration t = trimSpace (pt_Narration arg)"
    and "bt_created_at t = tx_now s" "bt_posted_at t = None" "bt_failed_at t = None" "bt_reversed_at t = None"
    and "bt_reversal_of t \<noteq> None \<Longrightarrow> bt_reversal_of t \<notin> bt_reversal_of ` set (banking_transactions s)"
    and "\<forall>c\<in>set (bankingTransactionRowChecks t). \<not> fst c"
proof -
  obtain n tid reference t0 t1 t2 where pos: "\<not> pt_Amount arg \<le> 0" "\<not> length ps < 2"
    and sum: "liftE (sumPostings 0 ps) s = (Inr n, t0)" "\<not> n \<noteq> 0"
    and ident: "newTransactionIdentity t0 = (Inr (tid, reference), t1)"
    and create: "CreateBankingTransaction tid reference (pt_TransactionType arg) (pt_Currency arg)
       (pt_Amount arg) (trimSpace (pt_Narration arg)) (pt_InitiatedBy arg) (pt_ReversalOf arg) t1 = (Inr t, t2)"
    and post: "forM ps (\<lambda>p. CreateLedgerPosting (Some (bt_id t)) (pp_LedgerAccountID p) (pp_Amount p)) t2 = (Inr qs, s')"
    using assms unfolding createBalancedTransaction_def
    by (elim run_elims) (simp_all only: prod.inject, blast)
  have t0: "sumPostings 0 ps = Inr n" "t0 = s"
    using sum(1) by (auto simp: liftE_def runs split: sum.splits)
  have t1: "tx_now t1 = tx_now s" "banking_transactions t1 = banking_transactions s"
    "ledger_postings t1 = ledger_postings s" "ledger_accounts t1 = ledger_accounts s"
    using ident t0(2) by (auto simp: newTransactionIdentity_def runs)
  have t2: "ledger_postings t2 = ledger_postings s" "ledger_accounts t2 = ledger_accounts s"
    using create t1 by (auto simp: CreateBankingTransaction_def runs)
  have checks: "\<forall>c\<in>set (bankingTransactionChecks t1 t). \<not> fst c"
    and t: "bt_amount t = pt_Amount arg" "bt_currency t = pt_Currency arg" "bt_status t = ''pending''"
    "bt_transaction_type t = pt_TransactionType arg" "bt_reversal_of t = pt_ReversalOf arg"
    "bt_initiated_by t = pt_InitiatedBy arg" "bt_narration t = trimSpace (pt_Narration arg)"
    "bt_created_at t = tx_now s" "bt_posted_at t = None" "bt_failed_at t = None" "bt_reversed_at t = None"
    and bt: "banking_transactions t2 = banking_transactions s @ [t]"
    using create t1 unfolding CreateBankingTransaction_def by (auto simp: runs)
  have "banking_transactions s' = banking_transactions t2"
    using post by (rule keepsD [rotated]) (intro frame; simp)
  with bt show "banking_transactions s' = banking_transactions s @ [t]" by simp
  note P = forM_postings [OF post]
  show "ledger_postings s' = ledger_postings s @ qs" "postingsFor (bt_id t) ps qs"
    "set (map lp_ledger_account_id qs) \<subseteq> la_id ` set (ledger_accounts s)"
    "distinct (map lp_ledger_account_id qs)"
    using P t2 by simp_all
  show "0 < pt_Amount arg" "2 \<le> length ps"
    using pos by simp_all
  show "sum_list (map pp_Amount ps) mod 2 ^ 64 = 0"
    using sumPostings_wraps [OF t0(1)] sum(2) by simp
  show "bt_id t \<notin> bt_id ` set (banking_transactions s)"
    "\<forall>c\<in>set (bankingTransactionRowChecks t). \<not> fst c"
    "bt_reversal_of t \<noteq> None \<Longrightarrow> bt_reversal_of t \<notin> bt_reversal_of ` set (banking_transactions s)"
    using checks t1(2) unfolding bankingTransactionChecks_def by (auto simp: list_ex_iff image_iff)
  then show "in_int64 (pt_Amount arg)"
    using t(1) by (simp add: bankingTransactionRowChecks_def)
  show "bt_amount t = pt_Amount arg" "bt_currency t = pt_Currency arg" "bt_status t = ''pending''"
    "bt_transaction_type t = pt_TransactionType arg" "bt_reversal_of t = pt_ReversalOf arg"
    "bt_initiated_by t = pt_InitiatedBy arg" "bt_narration t = trimSpace (pt_Narration arg)"
    "bt_created_at t = tx_now s" "bt_posted_at t = None" "bt_failed_at t = None" "bt_reversed_at t = None"
    by (fact t)+
qed

lemma map_if_fresh: "k \<notin> key ` set xs \<Longrightarrow> map (\<lambda>x. if key x = k then f x else x) xs = xs"
  by (induction xs) auto

lemma Mark_ok:
  assumes "updateBankingTransaction (\<lambda>t. Some (bt_id t) = Some tid \<and> bt_status t = st) f s = (Inr t', s')"
    and ids: "distinct (map bt_id (banking_transactions s))"
  obtains t where "t \<in> set (banking_transactions s)" "bt_id t = tid" "bt_status t = st" "t' = f t"
    "s' = s\<lparr>banking_transactions := map (\<lambda>u. if bt_id u = tid then f u else u) (banking_transactions s)\<rparr>"
proof -
  let ?p = "\<lambda>t. Some (bt_id t) = Some tid \<and> bt_status t = st"
  obtain t where t: "find ?p (banking_transactions s) = Some t" "t' = f t"
    and s': "s' = s\<lparr>banking_transactions := map (\<lambda>x. if ?p x then f x else x) (banking_transactions s)\<rparr>"
    using assms(1) unfolding updateBankingTransaction_iff by blast
  have mem: "t \<in> set (banking_transactions s)" "bt_id t = tid" "bt_status t = st"
    using find_Some_iff2 [OF t(1)] by auto
  have "(if ?p x then f x else x) = (if bt_id x = tid then f x else x)" if "x \<in> set (banking_transactions s)" for x
    using find_key_inject [OF ids that mem(1)] mem by auto
  then have "map (\<lambda>x. if ?p x then f x else x) (banking_transactions s) =
      map (\<lambda>u. if bt_id u = tid then f u else u) (banking_transactions s)"
    by (intro map_cong) auto
  with s' show thesis
    using mem t(2) by (intro that [of t]) simp_all
qed

definition postTransaction :: "time \<Rightarrow> BankingTransaction \<Rightarrow> BankingTransaction" where
  "postTransaction now t = t\<lparr>bt_status := ''posted'', bt_posted_at := Some now\<rparr>"

definition reverseTransaction :: "time \<Rightarrow> BankingTransaction \<Rightarrow> BankingTransaction" where
  "reverseTransaction now t = t\<lparr>bt_status := ''reversed'', bt_reversed_at := Some now\<rparr>"

lemma postTransaction_simps [simp]:
  "bt_id (postTransaction now t) = bt_id t" "bt_amount (postTransaction now t) = bt_amount t"
  "bt_currency (postTransaction now t) = bt_currency t" "bt_status (postTransaction now t) = ''posted''"
  "bt_transaction_type (postTransaction now t) = bt_transaction_type t"
  "bt_reversal_of (postTransaction now t) = bt_reversal_of t"
  "bt_created_at (postTransaction now t) = bt_created_at t"
  "bt_reference (postTransaction now t) = bt_reference t"
  "bt_posted_at (postTransaction now t) = Some now"
  by (simp_all add: postTransaction_def)

lemma reverseTransaction_simps [simp]:
  "bt_id (reverseTransaction now t) = bt_id t" "bt_amount (reverseTransaction now t) = bt_amount t"
  "bt_currency (reverseTransaction now t) = bt_currency t"
  "bt_status (reverseTransaction now t) = ''reversed''"
  "bt_transaction_type (reverseTransaction now t) = bt_transaction_type t"
  "bt_reversal_of (reverseTransaction now t) = bt_reversal_of t"
  "bt_created_at (reverseTransaction now t) = bt_created_at t"
  by (simp_all add: reverseTransaction_def)

lemma MarkBankingTransactionPosted_ok:
  assumes run: "MarkBankingTransactionPosted (Some (bt_id t)) s = (Inr t', s')"
    and T: "banking_transactions s = T @ [t]" "bt_id t \<notin> bt_id ` set T" "distinct (map bt_id T)"
  shows "t' = postTransaction (tx_now s) t"
    and "s' = s\<lparr>banking_transactions := T @ [postTransaction (tx_now s) t]\<rparr>"
proof -
  let ?f = "postTransaction (tx_now s)"
  have ids: "distinct (map bt_id (banking_transactions s))"
    using T by auto
  have "updateBankingTransaction (\<lambda>u. Some (bt_id u) = Some (bt_id t) \<and> bt_status u = ''pending'') ?f s = (Inr t', s')"
    using run unfolding MarkBankingTransactionPosted_def bindM_iff readM_iff postTransaction_def by auto
  then obtain u where u: "u \<in> set (banking_transactions s)" "bt_id u = bt_id t" "t' = ?f u"
    and s': "s' = s\<lparr>banking_transactions := map (\<lambda>u. if bt_id u = bt_id t then ?f u else u) (banking_transactions s)\<rparr>"
    by (rule Mark_ok [OF _ ids]) blast
  have "u = t"
    using find_key_inject [OF ids u(1), of t] u(2) T(1) by simp
  then show "t' = postTransaction (tx_now s) t"
    using u by simp
  show "s' = s\<lparr>banking_transactions := T @ [postTransaction (tx_now s) t]\<rparr>"
    using s' T(1) map_if_fresh [OF T(2), of ?f] by simp
qed

section \<open>Frames\<close>

text \<open>\<open>offBooks f\<close>: the component \<open>f\<close> is not written by a money movement.\<close>

definition offBooks :: "(world \<Rightarrow> 'c) \<Rightarrow> bool" where
  "offBooks f \<longleftrightarrow> unnoticed f \<and>
     (\<forall>g s. f (accounts_update g s) = f s) \<and> (\<forall>g s. f (banking_transactions_update g s) = f s) \<and>
     (\<forall>g s. f (ledger_postings_update g s) = f s) \<and> (\<forall>g s. f (ledger_postings_id_seq_update g s) = f s)"

lemma offBooks_fields [simp]:
  "offBooks envir" "offBooks users" "offBooks ledger_accounts" "offBooks idempotency_keys"
  "offBooks email_delivery_events" "offBooks sessions" "offBooks beneficiaries"
  "offBooks tx_now" "offBooks tx_ctr" "offBooks rand_ctr" "offBooks idempotency_keys_id_seq"
  by (simp_all add: offBooks_def)

lemma offBooksD:
  assumes "offBooks f"
  shows "unnoticed f" "f (accounts_update g s) = f s" "f (banking_transactions_update g' s) = f s"
    "f (ledger_postings_update h s) = f s" "f (ledger_postings_id_seq_update h' s) = f s"
  using assms by (simp_all add: offBooks_def)

lemma liftE_frame [frame]: "keeps f (liftE r)"
  unfolding liftE_def by (intro frame)

lemma identity_frame [frame]: "(\<And>g s. f (uuid_ctr_update g s) = f s) \<Longrightarrow> keeps f newTransactionIdentity"
  unfolding newTransactionIdentity_def by (intro frame)

lemma load_frame [frame]:
  "keeps f (lockTransferAccounts i j)" "keeps f (loadAndLockTransferAccounts pid n)"
  "keeps f (customerLedgerAccount i)"
  unfolding lockTransferAccounts_def loadAndLockTransferAccounts_def customerLedgerAccount_def Let_def
    split_beta
  by (intro frame)+

lemma subtract_frame [frame]:
  "(\<And>g s. f (accounts_update g s) = f s) \<Longrightarrow> keeps f (subtractAccountBalance i n)"
  unfolding subtractAccountBalance_def by (intro frame)

lemma createBalancedTransaction_frame [frame]:
  assumes "\<And>g s. f (banking_transactions_update g s) = f s" "\<And>g s. f (ledger_postings_update g s) = f s"
    "\<And>g s. f (ledger_postings_id_seq_update g s) = f s" "\<And>g s. f (uuid_ctr_update g s) = f s"
  shows "keeps f (createBalancedTransaction arg ps)"
  unfolding createBalancedTransaction_def by (intro frame assms)

lemma money_frame:
  assumes "offBooks f"
  shows "keeps f (transferWithQueries arg)" "keeps f (settlementBody pid amount narration tt actor cid)"
  unfolding transferWithQueries_def settlementBody_def
  by (intro frame offBooksD [OF assms] unnoticedD [OF offBooksD(1) [OF assms]])+

end
