(* ===== verification/TransferProofs.thy ===== *)
theory TransferProofs
  imports Effects
begin

text \<open>
  Transfers, deposits and withdrawals: what a successful run did, and that the books stay in order.
\<close>

section \<open>A successful transfer\<close>

text \<open>
  What \<open>transferWithQueries\<close> checked and did, as a predicate on the states before and after: the two
  accounts and their ledgers, the guards, the two postings and the new balances.
\<close>

definition transferDone ::
  "TransferTxParams \<Rightarrow> world \<Rightarrow> Account \<Rightarrow> Account \<Rightarrow> LedgerAccount \<Rightarrow> LedgerAccount \<Rightarrow> BankingTransaction \<Rightarrow>
   LedgerPosting \<Rightarrow> LedgerPosting \<Rightarrow> TransferTxResult \<Rightarrow> world \<Rightarrow> bool" where
  "transferDone arg s a b la lb t p q r s' \<longleftrightarrow>
     a \<in> set (accounts s) \<and> b \<in> set (accounts s) \<and> ac_id a \<noteq> ac_id b \<and>
     Some (ac_public_id a) = tp_FromAccountPublicID arg \<and> ac_account_number b = tp_ToAccountNumber arg \<and>
     ac_owner a = tp_Username arg \<and> ac_currency a = tp_Currency arg \<and> ac_currency b = tp_Currency arg \<and>
     ac_status a \<noteq> ''frozen'' \<and> ac_status a \<noteq> ''closed'' \<and> ac_status b \<noteq> ''closed'' \<and>
     la \<in> set (ledger_accounts s) \<and> ledgerFor a la \<and> lb \<in> set (ledger_accounts s) \<and> ledgerFor b lb \<and>
     0 < tp_Amount arg \<and> tp_Amount arg \<le> 1000000 \<and> (tp_Currency arg = ''USD'' \<or> tp_Currency arg = ''EUR'') \<and>
     sum_list (dailyOutgoing (ledger_postings s) (banking_transactions s) (la_id la) (startOfDay (tx_now s)))
       + tp_Amount arg \<le> 2500000 \<and>
     tp_Amount arg \<le> ac_balance a \<and> in_int64 (ac_balance b + tp_Amount arg) \<and>
     bt_id t \<notin> bt_id ` set (banking_transactions s) \<and> bt_status t = ''posted'' \<and>
     bt_amount t = tp_Amount arg \<and> bt_currency t = tp_Currency arg \<and>
     bt_transaction_type t = ''internal_transfer'' \<and> bt_reversal_of t = None \<and> bt_created_at t = tx_now s \<and>
     lp_transaction_id p = bt_id t \<and> lp_ledger_account_id p = la_id la \<and> lp_amount p = - tp_Amount arg \<and>
     lp_transaction_id q = bt_id t \<and> lp_ledger_account_id q = la_id lb \<and> lp_amount q = tp_Amount arg \<and>
     in_int64 (lp_id p) \<and> in_int64 (lp_id q) \<and>
     banking_transactions s' = banking_transactions s @ [t] \<and>
     ledger_postings s' = ledger_postings s @ [p, q] \<and>
     accounts s' = map (\<lambda>x. creditAccount (tx_now s) (ac_id b) (tp_Amount arg)
                              (creditAccount (tx_now s) (ac_id a) (- tp_Amount arg) x)) (accounts s) \<and>
     r = \<lparr>tr_Transaction = t, tr_Postings = [p, q],
          tr_FromAccount = creditAccount (tx_now s) (ac_id a) (- tp_Amount arg) a,
          tr_ToAccount = creditAccount (tx_now s) (ac_id b) (tp_Amount arg) b, tr_Replayed = False\<rparr>"

lemma loadAndLock_ok:
  assumes "loadAndLockTransferAccounts pid number s = (Inr (a, b), s')"
    and ids: "distinct (map ac_id (accounts s))"
  shows "s' = s" "a \<in> set (accounts s)" "b \<in> set (accounts s)" "ac_id a \<noteq> ac_id b"
    "Some (ac_public_id a) = pid" "ac_account_number b = number"
proof -
  obtain a0 b0 where a0: "find (\<lambda>a. Some (ac_public_id a) = pid) (accounts s) = Some a0"
    and b0: "find (\<lambda>a. ac_account_number a = number) (accounts s) = Some b0"
    and ne: "ac_id a0 \<noteq> ac_id b0"
    and lock: "lockTransferAccounts (ac_id a0) (ac_id b0) s = (Inr (a, b), s')"
    using assms(1) unfolding loadAndLockTransferAccounts_def by (auto simp: runs account_select_defs)
  have mem: "a0 \<in> set (accounts s)" "Some (ac_public_id a0) = pid"
    "b0 \<in> set (accounts s)" "ac_account_number b0 = number"
    using find_Some_iff2 [OF a0] find_Some_iff2 [OF b0] by auto
  have sel: "find (\<lambda>a. ac_id a = ac_id x) (accounts s) = Some x" if "x \<in> set (accounts s)" for x
    using find_key [OF ids] that by metis
  have "a = a0 \<and> b = b0 \<and> s' = s"
    using lock sel [OF mem(1)] sel [OF mem(3)] ne
    unfolding lockTransferAccounts_def
    by (auto simp: runs account_select_defs split: if_splits)
  then show "s' = s" "a \<in> set (accounts s)" "b \<in> set (accounts s)" "ac_id a \<noteq> ac_id b"
    "Some (ac_public_id a) = pid" "ac_account_number b = number"
    using mem ne by auto
qed

lemma customerLedgerAccount_ok:
  assumes "customerLedgerAccount (ac_id a) s = (Inr l, s')"
  shows "s' = s" "l \<in> set (ledger_accounts s)" "ledgerFor a l" "la_kind l = ''customer''"
  using assms unfolding customerLedgerAccount_def GetCustomerLedgerAccount_def
  by (auto simp: runs ledgerFor_def dest: find_Some_iff2)

lemma transferLimits_ok:
  "transferLimits c = Inr (per, daily) \<longleftrightarrow> (c = ''USD'' \<or> c = ''EUR'') \<and> per = 1000000 \<and> daily = 2500000"
  by (auto simp: transferLimits_def USDPerTransferLimit_def USDDailyLimit_def EURPerTransferLimit_def
      EURDailyLimit_def)

text \<open>The guard on the daily total, where Go's subtraction may wrap for a negative amount.\<close>

lemma daily_guard:
  assumes "\<not> n > go_sub 2500000 amount" "0 < amount" "amount \<le> 1000000"
  shows "n + amount \<le> 2500000"
  using assms by (simp add: go_sub_def in_int64_def)

lemma transferWithQueries_ok:
  assumes run: "transferWithQueries arg s = (Inr r, s')" and ok: "books s"
  obtains a b la lb t p q where "transferDone arg s a b la lb t p q r s'"
proof -
  note D = booksD [OF ok]
  let ?n = "tp_Amount arg"
  obtain a b per daily la lb total t0 qs a' b' t' and s1 s2 s3 s4 s5 s6 s7 s8 s9 s10 s11 s12 and x1 x2 x3 x4 x5 where
    load: "loadAndLockTransferAccounts (tp_FromAccountPublicID arg) (tp_ToAccountNumber arg) s = (Inr (a, b), s1)"
    and guards: "\<not> ac_owner a \<noteq> tp_Username arg"
      "\<not> (ac_currency a \<noteq> tp_Currency arg \<or> ac_currency b \<noteq> tp_Currency arg)"
      "\<not> ac_status a = FinancialAccountStatusFrozen"
      "\<not> (ac_status a = FinancialAccountStatusClosed \<or> ac_status b = FinancialAccountStatusClosed)"
    and lim: "liftE (transferLimits (tp_Currency arg)) s1 = (Inr (per, daily), s2)" "\<not> ?n > per"
    and la: "customerLedgerAccount (ac_id a) s2 = (Inr la, s3)"
    and total: "GetDailyOutgoingTransferTotal (la_id la) s3 = (Inr total, s4)" "\<not> total > go_sub daily ?n"
    and lb: "customerLedgerAccount (ac_id b) s4 = (Inr lb, s5)"
    and create: "createBalancedTransaction
        \<lparr>pt_TransactionType = BankingTransactionTypeInternalTransfer, pt_Currency = tp_Currency arg,
         pt_Amount = ?n, pt_Narration = tp_Narration arg, pt_InitiatedBy = tp_Username arg, pt_ReversalOf = None\<rparr>
        [\<lparr>pp_LedgerAccountID = la_id la, pp_Amount = go_neg ?n\<rparr>,
         \<lparr>pp_LedgerAccountID = la_id lb, pp_Amount = ?n\<rparr>] s5 = (Inr (t0, qs), s6)"
    and audit1: "createFinancialAudit x1 s6 = (Inr x2, s7)"
    and sub: "subtractAccountBalance (ac_id a) ?n s7 = (Inr a', s8)"
    and add: "AddAccountBalanceInternal ?n (ac_id b) s8 = (Inr b', s9)"
    and mark: "MarkBankingTransactionPosted (Some (bt_id t0)) s9 = (Inr t', s10)"
    and audit2: "createFinancialAudit x3 s10 = (Inr x4, s11)"
    and notify: "forM [transferNotification arg t' (ac_owner a') ''outgoing'',
        transferNotification arg t' (ac_owner b') ''incoming''] createFinancialNotification s11 = (Inr x5, s12)"
    and r: "r = \<lparr>tr_Transaction = t', tr_Postings = qs, tr_FromAccount = a', tr_ToAccount = b', tr_Replayed = False\<rparr>"
    and s': "s' = s12"
    using run unfolding transferWithQueries_def
    by (elim run_elims) (rule that, assumption+)
  note L = loadAndLock_ok [OF load D(1)]
  have lims: "s2 = s" "tp_Currency arg = ''USD'' \<or> tp_Currency arg = ''EUR''" "?n \<le> 1000000" "daily = 2500000"
    using lim L(1) transferLimits_ok by (auto simp: liftE_def runs split: sum.splits)
  note la = customerLedgerAccount_ok [OF la, unfolded lims(1)]
  have tot: "s4 = s" "total = sum_list (dailyOutgoing (ledger_postings s) (banking_transactions s) (la_id la) (startOfDay (tx_now s)))"
    using total(1) la(1) by (auto simp: GetDailyOutgoingTransferTotal_def runs)
  note lb = customerLedgerAccount_ok [OF lb, unfolded tot(1)]
  note C = createBalancedTransaction_ok [OF create, unfolded lb(1)]
  have n: "0 < ?n" "go_neg ?n = - ?n"
    using C(6,7) by (simp_all add: go_neg_pos)
  obtain p q where qs: "qs = [p, q]" and pq: "lp_ledger_account_id p = la_id la" "lp_amount p = - ?n"
      "lp_ledger_account_id q = la_id lb" "lp_amount q = ?n" "lp_transaction_id p = bt_id t0"
      "lp_transaction_id q = bt_id t0" "in_int64 (lp_id p)" "in_int64 (lp_id q)"
    using C(3) n(2) by (auto simp: postingsFor_def map_eq_Cons_conv)
  have s6: "accounts s6 = accounts s" "tx_now s6 = tx_now s"
    unfolding lb(1) [symmetric] by (rule keepsD [OF createBalancedTransaction_frame create]; simp)+
  have s7: "accounts s7 = accounts s" "tx_now s7 = tx_now s" "banking_transactions s7 = banking_transactions s6"
      "ledger_postings s7 = ledger_postings s6"
    unfolding s6 [symmetric] by (rule keepsD [OF financial_frame(1) audit1]; simp)+
  obtain a2 where a2: "a2 \<in> set (accounts s)" "ac_id a2 = ac_id a" "0 \<le> ac_balance a2 - ?n"
      "a' = creditAccount (tx_now s) (ac_id a) (- ?n) a2"
    and s8: "s8 = s7\<lparr>accounts := map (creditAccount (tx_now s) (ac_id a) (- ?n)) (accounts s)\<rparr>"
    using D(1) by (rule AddAccountBalanceInternal_ok
        [OF subtractAccountBalance_ok [OF sub], unfolded s7(1,2) n(2)]) (rule that; simp)
  have "a2 = a"
    using find_key_inject [OF D(1) a2(1) L(2) a2(2)] .
  have "distinct (map ac_id (accounts s8))"
    using D(1) by (simp add: s8 comp_def)
  then obtain b2 where b2: "b2 \<in> set (accounts s8)" "ac_id b2 = ac_id b" "in_int64 (ac_balance b2 + ?n)"
      "b' = creditAccount (tx_now s8) (ac_id b) ?n b2"
    and s9: "s9 = s8\<lparr>accounts := map (creditAccount (tx_now s8) (ac_id b) ?n) (accounts s8)\<rparr>"
    by (rule AddAccountBalanceInternal_ok [OF add]) (rule that; simp)
  obtain b3 where "b3 \<in> set (accounts s)" "b2 = creditAccount (tx_now s) (ac_id a) (- ?n) b3"
    using b2(1) by (auto simp: s8)
  moreover from this have "b3 = b"
    using find_key_inject [OF D(1) _ L(3)] b2(2) by simp
  ultimately have "b2 = b"
    using L(4) by (simp add: creditAccount_def)
  have bt9: "banking_transactions s9 = banking_transactions s @ [t0]"
    using s9 s8 s7(3) C(1) by simp
  note M = MarkBankingTransactionPosted_ok [OF mark bt9 C(10) D(3)]
  have keep: "f s' = f s10" if "unnoticed f" for f :: "world \<Rightarrow> 'x"
  proof -
    have "f s12 = f s11"
      using notify by (rule keepsD [rotated]) (intro frame that)
    then show ?thesis
      using keepsD [OF financial_frame(1) [OF that] audit2] s' by simp
  qed
  have fin: "accounts s' = accounts s10" "banking_transactions s' = banking_transactions s10"
      "ledger_postings s' = ledger_postings s10"
    by (rule keep, simp)+
  have now: "tx_now s9 = tx_now s" "tx_now s8 = tx_now s"
    using s9 s8 s7 by simp_all
  have "transferDone arg s a b la lb t' p q r s'"
    unfolding transferDone_def
  proof (intro conjI)
    show "accounts s' = map (\<lambda>x. creditAccount (tx_now s) (ac_id b) ?n (creditAccount (tx_now s) (ac_id a) (- ?n) x)) (accounts s)"
      using fin(1) M(2) s9 s8 now by simp
    show "banking_transactions s' = banking_transactions s @ [t']"
      using fin(2) M by simp
    show "ledger_postings s' = ledger_postings s @ [p, q]"
      using fin(3) M s9 s8 s7(4) C(2) qs by simp
    show "r = \<lparr>tr_Transaction = t', tr_Postings = [p, q],
          tr_FromAccount = creditAccount (tx_now s) (ac_id a) (- ?n) a,
          tr_ToAccount = creditAccount (tx_now s) (ac_id b) ?n b, tr_Replayed = False\<rparr>"
      using r qs a2(4) b2(4) \<open>a2 = a\<close> \<open>b2 = b\<close> now by simp
    show "sum_list (dailyOutgoing (ledger_postings s) (banking_transactions s) (la_id la) (startOfDay (tx_now s))) + ?n \<le> 2500000"
      unfolding tot(2) [symmetric] using total(2) n(1) lims(3) unfolding lims(4) by (rule daily_guard)
    show "tp_Currency arg = ''USD'' \<or> tp_Currency arg = ''EUR''"
      by (fact lims(2))
  qed (use L guards la lb n lims a2(3) b2(3) \<open>a2 = a\<close> \<open>b2 = b\<close> C pq M(1) now in simp_all)
  then show thesis by (rule that)
qed

section \<open>The books after a transfer\<close>

lemma accountRowOk_balance:
  "accountRowOk a \<Longrightarrow> ac_status a \<noteq> ''closed'' \<Longrightarrow> 0 \<le> ac_balance a' \<Longrightarrow> ac_status a' = ac_status a \<Longrightarrow>
   ac_closed_at a' = ac_closed_at a \<Longrightarrow> ac_account_number a' = ac_account_number a \<Longrightarrow> accountRowOk a'"
  by (simp add: accountRowOk_def)

lemma transferDone_books:
  assumes ok: "books s" and dn: "transferDone arg s a b la lb t p q r s'"
  shows "booksOk (accounts s') (ledger_accounts s) (banking_transactions s') (ledger_postings s')"
proof -
  let ?n = "tp_Amount arg"
  let ?adj = "\<lambda>x. creditAccount (tx_now s) (ac_id b) ?n (creditAccount (tx_now s) (ac_id a) (- ?n) x)"
  note D = booksD [OF ok] and d = dn [unfolded transferDone_def]
  have ab: "a \<in> set (accounts s)" "b \<in> set (accounts s)" "ac_id a \<noteq> ac_id b"
    and l: "la \<in> set (ledger_accounts s)" "ledgerFor a la" "lb \<in> set (ledger_accounts s)" "ledgerFor b lb"
    using d by simp_all
  have "booksOk (map ?adj (accounts s)) (ledger_accounts s) (map (\<lambda>u. u) (banking_transactions s) @ [t])
      (ledger_postings s @ [p, q])"
  proof (rule post_keeps_books [OF ok])
    show "txBalanced (ledger_accounts s) [p, q] t"
      using d l books_balance(2) [OF ok ab(1) l(1,2)] books_balance(2) [OF ok ab(2) l(3,4)]
      by (intro two_legs_balanced [OF ok l(1,3)]) simp_all
    show "\<forall>q'\<in>set [p, q]. lp_transaction_id q' = bt_id t \<and> lp_ledger_account_id q' \<in> la_id ` set (ledger_accounts s)"
      using d l by auto
    show "\<forall>x\<in>set (accounts s). ac_id (?adj x) = ac_id x \<and> ac_currency (?adj x) = ac_currency x \<and>
        accountRowOk (?adj x) \<and> in_int64 (ac_balance (?adj x))"
    proof
      fix x assume x: "x \<in> set (accounts s)"
      consider "x = a" | "x = b" | "ac_id x \<noteq> ac_id a" "ac_id x \<noteq> ac_id b"
        using find_key_inject [OF D(1) x] ab by blast
      then have "accountRowOk (?adj x) \<and> in_int64 (ac_balance (?adj x))"
      proof cases
        case 1
        then show ?thesis
          using d ab D(4,5) [OF ab(1)] by (auto simp: in_int64_def intro!: accountRowOk_balance [of a])
      next
        case 2
        then show ?thesis
          using d ab D(4,5) [OF ab(2)] by (auto simp: accountRowOk_def intro!: accountRowOk_balance [of b])
      next
        case 3
        then show ?thesis
          using D(4,5) [OF x] by (simp add: creditAccount_def)
      qed
      then show "ac_id (?adj x) = ac_id x \<and> ac_currency (?adj x) = ac_currency x \<and>
          accountRowOk (?adj x) \<and> in_int64 (ac_balance (?adj x))"
        by simp
    qed
    show "\<forall>x\<in>set (accounts s). \<forall>k\<in>set (ledger_accounts s). ledgerFor x k \<longrightarrow>
        ac_balance (?adj x) = ac_balance x + ledgerTotal [p, q] (la_id k)"
      using d ab ledger_iff_account [OF ok l(1) _ l(2)] ledger_iff_account [OF ok l(3) _ l(4)] by auto
    show "\<forall>u\<in>set (banking_transactions s). bt_id u = bt_id u \<and> bt_amount u = bt_amount u \<and>
        bt_currency u = bt_currency u \<and> settled u"
      using D(11) by blast
    show "in_int64 (bt_amount t)"
      using d by (simp add: in_int64_def)
    show "reversalsOk (map (\<lambda>u. u) (banking_transactions s) @ [t])"
      using d by (intro plain_keeps_reversals D(15)) simp_all
  qed (use d in \<open>simp_all add: settled_def\<close>)
  then show ?thesis
    using d by simp
qed

lemma transferWithQueries_books:
  assumes "transferWithQueries arg s = (Inr r, s')" "books s"
  shows "books s'"
proof -
  have "ledger_accounts s' = ledger_accounts s"
    by (rule keepsD [OF money_frame(1) assms(1)]) simp
  then show ?thesis
    using transferWithQueries_ok [OF assms] transferDone_books [OF assms(2)] by metis
qed

section \<open>Deposits and withdrawals\<close>

definition movementDone ::
  "uuid option \<Rightarrow> int \<Rightarrow> string \<Rightarrow> world \<Rightarrow> Account \<Rightarrow> LedgerAccount \<Rightarrow> LedgerAccount \<Rightarrow> BankingTransaction \<Rightarrow>
   LedgerPosting \<Rightarrow> LedgerPosting \<Rightarrow> MoneyMovementTxResult \<Rightarrow> world \<Rightarrow> bool" where
  "movementDone pid amount tt s a la ls t p q r s' \<longleftrightarrow>
     (let delta = (if tt = ''withdrawal'' then - amount else amount) in
      a \<in> set (accounts s) \<and> Some (ac_public_id a) = pid \<and> ac_status a \<noteq> ''closed'' \<and>
      (tt = ''withdrawal'' \<longrightarrow> ac_status a \<noteq> ''frozen'') \<and> tt \<noteq> ''reversal'' \<and>
      la \<in> set (ledger_accounts s) \<and> ledgerFor a la \<and> ls \<in> set (ledger_accounts s) \<and>
      la_kind ls = ''settlement'' \<and> la_code ls = Some (''settlement:'' @ ac_currency a) \<and>
      0 < amount \<and> in_int64 amount \<and> 0 \<le> ac_balance a + delta \<and> in_int64 (ac_balance a + delta) \<and>
      bt_id t \<notin> bt_id ` set (banking_transactions s) \<and> bt_status t = ''posted'' \<and> bt_amount t = amount \<and>
      bt_currency t = ac_currency a \<and> bt_transaction_type t = tt \<and> bt_reversal_of t = None \<and>
      bt_created_at t = tx_now s \<and>
      lp_transaction_id p = bt_id t \<and> lp_ledger_account_id p = la_id ls \<and> lp_amount p = - delta \<and>
      lp_transaction_id q = bt_id t \<and> lp_ledger_account_id q = la_id la \<and> lp_amount q = delta \<and>
      banking_transactions s' = banking_transactions s @ [t] \<and>
      ledger_postings s' = ledger_postings s @ [p, q] \<and>
      accounts s' = map (creditAccount (tx_now s) (ac_id a) delta) (accounts s) \<and>
      mm_Transaction r = t \<and> mm_Postings r = [p, q] \<and>
      mm_Account r = creditAccount (tx_now s) (ac_id a) delta a)"

lemma settlementBody_ok:
  assumes run: "settlementBody pid amount narration tt actor cid s = (Inr r, s')" and ok: "books s"
  obtains a la ls t p q where "movementDone pid amount tt s a la ls t p q r s'"
proof -
  note D = booksD [OF ok]
  let ?wd = "tt = ''withdrawal''"
  let ?delta = "if ?wd then - amount else amount"
  obtain a0 a la ls t0 qs a' t' au and s1 s2 s3 s4 s5 s6 s7 s8 s9 s10 and x1 x2 x3 x4 x5 where
    load: "mapErrM (errIfNoRows ErrAccountNotFound) (GetAccountByPublicID pid) s = (Inr a0, s1)"
    and lock: "GetAccountForUpdate (ac_id a0) s1 = (Inr a, s2)"
    and guards: "\<not> ac_status a = FinancialAccountStatusClosed"
      "\<not> (tt = BankingTransactionTypeWithdrawal \<and> ac_status a = FinancialAccountStatusFrozen)"
    and la: "customerLedgerAccount (ac_id a) s2 = (Inr la, s3)"
    and ls: "GetSettlementLedgerAccount (Some (ac_currency a)) s3 = (Inr ls, s4)"
    and create: "createBalancedTransaction
        \<lparr>pt_TransactionType = tt, pt_Currency = ac_currency a, pt_Amount = amount,
         pt_Narration = narration, pt_InitiatedBy = actor, pt_ReversalOf = None\<rparr>
        (if tt = BankingTransactionTypeWithdrawal
         then [\<lparr>pp_LedgerAccountID = la_id ls, pp_Amount = amount\<rparr>,
               \<lparr>pp_LedgerAccountID = la_id la, pp_Amount = go_neg amount\<rparr>]
         else [\<lparr>pp_LedgerAccountID = la_id ls, pp_Amount = go_neg amount\<rparr>,
               \<lparr>pp_LedgerAccountID = la_id la, pp_Amount = amount\<rparr>]) s4 = (Inr (t0, qs), s5)"
    and audit1: "createFinancialAudit x1 s5 = (Inr x2, s6)"
    and move: "(if tt = BankingTransactionTypeWithdrawal then subtractAccountBalance (ac_id a) amount
         else AddAccountBalanceInternal amount (ac_id a)) s6 = (Inr a', s7)"
    and mark: "MarkBankingTransactionPosted (Some (bt_id t0)) s7 = (Inr t', s8)"
    and audit2: "createFinancialAudit x3 s8 = (Inr au, s9)"
    and notify: "createFinancialNotification x4 s9 = (Inr x5, s10)"
    and r: "r = \<lparr>mm_Transaction = t', mm_Postings = qs, mm_Account = a', mm_AuditLog = au\<rparr>"
    and s': "s' = s10"
    using run unfolding settlementBody_def by (elim run_elims) (rule that, assumption+)
  have a0: "s1 = s" "a0 \<in> set (accounts s)" "Some (ac_public_id a0) = pid"
    using load by (auto simp: runs account_select_defs dest: find_Some_iff2)
  have "find (\<lambda>x. ac_id x = ac_id a0) (accounts s) = Some a0"
    using find_key [OF D(1)] a0(2) by metis
  then have a: "s2 = s" "a0 = a"
    using lock a0(1) by (auto simp: runs account_select_defs)
  note la = customerLedgerAccount_ok [OF la, unfolded a(1)]
  have ls: "s4 = s" "ls \<in> set (ledger_accounts s)" "la_kind ls = ''settlement''"
      "la_code ls = Some (''settlement:'' @ ac_currency a)"
    using ls la(1) unfolding GetSettlementLedgerAccount_def by (auto simp: runs dest: find_Some_iff2)
  note C = createBalancedTransaction_ok [OF create, unfolded ls(1)]
  have n: "0 < amount" "in_int64 amount" "go_neg amount = - amount"
    using C(6,7) by (simp_all add: go_neg_pos)
  obtain p q where qs: "qs = [p, q]" and pq: "lp_ledger_account_id p = la_id ls" "lp_amount p = - ?delta"
      "lp_ledger_account_id q = la_id la" "lp_amount q = ?delta" "lp_transaction_id p = bt_id t0"
      "lp_transaction_id q = bt_id t0"
    using C(3) n(3) by (cases ?wd) (auto simp: postingsFor_def map_eq_Cons_conv)
  have s5: "accounts s5 = accounts s" "tx_now s5 = tx_now s"
    unfolding ls(1) [symmetric] by (rule keepsD [OF createBalancedTransaction_frame create]; simp)+
  have s6: "accounts s6 = accounts s" "tx_now s6 = tx_now s" "banking_transactions s6 = banking_transactions s5"
      "ledger_postings s6 = ledger_postings s5"
    unfolding s5 [symmetric] by (rule keepsD [OF financial_frame(1) audit1]; simp)+
  have mv: "AddAccountBalanceInternal ?delta (ac_id a) s6 = (Inr a', s7)"
    using move subtractAccountBalance_ok [of "ac_id a" amount s6 a' s7] n(3) by (auto split: if_splits)
  obtain a2 where a2: "a2 \<in> set (accounts s)" "ac_id a2 = ac_id a" "0 \<le> ac_balance a2 + ?delta"
      "in_int64 (ac_balance a2 + ?delta)" "a' = creditAccount (tx_now s) (ac_id a) ?delta a2"
    and s7: "s7 = s6\<lparr>accounts := map (creditAccount (tx_now s) (ac_id a) ?delta) (accounts s)\<rparr>"
    using D(1) by (rule AddAccountBalanceInternal_ok [OF mv, unfolded s6(1,2)]) (rule that; simp)
  have "a2 = a"
    using find_key_inject [OF D(1) a2(1) _ a2(2)] a0(2) a(2) by simp
  have bt7: "banking_transactions s7 = banking_transactions s @ [t0]"
    using s7 s6(3) C(1) by simp
  note M = MarkBankingTransactionPosted_ok [OF mark bt7 C(10) D(3)]
  have keep: "f s' = f s8" if "unnoticed f" for f :: "world \<Rightarrow> 'x"
    using keepsD [OF financial_frame(1) [OF that] audit2] keepsD [OF financial_frame(4) [OF that] notify] s'
    by simp
  have fin: "accounts s' = accounts s8" "banking_transactions s' = banking_transactions s8"
      "ledger_postings s' = ledger_postings s8"
    by (rule keep, simp)+
  have now: "tx_now s7 = tx_now s"
    using s7 s6 by simp
  have "movementDone pid amount tt s a la ls t' p q r s'"
    unfolding movementDone_def Let_def
  proof (intro conjI)
    show "accounts s' = map (creditAccount (tx_now s) (ac_id a) ?delta) (accounts s)"
      using fin(1) M(2) s7 by simp
    show "banking_transactions s' = banking_transactions s @ [t']"
      using fin(2) M by simp
    show "ledger_postings s' = ledger_postings s @ [p, q]"
      using fin(3) M(2) s7 s6(4) C(2) qs by simp
    show "mm_Transaction r = t'" "mm_Postings r = [p, q]"
      "mm_Account r = creditAccount (tx_now s) (ac_id a) ?delta a"
      using r qs a2(5) \<open>a2 = a\<close> by simp_all
    show "tt \<noteq> ''reversal''"
      using C(14,15,23) by (auto simp: bankingTransactionRowChecks_def)
    show "0 \<le> ac_balance a + ?delta" "in_int64 (ac_balance a + ?delta)"
      using a2(3,4) \<open>a2 = a\<close> by simp_all
    show "lp_amount p = - ?delta" "lp_amount q = ?delta"
      by (fact pq)+
  qed (use a0 a guards la ls n C(10-18) pq M(1) now in simp_all)
  then show thesis by (rule that)
qed

lemma movementDone_books:
  assumes ok: "books s" and dn: "movementDone pid amount tt s a la ls t p q r s'"
  shows "booksOk (accounts s') (ledger_accounts s) (banking_transactions s') (ledger_postings s')"
proof -
  let ?delta = "if tt = ''withdrawal'' then - amount else amount"
  let ?adj = "creditAccount (tx_now s) (ac_id a) ?delta"
  note D = booksD [OF ok] and d = dn [unfolded movementDone_def Let_def]
  have a: "a \<in> set (accounts s)" and l: "la \<in> set (ledger_accounts s)" "ledgerFor a la" "ls \<in> set (ledger_accounts s)"
    and kind: "la_kind ls = ''settlement''"
    using d by simp_all
  have f: "lp_amount p = - ?delta" "lp_amount q = ?delta" "bt_amount t = amount" "0 < amount"
      "lp_transaction_id p = bt_id t" "lp_transaction_id q = bt_id t" "bt_currency t = ac_currency a"
      "lp_ledger_account_id p = la_id ls" "lp_ledger_account_id q = la_id la"
      "la_code ls = Some (''settlement:'' @ ac_currency a)" "0 \<le> ac_balance a + ?delta"
      "in_int64 (ac_balance a + ?delta)" "ac_status a \<noteq> ''closed''"
    using d by blast+
  have nls: "la_customer_account_id ls = None" "la_currency ls = ac_currency a"
    using D(7) [OF l(3)] f(10) kind by (auto simp: ledgerRowOk_def)
  then have not_ls: "la_id ls \<noteq> la_id k" if "k \<in> set (ledger_accounts s)" "ledgerFor x k" for x k
    using find_key_inject [OF D(2) l(3) that(1)] that(2) by (auto simp: ledgerFor_def)
  have "booksOk (map ?adj (accounts s)) (ledger_accounts s) (map (\<lambda>u. u) (banking_transactions s) @ [t])
      (ledger_postings s @ [p, q])"
  proof (rule post_keeps_books [OF ok])
    have "lp_amount p + lp_amount q = 0"
      unfolding f(1,2) by simp
    moreover have "\<bar>lp_amount p\<bar> = bt_amount t"
      unfolding f(1,3) using f(4) by simp
    ultimately show "txBalanced (ledger_accounts s) [p, q] t"
      using f(5-9) nls(2) books_balance(2) [OF ok a l(1,2)]
      by (intro two_legs_balanced [OF ok l(3,1)]) (simp_all only:)
    show "\<forall>q'\<in>set [p, q]. lp_transaction_id q' = bt_id t \<and> lp_ledger_account_id q' \<in> la_id ` set (ledger_accounts s)"
      using f l by simp
    show "\<forall>x\<in>set (accounts s). ac_id (?adj x) = ac_id x \<and> ac_currency (?adj x) = ac_currency x \<and>
        accountRowOk (?adj x) \<and> in_int64 (ac_balance (?adj x))"
    proof
      fix x assume x: "x \<in> set (accounts s)"
      have "accountRowOk (?adj x) \<and> in_int64 (ac_balance (?adj x))"
      proof (cases "ac_id x = ac_id a")
        case True
        then have "x = a" using find_key_inject [OF D(1) x a] by blast
        moreover have "accountRowOk (?adj a)"
          by (rule accountRowOk_balance [OF D(4) [OF a]]) (use f(11,13) in simp_all)
        ultimately show ?thesis using f(12) by simp
      next
        case False
        then show ?thesis using D(4,5) [OF x] by (simp add: creditAccount_def)
      qed
      then show "ac_id (?adj x) = ac_id x \<and> ac_currency (?adj x) = ac_currency x \<and>
          accountRowOk (?adj x) \<and> in_int64 (ac_balance (?adj x))"
        by simp
    qed
    show "\<forall>x\<in>set (accounts s). \<forall>k\<in>set (ledger_accounts s). ledgerFor x k \<longrightarrow>
        ac_balance (?adj x) = ac_balance x + ledgerTotal [p, q] (la_id k)"
    proof (intro ballI impI)
      fix x k assume "x \<in> set (accounts s)" "k \<in> set (ledger_accounts s)" "ledgerFor x k"
      then show "ac_balance (?adj x) = ac_balance x + ledgerTotal [p, q] (la_id k)"
        using f(1,2,8,9) not_ls [of k x] ledger_iff_account [OF ok l(1) _ l(2), of k x] by simp
    qed
    show "\<forall>u\<in>set (banking_transactions s). bt_id u = bt_id u \<and> bt_amount u = bt_amount u \<and>
        bt_currency u = bt_currency u \<and> settled u"
      using D(11) by blast
    show "reversalsOk (map (\<lambda>u. u) (banking_transactions s) @ [t])"
      using d by (intro plain_keeps_reversals D(15)) simp_all
  qed (use d in \<open>simp_all add: settled_def\<close>)
  then show ?thesis
    using d by simp
qed

lemma settlementBody_books:
  assumes "settlementBody pid amount narration tt actor cid s = (Inr r, s')" "books s"
  shows "books s'"
proof -
  have "ledger_accounts s' = ledger_accounts s"
    by (rule keepsD [OF money_frame(2) assms(1)]) simp
  then show ?thesis
    using settlementBody_ok [OF assms] movementDone_books [OF assms(2)] by metis
qed

end
