(* ===== verification/Accounts.thy ===== *)
theory Accounts
  imports Effects
begin

text \<open>
  Opening and closing accounts: \<open>db/sqlc/account_tx.go\<close> and \<open>account_number.go\<close>.
\<close>

section \<open>Definitions\<close>

definition accountNumberGenerationAttempts :: nat where
  "accountNumberGenerationAttempts = 5"

definition accountNumberDigits :: nat where
  "accountNumberDigits = 10"

definition accountNumberUpperBound :: int where
  "accountNumberUpperBound = 10 ^ accountNumberDigits"

definition randInt :: "int \<Rightarrow> int query" where
  \<comment> \<open>\<open>rand.Int(rand.Reader, max)\<close>: an error of the source, or a value in \<open>[0, max)\<close>\<close>
  "randInt bound s =
     (map_sum (\<lambda>e. e) (\<lambda>n. n mod bound) (randAt (envir s) (rand_ctr s)), s\<lparr>rand_ctr := rand_ctr s + 1\<rparr>)"

definition generateAccountNumber :: "string query" where
  "generateAccountNumber =
     bindM (mapErrM (WrapErr ''generate account number'') (randInt accountNumberUpperBound)) (\<lambda>n.
     returnM (decimalPadded accountNumberDigits n))"

definition isAccountNumberCollision :: "error \<Rightarrow> bool" where
  "isAccountNumberCollision e \<longleftrightarrow> pgConstraint e = Some ''accounts_account_number_key''"

definition createAccountAttempt :: "string \<Rightarrow> string \<Rightarrow> string \<Rightarrow> Account query" where
  "createAccountAttempt owner currency accountNumber = execTx
     (bindM (CreateAccount owner currency accountNumber) (\<lambda>account.
      bindM (CreateCustomerLedgerAccount (Some (ac_id account)) (ac_currency account)) (\<lambda>_.
      bindM (createFinancialAudit (zeroAuditParams
        \<lparr>fa_EntityType := ''account'', fa_EntityID := Some (ac_public_id account),
         fa_CorrelationID := Some (ac_public_id account), fa_EventType := ''account_created'',
         fa_Actor := ac_owner account, fa_ToState := ac_status account,
         fa_Metadata := Some [(''currency'', JStr (ac_currency account))]\<rparr>)) (\<lambda>_.
      returnM account))))"

fun createAccountWithGeneratedNumber ::
  "nat \<Rightarrow> string query \<Rightarrow> (string \<Rightarrow> Account query) \<Rightarrow> Account query" where
  \<comment> \<open>The first argument counts the attempts that are left.\<close>
  "createAccountWithGeneratedNumber 0 generate create =
     failM (GoErr ''generate unique account number after 5 attempts'')"
| "createAccountWithGeneratedNumber (Suc n) generate create =
     bindM generate (\<lambda>accountNumber.
     bindM (tryM (create accountNumber)) (\<lambda>r.
     case r of
       Inr account \<Rightarrow> returnM account
     | Inl e \<Rightarrow> if isAccountNumberCollision e then createAccountWithGeneratedNumber n generate create
               else failM e))"

record CreateAccountTxParams =
  ca_Owner :: string
  ca_Currency :: string

record CloseAccountTxParams =
  cl_PublicID :: "uuid option"
  cl_Username :: string

definition CreateAccountTx :: "CreateAccountTxParams \<Rightarrow> Account query" where
  "CreateAccountTx arg = createAccountWithGeneratedNumber accountNumberGenerationAttempts
     generateAccountNumber (createAccountAttempt (ca_Owner arg) (ca_Currency arg))"

definition closeAccountBody :: "CloseAccountTxParams \<Rightarrow> Account query" where
  "closeAccountBody arg =
     bindM (mapErrM (errIfNoRows ErrAccountNotFound) (GetAccountByPublicIDForUpdate (cl_PublicID arg))) (\<lambda>account.
     failIf (ac_owner account \<noteq> cl_Username arg) ErrAccountNotOwned
     (failIf (ac_status account = FinancialAccountStatusClosed) ErrAccountClosed
     (failIf (ac_balance account \<noteq> 0) ErrAccountBalanceNotZero
     (bindM (CloseAccount (ac_id account)) (\<lambda>closed.
      bindM (createFinancialAudit (zeroAuditParams
        \<lparr>fa_EntityType := ''account'', fa_EntityID := Some (ac_public_id closed),
         fa_CorrelationID := Some (ac_public_id closed), fa_EventType := ''account_closed'',
         fa_Actor := cl_Username arg, fa_FromState := ac_status account,
         fa_ToState := ac_status closed\<rparr>)) (\<lambda>_.
      bindM (createFinancialNotification (zeroNotificationParams
        \<lparr>fn_Username := ac_owner closed, fn_EventType := DomainEventAccountClosed,
         fn_EntityType := ''account'', fn_EntityID := Some (ac_public_id closed),
         fn_CorrelationID := Some (ac_public_id closed), fn_OccurredAt := ac_updated_at closed,
         fn_AccountStatus := ac_status closed\<rparr>)) (\<lambda>_.
      returnM closed)))))))"

definition CloseAccountTx :: "CloseAccountTxParams \<Rightarrow> Account query" where
  "CloseAccountTx arg = execTx (closeAccountBody arg)"

section \<open>Account numbers\<close>

lemma generateAccountNumber_format:
  assumes "generateAccountNumber s = (Inr number, s')"
  shows "length number = 10" "list_all isDigit number"
  using assms decimalPadded_digits
  by (auto simp: generateAccountNumber_def runs accountNumberDigits_def list_all_iff)

lemma generateAccountNumber_frame [frame]:
  assumes "\<And>g s. f (rand_ctr_update g s) = f s"
  shows "keeps f generateAccountNumber"
proof -
  have "keeps f (randInt n)" for n
    using assms by (simp add: keeps_def within_def randInt_def)
  then show ?thesis
    unfolding generateAccountNumber_def by (intro frame)
qed

section \<open>Opening and closing in the books\<close>

definition bookTables ::
  "world \<Rightarrow> Account list \<times> LedgerAccount list \<times> BankingTransaction list \<times> LedgerPosting list" where
  "bookTables s = (accounts s, ledger_accounts s, banking_transactions s, ledger_postings s)"

lemma bookTables_fields [simp]: "tableField bookTables" "unnoticed bookTables"
  by (simp_all add: bookTables_def tableField_def tablesOf_def unnoticed_def)

lemma books_cong: "bookTables t = bookTables s \<Longrightarrow> books t \<longleftrightarrow> books s"
  by (simp add: bookTables_def)

lemma keeps_books: "keeps bookTables m \<Longrightarrow> m s = (r, t) \<Longrightarrow> books t \<longleftrightarrow> books s"
  by (rule books_cong) (rule keepsD)

lemma keeps_preserves_books: "keeps bookTables m \<Longrightarrow> preserves books m"
  unfolding preserves_def by (metis keeps_books surj_pair snd_conv)

interpretation books: table_invariant books
  by unfold_locales (simp add: tablesOf_def)

lemma tablesOf_unaffected:
  "tablesOf (uuid_ctr_update g s) = tablesOf s" "tablesOf (clock_ctr_update g s) = tablesOf s"
  "tablesOf (rand_ctr_update g s) = tablesOf s"
  by (simp_all add: tablesOf_def)

lemma auditCorrelation_tables [frame]: "keeps tablesOf (auditCorrelation v)"
  unfolding auditCorrelation_def newPGUUID_def by (intro frame tablesOf_unaffected)

lemma CreateAccount_ok:
  assumes "CreateAccount owner currency number s = (Inr a, t)"
  shows "accounts t = accounts s @ [a]" "ledger_accounts t = ledger_accounts s"
    "banking_transactions t = banking_transactions s" "ledger_postings t = ledger_postings s"
    and "ac_owner a = owner" "ac_currency a = currency" "ac_account_number a = number"
    and "ac_balance a = 0" "ac_status a = ''active''" "in_int64 (ac_id a)" "accountRowOk a"
    and "ac_id a \<notin> ac_id ` set (accounts s)" "ac_public_id a \<notin> ac_public_id ` set (accounts s)"
    and "number \<notin> ac_account_number ` set (accounts s)"
    and "(owner, currency) \<notin> (\<lambda>b. (ac_owner b, ac_currency b)) ` set (accounts s)"
    and "owner \<in> us_username ` set (users s)"
proof -
  define u where "u = (accounts_id_seq_update (\<lambda>n. n + 1) s)\<lparr>uuid_ctr := uuid_ctr s + 1\<rparr>"
  define row where "row = \<lparr>ac_id = accounts_id_seq s, ac_owner = owner, ac_balance = 0, ac_currency = currency,
      ac_created_at = tx_now s, ac_public_id = uuidAt (envir s) (uuid_ctr s), ac_status = ''active'',
      ac_updated_at = tx_now s, ac_closed_at = None, ac_account_number = number\<rparr>"
  have run: "CreateAccount owner currency number s =
      (if in_int64 (accounts_id_seq s)
       then failIf (10 < runeCount number) PgStringTooLong (insertRow accountChecks accounts_update row) u
       else (Inl (PgSequenceLimit ''accounts_id_seq''), s))"
    by (simp add: CreateAccount_def nextval_def nextUUID_def bindM_def row_def u_def)
  have ins': "insertRow accountChecks accounts_update row u = (Inr a, t)" and "in_int64 (accounts_id_seq s)"
    using assms unfolding run by (simp_all add: failIf_iff split: if_splits)
  then have ins: "insertRow accountChecks accounts_update a u = (Inr a, t)"
    and a: "ac_owner a = owner" "ac_currency a = currency" "ac_account_number a = number"
      "ac_balance a = 0" "ac_status a = ''active''" "in_int64 (ac_id a)"
    unfolding insertRow_iff by (simp_all add: row_def)
  have u: "accounts u = accounts s" "users u = users s" "ledger_accounts u = ledger_accounts s"
      "banking_transactions u = banking_transactions s" "ledger_postings u = ledger_postings s"
    by (simp_all add: u_def)
  from ins have checks: "\<forall>c\<in>set (accountChecks u a). \<not> fst c" and t: "t = accounts_update (\<lambda>t. t @ [a]) u"
    by (simp_all add: runs)
  show "accounts t = accounts s @ [a]" "ledger_accounts t = ledger_accounts s"
    "banking_transactions t = banking_transactions s" "ledger_postings t = ledger_postings s"
    using t u by simp_all
  show "ac_owner a = owner" "ac_currency a = currency" "ac_account_number a = number"
    "ac_balance a = 0" "ac_status a = ''active''" "in_int64 (ac_id a)"
    by (fact a)+
  show "accountRowOk a" "ac_id a \<notin> ac_id ` set (accounts s)" "ac_public_id a \<notin> ac_public_id ` set (accounts s)"
    "number \<notin> ac_account_number ` set (accounts s)"
    "(owner, currency) \<notin> (\<lambda>b. (ac_owner b, ac_currency b)) ` set (accounts s)"
    "owner \<in> us_username ` set (users s)"
    using checks accountRowChecks_pass [of a] u(1,2) a(1-3) unfolding accountChecks_def
    by (auto simp: list_ex_iff image_iff intro: sym)
qed

lemma CreateCustomerLedgerAccount_ok:
  assumes "CreateCustomerLedgerAccount (Some aid) currency t = (Inr l, u)"
  shows "ledger_accounts u = ledger_accounts t @ [l]" "accounts u = accounts t"
    "banking_transactions u = banking_transactions t" "ledger_postings u = ledger_postings t"
    "la_customer_account_id l = Some aid" "la_currency l = currency"
    "la_kind l = ''customer''" "in_int64 (la_id l)" "la_id l \<notin> la_id ` set (ledger_accounts t)"
  using assms unfolding CreateCustomerLedgerAccount_def
  by (auto simp: runs ledgerAccountChecks_def list_ex_iff)

lemma create_books:
  assumes create: "CreateAccount owner currency number s = (Inr a, t)"
    and ledger: "CreateCustomerLedgerAccount (Some (ac_id a)) (ac_currency a) t = (Inr l, u)"
    and ok: "books s"
  shows "books u"
proof -
  note a = CreateAccount_ok [OF create] and l = CreateCustomerLedgerAccount_ok [OF ledger]
  have "booksOk (accounts s @ [a]) (ledger_accounts s @ [l]) (banking_transactions s) (ledger_postings s)"
    using a l by (intro open_keeps_books [OF ok]) (simp_all add: ledgerFor_def)
  then show ?thesis
    using a l by simp
qed

lemma createAccountAttempt_books: "preserves books (createAccountAttempt owner currency number)"
  unfolding createAccountAttempt_def
proof (rule books.execTx, elim run_elims)
  fix s x t account t1 l t2 log t3
  assume s: "books s" and "CreateAccount owner currency number s = (Inr account, t1)"
    and "CreateCustomerLedgerAccount (Some (ac_id account)) (ac_currency account) t1 = (Inr l, t2)"
    and audit: "createFinancialAudit (zeroAuditParams
        \<lparr>fa_EntityType := ''account'', fa_EntityID := Some (ac_public_id account),
         fa_CorrelationID := Some (ac_public_id account), fa_EventType := ''account_created'',
         fa_Actor := ac_owner account, fa_ToState := ac_status account,
         fa_Metadata := Some [(''currency'', JStr (ac_currency account))]\<rparr>) t2 = (Inr log, t3)"
    and "t = t3"
  then have "books t2"
    using create_books by blast
  then have "books t3"
    using keeps_books [OF financial_frame(1) audit] by simp
  then show "books t"
    using \<open>t = t3\<close> by simp
qed

lemma CreateAccountTx_books: "preserves books (CreateAccountTx arg)"
proof -
  have "keeps tablesOf generateAccountNumber"
    by (intro frame tablesOf_unaffected)
  then have "preserves books generateAccountNumber"
    by (rule books.keeps_preserves)
  moreover have "preserves books (createAccountWithGeneratedNumber n generate create)"
    if "preserves books generate" "\<And>number. preserves books (create number)" for n generate create
    using that by (induction n) (auto intro!: books.rules)
  ultimately show ?thesis
    unfolding CreateAccountTx_def using createAccountAttempt_books by blast
qed

lemma updateAccount_ok:
  assumes "updateAccount (\<lambda>a. ac_id a = aid \<and> p a) f s = (Inr a', s')" "distinct (map ac_id (accounts s))"
  obtains a where "a \<in> set (accounts s)" "ac_id a = aid" "p a" "a' = f a" "accountRowOk a'"
    "s' = s\<lparr>accounts := map (\<lambda>x. if ac_id x = aid then f x else x) (accounts s)\<rparr>"
proof -
  obtain a where a: "find (\<lambda>a. ac_id a = aid \<and> p a) (accounts s) = Some a" "accountRowOk (f a)" "a' = f a"
    and s': "s' = s\<lparr>accounts := map (\<lambda>x. if ac_id x = aid \<and> p x then f x else x) (accounts s)\<rparr>"
    using assms(1) unfolding updateAccount_iff by blast
  have mem: "a \<in> set (accounts s)" "ac_id a = aid" "p a"
    using find_Some_iff2 [OF a(1)] by auto
  have "map (\<lambda>x. if ac_id x = aid \<and> p x then f x else x) (accounts s) =
      map (\<lambda>x. if ac_id x = aid then f x else x) (accounts s)"
  proof (rule map_cong [OF refl])
    fix x assume "x \<in> set (accounts s)"
    then have "ac_id x = aid \<Longrightarrow> x = a"
      using find_key_inject [OF assms(2) _ mem(1)] mem(2) by simp
    then show "(if ac_id x = aid \<and> p x then f x else x) = (if ac_id x = aid then f x else x)"
      using mem(3) by (cases "ac_id x = aid") simp_all
  qed
  with s' show thesis
    using mem a by (intro that [of a]) simp_all
qed

text \<open>A change of one account's row that keeps its keys and its balance.\<close>

lemma updateAccount_books:
  assumes run: "updateAccount (\<lambda>a. ac_id a = aid \<and> p a) f s = (Inr a', s')" and ok: "books s"
    and f: "\<And>a. ac_id (f a) = ac_id a" "\<And>a. ac_currency (f a) = ac_currency a" "\<And>a. ac_balance (f a) = ac_balance a"
  shows "books s'"
proof -
  obtain a where a: "a \<in> set (accounts s)" "ac_id a = aid" "a' = f a" "accountRowOk a'"
    and s': "s' = s\<lparr>accounts := map (\<lambda>x. if ac_id x = aid then f x else x) (accounts s)\<rparr>"
    by (rule updateAccount_ok [OF run booksD(1) [OF ok]]) (rule that)
  have "booksOk (map (\<lambda>x. if ac_id x = aid then f x else x) (accounts s)) (ledger_accounts s)
      (banking_transactions s) (ledger_postings s)"
  proof (rule status_keeps_books [OF ok], rule ballI)
    fix x assume x: "x \<in> set (accounts s)"
    have "accountRowOk (if ac_id x = aid then f x else x)"
      using find_key_inject [OF booksD(1) [OF ok] x a(1)] a booksD(4) [OF ok x] by auto
    then show "ac_id (if ac_id x = aid then f x else x) = ac_id x \<and>
        ac_currency (if ac_id x = aid then f x else x) = ac_currency x \<and>
        ac_balance (if ac_id x = aid then f x else x) = ac_balance x \<and>
        accountRowOk (if ac_id x = aid then f x else x)"
      using f by simp
  qed
  with s' show ?thesis by simp
qed

lemma closeAccountBody_books:
  assumes run: "closeAccountBody arg s = (Inr x, t)" and ok: "books s"
  shows "books t"
proof -
  obtain account s1 closed s2 x1 x2 s3 x3 x4 s4
    where "mapErrM (errIfNoRows ErrAccountNotFound) (GetAccountByPublicIDForUpdate (cl_PublicID arg)) s = (Inr account, s1)"
    and close: "CloseAccount (ac_id account) s1 = (Inr closed, s2)"
    and audit: "createFinancialAudit x1 s2 = (Inr x2, s3)"
    and notify: "createFinancialNotification x3 s3 = (Inr x4, s4)" and "t = s4"
    using run unfolding closeAccountBody_def by (elim run_elims) (rule that, assumption+)
  then have "s1 = s"
    by (simp add: runs account_select_defs)
  have "books s2"
    using close ok \<open>s1 = s\<close> unfolding CloseAccount_def bindM_iff readM_iff
    by (elim exE conjE) (hypsubst, erule updateAccount_books; simp)
  then have "books s3"
    using keeps_books [OF financial_frame(1) audit] by simp
  then show ?thesis
    using keeps_books [OF financial_frame(4) notify] \<open>t = s4\<close> by simp
qed

lemma CloseAccountTx_books: "preserves books (CloseAccountTx arg)"
  unfolding CloseAccountTx_def by (rule books.execTx) (rule closeAccountBody_books)

end
