(* ===== verification/Moves.thy ===== *)
theory Moves
  imports TransferProofs Accounts
begin

text \<open>
  The transactions of \<open>db/sqlc/transaction_tx.go\<close> as the program calls them, from outside a database
  transaction: they keep the books whatever happens to \<open>BEGIN\<close>, \<open>COMMIT\<close> and the audit of a failure.
\<close>

section \<open>Recording a failure\<close>

lemma auditTransferFailure_frame:
  assumes "tableField f" "unnoticed f"
  shows "keeps f (auditTransferFailure arg e)"
  unfolding auditTransferFailure_def by (intro frame assms unnoticedD [OF assms(2)])

lemma orAudit_books:
  "preserves books body \<Longrightarrow> (\<And>e. preserves books (audit e)) \<Longrightarrow> preserves books (orAudit body audit)"
  unfolding orAudit_def by (intro books.rules)

lemma orAudit_ok: "orAudit body audit s = (Inr x, t) \<longleftrightarrow> body s = (Inr x, t)"
  by (auto simp: orAudit_def runs split: sum.splits) (metis sum.exhaust)

lemma audit_books: "preserves books (auditCorrelation v)" "preserves books (auditTransferFailure arg e)"
  by (intro keeps_preserves_books financial_frame auditTransferFailure_frame; simp)+

section \<open>The books\<close>

lemma transferTx_books: "preserves books (execTx (transferWithQueries arg))"
  by (rule books.execTx) (rule transferWithQueries_books)

theorem TransferTx_books: "preserves books (TransferTx arg)"
  unfolding TransferTx_def Let_def by (intro books.bindM orAudit_books audit_books transferTx_books)

lemma replay_frame [frame]: "keeps f (replayIdempotentTransfer arg)"
  unfolding replayIdempotentTransfer_def by (intro frame)

text \<open>The two ways an idempotent transfer succeeds: it replays a stored result, or it runs.\<close>

lemma idempotentTransferBody_cases:
  assumes run: "idempotentTransferBody arg s = (Inr r, s')"
  obtains (replayed) n s1 e s2 where
      "DeleteExpiredIdempotencyKey (tp_Username (it_TransferTxParams arg)) IdempotencyOperationInternalTransfer
         (it_IdempotencyKey arg) s = (Inr n, s1)"
      "CreateIdempotencyKey (tp_Username (it_TransferTxParams arg)) IdempotencyOperationInternalTransfer
         (it_IdempotencyKey arg) (it_RequestHash arg) s1 = (Inl e, s2)" "errIs e ErrNoRows"
      "replayIdempotentTransfer arg s2 = (Inr r, s')"
  | (performed) n s1 k s2 s3 k' where
      "DeleteExpiredIdempotencyKey (tp_Username (it_TransferTxParams arg)) IdempotencyOperationInternalTransfer
         (it_IdempotencyKey arg) s = (Inr n, s1)"
      "CreateIdempotencyKey (tp_Username (it_TransferTxParams arg)) IdempotencyOperationInternalTransfer
         (it_IdempotencyKey arg) (it_RequestHash arg) s1 = (Inr k, s2)"
      "transferWithQueries (it_TransferTxParams arg) s2 = (Inr r, s3)"
      "CompleteIdempotencyKey (tp_Username (it_TransferTxParams arg)) IdempotencyOperationInternalTransfer
         (it_IdempotencyKey arg) (Some (bt_id (tr_Transaction r))) (Some idempotencyResponseStatusCreated)
         (Some (marshalTransferResult r)) s3 = (Inr k', s')"
proof -
  obtain n s1 c s2 where del: "DeleteExpiredIdempotencyKey (tp_Username (it_TransferTxParams arg))
         IdempotencyOperationInternalTransfer (it_IdempotencyKey arg) s = (Inr n, s1)"
    and create: "CreateIdempotencyKey (tp_Username (it_TransferTxParams arg)) IdempotencyOperationInternalTransfer
         (it_IdempotencyKey arg) (it_RequestHash arg) s1 = (c, s2)"
    and rest: "(case c of
           Inl e \<Rightarrow> if errIs e ErrNoRows then replayIdempotentTransfer arg else failM e
         | Inr _ \<Rightarrow>
             bindM (transferWithQueries (it_TransferTxParams arg)) (\<lambda>result.
             bindM (CompleteIdempotencyKey (tp_Username (it_TransferTxParams arg))
                      IdempotencyOperationInternalTransfer (it_IdempotencyKey arg)
                      (Some (bt_id (tr_Transaction result)))
                      (Some idempotencyResponseStatusCreated) (Some (marshalTransferResult result))) (\<lambda>_.
             returnM result))) s2 = (Inr r, s')"
    using run unfolding idempotentTransferBody_def Let_def bindM_iff tryM_iff by blast
  show thesis
  proof (cases c)
    case (Inl e)
    then show thesis
      using rest del create by (intro replayed) (simp_all add: failM_iff split: if_splits)
  next
    case (Inr k)
    then obtain x s3 k' where "transferWithQueries (it_TransferTxParams arg) s2 = (Inr x, s3)"
      "CompleteIdempotencyKey (tp_Username (it_TransferTxParams arg)) IdempotencyOperationInternalTransfer
         (it_IdempotencyKey arg) (Some (bt_id (tr_Transaction x))) (Some idempotencyResponseStatusCreated)
         (Some (marshalTransferResult x)) s3 = (Inr k', s')" "r = x"
      using rest unfolding Inr sum.case bindM_iff returnM_iff by blast
    then show thesis
      using del create Inr by (intro performed) simp_all
  qed
qed

lemma idempotency_books_frame:
  "keeps bookTables (DeleteExpiredIdempotencyKey u ope k)" "keeps bookTables (CreateIdempotencyKey u ope k h)"
  "keeps bookTables (CompleteIdempotencyKey u ope k tid st snap)"
  by (intro frame; simp add: bookTables_def)+

lemma idempotentTransferBody_books:
  assumes "idempotentTransferBody arg s = (Inr r, s')" "books s"
  shows "books s'"
  using assms(1)
proof (cases rule: idempotentTransferBody_cases)
  case (replayed n s1 e s2)
  then show ?thesis
    using assms(2) keeps_books [OF idempotency_books_frame(1)] keeps_books [OF idempotency_books_frame(2)]
      keeps_books [OF replay_frame] by blast
next
  case (performed n s1 k s2 s3 k')
  have "books s2"
    using assms(2) keeps_books [OF idempotency_books_frame(1) performed(1)]
      keeps_books [OF idempotency_books_frame(2) performed(2)] by simp
  then have "books s3"
    by (rule transferWithQueries_books [OF performed(3)])
  then show ?thesis
    using keeps_books [OF idempotency_books_frame(3) performed(4)] by simp
qed

lemma idempotentTx_books: "preserves books (execTx (idempotentTransferBody arg))"
  by (rule books.execTx) (rule idempotentTransferBody_books)

theorem IdempotentTransferTx_books: "preserves books (IdempotentTransferTx arg)"
  unfolding IdempotentTransferTx_def Let_def
  by (intro books.failIf books.bindM orAudit_books audit_books idempotentTx_books)

lemma settlementTx_books: "preserves books (execTx (settlementBody pid amount narration tt actor cid))"
  by (rule books.execTx) (rule settlementBody_books)

theorem DepositTx_books: "preserves books (DepositTx darg)" and WithdrawTx_books: "preserves books (WithdrawTx warg)"
  unfolding DepositTx_def WithdrawTx_def settlementMovementTx_def
  by (intro books.failIf books.bindM audit_books settlementTx_books)+

end
