(* ===== verification/Operator.thy ===== *)
theory Operator
  imports Moves
begin

text \<open>
  The operator's transactions, \<open>db/sqlc/operator_tx.go\<close>: freezing and unfreezing an account, and the
  reversal of a posted transaction by a new one with the opposite postings.
\<close>

section \<open>Definitions\<close>

record AccountStatusTxParams =
  as_AccountPublicID :: "uuid option"
  as_TargetStatus :: string
  as_Actor :: string
  as_Reason :: string
  as_CorrelationID :: "uuid option"

record AccountStatusTxResult =
  sr_Account :: Account
  sr_AuditLog :: AuditLog

record ReverseTransactionTxParams =
  rt_TransactionID :: "uuid option"
  rt_Actor :: string
  rt_Reason :: string
  rt_CorrelationID :: "uuid option"

record ReverseTransactionTxResult =
  rv_Original :: BankingTransaction
  rv_Reversal :: BankingTransaction
  rv_Postings :: "LedgerPosting list"
  rv_Accounts :: "Account list"
  rv_AuditLog :: AuditLog

record operatorAuditParams =
  oa_EntityType :: string
  oa_EntityID :: "uuid option"
  oa_CorrelationID :: "uuid option"
  oa_EventType :: string
  oa_Actor :: string
  oa_FromState :: string
  oa_ToState :: string
  oa_Reason :: string
  oa_Metadata :: "(string \<times> json) list option"

definition validateOperatorAction :: "string \<Rightarrow> string \<Rightarrow> uuid option \<Rightarrow> bool" where
  \<comment> \<open>False stands for \<open>ErrInvalidOperatorAction\<close>.\<close>
  "validateOperatorAction actor reason correlationID \<longleftrightarrow>
     \<not> (trimSpace actor = '''' \<or> trimSpace reason = '''' \<or> 128 < runeCount (trimSpace actor)
        \<or> 500 < runeCount (trimSpace reason) \<or> correlationID = None)"

definition createOperatorAudit :: "operatorAuditParams \<Rightarrow> AuditLog query" where
  "createOperatorAudit arg =
     CreateAuditLog (oa_EntityType arg) (oa_EntityID arg) (oa_CorrelationID arg) (oa_EventType arg)
       (trimSpace (oa_Actor arg)) (textValue (oa_FromState arg)) (textValue (oa_ToState arg))
       (Some (trimSpace (oa_Reason arg)))
       (case oa_Metadata arg of None \<Rightarrow> JNull | Some kvs \<Rightarrow> JObj kvs)"

definition auditOperatorFailure :: "operatorAuditParams \<Rightarrow> error \<Rightarrow> error query" where
  \<comment> \<open>On the pool, outside the transaction that failed; it returns the error to report.\<close>
  "auditOperatorFailure arg operatorErr =
     bindM (readM (\<lambda>s. errorText (driverText (envir s)) operatorErr)) (\<lambda>message.
     bindM (tryM (autocommit (createOperatorAudit (arg
       \<lparr>oa_Metadata := Some ((case oa_Metadata arg of None \<Rightarrow> [] | Some kvs \<Rightarrow> kvs) @
                             [(''error'', JStr message)])\<rparr>)))) (\<lambda>audit.
     returnM (case audit of
        Inr _ \<Rightarrow> operatorErr
      | Inl auditErr \<Rightarrow> JoinErr operatorErr (WrapErr ''record operator failure audit'' auditErr))))"

definition publicUUID :: "uuid \<Rightarrow> string" where
  "publicUUID = uuidString"

subsection \<open>Freezing and unfreezing\<close>

definition setAccountStatusBody :: "AccountStatusTxParams \<Rightarrow> AccountStatusTxResult query" where
  "setAccountStatusBody arg =
     bindM (mapErrM (errIfNoRows ErrAccountNotFound) (GetAccountByPublicIDForUpdate (as_AccountPublicID arg))) (\<lambda>account.
     failIf (ac_status account = FinancialAccountStatusClosed) ErrAccountClosed
     (failIf (ac_status account = as_TargetStatus arg)
       (if as_TargetStatus arg = FinancialAccountStatusFrozen then ErrAccountAlreadyFrozen
        else ErrAccountAlreadyActive)
     (bindM (SetAccountStatus (ac_id account) (as_TargetStatus arg)) (\<lambda>updated.
      bindM (createOperatorAudit
        \<lparr>oa_EntityType = ''account'', oa_EntityID = Some (ac_public_id account),
         oa_CorrelationID = as_CorrelationID arg,
         oa_EventType = (if as_TargetStatus arg = FinancialAccountStatusFrozen then ''account_frozen''
                         else ''account_unfrozen''),
         oa_Actor = as_Actor arg, oa_FromState = ac_status account, oa_ToState = ac_status updated,
         oa_Reason = as_Reason arg,
         oa_Metadata = Some [(''account_id'', JStr (publicUUID (ac_public_id account))),
                             (''currency'', JStr (ac_currency account))]\<rparr>) (\<lambda>audit.
      bindM (createFinancialNotification (zeroNotificationParams
        \<lparr>fn_Username := ac_owner updated,
         fn_EventType := (if ac_status updated = FinancialAccountStatusFrozen then DomainEventAccountFrozen
                          else DomainEventAccountUnfrozen),
         fn_EntityType := ''account'', fn_EntityID := Some (ac_public_id updated),
         fn_CorrelationID := as_CorrelationID arg, fn_OccurredAt := ac_updated_at updated,
         fn_AccountStatus := ac_status updated, fn_Reason := as_Reason arg\<rparr>)) (\<lambda>_.
      returnM \<lparr>sr_Account = updated, sr_AuditLog = audit\<rparr>))))))"

definition SetAccountStatusTx :: "AccountStatusTxParams \<Rightarrow> AccountStatusTxResult query" where
  "SetAccountStatusTx arg =
     failIf (\<not> validateOperatorAction (as_Actor arg) (as_Reason arg) (as_CorrelationID arg)) ErrInvalidOperatorAction
     (failIf (as_TargetStatus arg \<noteq> FinancialAccountStatusFrozen
              \<and> as_TargetStatus arg \<noteq> FinancialAccountStatusActive) (GoErr ''invalid account target status'')
     (orAudit (execTx (setAccountStatusBody arg)) (auditOperatorFailure
        \<lparr>oa_EntityType = ''account'', oa_EntityID = as_AccountPublicID arg,
         oa_CorrelationID = as_CorrelationID arg, oa_EventType = ''account_status_change_failed'',
         oa_Actor = as_Actor arg, oa_FromState = '''', oa_ToState = ''rejected'',
         oa_Reason = as_Reason arg,
         oa_Metadata = Some [(''requested_status'', JStr (as_TargetStatus arg))]\<rparr>)))"

subsection \<open>Reversal\<close>

fun oppositePostings ::
  "ListReversalSourcePostingsRow list \<Rightarrow> error + (postingParams list \<times> int list)" where
  \<comment> \<open>The loop that negates the postings and collects the customers' accounts\<close>
  "oppositePostings [] = Inr ([], [])"
| "oppositePostings (row # rows) =
     (if rs_kind row = ''customer'' \<and> rs_customer_account_id row = None
      then Inl (GoErr ''customer ledger account is missing its account'')
      else case oppositePostings rows of
        Inl e \<Rightarrow> Inl e
      | Inr (ps, ids) \<Rightarrow>
          Inr (\<lparr>pp_LedgerAccountID = rs_ledger_account_id row, pp_Amount = go_neg (rs_amount row)\<rparr> # ps,
               (if rs_kind row = ''customer'' then [the (rs_customer_account_id row)] else []) @ ids))"

definition lockAccountsForOperator :: "int list \<Rightarrow> (Account list \<times> int list) query" where
  \<comment> \<open>The keys of a map, sorted: each account is locked once, in ascending order.\<close>
  "lockAccountsForOperator accountIDs =
     (let ordered = sort (remdups accountIDs)
      in bindM (forM ordered GetAccountForUpdate) (\<lambda>locked. returnM (locked, ordered)))"

definition reverseBalance :: "ListReversalSourcePostingsRow \<Rightarrow> (int \<times> Account \<times> string) query" where
  \<comment> \<open>One round of the loop over the customers' postings: the entries it adds to \<open>updatedAccounts\<close> and
     \<open>reversalDirections\<close>\<close>
  "reverseBalance posting =
     (let accountID = (case rs_customer_account_id posting of None \<Rightarrow> 0 | Some i \<Rightarrow> i);
          delta = go_neg (rs_amount posting)
      in bindM (if delta < 0
                then mapErrM (\<lambda>e. if errIs e ErrInsufficientBalance then ErrReversalInsufficientFunds else e)
                       (subtractAccountBalance accountID (go_neg delta))
                else AddAccountBalanceInternal delta accountID) (\<lambda>updated.
         returnM (accountID, updated, if delta < 0 then ''outgoing'' else ''incoming'')))"

definition zeroAccount :: Account where
  \<comment> \<open>What a Go map lookup returns for a missing key; public ids that are not valid read as zero.\<close>
  "zeroAccount =
     \<lparr>ac_id = 0, ac_owner = '''', ac_balance = 0, ac_currency = '''', ac_created_at = goZeroTime,
      ac_public_id = 0, ac_status = '''', ac_updated_at = goZeroTime, ac_closed_at = None,
      ac_account_number = ''''\<rparr>"

definition updatedAccount :: "(int \<times> Account \<times> string) list \<Rightarrow> int \<Rightarrow> Account \<times> string" where
  \<comment> \<open>Later entries of the maps replace earlier ones.\<close>
  "updatedAccount entries accountID =
     (case map_of (rev entries) accountID of None \<Rightarrow> (zeroAccount, '''') | Some v \<Rightarrow> v)"

definition reverseTransactionBody :: "ReverseTransactionTxParams \<Rightarrow> ReverseTransactionTxResult query" where
  "reverseTransactionBody arg =
     bindM (mapErrM (errIfNoRows ErrTransactionNotFound) (GetBankingTransactionForUpdate (rt_TransactionID arg))) (\<lambda>original0.
     failIf (bt_transaction_type original0 = BankingTransactionTypeReversal) ErrTransactionNotReversible
     (failIf (bt_status original0 = BankingTransactionStatusReversed) ErrTransactionAlreadyReversed
     (failIf (bt_status original0 \<noteq> BankingTransactionStatusPosted) ErrTransactionNotPosted
     (bindM (ListReversalSourcePostings (Some (bt_id original0))) (\<lambda>sourcePostings.
      failIf (length sourcePostings < 2) (GoErr ''transaction has insufficient ledger postings'')
     (bindM (liftE (oppositePostings sourcePostings)) (\<lambda>(opposite, accountIDs).
      bindM (lockAccountsForOperator accountIDs) (\<lambda>(lockedAccounts, orderedIDs).
      failIf (list_ex (\<lambda>a. ac_status a = FinancialAccountStatusClosed) lockedAccounts) ErrAccountClosed
     (bindM (createBalancedTransaction
        \<lparr>pt_TransactionType = BankingTransactionTypeReversal, pt_Currency = bt_currency original0,
         pt_Amount = bt_amount original0, pt_Narration = ''Reversal: '' @ trimSpace (rt_Reason arg),
         pt_InitiatedBy = trimSpace (rt_Actor arg), pt_ReversalOf = Some (bt_id original0)\<rparr>
        opposite) (\<lambda>(reversal0, postings).
      bindM (forM (filter (\<lambda>p. rs_kind p = ''customer'') sourcePostings) reverseBalance) (\<lambda>updated.
      bindM (MarkBankingTransactionPosted (Some (bt_id reversal0))) (\<lambda>reversal.
      bindM (MarkBankingTransactionReversed (Some (bt_id original0))) (\<lambda>original.
      bindM (createOperatorAudit
        \<lparr>oa_EntityType = ''banking_transaction'', oa_EntityID = Some (bt_id original),
         oa_CorrelationID = rt_CorrelationID arg, oa_EventType = ''transaction_reversed'',
         oa_Actor = rt_Actor arg, oa_FromState = BankingTransactionStatusPosted,
         oa_ToState = BankingTransactionStatusReversed, oa_Reason = rt_Reason arg,
         oa_Metadata = Some [(''original_reference'', JStr (bt_reference original)),
           (''reversal_transaction_id'', JStr (publicUUID (bt_id reversal))),
           (''reversal_reference'', JStr (bt_reference reversal))]\<rparr>) (\<lambda>audit.
      bindM (forM orderedIDs (\<lambda>accountID. createFinancialNotification (zeroNotificationParams
        \<lparr>fn_Username := ac_owner (fst (updatedAccount updated accountID)),
         fn_EventType := DomainEventTransactionReversed, fn_EntityType := ''banking_transaction'',
         fn_EntityID := Some (bt_id original), fn_CorrelationID := rt_CorrelationID arg,
         fn_Reference := bt_reference original, fn_Amount := bt_amount original,
         fn_Currency := bt_currency original, fn_Direction := snd (updatedAccount updated accountID),
         fn_OccurredAt := orZeroTime (bt_posted_at reversal), fn_Reason := rt_Reason arg\<rparr>))) (\<lambda>_.
      returnM \<lparr>rv_Original = original, rv_Reversal = reversal, rv_Postings = postings,
               rv_Accounts = map (\<lambda>i. fst (updatedAccount updated i)) orderedIDs,
               rv_AuditLog = audit\<rparr>)))))))))))))))"

definition ReverseTransactionTx :: "ReverseTransactionTxParams \<Rightarrow> ReverseTransactionTxResult query" where
  "ReverseTransactionTx arg =
     failIf (\<not> validateOperatorAction (rt_Actor arg) (rt_Reason arg) (rt_CorrelationID arg)) ErrInvalidOperatorAction
     (orAudit (execTx (reverseTransactionBody arg)) (auditOperatorFailure
        \<lparr>oa_EntityType = ''banking_transaction'', oa_EntityID = rt_TransactionID arg,
         oa_CorrelationID = rt_CorrelationID arg, oa_EventType = ''transaction_reversal_failed'',
         oa_Actor = rt_Actor arg, oa_FromState = '''', oa_ToState = ''rejected'',
         oa_Reason = rt_Reason arg, oa_Metadata = None\<rparr>))"

section \<open>Frames\<close>

lemma createOperatorAudit_frame [frame]:
  assumes "unnoticed f"
  shows "keeps f (createOperatorAudit arg)"
  unfolding createOperatorAudit_def by (intro frame unnoticedD [OF assms])

lemma auditOperatorFailure_books: "preserves books (auditOperatorFailure arg e)"
  unfolding auditOperatorFailure_def
  by (intro keeps_preserves_books frame; simp)

section \<open>Freezing in the books\<close>

lemma setAccountStatusBody_books:
  assumes run: "setAccountStatusBody arg s = (Inr r, s')" and ok: "books s"
  shows "books s'"
proof -
  obtain account s1 updated s2 x1 x2 s3 x3 x4 s4
    where get: "mapErrM (errIfNoRows ErrAccountNotFound) (GetAccountByPublicIDForUpdate (as_AccountPublicID arg)) s = (Inr account, s1)"
    and status: "SetAccountStatus (ac_id account) (as_TargetStatus arg) s1 = (Inr updated, s2)"
    and audit: "createOperatorAudit x1 s2 = (Inr x2, s3)"
    and notify: "createFinancialNotification x3 s3 = (Inr x4, s4)" and s': "s' = s4"
    using run unfolding setAccountStatusBody_def by (elim run_elims) (rule that, assumption+)
  have "s1 = s"
    using get by (simp add: runs account_select_defs)
  have "books s2"
    using status ok \<open>s1 = s\<close> unfolding SetAccountStatus_def bindM_iff readM_iff
    by (elim exE conjE) (hypsubst, erule updateAccount_books; simp)
  then show "books s'"
    using keeps_books [OF createOperatorAudit_frame audit] keeps_books [OF financial_frame(4) notify] s' by simp
qed

theorem SetAccountStatusTx_books: "preserves books (SetAccountStatusTx arg)"
proof -
  have "preserves books (execTx (setAccountStatusBody arg))"
    by (rule books.execTx) (rule setAccountStatusBody_books)
  then show ?thesis
    unfolding SetAccountStatusTx_def by (intro books.failIf orAudit_books auditOperatorFailure_books)
qed

end
