(* ===== verification/Reversal.thy ===== *)
theory Reversal
  imports Operator "HOL-Library.Multiset"
begin

text \<open>
  What a successful reversal did, and that the books stay in order: the original is marked reversed,
  a new transaction carries the opposite postings, and every customer balance the original had moved
  is moved back.
\<close>

section \<open>The postings to reverse\<close>

definition ledgerOf :: "LedgerAccount list \<Rightarrow> int \<Rightarrow> LedgerAccount" where
  "ledgerOf L lid = the (find (\<lambda>l. la_id l = lid) L)"

definition reversalRow :: "LedgerAccount list \<Rightarrow> LedgerPosting \<Rightarrow> ListReversalSourcePostingsRow" where
  "reversalRow L p =
     \<lparr>rs_ledger_account_id = lp_ledger_account_id p, rs_amount = lp_amount p,
      rs_kind = la_kind (ledgerOf L (lp_ledger_account_id p)),
      rs_customer_account_id = la_customer_account_id (ledgerOf L (lp_ledger_account_id p))\<rparr>"

lemma reversalRow_simps [simp]:
  "rs_ledger_account_id (reversalRow L p) = lp_ledger_account_id p" "rs_amount (reversalRow L p) = lp_amount p"
  "rs_kind (reversalRow L p) = la_kind (ledgerOf L (lp_ledger_account_id p))"
  "rs_customer_account_id (reversalRow L p) = la_customer_account_id (ledgerOf L (lp_ledger_account_id p))"
  by (simp_all add: reversalRow_def)

lemma ledgerOf_mem: "distinct (map la_id L) \<Longrightarrow> l \<in> set L \<Longrightarrow> ledgerOf L (la_id l) = l"
  using find_key [of la_id L "la_id l" l] by (simp add: ledgerOf_def)

lemma ledgerOf_posting:
  assumes "booksOk A L T P" "p \<in> set P"
  shows "ledgerOf L (lp_ledger_account_id p) \<in> set L"
    and "la_id (ledgerOf L (lp_ledger_account_id p)) = lp_ledger_account_id p"
  using booksD(10) [OF assms] ledgerOf_mem [OF booksD(2) [OF assms(1)]] by (metis imageE)+

lemma unique_match:
  "distinct (map key L) \<Longrightarrow> l \<in> set L \<Longrightarrow> concat (map (\<lambda>k. if key k = key l then [f k] else []) L) = [f l]"
proof (induction L)
  case Nil
  then show ?case by simp
next
  case (Cons k L)
  have none: "concat (map (\<lambda>j. if key j = key k then [f j] else []) L) = []"
    using Cons.prems(1) by (auto simp: image_iff)
  show ?case
  proof (cases "l = k")
    case True
    then show ?thesis using none by simp
  next
    case False
    then have "l \<in> set L" "key k \<noteq> key l"
      using Cons.prems by auto
    then show ?thesis using Cons by simp
  qed
qed

lemma ListReversalSourcePostings_ok:
  assumes run: "ListReversalSourcePostings (Some tid) s = (Inr rows, s')" and ok: "books s"
  shows "s' = s"
    and "rows = map (reversalRow (ledger_accounts s)) (sort_key lp_id (postingsOf tid (ledger_postings s)))"
proof -
  show "s' = s"
    using run by (simp add: ListReversalSourcePostings_def readM_iff)
  let ?row = "\<lambda>p l. \<lparr>rs_ledger_account_id = lp_ledger_account_id p, rs_amount = lp_amount p,
       rs_kind = la_kind l, rs_customer_account_id = la_customer_account_id l\<rparr>"
  have one: "concat (map (\<lambda>l. if la_id l = lp_ledger_account_id p then [?row p l] else []) (ledger_accounts s)) =
      [reversalRow (ledger_accounts s) p]" if "p \<in> set (ledger_postings s)" for p
    using unique_match [OF booksD(2) [OF ok] ledgerOf_posting(1) [OF ok that], of "?row p"]
      ledgerOf_posting(2) [OF ok that] by (simp add: reversalRow_def)
  have "rows = concat (map (\<lambda>p. concat (map (\<lambda>l. if la_id l = lp_ledger_account_id p then [?row p l] else [])
      (ledger_accounts s))) (sort_key lp_id (postingsOf tid (ledger_postings s))))"
    using run unfolding ListReversalSourcePostings_def readM_iff postingsOf_def by simp
  also have "\<dots> = concat (map (\<lambda>p. [reversalRow (ledger_accounts s) p]) (sort_key lp_id (postingsOf tid (ledger_postings s))))"
    using one by (intro arg_cong [where f = concat] map_cong) (auto simp: postingsOf_def)
  finally show "rows = map (reversalRow (ledger_accounts s)) (sort_key lp_id (postingsOf tid (ledger_postings s)))"
    by simp
qed

lemma oppositePostings_ok:
  "oppositePostings rows = Inr (ps, ids) \<Longrightarrow>
     ps = map (\<lambda>r. \<lparr>pp_LedgerAccountID = rs_ledger_account_id r, pp_Amount = go_neg (rs_amount r)\<rparr>) rows \<and>
     ids = map (\<lambda>r. the (rs_customer_account_id r)) (filter (\<lambda>r. rs_kind r = ''customer'') rows)"
  by (induction rows arbitrary: ps ids) (auto split: sum.splits if_splits)

text \<open>No posting of a balanced transaction exceeds its amount, so negation does not wrap.\<close>

lemma sum_abs_bound:
  fixes xs :: "int list"
  assumes "x \<in> set xs"
  shows "2 * \<bar>x\<bar> \<le> sum_list (map abs xs) + \<bar>sum_list xs\<bar>"
  using assms
proof (induction xs)
  case (Cons y ys)
  have "\<bar>sum_list ys\<bar> \<le> sum_list (map abs ys)" by (rule sum_list_abs)
  then show ?case using Cons by (cases "x = y") auto
qed simp

lemma balanced_negation:
  assumes "txBalanced L P t" "in_int64 (bt_amount t)" "p \<in> set (postingsOf (bt_id t) P)"
  shows "\<bar>lp_amount p\<bar> \<le> bt_amount t" "go_neg (lp_amount p) = - lp_amount p"
    "go_neg (go_neg (lp_amount p)) = lp_amount p"
proof -
  show le: "\<bar>lp_amount p\<bar> \<le> bt_amount t"
    using assms sum_abs_bound [of "lp_amount p" "map lp_amount (postingsOf (bt_id t) P)"]
    by (auto simp: txBalanced_def Let_def comp_def)
  then have range: "in_int64 (lp_amount p)" "in_int64 (- lp_amount p)"
    using assms(2) by (auto simp: in_int64_def)
  then show "go_neg (lp_amount p) = - lp_amount p"
    by (simp add: go_neg_def)
  then show "go_neg (go_neg (lp_amount p)) = lp_amount p"
    using range by (simp add: go_neg_def)
qed

section \<open>The balances\<close>

definition reverseCredit :: "time \<Rightarrow> ListReversalSourcePostingsRow list \<Rightarrow> Account \<Rightarrow> Account" where
  "reverseCredit now rows =
     fold (\<lambda>r. creditAccount now (the (rs_customer_account_id r)) (- rs_amount r)) rows"

lemma reverseCredit_simps [simp]:
  "ac_id (reverseCredit now rows a) = ac_id a" "ac_owner (reverseCredit now rows a) = ac_owner a"
  "ac_currency (reverseCredit now rows a) = ac_currency a" "ac_status (reverseCredit now rows a) = ac_status a"
  "ac_public_id (reverseCredit now rows a) = ac_public_id a"
  "ac_account_number (reverseCredit now rows a) = ac_account_number a"
  "ac_closed_at (reverseCredit now rows a) = ac_closed_at a"
  by (induction rows arbitrary: a) (simp_all add: reverseCredit_def)

lemma reverseCredit_balance:
  "ac_balance (reverseCredit now rows a) =
     ac_balance a - (\<Sum>r\<leftarrow>filter (\<lambda>r. the (rs_customer_account_id r) = ac_id a) rows. rs_amount r)"
  by (induction rows arbitrary: a) (simp_all add: reverseCredit_def)

definition rowsOk :: "Account list \<Rightarrow> bool" where
  "rowsOk A \<longleftrightarrow> distinct (map ac_id A) \<and> (\<forall>a\<in>set A. accountRowOk a \<and> in_int64 (ac_balance a))"

lemma reverseBalance_ok:
  assumes run: "reverseBalance row s = (Inr v, s')" and ok: "rowsOk (accounts s)"
    and row: "rs_customer_account_id row = Some i" "go_neg (rs_amount row) = - rs_amount row"
      "go_neg (go_neg (rs_amount row)) = rs_amount row"
  shows "s' = s\<lparr>accounts := map (creditAccount (tx_now s) i (- rs_amount row)) (accounts s)\<rparr>"
    and "rowsOk (accounts s')" and "fst v = i"
    and "fst (snd v) \<in> set (accounts s')" "ac_id (fst (snd v)) = i"
proof -
  let ?n = "- rs_amount row"
  obtain a' where add: "AddAccountBalanceInternal ?n i s = (Inr a', s')" and v: "fst v = i" "fst (snd v) = a'"
    using run row unfolding reverseBalance_def Let_def
    by (auto simp: bindM_iff returnM_iff mapErrM_iff split: if_splits dest: subtractAccountBalance_ok)
  have ids: "distinct (map ac_id (accounts s))"
    using ok by (simp add: rowsOk_def)
  obtain a where a: "a \<in> set (accounts s)" "ac_id a = i" "in_int64 (ac_balance a + ?n)"
      "a' = creditAccount (tx_now s) i ?n a" "accountRowOk a'"
    and s': "s' = s\<lparr>accounts := map (creditAccount (tx_now s) i ?n) (accounts s)\<rparr>"
    by (rule AddAccountBalanceInternal_ok [OF add ids]) (rule that)
  show "s' = s\<lparr>accounts := map (creditAccount (tx_now s) i ?n) (accounts s)\<rparr>" "fst v = i"
    by (fact s' v)+
  show "fst (snd v) \<in> set (accounts s')" "ac_id (fst (snd v)) = i"
    using a v s' by auto
  have "accountRowOk (creditAccount (tx_now s) i ?n x) \<and> in_int64 (ac_balance (creditAccount (tx_now s) i ?n x))"
    if x: "x \<in> set (accounts s)" for x
  proof (cases "ac_id x = i")
    case True
    then have "x = a" using find_key_inject [OF ids x a(1)] a(2) by simp
    then show ?thesis using a by simp
  next
    case False
    then show ?thesis using ok x by (simp add: rowsOk_def creditAccount_def)
  qed
  then show "rowsOk (accounts s')"
    using ids s' by (simp add: rowsOk_def comp_def)
qed

lemma reverseBalances_ok:
  assumes "forM rows reverseBalance s = (Inr us, s')" and "rowsOk (accounts s)"
    and "\<forall>r\<in>set rows. rs_customer_account_id r \<noteq> None \<and> go_neg (rs_amount r) = - rs_amount r \<and>
           go_neg (go_neg (rs_amount r)) = rs_amount r"
  shows "s' = s\<lparr>accounts := map (reverseCredit (tx_now s) rows) (accounts s)\<rparr> \<and> rowsOk (accounts s')"
  using assms
proof (induction rows arbitrary: s us)
  case Nil
  then show ?case by (simp add: returnM_iff reverseCredit_def)
next
  case (Cons r rows)
  from Cons.prems(1) obtain v t vs where r: "reverseBalance r s = (Inr v, t)"
    and rest: "forM rows reverseBalance t = (Inr vs, s')"
    unfolding forM_Cons_iff by blast
  from Cons.prems(3) obtain i where i: "rs_customer_account_id r = Some i" by auto
  have "go_neg (rs_amount r) = - rs_amount r" "go_neg (go_neg (rs_amount r)) = rs_amount r"
    using Cons.prems(3) by (metis list.set_intros(1))+
  note t = reverseBalance_ok [OF r Cons.prems(2) i this]
  have "\<forall>r\<in>set rows. rs_customer_account_id r \<noteq> None \<and> go_neg (rs_amount r) = - rs_amount r \<and>
           go_neg (go_neg (rs_amount r)) = rs_amount r"
    using Cons.prems(3) by (meson list.set_intros(2))
  note IH = Cons.IH [OF rest t(2) this]
  have "s' = s\<lparr>accounts := map (reverseCredit (tx_now s) (r # rows)) (accounts s)\<rparr>"
    using IH t(1) i by (simp add: reverseCredit_def comp_def)
  with IH show ?case by blast
qed

section \<open>A successful reversal\<close>

text \<open>
  \<open>moved L P tid i\<close>: by how much the postings of the transaction \<open>tid\<close> moved the balance of account \<open>i\<close>.
\<close>

definition moved :: "LedgerAccount list \<Rightarrow> LedgerPosting list \<Rightarrow> uuid \<Rightarrow> int \<Rightarrow> int" where
  "moved L P tid i =
     (\<Sum>p\<leftarrow>filter (\<lambda>p. la_customer_account_id (ledgerOf L (lp_ledger_account_id p)) = Some i) (postingsOf tid P). lp_amount p)"

definition sourceRows :: "world \<Rightarrow> uuid \<Rightarrow> ListReversalSourcePostingsRow list" where
  "sourceRows s tid = map (reversalRow (ledger_accounts s)) (sort_key lp_id (postingsOf tid (ledger_postings s)))"

definition reversalDone ::
  "ReverseTransactionTxParams \<Rightarrow> world \<Rightarrow> BankingTransaction \<Rightarrow> BankingTransaction \<Rightarrow> LedgerPosting list \<Rightarrow>
   ReverseTransactionTxResult \<Rightarrow> world \<Rightarrow> bool" where
  "reversalDone arg s t u qs r s' \<longleftrightarrow>
     t \<in> set (banking_transactions s) \<and> Some (bt_id t) = rt_TransactionID arg \<and>
     bt_status t = ''posted'' \<and> bt_transaction_type t \<noteq> ''reversal'' \<and>
     bt_id u \<notin> bt_id ` set (banking_transactions s) \<and> bt_status u = ''posted'' \<and>
     bt_transaction_type u = ''reversal'' \<and> bt_reversal_of u = Some (bt_id t) \<and>
     Some (bt_id t) \<notin> bt_reversal_of ` set (banking_transactions s) \<and>
     bt_amount u = bt_amount t \<and> bt_currency u = bt_currency t \<and>
     (\<forall>q\<in>set qs. lp_transaction_id q = bt_id u \<and> lp_ledger_account_id q \<in> la_id ` set (ledger_accounts s)) \<and>
     map lp_ledger_account_id qs = map rs_ledger_account_id (sourceRows s (bt_id t)) \<and>
     map lp_amount qs = map (\<lambda>r. - rs_amount r) (sourceRows s (bt_id t)) \<and>
     (\<forall>a\<in>set (accounts s). Some (ac_id a) \<in> rs_customer_account_id ` set (sourceRows s (bt_id t)) \<longrightarrow>
        ac_status a \<noteq> ''closed'') \<and>
     banking_transactions s' =
       map (\<lambda>x. if bt_id x = bt_id t then reverseTransaction (tx_now s) x else x) (banking_transactions s) @ [u] \<and>
     ledger_postings s' = ledger_postings s @ qs \<and>
     accounts s' = map (reverseCredit (tx_now s)
       (filter (\<lambda>r. rs_kind r = ''customer'') (sourceRows s (bt_id t)))) (accounts s) \<and>
     rowsOk (accounts s') \<and>
     rv_Original r = reverseTransaction (tx_now s) t \<and> rv_Reversal r = u \<and> rv_Postings r = qs"

lemma lockAccounts_ok:
  assumes "lockAccountsForOperator ids s = (Inr (locked, ordered), s')"
  shows "s' = s" "map ac_id locked = ordered" "set ordered = set ids" "set locked \<subseteq> set (accounts s)"
proof -
  have ok: "t' = t \<and> map ac_id as = is \<and> set as \<subseteq> set (accounts t)"
    if "forM is GetAccountForUpdate t = (Inr as, t')" for t t' "is" as
    using that
  proof (induction "is" arbitrary: as)
    case Nil
    then show ?case by (simp add: returnM_iff)
  next
    case (Cons i js)
    then obtain a bs u where "GetAccountForUpdate i t = (Inr a, u)" "forM js GetAccountForUpdate u = (Inr bs, t')"
      "as = a # bs"
      unfolding forM_Cons_iff by blast
    moreover from this have "u = t" "a \<in> set (accounts t)" "ac_id a = i"
      by (auto simp: GetAccountForUpdate_def selectOne_iff dest: find_Some_iff2)
    ultimately show ?case
      using Cons.IH [of bs] by simp
  qed
  obtain as t where "forM (sort (remdups ids)) GetAccountForUpdate s = (Inr as, t)"
    "locked = as" "ordered = sort (remdups ids)" "s' = t"
    using assms unfolding lockAccountsForOperator_def Let_def bindM_iff returnM_iff by auto
  with ok [of "sort (remdups ids)" s as t] show "s' = s" "map ac_id locked = ordered" "set ordered = set ids"
      "set locked \<subseteq> set (accounts s)"
    by simp_all
qed

lemma MarkBankingTransactionReversed_ok:
  assumes run: "MarkBankingTransactionReversed (Some tid) s = (Inr t', s')"
    and ids: "distinct (map bt_id (banking_transactions s))" and t: "t \<in> set (banking_transactions s)" "bt_id t = tid"
  shows "t' = reverseTransaction (tx_now s) t"
    and "s' = s\<lparr>banking_transactions := map (\<lambda>x. if bt_id x = tid then reverseTransaction (tx_now s) x else x)
           (banking_transactions s)\<rparr>"
proof -
  have "updateBankingTransaction (\<lambda>u. Some (bt_id u) = Some tid \<and> bt_status u = ''posted'')
      (reverseTransaction (tx_now s)) s = (Inr t', s')"
    using run unfolding MarkBankingTransactionReversed_def bindM_iff readM_iff reverseTransaction_def by auto
  then obtain u where u: "u \<in> set (banking_transactions s)" "bt_id u = tid" "t' = reverseTransaction (tx_now s) u"
    and s': "s' = s\<lparr>banking_transactions := map (\<lambda>x. if bt_id x = tid then reverseTransaction (tx_now s) x else x)
           (banking_transactions s)\<rparr>"
    by (rule Mark_ok [OF _ ids]) blast
  show "t' = reverseTransaction (tx_now s) t"
    using u find_key_inject [OF ids u(1) t(1)] t(2) by simp
  show "s' = s\<lparr>banking_transactions := map (\<lambda>x. if bt_id x = tid then reverseTransaction (tx_now s) x else x)
           (banking_transactions s)\<rparr>"
    by (fact s')
qed

lemma reverseTransactionBody_ok:
  assumes run: "reverseTransactionBody arg s = (Inr r, s')" and ok: "books s"
  obtains t u qs where "reversalDone arg s t u qs r s'"
proof -
  note D = booksD [OF ok]
  obtain t rows opp ids locked ordered u0 qs us u t' and s1 s2 s3 s4 s5 s6 s7 s8 s9 s10 and x1 x2 x3 where
    get: "mapErrM (errIfNoRows ErrTransactionNotFound) (GetBankingTransactionForUpdate (rt_TransactionID arg)) s = (Inr t, s1)"
    and guards: "\<not> bt_transaction_type t = BankingTransactionTypeReversal"
      "\<not> bt_status t = BankingTransactionStatusReversed" "\<not> bt_status t \<noteq> BankingTransactionStatusPosted"
    and src: "ListReversalSourcePostings (Some (bt_id t)) s1 = (Inr rows, s2)"
    and opp: "liftE (oppositePostings rows) s2 = (Inr (opp, ids), s3)"
    and lock: "lockAccountsForOperator ids s3 = (Inr (locked, ordered), s4)"
    and closed: "\<not> list_ex (\<lambda>a. ac_status a = FinancialAccountStatusClosed) locked"
    and create: "createBalancedTransaction
        \<lparr>pt_TransactionType = BankingTransactionTypeReversal, pt_Currency = bt_currency t,
         pt_Amount = bt_amount t, pt_Narration = ''Reversal: '' @ trimSpace (rt_Reason arg),
         pt_InitiatedBy = trimSpace (rt_Actor arg), pt_ReversalOf = Some (bt_id t)\<rparr> opp s4 = (Inr (u0, qs), s5)"
    and upd: "forM (filter (\<lambda>p. rs_kind p = ''customer'') rows) reverseBalance s5 = (Inr us, s6)"
    and post: "MarkBankingTransactionPosted (Some (bt_id u0)) s6 = (Inr u, s7)"
    and rever: "MarkBankingTransactionReversed (Some (bt_id t)) s7 = (Inr t', s8)"
    and audit: "createOperatorAudit x1 s8 = (Inr x2, s9)"
    and notify: "forM ordered (\<lambda>accountID. createFinancialNotification (zeroNotificationParams
        \<lparr>fn_Username := ac_owner (fst (updatedAccount us accountID)),
         fn_EventType := DomainEventTransactionReversed, fn_EntityType := ''banking_transaction'',
         fn_EntityID := Some (bt_id t'), fn_CorrelationID := rt_CorrelationID arg,
         fn_Reference := bt_reference t', fn_Amount := bt_amount t',
         fn_Currency := bt_currency t', fn_Direction := snd (updatedAccount us accountID),
         fn_OccurredAt := orZeroTime (bt_posted_at u), fn_Reason := rt_Reason arg\<rparr>)) s9 = (Inr x3, s10)"
    and r: "r = \<lparr>rv_Original = t', rv_Reversal = u, rv_Postings = qs,
               rv_Accounts = map (\<lambda>i. fst (updatedAccount us i)) ordered, rv_AuditLog = x2\<rparr>"
    and s': "s' = s10"
    using run unfolding reverseTransactionBody_def by (elim run_elims) (rule that, assumption+)
  have t: "s1 = s" "t \<in> set (banking_transactions s)" "Some (bt_id t) = rt_TransactionID arg"
    using get by (auto simp: GetBankingTransactionForUpdate_def runs dest: find_Some_iff2)
  note src' = ListReversalSourcePostings_ok [OF src [unfolded t(1)] ok]
  have rows: "rows = sourceRows s (bt_id t)"
    using src'(2) by (simp add: sourceRows_def)
  have opp': "s3 = s" "oppositePostings rows = Inr (opp, ids)"
    using opp src'(1) by (auto simp: liftE_def runs split: sum.splits)
  note O = oppositePostings_ok [OF opp'(2)] and lk = lockAccounts_ok [OF lock, unfolded opp'(1)]
  note C = createBalancedTransaction_ok [OF create, unfolded lk(1)]
  have neg: "go_neg (rs_amount x) = - rs_amount x" "go_neg (go_neg (rs_amount x)) = rs_amount x"
    if "x \<in> set rows" for x
  proof -
    from that obtain p where p: "p \<in> set (postingsOf (bt_id t) (ledger_postings s))" "rs_amount x = lp_amount p"
      unfolding rows sourceRows_def by auto
    show "go_neg (rs_amount x) = - rs_amount x" "go_neg (go_neg (rs_amount x)) = rs_amount x"
      unfolding p(2) by (rule balanced_negation [OF D(12) [OF t(2)] D(14) [OF t(2)] p(1)])+
  qed
  have cust: "rs_customer_account_id x \<noteq> None \<longleftrightarrow> rs_kind x = ''customer''" if "x \<in> set rows" for x
    using that D(8) ledgerOf_posting(1) [OF ok] unfolding rows sourceRows_def by (auto simp: postingsOf_def)
  have s5: "accounts s5 = accounts s" "tx_now s5 = tx_now s"
    unfolding lk(1) [symmetric] by (rule keepsD [OF createBalancedTransaction_frame create]; simp)+
  have s6: "s6 = s5\<lparr>accounts := map (reverseCredit (tx_now s) (filter (\<lambda>p. rs_kind p = ''customer'') rows)) (accounts s)\<rparr> \<and>
      rowsOk (accounts s6)"
    unfolding s5 [symmetric]
  proof (rule reverseBalances_ok [OF upd])
    show "rowsOk (accounts s5)"
      using D(1,4,5) s5(1) by (simp add: rowsOk_def)
  qed (use neg cust in auto)
  then have now6: "tx_now s6 = tx_now s" and bt6: "banking_transactions s6 = banking_transactions s @ [u0]"
    and lp6: "ledger_postings s6 = ledger_postings s @ qs"
    using s5(2) C(1,2) by simp_all
  note M = MarkBankingTransactionPosted_ok [OF post bt6 C(10) D(3), unfolded now6]
  have ids7: "distinct (map bt_id (banking_transactions s7))" "t \<in> set (banking_transactions s7)"
    using M(2) C(10) D(3) t(2) by simp_all
  note R = MarkBankingTransactionReversed_ok [OF rever ids7 refl]
  have ne: "bt_id u0 \<noteq> bt_id t"
    using C(10) t(2) by (metis imageI)
  have fin: "accounts s' = accounts s8" "banking_transactions s' = banking_transactions s8"
      "ledger_postings s' = ledger_postings s8"
  proof -
    have n: "keeps f (forM ordered (\<lambda>i. createFinancialNotification (k i)))" if "unnoticed f"
      for f :: "world \<Rightarrow> 'z" and k
      by (intro frame that)
    show "accounts s' = accounts s8" "banking_transactions s' = banking_transactions s8"
      "ledger_postings s' = ledger_postings s8"
      unfolding s' by (rule trans [OF keepsD [OF n notify] keepsD [OF createOperatorAudit_frame audit]]; simp)+
  qed
  have open_acc: "ac_status a \<noteq> ''closed''" if a: "a \<in> set (accounts s)" "Some (ac_id a) \<in> rs_customer_account_id ` set rows" for a
  proof -
    from a(2) obtain x where x: "x \<in> set rows" "rs_customer_account_id x = Some (ac_id a)"
      by (metis imageE)
    then have "rs_kind x = ''customer''" using cust by auto
    with x have "ac_id a \<in> (\<lambda>r. the (rs_customer_account_id r)) ` set (filter (\<lambda>r. rs_kind r = ''customer'') rows)"
      by (intro image_eqI [of _ _ x]) simp_all
    then have "ac_id a \<in> set ids"
      using O by simp
    then obtain b where "b \<in> set locked" "ac_id b = ac_id a"
      using lk(2,3) by (metis imageE set_map)
    then show ?thesis
      using lk(4) closed find_key_inject [OF D(1) a(1), of b] by (auto simp: list_ex_iff)
  qed
  have led: "\<forall>q\<in>set qs. lp_ledger_account_id q \<in> la_id ` set (ledger_accounts s)"
    using C(4) by auto
  have "reversalDone arg s t u qs r s'"
    unfolding reversalDone_def
  proof (intro conjI)
    show "\<forall>q\<in>set qs. lp_transaction_id q = bt_id u \<and> lp_ledger_account_id q \<in> la_id ` set (ledger_accounts s)"
      using C(3) led M(1) by (simp add: postingsFor_def)
    show "map lp_ledger_account_id qs = map rs_ledger_account_id (sourceRows s (bt_id t))"
      "map lp_amount qs = map (\<lambda>r. - rs_amount r) (sourceRows s (bt_id t))"
      using C(3) O neg unfolding rows by (auto simp: postingsFor_def)
    show "\<forall>a\<in>set (accounts s). Some (ac_id a) \<in> rs_customer_account_id ` set (sourceRows s (bt_id t)) \<longrightarrow>
        ac_status a \<noteq> ''closed''"
      using open_acc unfolding rows by blast
    show "accounts s' = map (reverseCredit (tx_now s)
       (filter (\<lambda>r. rs_kind r = ''customer'') (sourceRows s (bt_id t)))) (accounts s)"
      using fin(1) R(2) M(2) s6 unfolding rows by simp
    show "rowsOk (accounts s')"
      using fin(1) R(2) M(2) conjunct2 [OF s6] by simp
    show "banking_transactions s' =
       map (\<lambda>x. if bt_id x = bt_id t then reverseTransaction (tx_now s) x else x) (banking_transactions s) @ [u]"
      using fin(2) R(2) M now6 ne by simp
    show "ledger_postings s' = ledger_postings s @ qs"
      using fin(3) R(2) M(2) lp6 by simp
    show "Some (bt_id t) \<notin> bt_reversal_of ` set (banking_transactions s)"
      using C(22) unfolding C(15) by simp
    show "rv_Original r = reverseTransaction (tx_now s) t"
      using r R(1) M(2) now6 by simp
  qed (use t guards C r M(1) in simp_all)
  then show thesis by (rule that)
qed

section \<open>The books after a reversal\<close>

lemma sum_list_sort_key: "sum_list (map f (sort_key k xs)) = sum_list (map (f :: 'a \<Rightarrow> int) xs)"
  by (metis mset_map mset_sort sum_mset_sum_list)

lemma ledgerTotal_rows:
  "map lp_ledger_account_id qs = map rs_ledger_account_id rows \<Longrightarrow> map lp_amount qs = map (\<lambda>r. - rs_amount r) rows \<Longrightarrow>
   ledgerTotal qs lid = - (\<Sum>r\<leftarrow>filter (\<lambda>r. rs_ledger_account_id r = lid) rows. rs_amount r)"
proof (induction qs arbitrary: rows)
  case Nil
  then show ?case by simp
next
  case (Cons q qs)
  then obtain x xs where "rows = x # xs" by (cases rows) auto
  then show ?case using Cons.prems Cons.IH [of xs] by simp
qed

lemma reversal_balanced:
  assumes ok: "books s" and t: "t \<in> set (banking_transactions s)"
    and u: "bt_amount u = bt_amount t" "bt_currency u = bt_currency t"
    and qs: "\<forall>q\<in>set qs. lp_transaction_id q = bt_id u"
      "map lp_ledger_account_id qs = map rs_ledger_account_id (sourceRows s (bt_id t))"
      "map lp_amount qs = map (\<lambda>r. - rs_amount r) (sourceRows s (bt_id t))"
  shows "txBalanced (ledger_accounts s) qs u"
proof -
  let ?ps = "postingsOf (bt_id t) (ledger_postings s)"
  have bal: "txBalanced (ledger_accounts s) (ledger_postings s) t"
    using booksD(12) [OF ok t] .
  have amounts: "map lp_amount qs = map (\<lambda>p. - lp_amount p) (sort_key lp_id ?ps)"
    using qs(3) by (simp add: sourceRows_def comp_def)
  have "length qs = length ?ps"
    using arg_cong [OF qs(2), of length] by (simp add: sourceRows_def)
  moreover have "sum_list (map lp_amount qs) = - sum_list (map lp_amount ?ps)"
    unfolding amounts sum_list_sort_key by (simp add: uminus_sum_list_map comp_def)
  moreover have "sum_list (map (\<lambda>q. \<bar>lp_amount q\<bar>) qs) = sum_list (map (\<lambda>p. \<bar>lp_amount p\<bar>) ?ps)"
  proof -
    have "map (\<lambda>q. \<bar>lp_amount q\<bar>) qs = map abs (map lp_amount qs)" by simp
    also have "\<dots> = map (\<lambda>p. \<bar>lp_amount p\<bar>) (sort_key lp_id ?ps)"
      unfolding amounts by simp
    finally show ?thesis by (simp only: sum_list_sort_key)
  qed
  moreover have "ledgerCurrency (ledger_accounts s) (lp_ledger_account_id q) = Some (bt_currency u)" if "q \<in> set qs" for q
  proof -
    have "lp_ledger_account_id q \<in> set (map lp_ledger_account_id (sort_key lp_id ?ps))"
      using that qs(2) by (metis (no_types, lifting) comp_apply image_eqI list.set_map map_eq_conv map_map
          reversalRow_simps(1) sourceRows_def)
    then show ?thesis
      using bal u(2) by (auto simp: txBalanced_def Let_def)
  qed
  ultimately show ?thesis
    using bal u postingsOf_all [OF qs(1)] by (simp add: txBalanced_def Let_def)
qed

lemma customer_rows:
  assumes ok: "books s" and a: "a \<in> set (accounts s)" and l: "l \<in> set (ledger_accounts s)" "ledgerFor a l"
  shows "filter (\<lambda>r. the (rs_customer_account_id r) = ac_id a)
      (filter (\<lambda>r. rs_kind r = ''customer'') (sourceRows s tid)) =
    filter (\<lambda>r. rs_ledger_account_id r = la_id l) (sourceRows s tid)"
proof -
  have "rs_kind r = ''customer'' \<and> the (rs_customer_account_id r) = ac_id a \<longleftrightarrow> rs_ledger_account_id r = la_id l"
    if "r \<in> set (sourceRows s tid)" for r
  proof -
    from that obtain p where p: "p \<in> set (ledger_postings s)" "r = reversalRow (ledger_accounts s) p"
      by (auto simp: sourceRows_def postingsOf_def)
    let ?k = "ledgerOf (ledger_accounts s) (lp_ledger_account_id p)"
    note k = ledgerOf_posting [OF ok p(1)]
    have "la_kind ?k = ''customer'' \<and> the (la_customer_account_id ?k) = ac_id a \<longleftrightarrow> ledgerFor a ?k"
      using booksD(8) [OF ok k(1)] by (auto simp: ledgerFor_def)
    also have "\<dots> \<longleftrightarrow> ?k = l"
      using books_ledger_unique [OF ok k(1) l(1)] l(2) by blast
    also have "\<dots> \<longleftrightarrow> lp_ledger_account_id p = la_id l"
      using find_key_inject [OF booksD(2) [OF ok] k(1) l(1)] k(2) by metis
    finally show ?thesis by (simp add: p(2))
  qed
  then show ?thesis
    by (simp add: filter_filter cong: filter_cong) (rule filter_cong; auto)?
qed

lemma reversalDone_books:
  assumes ok: "books s" and dn: "reversalDone arg s t u qs r s'"
  shows "booksOk (accounts s') (ledger_accounts s) (banking_transactions s') (ledger_postings s')"
proof -
  note D = booksD [OF ok] and d = dn [unfolded reversalDone_def]
  let ?g = "\<lambda>x. if bt_id x = bt_id t then reverseTransaction (tx_now s) x else x"
  let ?rows = "filter (\<lambda>r. rs_kind r = ''customer'') (sourceRows s (bt_id t))"
  let ?adj = "reverseCredit (tx_now s) ?rows"
  have "booksOk (map ?adj (accounts s)) (ledger_accounts s) (map ?g (banking_transactions s) @ [u])
      (ledger_postings s @ qs)"
  proof (rule post_keeps_books [OF ok])
    show "txBalanced (ledger_accounts s) qs u"
      using d by (intro reversal_balanced [OF ok, of t]) simp_all
    show "\<forall>u\<in>set (banking_transactions s). bt_id (?g u) = bt_id u \<and> bt_amount (?g u) = bt_amount u \<and>
        bt_currency (?g u) = bt_currency u \<and> settled (?g u)"
      using D(11) by (simp add: settled_def)
    have ft: "t \<in> set (banking_transactions s)" "bt_transaction_type t \<noteq> ''reversal''"
        "Some (bt_id t) \<notin> bt_reversal_of ` set (banking_transactions s)"
      and fu: "bt_reversal_of u = Some (bt_id t)" "bt_status u \<noteq> ''reversed''" "bt_transaction_type u = ''reversal''"
        "bt_id u \<notin> bt_id ` set (banking_transactions s)"
      using d by (blast, blast, blast, blast, simp, blast, blast)
    show "reversalsOk (map ?g (banking_transactions s) @ [u])"
      by (rule reversal_keeps_reversals [OF D(15) D(3) ft(1,2) fu ft(3)]) simp_all
    have "rowsOk (map ?adj (accounts s))"
      using d by metis
    then show "\<forall>a\<in>set (accounts s). ac_id (?adj a) = ac_id a \<and> ac_currency (?adj a) = ac_currency a \<and>
        accountRowOk (?adj a) \<and> in_int64 (ac_balance (?adj a))"
      by (simp add: rowsOk_def)
    show "\<forall>a\<in>set (accounts s). \<forall>l\<in>set (ledger_accounts s). ledgerFor a l \<longrightarrow>
        ac_balance (?adj a) = ac_balance a + ledgerTotal qs (la_id l)"
      using d customer_rows [OF ok] by (simp add: reverseCredit_balance ledgerTotal_rows del: filter_filter)
  qed (use d D(13,14) in \<open>auto simp: settled_def\<close>)
  then show ?thesis
    using d by simp
qed

lemma reverse_frame:
  assumes "offBooks f"
  shows "keeps f (reverseTransactionBody arg)"
proof -
  have "keeps f (reverseBalance row)" for row
    unfolding reverseBalance_def Let_def by (intro frame offBooksD [OF assms])
  moreover have "keeps f (lockAccountsForOperator ids)" for ids
    unfolding lockAccountsForOperator_def Let_def by (intro frame)
  ultimately show ?thesis
    unfolding reverseTransactionBody_def
    by (intro frame offBooksD [OF assms] unnoticedD [OF offBooksD(1) [OF assms]])
qed

lemma reverseTransactionBody_books:
  assumes "reverseTransactionBody arg s = (Inr r, s')" "books s"
  shows "books s'"
proof -
  have "ledger_accounts s' = ledger_accounts s"
    by (rule keepsD [OF reverse_frame assms(1)]) simp
  then show ?thesis
    using reverseTransactionBody_ok [OF assms] reversalDone_books [OF assms(2)] by metis
qed

theorem ReverseTransactionTx_books: "preserves books (ReverseTransactionTx arg)"
proof -
  have "preserves books (execTx (reverseTransactionBody arg))"
    by (rule books.execTx) (rule reverseTransactionBody_books)
  then show ?thesis
    unfolding ReverseTransactionTx_def by (intro books.failIf orAudit_books auditOperatorFailure_books)
qed

text \<open>Each customer's balance moves by the opposite of what the original had moved.\<close>

lemma moved_rows:
  assumes ok: "books s"
  shows "(\<Sum>r\<leftarrow>filter (\<lambda>r. the (rs_customer_account_id r) = i)
      (filter (\<lambda>r. rs_kind r = ''customer'') (sourceRows s tid)). rs_amount r) =
    moved (ledger_accounts s) (ledger_postings s) tid i"
proof -
  let ?L = "ledger_accounts s" and ?ps = "postingsOf tid (ledger_postings s)"
  let ?c = "\<lambda>p. la_customer_account_id (ledgerOf ?L (lp_ledger_account_id p)) = Some i"
  have "filter (\<lambda>r. the (rs_customer_account_id r) = i) (filter (\<lambda>r. rs_kind r = ''customer'') (sourceRows s tid)) =
      map (reversalRow ?L) (filter ?c (sort_key lp_id ?ps))"
  proof -
    have "(rs_kind (reversalRow ?L p) = ''customer'' \<and> the (rs_customer_account_id (reversalRow ?L p)) = i) = ?c p"
      if "p \<in> set ?ps" for p
      using that booksD(8) [OF ok ledgerOf_posting(1) [OF ok]] by (auto simp: postingsOf_def)
    then have "filter (\<lambda>p. rs_kind (reversalRow ?L p) = ''customer'' \<and> the (rs_customer_account_id (reversalRow ?L p)) = i)
        (sort_key lp_id ?ps) = filter ?c (sort_key lp_id ?ps)"
      by (intro filter_cong) simp_all
    then show ?thesis
      by (simp add: sourceRows_def filter_map comp_def)
  qed
  then have "(\<Sum>r\<leftarrow>filter (\<lambda>r. the (rs_customer_account_id r) = i)
      (filter (\<lambda>r. rs_kind r = ''customer'') (sourceRows s tid)). rs_amount r) =
    (\<Sum>p\<leftarrow>sort_key lp_id (filter ?c ?ps). lp_amount p)"
    by (simp add: comp_def filter_sort)
  then show ?thesis
    by (simp only: sum_list_sort_key moved_def)
qed

lemma reversalDone_balances:
  assumes "books s" "reversalDone arg s t u qs r s'"
  shows "map (\<lambda>a. (ac_id a, ac_balance a)) (accounts s') =
    map (\<lambda>a. (ac_id a, ac_balance a - moved (ledger_accounts s) (ledger_postings s) (bt_id t) (ac_id a))) (accounts s)"
  using assms(2) unfolding reversalDone_def
  by (simp add: comp_def reverseCredit_balance moved_rows [OF assms(1)] del: filter_filter)

end
