(* ===== verification/Reconcile.thy ===== *)
theory Reconcile
  imports Moves
begin

text \<open>
  Reconciliation: the queries of \<open>db/sqlc/reconciliation.sql.go\<close> and \<open>SQLStore.Reconcile\<close> of
  \<open>reconciliation.go\<close>. The checks compare cached balances with the ledger, look for settled
  transactions that do not balance and for transactions reversed twice.
\<close>

section \<open>Queries\<close>

record ListAccountReconciliationIssuesRow =
  ai_account_public_id :: uuid
  ai_currency :: string
  ai_cached_balance :: int
  ai_customer_ledger_account_id :: "int option"
  ai_ledger_balance :: int

text \<open>A \<open>LEFT JOIN\<close>: the matching rows, or one row of \<open>NULL\<close>s.\<close>

definition leftJoin :: "'r list \<Rightarrow> 'r option list" where
  "leftJoin rs = (if rs = [] then [None] else map Some rs)"

definition accountGroups :: "uuid option \<Rightarrow> world \<Rightarrow> ListAccountReconciliationIssuesRow list" where
  \<comment> \<open>The groups before \<open>HAVING\<close>, with the sums as \<open>numeric\<close>\<close>
  "accountGroups pid s =
     [\<lparr>ai_account_public_id = ac_public_id a, ai_currency = ac_currency a,
       ai_cached_balance = ac_balance a, ai_customer_ledger_account_id = map_option la_id l,
       ai_ledger_balance = (case l of None \<Rightarrow> 0 | Some k \<Rightarrow>
          sum_list (map lp_amount (filter (\<lambda>p. lp_ledger_account_id p = la_id k) (ledger_postings s))))\<rparr>.
        a \<leftarrow> filter (\<lambda>a. pid = None \<or> Some (ac_public_id a) = pid) (accounts s),
        l \<leftarrow> leftJoin (filter (\<lambda>l. la_customer_account_id l = Some (ac_id a) \<and> la_kind l = ''customer'')
                         (ledger_accounts s))]"

definition ListAccountReconciliationIssues ::
  "uuid option \<Rightarrow> ListAccountReconciliationIssuesRow list query" where
  "ListAccountReconciliationIssues account_public_id =
     bindM (readM (accountGroups account_public_id)) (\<lambda>groups.
     failIf (list_ex (\<lambda>g. \<not> in_int64 (ai_ledger_balance g)) groups) PgOutOfRange
     (returnM (sort_key ai_account_public_id
       (filter (\<lambda>g. ai_customer_ledger_account_id g = None \<or> ai_cached_balance g \<noteq> ai_ledger_balance g) groups))))"

definition touchesAccount :: "int option \<Rightarrow> world \<Rightarrow> uuid \<Rightarrow> bool" where
  \<comment> \<open>\<open>$1::bigint IS NULL OR EXISTS (...)\<close>: the transaction has a posting on the account's ledger\<close>
  "touchesAccount customer s tid \<longleftrightarrow>
     customer = None \<or>
     list_ex (\<lambda>p. lp_transaction_id p = tid \<and>
       list_ex (\<lambda>l. la_id l = lp_ledger_account_id p \<and> la_customer_account_id l = customer) (ledger_accounts s))
       (ledger_postings s)"

record ListDuplicateReversalIssuesRow =
  dr_original_transaction_id :: uuid
  dr_original_reference :: string
  dr_reversal_count :: int

definition ListDuplicateReversalIssues :: "int option \<Rightarrow> ListDuplicateReversalIssuesRow list query" where
  "ListDuplicateReversalIssues customer_account_id = readM (\<lambda>s.
     map (\<lambda>t. \<lparr>dr_original_transaction_id = bt_id t, dr_original_reference = bt_reference t,
        dr_reversal_count = int (length (filter (\<lambda>u. bt_reversal_of u = Some (bt_id t)) (banking_transactions s)))\<rparr>)
       (sort_key bt_created_at (sort_key bt_id (filter (\<lambda>t. touchesAccount customer_account_id s (bt_id t) \<and>
          1 < length (filter (\<lambda>u. bt_reversal_of u = Some (bt_id t)) (banking_transactions s)))
          (banking_transactions s)))))"

record ListTransactionReconciliationIssuesRow =
  ti_transaction_id :: uuid
  ti_reference :: string
  ti_status :: string
  ti_posting_count :: int
  ti_posting_total :: int

definition transactionGroups :: "int option \<Rightarrow> world \<Rightarrow> BankingTransaction list" where
  "transactionGroups customer s =
     filter (\<lambda>t. List.member [''posted'', ''reversed''] (bt_status t) \<and> touchesAccount customer s (bt_id t))
       (banking_transactions s)"

definition transactionIssueRow :: "world \<Rightarrow> BankingTransaction \<Rightarrow> ListTransactionReconciliationIssuesRow" where
  "transactionIssueRow s t =
     \<lparr>ti_transaction_id = bt_id t, ti_reference = bt_reference t, ti_status = bt_status t,
      ti_posting_count = int (length (postingsOf (bt_id t) (ledger_postings s))),
      ti_posting_total = sum_list (map lp_amount (postingsOf (bt_id t) (ledger_postings s)))\<rparr>"

definition ListTransactionReconciliationIssues ::
  "int option \<Rightarrow> ListTransactionReconciliationIssuesRow list query" where
  "ListTransactionReconciliationIssues customer_account_id =
     bindM (readM (\<lambda>s. map (transactionIssueRow s)
       (sort_key bt_created_at (sort_key bt_id (transactionGroups customer_account_id s))))) (\<lambda>groups.
     failIf (list_ex (\<lambda>g. \<not> in_int64 (ti_posting_total g)) groups) PgOutOfRange
     (returnM (filter (\<lambda>g. ti_posting_count g < 2 \<or> ti_posting_total g \<noteq> 0) groups)))"

section \<open>Reconcile\<close>

definition ReconciliationIssueMissingLedgerAccount :: string where
  "ReconciliationIssueMissingLedgerAccount = ''missing_customer_ledger_account''"

definition ReconciliationIssueBalanceDrift :: string where
  "ReconciliationIssueBalanceDrift = ''cached_balance_mismatch''"

definition ReconciliationIssueUnbalancedTransaction :: string where
  "ReconciliationIssueUnbalancedTransaction = ''unbalanced_transaction''"

definition ReconciliationIssueInsufficientPostings :: string where
  "ReconciliationIssueInsufficientPostings = ''insufficient_postings''"

definition ReconciliationIssueDuplicateTransactionRev :: string where
  "ReconciliationIssueDuplicateTransactionRev = ''duplicate_reversal''"

record ReconciliationParams =
  rp_AccountPublicID :: "uuid option"
  rp_Actor :: string

record ReconciliationIssue =
  is_Type :: string
  is_AccountPublicID :: "uuid option"
  is_TransactionID :: "uuid option"
  is_Reference :: string
  is_Currency :: string
  is_CachedBalance :: int
  is_LedgerBalance :: int
  is_PostingCount :: int
  is_PostingTotal :: int
  is_DuplicateReversalCount :: int

record ReconciliationReport =
  re_RunID :: "uuid option"
  re_AccountPublicID :: "uuid option"
  re_CheckedAt :: time
  re_Consistent :: bool
  re_Issues :: "ReconciliationIssue list"
  re_AuditLog :: AuditLog

definition zeroIssue :: ReconciliationIssue where
  "zeroIssue = \<lparr>is_Type = '''', is_AccountPublicID = None, is_TransactionID = None, is_Reference = '''',
     is_Currency = '''', is_CachedBalance = 0, is_LedgerBalance = 0, is_PostingCount = 0,
     is_PostingTotal = 0, is_DuplicateReversalCount = 0\<rparr>"

definition accountIssue :: "ListAccountReconciliationIssuesRow \<Rightarrow> ReconciliationIssue" where
  "accountIssue i = zeroIssue
     \<lparr>is_Type := (if ai_customer_ledger_account_id i = None then ReconciliationIssueMissingLedgerAccount
                  else ReconciliationIssueBalanceDrift),
      is_AccountPublicID := Some (ai_account_public_id i), is_Currency := ai_currency i,
      is_CachedBalance := ai_cached_balance i, is_LedgerBalance := ai_ledger_balance i\<rparr>"

definition transactionIssues :: "ListTransactionReconciliationIssuesRow \<Rightarrow> ReconciliationIssue list" where
  "transactionIssues i =
     (let issue = (\<lambda>kind. zeroIssue
            \<lparr>is_Type := kind, is_TransactionID := Some (ti_transaction_id i), is_Reference := ti_reference i,
             is_PostingCount := ti_posting_count i, is_PostingTotal := ti_posting_total i\<rparr>)
      in (if ti_posting_count i < 2 then [issue ReconciliationIssueInsufficientPostings] else []) @
         (if ti_posting_total i \<noteq> 0 then [issue ReconciliationIssueUnbalancedTransaction] else []))"

definition reversalIssue :: "ListDuplicateReversalIssuesRow \<Rightarrow> ReconciliationIssue" where
  "reversalIssue i = zeroIssue
     \<lparr>is_Type := ReconciliationIssueDuplicateTransactionRev,
      is_TransactionID := Some (dr_original_transaction_id i), is_Reference := dr_original_reference i,
      is_DuplicateReversalCount := dr_reversal_count i\<rparr>"

definition reconciliationState :: "bool \<Rightarrow> string" where
  "reconciliationState consistent = (if consistent then ''consistent'' else ''drift_detected'')"

definition SetReconciliationDrift :: "int \<Rightarrow> unit query" where
  "SetReconciliationDrift v s = (Inr (), s\<lparr>reconciliationDrift := max 0 v\<rparr>)"

definition Reconcile :: "ReconciliationParams \<Rightarrow> ReconciliationReport query" where
  \<comment> \<open>Every query is a transaction of its own.\<close>
  "Reconcile arg =
     bindM nextUUID (\<lambda>runID.
     bindM timeNow (\<lambda>checkedAt.
     bindM (case rp_AccountPublicID arg of
              None \<Rightarrow> returnM None
            | Some _ \<Rightarrow>
                bindM (mapErrM (errIfNoRows ErrAccountNotFound)
                         (autocommit (GetAccountByPublicID (rp_AccountPublicID arg)))) (\<lambda>account.
                returnM (Some (ac_id account)))) (\<lambda>customerAccountID.
     bindM (autocommit (ListAccountReconciliationIssues (rp_AccountPublicID arg))) (\<lambda>ais.
     bindM (autocommit (ListTransactionReconciliationIssues customerAccountID)) (\<lambda>tis.
     bindM (autocommit (ListDuplicateReversalIssues customerAccountID)) (\<lambda>ris.
     let issues = map accountIssue ais @ concat (map transactionIssues tis) @ map reversalIssue ris;
         consistent = (issues = [])
     in bindM (SetReconciliationDrift (int (length issues))) (\<lambda>_.
        bindM (autocommit (CreateAuditLog ''reconciliation'' (Some runID) (Some runID)
                 ''reconciliation_completed'' (rp_Actor arg) None (textValue (reconciliationState consistent)) None
                 (JObj [(''account_public_id'', JStr (uuidStringOrEmpty (rp_AccountPublicID arg))),
                        (''consistent'', JBool consistent), (''issue_count'', JInt (int (length issues)))]))) (\<lambda>audit.
        returnM \<lparr>re_RunID = Some runID, re_AccountPublicID = rp_AccountPublicID arg,
                 re_CheckedAt = checkedAt, re_Consistent = consistent, re_Issues = issues,
                 re_AuditLog = audit\<rparr>))))))))"

section \<open>What a report says\<close>

text \<open>What reconciliation of the whole database checks, as a property of the tables.\<close>

definition reconciled :: "world \<Rightarrow> bool" where
  "reconciled s \<longleftrightarrow>
     (\<forall>a\<in>set (accounts s).
        (\<exists>l\<in>set (ledger_accounts s). la_customer_account_id l = Some (ac_id a) \<and> la_kind l = ''customer'') \<and>
        (\<forall>l\<in>set (ledger_accounts s). la_customer_account_id l = Some (ac_id a) \<and> la_kind l = ''customer'' \<longrightarrow>
           ac_balance a = ledgerTotal (ledger_postings s) (la_id l))) \<and>
     (\<forall>t\<in>set (banking_transactions s). settled t \<longrightarrow>
        2 \<le> length (postingsOf (bt_id t) (ledger_postings s)) \<and>
        sum_list (map lp_amount (postingsOf (bt_id t) (ledger_postings s))) = 0) \<and>
     (\<forall>t\<in>set (banking_transactions s).
        length (filter (\<lambda>u. bt_reversal_of u = Some (bt_id t)) (banking_transactions s)) \<le> 1)"

lemma reconcile_queries_frame [frame]:
  "keeps f (ListAccountReconciliationIssues pid)" "keeps f (ListTransactionReconciliationIssues c)"
  "keeps f (ListDuplicateReversalIssues c)"
  unfolding ListAccountReconciliationIssues_def ListTransactionReconciliationIssues_def
    ListDuplicateReversalIssues_def by (intro frame)+

lemma SetReconciliationDrift_frame [frame]:
  "(\<And>g s. f (reconciliationDrift_update g s) = f s) \<Longrightarrow> keeps f (SetReconciliationDrift v)"
  by (simp add: keeps_def within_def SetReconciliationDrift_def)

lemma Reconcile_frame:
  assumes "tableField f" "unnoticed f" "\<And>g s. f (reconciliationDrift_update g s) = f s"
  shows "keeps f (Reconcile arg)"
  unfolding Reconcile_def Let_def by (intro frame assms unnoticedD [OF assms(2)])

lemma leftJoin_None: "None \<in> set (leftJoin rs) \<longleftrightarrow> rs = []"
  by (auto simp: leftJoin_def)

lemma leftJoin_Some: "Some r \<in> set (leftJoin rs) \<longleftrightarrow> r \<in> set rs"
  by (auto simp: leftJoin_def)

lemma account_issues_none:
  assumes "ListAccountReconciliationIssues None s = (Inr is, s')"
  shows "is = [] \<longleftrightarrow> (\<forall>a\<in>set (accounts s).
        (\<exists>l\<in>set (ledger_accounts s). la_customer_account_id l = Some (ac_id a) \<and> la_kind l = ''customer'') \<and>
        (\<forall>l\<in>set (ledger_accounts s). la_customer_account_id l = Some (ac_id a) \<and> la_kind l = ''customer'' \<longrightarrow>
           ac_balance a = ledgerTotal (ledger_postings s) (la_id l)))"
proof -
  let ?bad = "\<lambda>g. ai_customer_ledger_account_id g = None \<or> ai_cached_balance g \<noteq> ai_ledger_balance g"
  let ?ls = "\<lambda>a. filter (\<lambda>l. la_customer_account_id l = Some (ac_id a) \<and> la_kind l = ''customer'') (ledger_accounts s)"
  have "is = [] \<longleftrightarrow> (\<forall>g\<in>set (accountGroups None s). \<not> ?bad g)"
    using assms unfolding ListAccountReconciliationIssues_def bindM_iff readM_iff failIf_iff returnM_iff
    by (auto simp: filter_empty_conv simp flip: set_empty2 [of "sort_key _ _"])
  also have "\<dots> \<longleftrightarrow> (\<forall>a\<in>set (accounts s). \<forall>l\<in>set (leftJoin (?ls a)).
      l \<noteq> None \<and> ac_balance a = (case l of None \<Rightarrow> 0 | Some k \<Rightarrow> ledgerTotal (ledger_postings s) (la_id k)))"
    unfolding accountGroups_def ledgerTotal_def by simp
  also have "\<dots> \<longleftrightarrow> (\<forall>a\<in>set (accounts s). ?ls a \<noteq> [] \<and>
      (\<forall>l\<in>set (?ls a). ac_balance a = ledgerTotal (ledger_postings s) (la_id l)))"
    by (intro ball_cong [OF refl]) (auto simp: leftJoin_def)
  finally show ?thesis
    by (simp only: filter_empty_conv set_filter mem_Collect_eq Ball_def Bex_def imp_conjL conj_assoc not_all
        not_imp not_not)
qed

lemma transaction_issues_none:
  assumes "ListTransactionReconciliationIssues None s = (Inr is, s')"
  shows "concat (map transactionIssues is) = [] \<longleftrightarrow> (\<forall>t\<in>set (banking_transactions s). settled t \<longrightarrow>
        2 \<le> length (postingsOf (bt_id t) (ledger_postings s)) \<and>
        sum_list (map lp_amount (postingsOf (bt_id t) (ledger_postings s))) = 0)"
  using assms unfolding ListTransactionReconciliationIssues_def bindM_iff readM_iff failIf_iff returnM_iff
  by (auto simp: transactionIssues_def transactionIssueRow_def transactionGroups_def touchesAccount_def
      settled_def Let_def split: if_splits)

lemma reversal_issues_none:
  assumes "ListDuplicateReversalIssues None s = (Inr is, s')"
  shows "is = [] \<longleftrightarrow> (\<forall>t\<in>set (banking_transactions s).
        length (filter (\<lambda>u. bt_reversal_of u = Some (bt_id t)) (banking_transactions s)) \<le> 1)"
proof -
  have "set is = {} \<longleftrightarrow> (\<forall>t\<in>set (banking_transactions s).
        \<not> 1 < length (filter (\<lambda>u. bt_reversal_of u = Some (bt_id t)) (banking_transactions s)))"
    using assms unfolding ListDuplicateReversalIssues_def readM_iff by (auto simp: touchesAccount_def)
  then show ?thesis by (simp add: not_less)
qed

text \<open>A successful run: the three queries saw the same tables, and what it reports.\<close>

lemma Reconcile_ok:
  assumes run: "Reconcile \<lparr>rp_AccountPublicID = None, rp_Actor = actor\<rparr> s = (Inr rep, s')"
  obtains s1 s2 s3 t1 t2 t3 ais tis ris where
    "bookTables s1 = bookTables s" "bookTables s2 = bookTables s" "bookTables s3 = bookTables s"
    "ListAccountReconciliationIssues None s1 = (Inr ais, t1)"
    "ListTransactionReconciliationIssues None s2 = (Inr tis, t2)"
    "ListDuplicateReversalIssues None s3 = (Inr ris, t3)"
    "re_Issues rep = map accountIssue ais @ concat (map transactionIssues tis) @ map reversalIssue ris"
    "re_Consistent rep \<longleftrightarrow> re_Issues rep = []"
proof -
  obtain x1 x2 x3 x4 x5 x6 ais tis ris y1 y2 u1 u2 cust cid where
    a: "nextUUID s = (Inr u1, x1)" "timeNow x1 = (Inr u2, x2)" "cust x2 = (Inr cid, x3)"
    and cust: "cust = returnM None"
    and q1: "autocommit (ListAccountReconciliationIssues None) x3 = (Inr ais, x4)"
    and q2: "autocommit (ListTransactionReconciliationIssues cid) x4 = (Inr tis, x5)"
    and q3: "autocommit (ListDuplicateReversalIssues cid) x5 = (Inr ris, x6)"
    and rep: "re_Issues rep = map accountIssue ais @ concat (map transactionIssues tis) @ map reversalIssue ris"
      "re_Consistent rep \<longleftrightarrow> re_Issues rep = []"
    using run unfolding Reconcile_def Let_def
    by (elim run_elims) (rule that, assumption+, simp_all)
  have x3: "cid = None" "bookTables x3 = bookTables s"
    using a unfolding cust nextUUID_iff timeNow_iff returnM_iff by (auto simp: bookTables_def)
  have x4: "bookTables x4 = bookTables x3"
    using q1 by (rule keepsD [rotated]) (intro frame; simp)
  have x5: "bookTables x5 = bookTables x4"
    using q2 by (rule keepsD [rotated]) (intro frame; simp)
  have st: "bookTables (startTx w) = bookTables w" for w
    by (simp add: bookTables_def)
  show thesis
    by (rule that [of "startTx x3" "startTx x4" "startTx x5" ais x4 tis x5 ris x6])
      (use autocommit_ok(1) [OF q1] autocommit_ok(1) [OF q2] autocommit_ok(1) [OF q3] x3 x4 x5 rep st in simp_all)
qed

lemma reconciled_cong: "bookTables t = bookTables s \<Longrightarrow> reconciled t \<longleftrightarrow> reconciled s"
  unfolding bookTables_def reconciled_def by simp

text \<open>A report for the whole database is free of issues exactly when the tables are reconciled.\<close>

lemma Reconcile_detects:
  assumes "Reconcile \<lparr>rp_AccountPublicID = None, rp_Actor = actor\<rparr> s = (Inr rep, s')"
  shows "re_Consistent rep \<longleftrightarrow> reconciled s"
proof -
  obtain s1 s2 s3 t1 t2 t3 ais tis ris where
    same: "bookTables s1 = bookTables s" "bookTables s2 = bookTables s" "bookTables s3 = bookTables s"
    and q: "ListAccountReconciliationIssues None s1 = (Inr ais, t1)"
      "ListTransactionReconciliationIssues None s2 = (Inr tis, t2)"
      "ListDuplicateReversalIssues None s3 = (Inr ris, t3)"
    and rep: "re_Issues rep = map accountIssue ais @ concat (map transactionIssues tis) @ map reversalIssue ris"
      "re_Consistent rep \<longleftrightarrow> re_Issues rep = []"
    by (rule Reconcile_ok [OF assms])
  show ?thesis
    using account_issues_none [OF q(1)] transaction_issues_none [OF q(2)] reversal_issues_none [OF q(3)] same rep
    unfolding reconciled_def bookTables_def by simp
qed

lemma same_key_length:
  assumes "\<And>x y. x \<in> set xs \<Longrightarrow> y \<in> set xs \<Longrightarrow> key x = key y" "distinct (map key xs)"
  shows "length xs \<le> 1"
proof (cases xs)
  case (Cons x ys)
  then have "ys = []"
    using assms by (cases ys) auto
  then show ?thesis using Cons by simp
qed simp

lemma books_reconciled:
  assumes ok: "books s"
  shows "reconciled s"
  unfolding reconciled_def
proof (intro conjI ballI impI)
  fix a assume a: "a \<in> set (accounts s)"
  obtain l where "l \<in> set (ledger_accounts s)" "ledgerFor a l"
    using books_ledger [OF ok a] .
  then show "\<exists>l\<in>set (ledger_accounts s). la_customer_account_id l = Some (ac_id a) \<and> la_kind l = ''customer''"
    using booksD(8) [OF ok] by (auto simp: ledgerFor_def)
  show "ac_balance a = ledgerTotal (ledger_postings s) (la_id l)"
    if "l \<in> set (ledger_accounts s)" "la_customer_account_id l = Some (ac_id a) \<and> la_kind l = ''customer''" for l
    using books_balance(1) [OF ok a that(1)] that(2) by (simp add: ledgerFor_def)
next
  fix t assume "t \<in> set (banking_transactions s)"
  then show "2 \<le> length (postingsOf (bt_id t) (ledger_postings s))"
    "sum_list (map lp_amount (postingsOf (bt_id t) (ledger_postings s))) = 0"
    using booksD(12) [OF ok] by (simp_all add: txBalanced_def Let_def)
next
  fix t assume "t \<in> set (banking_transactions s)"
  let ?us = "filter (\<lambda>u. bt_reversal_of u = Some (bt_id t)) (banking_transactions s)"
  have "bt_id x = bt_id y" if "x \<in> set ?us" "y \<in> set ?us" for x y
    using that reversalsD(1) [OF booksD(15) [OF ok]] by simp
  moreover have "distinct (map bt_id ?us)"
    by (rule distinct_map_filter [OF booksD(3) [OF ok]])
  ultimately show "length ?us \<le> 1"
    by (rule same_key_length)
qed

end
