(* ===== verification/SessionQueries.thy ===== *)
theory SessionQueries
  imports Schema
begin

text \<open>
  The statements of \<open>db/sqlc/session.sql.go\<close> on the table \<open>sessions\<close> (migrations 5, 12 and 20). The
  partial unique index \<open>sessions_one_active_per_user_idx\<close> allows one session without \<open>revoked_at\<close> for
  each user.
\<close>

definition sessionInsertChecks :: "world \<Rightarrow> Session \<Rightarrow> (bool \<times> error) list" where
  "sessionInsertChecks s x =
     [(list_ex (\<lambda>y. se_id y = se_id x) (sessions s), PgUnique ''sessions_pkey''),
      (list_ex (\<lambda>y. se_refresh_token_hash y = se_refresh_token_hash x) (sessions s),
         PgUnique ''sessions_refresh_token_hash_idx''),
      (list_ex (\<lambda>y. se_device_token_hash y = se_device_token_hash x) (sessions s),
         PgUnique ''sessions_device_token_hash_idx''),
      (se_revoked_at x = None \<and> list_ex (\<lambda>y. se_username y = se_username x \<and> se_revoked_at y = None) (sessions s),
         PgUnique ''sessions_one_active_per_user_idx''),
      (\<not> list_ex (\<lambda>u. us_username u = se_username x) (users s), PgForeignKey ''sessions_username_fkey'')]"

record CreateSessionParams =
  cs_ID :: "uuid option"
  cs_Username :: string
  cs_RefreshTokenHash :: string
  cs_RefreshTokenID :: "uuid option"
  cs_DeviceTokenHash :: string
  cs_UserAgent :: string
  cs_ClientIp :: string
  cs_ExpiresAt :: "time option"

definition CreateSession :: "CreateSessionParams \<Rightarrow> Session query" where
  "CreateSession arg =
     bindM (notNull ''id'' (cs_ID arg)) (\<lambda>sid.
     bindM (notNull ''expires_at'' (cs_ExpiresAt arg)) (\<lambda>expires_at.
     bindM (notNull ''refresh_token_id'' (cs_RefreshTokenID arg)) (\<lambda>rid.
     bindM (readM tx_now) (\<lambda>now.
     insertRow sessionInsertChecks sessions_update
       \<lparr>se_id = sid, se_username = cs_Username arg, se_user_agent = cs_UserAgent arg,
        se_client_ip = cs_ClientIp arg, se_expires_at = expires_at, se_created_at = now,
        se_refresh_token_hash = cs_RefreshTokenHash arg, se_refresh_token_id = rid,
        se_last_refreshed_at = None, se_revoked_at = None, se_revoked_reason = None,
        se_device_token_hash = cs_DeviceTokenHash arg\<rparr>))))"

definition DeleteSession :: "uuid option \<Rightarrow> unit query" where
  "DeleteSession sid =
     bindM (deleteWhere sessions sessions_update (\<lambda>x. Some (se_id x) = sid)) (\<lambda>_. returnM ())"

definition GetSession :: "uuid option \<Rightarrow> Session query" where
  "GetSession sid = selectOne ErrNoRows sessions (\<lambda>x. Some (se_id x) = sid)"

definition GetSessionForUpdate :: "uuid option \<Rightarrow> Session query" where
  "GetSessionForUpdate sid = selectOne ErrNoRows sessions (\<lambda>x. Some (se_id x) = sid)"

definition ListSessions :: "string \<Rightarrow> Session list query" where
  "ListSessions username = readM (\<lambda>s.
     sortDesc se_created_at (filter (\<lambda>x. se_username x = username) (sessions s)))"

definition revokeRow :: "time \<Rightarrow> string option \<Rightarrow> Session \<Rightarrow> Session" where
  \<comment> \<open>\<open>SET revoked_at = COALESCE(revoked_at, now()), revoked_reason = COALESCE(revoked_reason, $1)\<close>\<close>
  "revokeRow now reason x =
     x\<lparr>se_revoked_at := (case se_revoked_at x of None \<Rightarrow> Some now | Some t \<Rightarrow> Some t),
       se_revoked_reason := (case se_revoked_reason x of None \<Rightarrow> reason | Some r \<Rightarrow> Some r)\<rparr>"

definition RevokeAllUserSessions :: "string option \<Rightarrow> string \<Rightarrow> Session list query" where
  "RevokeAllUserSessions revoked_reason username =
     bindM (readM tx_now) (\<lambda>now.
     updateMany (\<lambda>x. []) sessions sessions_update
       (\<lambda>x. se_username x = username \<and> se_revoked_at x = None) (revokeRow now revoked_reason))"

definition RevokeSession :: "string option \<Rightarrow> uuid option \<Rightarrow> Session query" where
  "RevokeSession revoked_reason sid =
     bindM (readM tx_now) (\<lambda>now.
     updateRow ErrNoRows (\<lambda>s x. []) sessions sessions_update
       (\<lambda>x. Some (se_id x) = sid \<and> se_revoked_at x = None) (revokeRow now revoked_reason))"

definition RotateSessionRefreshToken :: "uuid option \<Rightarrow> string \<Rightarrow> uuid option \<Rightarrow> Session query" where
  "RotateSessionRefreshToken sid refresh_token_hash refresh_token_id =
     bindM (readM tx_now) (\<lambda>now.
     updateRow ErrNoRows
       (\<lambda>s x. [(refresh_token_id = None, PgNotNull ''refresh_token_id''),
               (list_ex (\<lambda>y. se_id y \<noteq> se_id x \<and> se_refresh_token_hash y = se_refresh_token_hash x) (sessions s),
                  PgUnique ''sessions_refresh_token_hash_idx'')])
       sessions sessions_update (\<lambda>x. Some (se_id x) = sid)
       (\<lambda>x. x\<lparr>se_refresh_token_hash := refresh_token_hash,
              se_refresh_token_id := (case refresh_token_id of None \<Rightarrow> se_refresh_token_id x | Some u \<Rightarrow> u),
              se_last_refreshed_at := Some now\<rparr>))"

section \<open>Frames\<close>

lemma session_writes_frame [frame]:
  assumes "\<And>g s. f (sessions_update g s) = f s"
  shows "keeps f (CreateSession arg)" "keeps f (DeleteSession sid)" "keeps f (RevokeAllUserSessions r n)"
    "keeps f (RevokeSession r sid')" "keeps f (RotateSessionRefreshToken sid'' h rid)"
  unfolding CreateSession_def DeleteSession_def RevokeAllUserSessions_def RevokeSession_def
    RotateSessionRefreshToken_def
  by (intro frame assms)+

lemma session_selects_frame [frame]:
  "keeps f (GetSession sid)" "keeps f (GetSessionForUpdate sid)" "keeps f (ListSessions n)"
  unfolding GetSession_def GetSessionForUpdate_def ListSessions_def by (intro frame)+

section \<open>What the indexes keep\<close>

text \<open>
  The keys of the table are unique, and no user has two sessions that are not revoked.
\<close>

definition activeOf :: "string \<Rightarrow> Session list \<Rightarrow> Session list" where
  "activeOf username xs = filter (\<lambda>x. se_username x = username \<and> se_revoked_at x = None) xs"

definition sessionsOk :: "Session list \<Rightarrow> bool" where
  "sessionsOk xs \<longleftrightarrow>
     distinct (map se_id xs) \<and> distinct (map se_refresh_token_hash xs) \<and> distinct (map se_device_token_hash xs) \<and>
     distinct (map se_username (filter (\<lambda>x. se_revoked_at x = None) xs))"

lemma sessionsOk_insert:
  assumes "insertRow sessionInsertChecks sessions_update x s = (Inr y, t)" "sessionsOk (sessions s)"
  shows "sessionsOk (sessions t)" "sessions t = sessions s @ [x]" "y = x"
  using assms by (auto simp: runs sessionInsertChecks_def list_ex_iff sessionsOk_def)

lemma revokeRow_simps [simp]:
  "se_id (revokeRow now r x) = se_id x" "se_username (revokeRow now r x) = se_username x"
  "se_refresh_token_hash (revokeRow now r x) = se_refresh_token_hash x"
  "se_device_token_hash (revokeRow now r x) = se_device_token_hash x"
  "se_revoked_at (revokeRow now r x) \<noteq> None"
  by (simp_all add: revokeRow_def split: option.splits)

lemma sessionsOk_revoke:
  assumes "sessionsOk xs"
  shows "sessionsOk (map (\<lambda>x. if p x then revokeRow now r x else x) xs)"
proof -
  let ?f = "\<lambda>x. if p x then revokeRow now r x else x"
  have "filter (\<lambda>x. se_revoked_at x = None) (map ?f xs) = filter (\<lambda>x. se_revoked_at x = None \<and> \<not> p x) xs"
    by (induction xs) simp_all
  then have "map se_username (filter (\<lambda>x. se_revoked_at x = None) (map ?f xs)) =
      map se_username (filter (\<lambda>x. \<not> p x) (filter (\<lambda>x. se_revoked_at x = None) xs))"
    by (simp add: conj_commute)
  moreover have "distinct (map se_username (filter (\<lambda>x. \<not> p x) (filter (\<lambda>x. se_revoked_at x = None) xs)))"
    using assms unfolding sessionsOk_def by (blast intro: distinct_map_filter)
  ultimately show ?thesis
    using assms by (simp add: sessionsOk_def map_if_key del: map_map)
qed

lemma sessionsOk_active:
  assumes "sessionsOk xs"
  shows "length (activeOf username xs) \<le> 1"
proof -
  have "activeOf username xs = filter (\<lambda>x. se_username x = username) (filter (\<lambda>x. se_revoked_at x = None) xs)"
    by (simp add: activeOf_def conj_commute)
  moreover have "distinct (map se_username (filter (\<lambda>x. se_revoked_at x = None) xs))"
    using assms by (simp add: sessionsOk_def)
  moreover have "distinct (map f ys) \<Longrightarrow> length (filter (\<lambda>x. f x = k) ys) \<le> 1" for f :: "Session \<Rightarrow> string" and ys k
    by (induction ys) (auto simp: filter_empty_conv intro: rev_image_eqI)
  ultimately show ?thesis by metis
qed

end
