(* ===== verification/Sessions.thy ===== *)
theory Sessions
  imports Financial SessionQueries
begin

text \<open>
  Login sessions, \<open>db/sqlc/session_tx.go\<close>: a login replaces every other session of its user, a refresh
  token is good for one rotation, and presenting one again revokes the session.
\<close>

section \<open>Definitions\<close>

definition constantTimeHashEqual :: "string \<Rightarrow> string \<Rightarrow> bool" where
  "constantTimeHashEqual expected actual \<longleftrightarrow> length expected = length actual \<and> expected = actual"

definition createSessionAudit :: "Session \<Rightarrow> string \<Rightarrow> string \<Rightarrow> string \<Rightarrow> string \<Rightarrow> unit query" where
  "createSessionAudit session eventType actor fromState toState =
     bindM (CreateAuditLog ''session'' (Some (se_id session)) (Some (se_id session)) eventType actor
       (textValue fromState) (textValue toState) None
       (JObj [(''user_agent'', JStr (se_user_agent session)), (''client_ip'', JStr (se_client_ip session))])) (\<lambda>_.
     returnM ())"

definition exclusiveSessionBody :: "CreateSessionParams \<Rightarrow> Session query" where
  "exclusiveSessionBody arg =
     bindM (GetUserForUpdate (cs_Username arg)) (\<lambda>_.
     bindM (RevokeAllUserSessions (textValue ''replaced_by_new_login'') (cs_Username arg)) (\<lambda>replaced.
     bindM (forM replaced (\<lambda>session.
        createSessionAudit session ''session_replaced_by_login'' ''user'' ''active'' ''revoked'')) (\<lambda>_.
     bindM (CreateSession arg) (\<lambda>result.
     bindM (createSessionAudit result ''session_created'' ''user'' '''' ''active'') (\<lambda>_.
     bindM (createFinancialAudit (zeroAuditParams
       \<lparr>fa_EntityType := ''session'', fa_EntityID := Some (se_id result), fa_CorrelationID := Some (se_id result),
        fa_EventType := ''login_succeeded'', fa_Actor := se_username result, fa_ToState := ''authenticated'',
        fa_Metadata := Some [(''client_ip'', JStr (se_client_ip result)), (''user_agent'', JStr (se_user_agent result))]\<rparr>)) (\<lambda>_.
     returnM result))))))"

definition CreateExclusiveSessionTx :: "CreateSessionParams \<Rightarrow> Session query" where
  "CreateExclusiveSessionTx arg = execTx (exclusiveSessionBody arg)"

definition ValidateSession :: "uuid option \<Rightarrow> string \<Rightarrow> string \<Rightarrow> unit query" where
  "ValidateSession sid username deviceTokenHash =
     bindM (autocommit (GetSession sid)) (\<lambda>session.
     failIf (se_username session \<noteq> username) ErrSessionMismatch
     (failIf (se_revoked_at session \<noteq> None) ErrSessionRevoked
     (bindM timeNow (\<lambda>now.
      failIf (\<not> now < se_expires_at session) ErrSessionExpired
     (failIf (\<not> constantTimeHashEqual (se_device_token_hash session) deviceTokenHash) ErrDeviceMismatch
     (returnM ()))))))"

record RotateRefreshTokenTxParams =
  rr_SessionID :: "uuid option"
  rr_Username :: string
  rr_PresentedTokenHash :: string
  rr_PresentedRefreshID :: "uuid option"
  rr_PresentedDeviceHash :: string
  rr_NewTokenHash :: string
  rr_NewRefreshID :: "uuid option"

definition rotateBody :: "RotateRefreshTokenTxParams \<Rightarrow> Session option query" where
  \<comment> \<open>\<open>None\<close> is a detected reuse: the transaction commits, and the call then reports the error.\<close>
  "rotateBody arg =
     bindM (GetSessionForUpdate (rr_SessionID arg)) (\<lambda>session.
     failIf (se_username session \<noteq> rr_Username arg) ErrSessionMismatch
     (failIf (se_revoked_at session \<noteq> None) ErrSessionRevoked
     (bindM timeNow (\<lambda>now.
      failIf (\<not> now < se_expires_at session) ErrSessionExpired
     (failIf (\<not> constantTimeHashEqual (se_device_token_hash session) (rr_PresentedDeviceHash arg)) ErrDeviceMismatch
     (let hashMatches = constantTimeHashEqual (se_refresh_token_hash session) (rr_PresentedTokenHash arg);
          idMatches = (Some (se_refresh_token_id session) = rr_PresentedRefreshID arg)
      in if \<not> hashMatches \<or> \<not> idMatches
         then bindM (RevokeSession (textValue ''refresh_token_reuse'') (rr_SessionID arg)) (\<lambda>_.
              bindM (createSessionAudit session ''refresh_token_reuse_detected'' ''security'' ''active'' ''revoked'') (\<lambda>_.
              returnM None))
         else bindM (RotateSessionRefreshToken (rr_SessionID arg) (rr_NewTokenHash arg) (rr_NewRefreshID arg)) (\<lambda>result.
              bindM (createSessionAudit result ''refresh_token_rotated'' ''user'' ''active'' ''active'') (\<lambda>_.
              returnM (Some result)))))))))"

definition RotateRefreshTokenTx :: "RotateRefreshTokenTxParams \<Rightarrow> Session query" where
  "RotateRefreshTokenTx arg =
     bindM (execTx (rotateBody arg)) (\<lambda>r.
     case r of None \<Rightarrow> failM ErrRefreshTokenReuse | Some result \<Rightarrow> returnM result)"

definition revokeSessionBody :: "uuid option \<Rightarrow> string \<Rightarrow> string \<Rightarrow> string \<Rightarrow> unit query" where
  "revokeSessionBody sid deviceTokenHash reason actor =
     bindM (tryM (GetSessionForUpdate sid)) (\<lambda>found.
     case found of
       Inl e \<Rightarrow> if errIs e ErrNoRows then returnM () else failM e
     | Inr current \<Rightarrow>
         failIf (\<not> constantTimeHashEqual (se_device_token_hash current) deviceTokenHash) ErrDeviceMismatch
         (bindM (tryM (RevokeSession (textValue reason) sid)) (\<lambda>revoked.
          case revoked of
            Inl e \<Rightarrow> if errIs e ErrNoRows then returnM () else failM e
          | Inr session \<Rightarrow> createSessionAudit session ''session_logged_out'' actor ''active'' ''revoked'')))"

definition RevokeSessionTx :: "uuid option \<Rightarrow> string \<Rightarrow> string \<Rightarrow> string \<Rightarrow> unit query" where
  "RevokeSessionTx sid deviceTokenHash reason actor = execTx (revokeSessionBody sid deviceTokenHash reason actor)"

definition revokeAllBody :: "string \<Rightarrow> string \<Rightarrow> string \<Rightarrow> unit query" where
  \<comment> \<open>Also the end of \<open>UpdateUserTx\<close>\<close>
  "revokeAllBody username reason eventType =
     bindM (RevokeAllUserSessions (textValue reason) username) (\<lambda>revoked.
     bindM (forM revoked (\<lambda>session. createSessionAudit session eventType ''user'' ''active'' ''revoked'')) (\<lambda>_.
     returnM ()))"

definition RevokeAllUserSessionsTx :: "string \<Rightarrow> string \<Rightarrow> string \<Rightarrow> unit query" where
  "RevokeAllUserSessionsTx username reason eventType = execTx (revokeAllBody username reason eventType)"

section \<open>Frames\<close>

lemma createSessionAudit_frame [frame]:
  assumes "unnoticed f"
  shows "keeps f (createSessionAudit session ev actor fs ts)"
  unfolding createSessionAudit_def by (intro frame unnoticedD [OF assms])

lemma session_bodies_frame:
  assumes "unnoticed f" "\<And>g s. f (sessions_update g s) = f s"
  shows "keeps f (exclusiveSessionBody arg)" "keeps f (rotateBody arg')"
    "keeps f (revokeSessionBody sid h r a)" "keeps f (revokeAllBody n r' ev)"
  unfolding exclusiveSessionBody_def rotateBody_def revokeSessionBody_def revokeAllBody_def Let_def
  by (intro frame assms unnoticedD [OF assms(1)])+

lemma sessions_frame [frame]:
  assumes "tableField f" "unnoticed f" "\<And>g s. f (sessions_update g s) = f s"
  shows "keeps f (CreateExclusiveSessionTx arg)" "keeps f (RotateRefreshTokenTx arg')"
    "keeps f (RevokeSessionTx sid h r a)" "keeps f (RevokeAllUserSessionsTx n r' ev)"
  unfolding CreateExclusiveSessionTx_def RotateRefreshTokenTx_def RevokeSessionTx_def RevokeAllUserSessionsTx_def
  by (intro frame session_bodies_frame assms)+

end
