(* ===== verification/Users.thy ===== *)
theory Users
  imports Sessions
begin

text \<open>
  Sign-up, profile changes and email verification: \<open>db/sqlc/create_user_tx.go\<close>, \<open>update_user_tx.go\<close> and
  \<open>email_verification_tx.go\<close>.
\<close>

section \<open>Constants\<close>

definition EmailJobTypeVerifyEmail :: string where
  "EmailJobTypeVerifyEmail = ''verify_email''"

definition OutboxEventTypeEmailReady :: string where
  "OutboxEventTypeEmailReady = ''email_job.ready''"

definition EmailJobStatusDeadLetter :: string where
  "EmailJobStatusDeadLetter = ''dead_letter''"

definition EmailDeliverabilityUndeliverable :: string where
  "EmailDeliverabilityUndeliverable = ''undeliverable''"

definition AccountStatusActive :: string where
  "AccountStatusActive = ''active''"

definition AccountStatusDisabled :: string where
  "AccountStatusDisabled = ''disabled''"

definition emailVerificationRequestCooldown :: time where
  \<comment> \<open>\<open>time.Minute\<close>\<close>
  "emailVerificationRequestCooldown = 60000000"

lemmas user_constants [simp] =
  EmailJobTypeVerifyEmail_def OutboxEventTypeEmailReady_def EmailJobStatusDeadLetter_def
  EmailDeliverabilityUndeliverable_def AccountStatusActive_def AccountStatusDisabled_def

definition nullableText :: "string \<Rightarrow> string option" where
  "nullableText value = (if value = '''' then None else Some value)"

section \<open>Sign-up\<close>

definition emailJobPayload :: "string \<Rightarrow> string \<Rightarrow> json" where
  "emailJobPayload username recipient = JObj [(''username'', JStr username), (''recipient'', JStr recipient)]"

definition outboxEmailPayload :: "uuid option \<Rightarrow> json" where
  \<comment> \<open>\<open>event_id\<close> and \<open>correlation_id\<close> are empty here and left out.\<close>
  "outboxEmailPayload jobID = JObj [(''job_id'', JStr (rawUuidString jobID))]"

definition createVerificationEmailJob :: "string \<Rightarrow> string \<Rightarrow> (EmailJob \<times> OutboxEvent) query" where
  "createVerificationEmailJob username recipient =
     bindM newPGUUID (\<lambda>jobID.
     bindM (CreateEmailJob jobID None EmailJobTypeVerifyEmail username recipient
              (emailJobPayload username recipient) DefaultEmailMaxAttempts) (\<lambda>job.
     bindM newPGUUID (\<lambda>eventID.
     bindM (CreateOutboxEvent eventID jobID OutboxEventTypeEmailReady (outboxEmailPayload jobID) jobID
              ''email_job'' jobID) (\<lambda>event.
     returnM (job, event)))))"

record CreateUserParams =
  cu_Username :: string
  cu_HashedPassword :: string
  cu_FullName :: string
  cu_Email :: string

record CreateUserTxResult =
  ur_User :: User
  ur_EmailJob :: EmailJob
  ur_OutboxEvent :: OutboxEvent

definition CreateUserTx :: "CreateUserParams \<Rightarrow> CreateUserTxResult query" where
  "CreateUserTx arg = execTx
     (bindM (CreateUser (cu_Username arg) (cu_HashedPassword arg) (cu_FullName arg) (cu_Email arg)) (\<lambda>user.
      bindM (createVerificationEmailJob (us_username user) (us_email user)) (\<lambda>(job, event).
      returnM \<lparr>ur_User = user, ur_EmailJob = job, ur_OutboxEvent = event\<rparr>)))"

section \<open>Replay of a dead letter\<close>

record ReplayEmailJobTxResult =
  rj_EmailJob :: EmailJob
  rj_OutboxEvent :: OutboxEvent

definition ReplayEmailJobTx :: "uuid option \<Rightarrow> ReplayEmailJobTxResult query" where
  "ReplayEmailJobTx jobID = execTx
     (bindM (GetEmailJob jobID) (\<lambda>original.
      failIf (ej_status original \<noteq> EmailJobStatusDeadLetter) ErrEmailJobNotDeadLetter
     (bindM (GetOutboxEventByEmailJobID (Some (ej_id original))) (\<lambda>originalEvent.
      bindM newPGUUID (\<lambda>newJobID.
      bindM (CreateEmailJob newJobID (Some (ej_id original)) (ej_job_type original) (ej_username original)
               (ej_recipient original) (ej_payload original) (ej_max_attempts original)) (\<lambda>job.
      bindM newPGUUID (\<lambda>eventID.
      bindM (CreateOutboxEvent eventID newJobID (ob_event_type originalEvent) (outboxEmailPayload newJobID)
               (Some (ob_correlation_id originalEvent)) (ob_entity_type originalEvent)
               (Some (ob_entity_id originalEvent))) (\<lambda>event.
      bindM (CreateAuditLog ''email_job'' (Some (ej_id original)) newJobID ''email_job_replayed'' ''operator_cli''
               (Some EmailJobStatusDeadLetter) (Some EmailJobStatusDeadLetter) None
               (JObj [(''replay_job_id'', JStr (rawUuidString newJobID)),
                      (''replay_outbox_event_id'', JStr (rawUuidString (Some (ob_id event))))])) (\<lambda>_.
      returnM \<lparr>rj_EmailJob = job, rj_OutboxEvent = event\<rparr>)))))))))"

section \<open>Profile changes\<close>

record UpdateUserTxParams =
  uu_HashedPassword :: "string option"
  uu_FullName :: "string option"
  uu_Email :: "string option"
  uu_Username :: string
  uu_RevokeSessions :: bool
  uu_SessionRevocationReason :: string
  uu_SessionAuditEvent :: string

record UpdateUserTxResult =
  ux_User :: User
  ux_EmailChanged :: bool
  ux_EmailJob :: "(EmailJob \<times> OutboxEvent) option"

definition UpdateUserTx :: "UpdateUserTxParams \<Rightarrow> UpdateUserTxResult query" where
  \<comment> \<open>Without a change of address the job and the event of the result are zero values, \<open>None\<close> here.\<close>
  "UpdateUserTx arg = execTx
     (bindM (GetUser (uu_Username arg)) (\<lambda>current.
      bindM (UpdateUser (uu_HashedPassword arg) (uu_FullName arg) (uu_Email arg) (uu_Username arg)) (\<lambda>user.
      bindM (equalFold (us_email current) (us_email user)) (\<lambda>same.
      bindM (if same then returnM None
             else bindM (createVerificationEmailJob (us_username user) (us_email user)) (\<lambda>je. returnM (Some je))) (\<lambda>mail.
      bindM (if \<not> uu_RevokeSessions arg then returnM ()
             else revokeAllBody (us_username user)
                    (if uu_SessionRevocationReason arg = '''' then ''security_profile_changed''
                     else uu_SessionRevocationReason arg)
                    (if uu_SessionAuditEvent arg = '''' then ''sessions_revoked_security_profile_change''
                     else uu_SessionAuditEvent arg)) (\<lambda>_.
      returnM \<lparr>ux_User = user, ux_EmailChanged = (\<not> same), ux_EmailJob = mail\<rparr>))))))"

section \<open>Email verification\<close>

record VerifyUserEmailTxParams =
  ve_Username :: string
  ve_Email :: string
  ve_JobID :: "uuid option"
  ve_TokenHash :: string

definition tokenLive :: "EmailJob \<Rightarrow> time \<Rightarrow> bool" where
  "tokenLive job now = (case ej_verification_token_expires_at job of None \<Rightarrow> False | Some t \<Rightarrow> now < t)"

definition verifyUserEmailBody :: "VerifyUserEmailTxParams \<Rightarrow> User query" where
  "verifyUserEmailBody arg =
     bindM (mapErrM (errIfNoRows ErrEmailVerificationJobMismatch) (GetEmailJobForUpdate (ve_JobID arg))) (\<lambda>job.
     bindM (equalFold (ej_recipient job) (ve_Email arg)) (\<lambda>sameRecipient.
     failIf (ej_username job \<noteq> ve_Username arg \<or> \<not> sameRecipient) ErrEmailVerificationJobMismatch
     (bindM timeNow (\<lambda>now.
      failIf (\<not> tokenLive job now) ErrEmailVerificationTokenExpired
     (failIf (\<not> constantTimeHashEqual (orElse (ej_verification_token_hash job) '''') (ve_TokenHash arg))
        ErrEmailVerificationJobMismatch
     (bindM (GetUserForUpdate (ve_Username arg)) (\<lambda>user.
      bindM (equalFold (us_email user) (ve_Email arg)) (\<lambda>sameAddress.
      failIf (\<not> sameAddress) ErrEmailVerificationAddressStale
     (failIf (us_account_status user = AccountStatusDisabled) ErrRegistrationDisabled
     (failIf (us_email_deliverability_status user = EmailDeliverabilityUndeliverable) ErrEmailAddressUndeliverable
     (if us_account_status user = AccountStatusActive \<and> us_email_verified_at user \<noteq> None then returnM user
      else bindM (MarkUserEmailVerified (ve_Username arg) (ve_Email arg)) (\<lambda>result.
           bindM (CreateAuditLog ''email_job'' (Some (ej_id job)) (Some (ej_id job)) ''email_verified'' ''user''
                    (nullableText (us_account_status user)) (nullableText AccountStatusActive) None (JObj [])) (\<lambda>_.
           returnM result)))))))))))))"

definition VerifyUserEmailTx :: "VerifyUserEmailTxParams \<Rightarrow> User query" where
  "VerifyUserEmailTx arg = execTx (verifyUserEmailBody arg)"

record RequestEmailVerificationTxResult =
  rq_User :: User
  rq_EmailJob :: EmailJob
  rq_OutboxEvent :: OutboxEvent

definition requestEmailVerificationBody :: "string \<Rightarrow> RequestEmailVerificationTxResult query" where
  \<comment> \<open>\<open>time.Since\<close> is the difference to the current time.\<close>
  "requestEmailVerificationBody username =
     bindM (GetUserForUpdate username) (\<lambda>user.
     failIf (us_email_verified_at user \<noteq> None \<and> us_account_status user = AccountStatusActive) ErrEmailAlreadyVerified
     (failIf (us_email_deliverability_status user = EmailDeliverabilityUndeliverable) ErrEmailAddressUndeliverable
     (bindM (tryM (GetLatestEmailJobForCurrentAddress username)) (\<lambda>latest.
      bindM (case latest of
               Inl e \<Rightarrow> if errIs e ErrNoRows then returnM () else failM e
             | Inr job \<Rightarrow> bindM timeNow (\<lambda>now.
                 failIf (now - ej_created_at job < emailVerificationRequestCooldown) ErrEmailVerificationCooldown
                 (returnM ()))) (\<lambda>_.
      bindM (RestartUserEmailVerification username) (\<lambda>restarted.
      bindM (createVerificationEmailJob (us_username restarted) (us_email restarted)) (\<lambda>(job, event).
      returnM \<lparr>rq_User = restarted, rq_EmailJob = job, rq_OutboxEvent = event\<rparr>)))))))"

definition RequestEmailVerificationTx :: "string \<Rightarrow> RequestEmailVerificationTxResult query" where
  "RequestEmailVerificationTx username = execTx (requestEmailVerificationBody username)"

section \<open>Frames\<close>

lemma newPGUUID_frame [frame]: "(\<And>g s. f (uuid_ctr_update g s) = f s) \<Longrightarrow> keeps f newPGUUID"
  unfolding newPGUUID_def by (intro frame)

lemma createVerificationEmailJob_frame [frame]:
  assumes "unnoticed f"
  shows "keeps f (createVerificationEmailJob n r)"
  unfolding createVerificationEmailJob_def by (intro frame email_writes_frame assms unnoticedD [OF assms])

lemma users_bodies_frame:
  assumes "unnoticed f" "\<And>g s. f (users_update g s) = f s"
  shows "keeps f (verifyUserEmailBody arg)" "keeps f (requestEmailVerificationBody n)"
  unfolding verifyUserEmailBody_def requestEmailVerificationBody_def
  by (intro frame assms unnoticedD [OF assms(1)])+

lemma users_frame [frame]:
  assumes "tableField f" "unnoticed f" "\<And>g s. f (users_update g s) = f s"
  shows "keeps f (CreateUserTx arg)" "keeps f (VerifyUserEmailTx arg')" "keeps f (RequestEmailVerificationTx n)"
    "(\<And>g s. f (sessions_update g s) = f s) \<Longrightarrow> keeps f (UpdateUserTx arg'')"
  unfolding CreateUserTx_def VerifyUserEmailTx_def RequestEmailVerificationTx_def UpdateUserTx_def
  by (intro frame users_bodies_frame session_bodies_frame assms unnoticedD [OF assms(2)]; assumption?)+

lemma ReplayEmailJobTx_frame [frame]:
  assumes "tableField f" "unnoticed f"
  shows "keeps f (ReplayEmailJobTx jid)"
  unfolding ReplayEmailJobTx_def by (intro frame email_writes_frame assms unnoticedD [OF assms(2)])

end
