(* ===== verification/Delivery.thy ===== *)
theory Delivery
  imports Users
begin

text \<open>
  Delivery reports of the mail provider, \<open>db/sqlc/email_delivery_tx.go\<close>: each webhook is recorded once,
  and moves the delivery status of its job, and the deliverability of the user's address, along a fixed
  order.
\<close>

section \<open>The order of delivery statuses\<close>

definition EmailDeliveryStatusPending :: string where "EmailDeliveryStatusPending = ''pending''"
definition EmailDeliveryStatusAccepted :: string where "EmailDeliveryStatusAccepted = ''accepted''"
definition EmailDeliveryStatusDelivered :: string where "EmailDeliveryStatusDelivered = ''delivered''"
definition EmailDeliveryStatusDelayed :: string where "EmailDeliveryStatusDelayed = ''delayed''"
definition EmailDeliveryStatusBounced :: string where "EmailDeliveryStatusBounced = ''bounced''"
definition EmailDeliveryStatusFailed :: string where "EmailDeliveryStatusFailed = ''failed''"
definition EmailDeliveryStatusSuppressed :: string where "EmailDeliveryStatusSuppressed = ''suppressed''"
definition EmailDeliveryStatusComplained :: string where "EmailDeliveryStatusComplained = ''complained''"
definition EmailDeliverabilityDeliverable :: string where "EmailDeliverabilityDeliverable = ''deliverable''"

lemmas delivery_constants [simp] =
  EmailDeliveryStatusPending_def EmailDeliveryStatusAccepted_def EmailDeliveryStatusDelivered_def
  EmailDeliveryStatusDelayed_def EmailDeliveryStatusBounced_def EmailDeliveryStatusFailed_def
  EmailDeliveryStatusSuppressed_def EmailDeliveryStatusComplained_def EmailDeliverabilityDeliverable_def

definition isRecognizedEmailDeliveryStatus :: "string \<Rightarrow> bool" where
  "isRecognizedEmailDeliveryStatus status \<longleftrightarrow>
     List.member [EmailDeliveryStatusAccepted, EmailDeliveryStatusDelivered, EmailDeliveryStatusDelayed,
       EmailDeliveryStatusBounced, EmailDeliveryStatusFailed, EmailDeliveryStatusSuppressed,
       EmailDeliveryStatusComplained] status"

definition isTerminalEmailDeliveryStatus :: "string \<Rightarrow> bool" where
  "isTerminalEmailDeliveryStatus status \<longleftrightarrow>
     List.member [EmailDeliveryStatusBounced, EmailDeliveryStatusFailed, EmailDeliveryStatusSuppressed,
       EmailDeliveryStatusComplained] status"

definition canApplyEmailDeliveryTransition :: "string \<Rightarrow> string \<Rightarrow> time option \<Rightarrow> time \<Rightarrow> bool" where
  "canApplyEmailDeliveryTransition current new currentOccurredAt nextOccurredAt =
     (if current = new then False
      else if (case currentOccurredAt of None \<Rightarrow> False | Some t \<Rightarrow> \<not> t < nextOccurredAt) then False
      else if current = EmailDeliveryStatusPending then isRecognizedEmailDeliveryStatus new
      else if current = EmailDeliveryStatusAccepted then
        new = EmailDeliveryStatusDelayed \<or> new = EmailDeliveryStatusDelivered \<or> isTerminalEmailDeliveryStatus new
      else if current = EmailDeliveryStatusDelayed then
        new = EmailDeliveryStatusDelivered \<or> isTerminalEmailDeliveryStatus new
      else if current = EmailDeliveryStatusDelivered then new = EmailDeliveryStatusComplained
      else False)"

section \<open>The transaction\<close>

record ProcessEmailDeliveryEventParams =
  pe_WebhookID :: string
  pe_EventType :: string
  pe_ProviderMessageID :: string
  pe_JobID :: "uuid option"
  pe_OccurredAt :: time
  pe_Payload :: json
  pe_DeliveryStatus :: string
  pe_BounceType :: string
  pe_BounceSubtype :: string
  pe_BounceMessage :: string

record ProcessEmailDeliveryEventResult =
  pr_Event :: "EmailDeliveryEvent option"
  pr_EmailJob :: "EmailJob option"
  pr_Duplicate :: bool
  pr_JobMatched :: bool
  pr_StateUpdated :: bool
  pr_UserStateUpdated :: bool

definition userDeliverabilityForEvent :: "ProcessEmailDeliveryEventParams \<Rightarrow> string query" where
  "userDeliverabilityForEvent arg =
     (if pe_DeliveryStatus arg = EmailDeliveryStatusDelivered then returnM EmailDeliverabilityDeliverable
      else if pe_DeliveryStatus arg = EmailDeliveryStatusSuppressed \<or> pe_DeliveryStatus arg = EmailDeliveryStatusComplained
      then returnM EmailDeliverabilityUndeliverable
      else if pe_DeliveryStatus arg = EmailDeliveryStatusBounced
      then bindM (equalFold (pe_BounceType arg) ''permanent'') (\<lambda>permanent.
           returnM (if permanent then EmailDeliverabilityUndeliverable else ''''))
      else returnM '''')"

definition bounceTimestamp :: "ProcessEmailDeliveryEventParams \<Rightarrow> time option query" where
  "bounceTimestamp arg =
     bindM (equalFold (pe_BounceType arg) ''permanent'') (\<lambda>permanent.
     returnM (if pe_DeliveryStatus arg = EmailDeliveryStatusBounced \<and> permanent
              then Some (pe_OccurredAt arg) else None))"

definition createDeliveryAuditLog :: "ProcessEmailDeliveryEventParams \<Rightarrow> EmailJob \<Rightarrow> string \<Rightarrow> unit query" where
  "createDeliveryAuditLog arg job previousStatus =
     bindM (CreateAuditLog ''email_job'' (Some (ej_id job)) (Some (ej_id job)) (pe_EventType arg) ''resend_webhook''
       (nullableText previousStatus) (nullableText (pe_DeliveryStatus arg)) None
       (JObj [(''webhook_id'', JStr (pe_WebhookID arg)), (''provider_message_id'', JStr (pe_ProviderMessageID arg)),
              (''bounce_type'', JStr (pe_BounceType arg)), (''bounce_subtype'', JStr (pe_BounceSubtype arg))])) (\<lambda>_.
     returnM ())"

definition findEmailJobForDeliveryEvent ::
  "ProcessEmailDeliveryEventParams \<Rightarrow> (uuid option \<times> EmailJob option) query" where
  \<comment> \<open>The id of the returned job, and the job when it matched. An unmatched job is a zero value, or one
     that has only the id of the webhook's tag.\<close>
  "findEmailJobForDeliveryEvent arg =
     bindM (tryM (GetEmailJobByProviderMessageIDForUpdate (Some (pe_ProviderMessageID arg)))) (\<lambda>byMessage.
     case byMessage of
       Inr job \<Rightarrow> returnM (Some (ej_id job), Some job)
     | Inl e \<Rightarrow>
         failIf (\<not> errIs e ErrNoRows) e
         (if pe_JobID arg = None then returnM (None, None)
          else bindM (tryM (GetEmailJobForUpdate (pe_JobID arg))) (\<lambda>byID.
            case byID of
              Inl e' \<Rightarrow> if errIs e' ErrNoRows then returnM (pe_JobID arg, None) else failM e'
            | Inr job \<Rightarrow>
                if ej_provider_message_id job \<noteq> None \<and> ej_provider_message_id job \<noteq> Some (pe_ProviderMessageID arg)
                then returnM (pe_JobID arg, None) else returnM (Some (ej_id job), Some job))))"

definition applyDelivery :: "ProcessEmailDeliveryEventParams \<Rightarrow> EmailJob \<Rightarrow> (EmailJob \<times> bool) option query" where
  \<comment> \<open>The end of the transaction, from \<open>UpdateEmailJobDelivery\<close> on: the updated job and
     \<open>UserStateUpdated\<close>, or nothing when a later report is already recorded.\<close>
  "applyDelivery arg job =
     bindM (tryM (UpdateEmailJobDelivery (Some (pe_ProviderMessageID arg)) (pe_DeliveryStatus arg)
       (Some (pe_OccurredAt arg)) (nullableText (pe_BounceType arg)) (nullableText (pe_BounceSubtype arg))
       (nullableText (pe_BounceMessage arg)) (Some (ej_id job)))) (\<lambda>updated.
     case updated of
       Inl e \<Rightarrow> if errIs e ErrNoRows then returnM None else failM e
     | Inr new \<Rightarrow>
         bindM (userDeliverabilityForEvent arg) (\<lambda>deliverability.
         bindM (if deliverability = '''' then returnM False
                else bindM (bounceTimestamp arg) (\<lambda>bouncedAt.
                     bindM (tryM (UpdateCurrentUserEmailDeliverability deliverability (Some (pe_OccurredAt arg))
                       bouncedAt (ej_username job) (ej_recipient job))) (\<lambda>user.
                     case user of
                       Inl e \<Rightarrow> if errIs e ErrNoRows then returnM False else failM e
                     | Inr _ \<Rightarrow> returnM True))) (\<lambda>userUpdated.
         bindM (createDeliveryAuditLog arg job (ej_delivery_status job)) (\<lambda>_.
         returnM (Some (new, userUpdated))))))"

definition processDeliveryBody :: "ProcessEmailDeliveryEventParams \<Rightarrow> ProcessEmailDeliveryEventResult query" where
  "processDeliveryBody arg =
     bindM (findEmailJobForDeliveryEvent arg) (\<lambda>(jobID, found).
     bindM (tryM (CreateEmailDeliveryEvent (pe_WebhookID arg) jobID (pe_ProviderMessageID arg) (pe_EventType arg)
       (Some (pe_OccurredAt arg)) (pe_Payload arg))) (\<lambda>created.
     let result = \<lparr>pr_Event = None, pr_EmailJob = found, pr_Duplicate = False, pr_JobMatched = (found \<noteq> None),
                   pr_StateUpdated = False, pr_UserStateUpdated = False\<rparr> in
     case created of
       Inl e \<Rightarrow> if errIs e ErrNoRows then returnM (result\<lparr>pr_Duplicate := True\<rparr>) else failM e
     | Inr event \<Rightarrow>
         (case found of
            None \<Rightarrow> returnM (result\<lparr>pr_Event := Some event\<rparr>)
          | Some job \<Rightarrow>
              if pe_DeliveryStatus arg = ''''
                 \<or> \<not> canApplyEmailDeliveryTransition (ej_delivery_status job) (pe_DeliveryStatus arg)
                       (ej_delivery_event_at job) (pe_OccurredAt arg)
              then returnM (result\<lparr>pr_Event := Some event\<rparr>)
              else bindM (applyDelivery arg job) (\<lambda>applied.
                case applied of
                  None \<Rightarrow> returnM (result\<lparr>pr_Event := Some event, pr_EmailJob := None\<rparr>)
                | Some (new, userUpdated) \<Rightarrow>
                    returnM (result\<lparr>pr_Event := Some event, pr_EmailJob := Some new, pr_StateUpdated := True,
                                    pr_UserStateUpdated := userUpdated\<rparr>)))))"

definition ProcessEmailDeliveryEventTx :: "ProcessEmailDeliveryEventParams \<Rightarrow> ProcessEmailDeliveryEventResult query" where
  "ProcessEmailDeliveryEventTx arg = execTx (processDeliveryBody arg)"

section \<open>Webhook events\<close>

definition deliveryStatusForResendEvent :: "string \<Rightarrow> string" where
  "deliveryStatusForResendEvent eventType =
     (if eventType = ''email.sent'' then EmailDeliveryStatusAccepted
      else if eventType = ''email.delivered'' then EmailDeliveryStatusDelivered
      else if eventType = ''email.delivery_delayed'' then EmailDeliveryStatusDelayed
      else if eventType = ''email.bounced'' then EmailDeliveryStatusBounced
      else if eventType = ''email.failed'' then EmailDeliveryStatusFailed
      else if eventType = ''email.suppressed'' then EmailDeliveryStatusSuppressed
      else if eventType = ''email.complained'' then EmailDeliveryStatusComplained
      else '''')"

definition safeDeliveryFailureMessage :: "string \<Rightarrow> string" where
  "safeDeliveryFailureMessage eventType =
     (if eventType = ''email.bounced'' then ''email provider reported a bounce''
      else if eventType = ''email.failed'' then ''email provider reported a delivery failure''
      else if eventType = ''email.suppressed'' then ''email provider suppressed delivery''
      else if eventType = ''email.complained'' then ''recipient reported the email as unwanted''
      else '''')"

section \<open>Frames\<close>

lemma delivery_parts_frame [frame]:
  "keeps f (userDeliverabilityForEvent arg)" "keeps f (bounceTimestamp arg)" "keeps f (findEmailJobForDeliveryEvent arg)"
  unfolding userDeliverabilityForEvent_def bounceTimestamp_def findEmailJobForDeliveryEvent_def
  by (intro frame)+

lemma createDeliveryAuditLog_frame [frame]:
  assumes "unnoticed f"
  shows "keeps f (createDeliveryAuditLog arg job st)"
  unfolding createDeliveryAuditLog_def by (intro frame unnoticedD [OF assms])

lemma delivery_frame [frame]:
  assumes "tableField f" "unnoticed f" "\<And>g s. f (users_update g s) = f s"
    "\<And>g s. f (email_delivery_events_update g s) = f s"
  shows "keeps f (ProcessEmailDeliveryEventTx arg)"
  unfolding ProcessEmailDeliveryEventTx_def processDeliveryBody_def applyDelivery_def Let_def
  by (intro frame email_job_frame assms)

end
