(* ===== verification/BeneficiaryQueries.thy ===== *)
theory BeneficiaryQueries
  imports UserQueries
begin

text \<open>
  The statements of \<open>db/sqlc/beneficiary.sql.go\<close> on the table \<open>beneficiaries\<close> (migration 17).
\<close>

definition beneficiaryRowChecks :: "Beneficiary \<Rightarrow> (bool \<times> error) list" where
  "beneficiaryRowChecks b =
     [(\<not> (1 \<le> runeCount (be_nickname b) \<and> runeCount (be_nickname b) \<le> 50 \<and> be_nickname b = btrim (be_nickname b)),
         PgCheck ''beneficiaries_nickname_check'')]"

definition beneficiaryInsertChecks :: "world \<Rightarrow> Beneficiary \<Rightarrow> (bool \<times> error) list" where
  "beneficiaryInsertChecks s b =
     beneficiaryRowChecks b @
     [(list_ex (\<lambda>c. be_id c = be_id b) (beneficiaries s), PgUnique ''beneficiaries_pkey''),
      (list_ex (\<lambda>c. be_owner c = be_owner b \<and> be_destination_account_id c = be_destination_account_id b)
         (beneficiaries s), PgUnique ''beneficiaries_owner_destination_key''),
      (\<not> list_ex (\<lambda>u. us_username u = be_owner b) (users s), PgForeignKey ''beneficiaries_owner_fkey''),
      (\<not> list_ex (\<lambda>a. ac_id a = be_destination_account_id b) (accounts s),
         PgForeignKey ''beneficiaries_destination_account_id_fkey'')]"

definition CreateBeneficiary :: "string \<Rightarrow> int \<Rightarrow> string \<Rightarrow> Beneficiary query" where
  "CreateBeneficiary owner destination_account_id nickname =
     bindM nextUUID (\<lambda>bid.
     bindM (readM tx_now) (\<lambda>now.
     insertRow beneficiaryInsertChecks beneficiaries_update
       \<lparr>be_id = bid, be_owner = owner, be_destination_account_id = destination_account_id,
        be_nickname = nickname, be_created_at = now, be_updated_at = now\<rparr>))"

definition DeleteOwnedBeneficiary :: "uuid option \<Rightarrow> string \<Rightarrow> int query" where
  "DeleteOwnedBeneficiary beneficiary_id owner =
     deleteWhere beneficiaries beneficiaries_update (\<lambda>b. Some (be_id b) = beneficiary_id \<and> be_owner b = owner)"

record ListOwnedBeneficiariesRow =
  lb_id :: uuid
  lb_nickname :: string
  lb_destination_account_number :: string
  lb_currency :: string
  lb_destination_account_status :: string
  lb_created_at :: time
  lb_updated_at :: time

definition beneficiaryRows :: "Account list \<Rightarrow> Beneficiary \<Rightarrow> ListOwnedBeneficiariesRow list" where
  \<comment> \<open>The join with \<open>accounts\<close>\<close>
  "beneficiaryRows as b =
     map (\<lambda>a. \<lparr>lb_id = be_id b, lb_nickname = be_nickname b, lb_destination_account_number = ac_account_number a,
               lb_currency = ac_currency a, lb_destination_account_status = ac_status a,
               lb_created_at = be_created_at b, lb_updated_at = be_updated_at b\<rparr>)
       (filter (\<lambda>a. ac_id a = be_destination_account_id b) as)"

definition ListOwnedBeneficiaries :: "string \<Rightarrow> int \<Rightarrow> int \<Rightarrow> ListOwnedBeneficiariesRow list query" where
  "ListOwnedBeneficiaries owner lim offset =
     failIf (lim < 0) (PgRaise ''LIMIT must not be negative'')
     (failIf (offset < 0) (PgRaise ''OFFSET must not be negative'') (readM (\<lambda>s.
      take (nat lim) (drop (nat offset)
        (sortDesc lb_created_at (sortDesc (uint \<circ> lb_id)
          (concat (map (beneficiaryRows (accounts s)) (filter (\<lambda>b. be_owner b = owner) (beneficiaries s))))))))))"

definition UpdateOwnedBeneficiaryNickname :: "string \<Rightarrow> uuid option \<Rightarrow> string \<Rightarrow> ListOwnedBeneficiariesRow query" where
  \<comment> \<open>The row type has the columns of \<open>ListOwnedBeneficiariesRow\<close>.\<close>
  "UpdateOwnedBeneficiaryNickname nickname beneficiary_id owner =
     bindM (readM tx_now) (\<lambda>now.
     bindM (updateRow ErrNoRows (\<lambda>s. beneficiaryRowChecks) beneficiaries beneficiaries_update
       (\<lambda>b. Some (be_id b) = beneficiary_id \<and> be_owner b = owner)
       (\<lambda>b. b\<lparr>be_nickname := nickname, be_updated_at := now\<rparr>)) (\<lambda>b.
     bindM (readM (\<lambda>s. beneficiaryRows (accounts s) b)) (\<lambda>rows.
     case rows of [] \<Rightarrow> failM ErrNoRows | r # _ \<Rightarrow> returnM r)))"

lemma beneficiary_writes_frame [frame]:
  assumes "\<And>g s. f (beneficiaries_update g s) = f s"
  shows "keeps f (DeleteOwnedBeneficiary bid o1)" "keeps f (UpdateOwnedBeneficiaryNickname n bid' o2)"
  unfolding DeleteOwnedBeneficiary_def UpdateOwnedBeneficiaryNickname_def by (intro frame assms)+

lemma CreateBeneficiary_frame [frame]:
  assumes "\<And>g s. f (beneficiaries_update g s) = f s" "\<And>g s. f (uuid_ctr_update g s) = f s"
  shows "keeps f (CreateBeneficiary o3 i n')"
  unfolding CreateBeneficiary_def by (intro frame assms)

lemma ListOwnedBeneficiaries_frame [frame]: "keeps f (ListOwnedBeneficiaries o1 lim off)"
  unfolding ListOwnedBeneficiaries_def by (intro frame)

interpretation beneficiaries: table beneficiaries beneficiaries_update
  by unfold_locales simp

interpretation beneficiary_pairs: keyed_table beneficiaries beneficiaries_update
  "\<lambda>b. (be_owner b, be_destination_account_id b)" beneficiaryInsertChecks
  by unfold_locales (auto simp: beneficiaryInsertChecks_def list_ex_iff)

end
