(* ===== verification/Beneficiaries.thy ===== *)
theory Beneficiaries
  imports Financial BeneficiaryQueries
begin

text \<open>
  Saved transfer destinations, \<open>db/sqlc/beneficiary_tx.go\<close>.
\<close>

record CreateBeneficiaryTxParams =
  cb_Owner :: string
  cb_DestinationAccountNumber :: string
  cb_Nickname :: string

record CreateBeneficiaryTxResult =
  cr_Beneficiary :: Beneficiary
  cr_DestinationAccount :: Account

definition createBeneficiaryBody :: "CreateBeneficiaryTxParams \<Rightarrow> CreateBeneficiaryTxResult query" where
  "createBeneficiaryBody arg =
     bindM (mapErrM (errIfNoRows ErrAccountNotFound) (GetAccountByAccountNumber (cb_DestinationAccountNumber arg))) (\<lambda>account0.
     bindM (GetAccountForUpdate (ac_id account0)) (\<lambda>account.
     failIf (ac_status account = FinancialAccountStatusClosed) ErrAccountClosed
     (bindM (mapErrM (\<lambda>e. if pgConstraint e = Some ''beneficiaries_owner_destination_key''
                           then ErrBeneficiaryAlreadyExists else e)
              (CreateBeneficiary (cb_Owner arg) (ac_id account) (cb_Nickname arg))) (\<lambda>beneficiary.
      returnM \<lparr>cr_Beneficiary = beneficiary, cr_DestinationAccount = account\<rparr>))))"

definition CreateBeneficiaryTx :: "CreateBeneficiaryTxParams \<Rightarrow> CreateBeneficiaryTxResult query" where
  "CreateBeneficiaryTx arg = execTx (createBeneficiaryBody arg)"

lemma CreateBeneficiaryTx_frame [frame]:
  assumes "tableField f" "\<And>g s. f (beneficiaries_update g s) = f s" "\<And>g s. f (uuid_ctr_update g s) = f s"
  shows "keeps f (CreateBeneficiaryTx arg)"
  unfolding CreateBeneficiaryTx_def createBeneficiaryBody_def by (intro frame assms)

section \<open>What a saved destination is\<close>

text \<open>A new destination is an account that exists and is not closed, and was not saved by this owner.\<close>

lemma CreateBeneficiaryTx_ok:
  assumes "CreateBeneficiaryTx arg s = (Inr r, s')"
  shows "cr_DestinationAccount r \<in> set (accounts s)" "ac_status (cr_DestinationAccount r) \<noteq> ''closed''"
    and "be_owner (cr_Beneficiary r) = cb_Owner arg" "be_destination_account_id (cr_Beneficiary r) = ac_id (cr_DestinationAccount r)"
    and "beneficiaries s' = beneficiaries s @ [cr_Beneficiary r]"
    and "(cb_Owner arg, ac_id (cr_DestinationAccount r)) \<notin> (\<lambda>b. (be_owner b, be_destination_account_id b)) ` set (beneficiaries s)"
    and "accounts s' = accounts s"
proof -
  have "createBeneficiaryBody arg (startTx s) = (Inr r, s')"
    using assms unfolding CreateBeneficiaryTx_def by (rule execTx_ok)
  then obtain a0 s1 a s2 b where "mapErrM (errIfNoRows ErrAccountNotFound)
        (GetAccountByAccountNumber (cb_DestinationAccountNumber arg)) (startTx s) = (Inr a0, s1)"
    and "GetAccountForUpdate (ac_id a0) s1 = (Inr a, s2)" and open': "\<not> ac_status a = FinancialAccountStatusClosed"
    and create: "\<exists>h. mapErrM h (CreateBeneficiary (cb_Owner arg) (ac_id a) (cb_Nickname arg)) s2 = (Inr b, s')"
    and r: "r = \<lparr>cr_Beneficiary = b, cr_DestinationAccount = a\<rparr>"
    unfolding createBeneficiaryBody_def by (elim run_elims) blast
  then have a: "a \<in> set (accounts s)" "s2 = startTx s"
    by (auto simp: runs account_select_defs dest: find_Some_iff2)
  have cr: "CreateBeneficiary (cb_Owner arg) (ac_id a) (cb_Nickname arg) (startTx s) = (Inr b, s')"
    using create a(2) by (auto simp: mapErrM_iff)
  then have b: "be_owner b = cb_Owner arg" "be_destination_account_id b = ac_id a" "beneficiaries s' = beneficiaries s @ [b]"
      "accounts s' = accounts s"
      "\<not> list_ex (\<lambda>c. be_owner c = cb_Owner arg \<and> be_destination_account_id c = ac_id a) (beneficiaries s)"
    unfolding CreateBeneficiary_def by (auto simp: runs beneficiaryInsertChecks_def beneficiaryRowChecks_def)
  show "cr_DestinationAccount r \<in> set (accounts s)" "ac_status (cr_DestinationAccount r) \<noteq> ''closed''"
    "be_owner (cr_Beneficiary r) = cb_Owner arg" "be_destination_account_id (cr_Beneficiary r) = ac_id (cr_DestinationAccount r)"
    "beneficiaries s' = beneficiaries s @ [cr_Beneficiary r]" "accounts s' = accounts s"
    using a(1) open' b r by simp_all
  show "(cb_Owner arg, ac_id (cr_DestinationAccount r)) \<notin> (\<lambda>b. (be_owner b, be_destination_account_id b)) ` set (beneficiaries s)"
    using b(5) r by (auto simp: list_ex_iff)
qed

end
