(* ===== verification/Base64.thy ===== *)
theory Base64
  imports GoStrings
begin

text \<open>
  \<open>base64.RawURLEncoding\<close> of Go's standard library, which carries device secrets, verification tokens
  and page cursors: the URL alphabet without padding. Decoding skips line ends and ignores the unused
  low bits of the last character, as Go's decoder does.
\<close>

definition urlAlphabet :: string where
  "urlAlphabet = ''ABCDEFGHIJKLMNOPQRSTUVWXYZabcdefghijklmnopqrstuvwxyz0123456789-_''"

fun encodeBytes :: "nat list \<Rightarrow> nat list" where
  "encodeBytes [] = []"
| "encodeBytes [a] = [a div 4, a mod 4 * 16]"
| "encodeBytes [a, b] = [a div 4, a mod 4 * 16 + b div 16, b mod 16 * 4]"
| "encodeBytes (a # b # c # bs) =
     [a div 4, a mod 4 * 16 + b div 16, b mod 16 * 4 + c div 64, c mod 64] @ encodeBytes bs"

fun decodeSextets :: "nat list \<Rightarrow> nat list option" where
  "decodeSextets [] = Some []"
| "decodeSextets [w] = None"
| "decodeSextets [w, x] = Some [w * 4 + x div 16]"
| "decodeSextets [w, x, y] = Some [w * 4 + x div 16, x mod 16 * 16 + y div 4]"
| "decodeSextets (w # x # y # z # zs) =
     map_option ((@) [w * 4 + x div 16, x mod 16 * 16 + y div 4, y mod 4 * 64 + z]) (decodeSextets zs)"

definition sextetOf :: "char \<Rightarrow> nat option" where
  "sextetOf c = map_of (zip urlAlphabet [0..<64]) c"

definition encodeToString :: "string \<Rightarrow> string" where
  "encodeToString s = map ((!) urlAlphabet) (encodeBytes (map of_char s))"

definition decodeString :: "string \<Rightarrow> string option" where
  "decodeString s =
     (case those (map sextetOf (filter (\<lambda>c. c \<noteq> CHR 0x0A \<and> c \<noteq> CHR 0x0D) s)) of
        None \<Rightarrow> None
      | Some ds \<Rightarrow> map_option (map char_of) (decodeSextets ds))"

section \<open>Decoding undoes encoding\<close>

lemma encodeBytes_small: "\<forall>b\<in>set bs. b < 256 \<Longrightarrow> d \<in> set (encodeBytes bs) \<Longrightarrow> d < 64"
  by (induction bs rule: encodeBytes.induct) (auto simp: less_mult_imp_div_less intro: order.strict_trans1)

lemma bytes_restored:
  fixes b :: nat
  assumes "b < 256"
  shows "b div 16 div 16 = 0" "b div 64 div 4 = 0" "b div 16 mod 16 * 16 + b mod 16 = b"
    "b div 64 mod 4 * 64 + b mod 64 = b" "b div 16 < 16" "b div 64 < 4"
proof -
  show "b div 16 div 16 = 0" "b div 64 div 4 = 0"
    using assms by (simp_all flip: div_mult2_eq)
  show small: "b div 16 < 16" "b div 64 < 4"
    using assms by (simp_all add: less_mult_imp_div_less)
  show "b div 16 mod 16 * 16 + b mod 16 = b" "b div 64 mod 4 * 64 + b mod 64 = b"
    using small by (simp_all only: mod_less div_mult_mod_eq)
qed

lemma decode_encodeBytes: "\<forall>b\<in>set bs. b < 256 \<Longrightarrow> decodeSextets (encodeBytes bs) = Some bs"
  by (induction bs rule: encodeBytes.induct) (simp_all add: bytes_restored)

lemma length_urlAlphabet [simp]: "length urlAlphabet = 64"
  by (simp add: urlAlphabet_def)

lemma distinct_urlAlphabet: "distinct urlAlphabet"
  unfolding urlAlphabet_def by simp

lemma urlAlphabet_chars: "c \<in> set urlAlphabet \<Longrightarrow> c \<noteq> CHR 0x0A \<and> c \<noteq> CHR 0x0D"
  unfolding urlAlphabet_def by auto

lemma sextetOf_nth: "d < 64 \<Longrightarrow> sextetOf (urlAlphabet ! d) = Some d"
  unfolding sextetOf_def
  by (metis distinct_urlAlphabet length_upt length_urlAlphabet map_of_zip_nth minus_nat.diff_0 nth_upt add_0)

lemma those_some: "\<forall>d\<in>set ds. f (g d) = Some d \<Longrightarrow> those (map (\<lambda>d. f (g d)) ds) = Some ds"
  by (induction ds) simp_all

theorem decode_encode [simp]: "decodeString (encodeToString s) = Some s"
proof -
  let ?ds = "encodeBytes (map of_char s)"
  have bytes: "\<forall>b\<in>set (map of_char s). b < (256 :: nat)"
    by simp
  then have small: "\<forall>d\<in>set ?ds. d < 64"
    using encodeBytes_small by blast
  then have "filter (\<lambda>c. c \<noteq> CHR 0x0A \<and> c \<noteq> CHR 0x0D) (encodeToString s) = encodeToString s"
    unfolding encodeToString_def by (intro filter_True ballI urlAlphabet_chars) (auto simp: nth_mem)
  moreover have "those (map sextetOf (encodeToString s)) = Some ?ds"
    using those_some [of ?ds sextetOf "(!) urlAlphabet"] small
    by (simp add: encodeToString_def sextetOf_nth comp_def)
  ultimately show ?thesis
    by (simp add: decodeString_def decode_encodeBytes [OF bytes] comp_def del: map_map) (simp add: comp_def)
qed

lemma encode_inject: "encodeToString s = encodeToString t \<Longrightarrow> s = t"
  by (metis decode_encode option.inject)

end
