(* ===== verification/Tokens.thy ===== *)
theory Tokens
  imports Schema Base64
begin

text \<open>
  The package \<open>token\<close>: access and refresh tokens (\<open>jwt_maker.go\<close>, \<open>payload.go\<close>), email verification
  tokens (\<open>email_verification.go\<close>), device secrets (\<open>secret.go\<close>) and hashes (\<open>hash.go\<close>). The
  cryptographic functions and the JWT library are parameters, collected in a record.
\<close>

section \<open>What the package calls\<close>

datatype TokenType = TypeAccess | TypeRefresh

text \<open>\<open>Payload\<close> with the fields of the embedded \<open>jwt.RegisteredClaims\<close>; \<open>pl_cID\<close> is the claim \<open>jti\<close>.\<close>

record Payload =
  pl_ID :: uuid
  pl_SessionID :: uuid
  pl_Username :: string
  pl_TokenType :: TokenType
  pl_cID :: string
  pl_Issuer :: string
  pl_Audience :: "string list"
  pl_Subject :: string
  pl_IssuedAt :: time
  pl_ExpiresAt :: time

text \<open>
  \<open>signHS256 key payload\<close> is \<open>jwt.NewWithClaims(SigningMethodHS256, payload).SignedString(key)\<close>, and
  \<open>parseHS256 now issuer audience key value\<close> is \<open>jwt.ParseWithClaims\<close> with the options of
  \<open>verifyToken\<close> at the time \<open>now\<close>: the payload, or an error, where \<open>True\<close> stands for one that is
  \<open>jwt.ErrTokenExpired\<close>.
\<close>

record crypto =
  sha256 :: "string \<Rightarrow> string"
  hmacSha256 :: "string \<Rightarrow> string \<Rightarrow> string"
  randomBytes :: "nat \<Rightarrow> nat \<Rightarrow> error + string"
  uuidParse :: "string \<Rightarrow> error + uuid"
  signHS256 :: "string \<Rightarrow> Payload \<Rightarrow> error + string"
  parseHS256 :: "time \<Rightarrow> string \<Rightarrow> string \<Rightarrow> string \<Rightarrow> string \<Rightarrow> bool + Payload"

section \<open>Durations\<close>

text \<open>A \<open>time.Duration\<close> is a number of nanoseconds; points in time have the precision of the database.\<close>

definition seconds :: "int \<Rightarrow> int" where
  \<comment> \<open>as a \<open>time.Duration\<close>\<close>
  "seconds n = n * 1000000000"

definition addDuration :: "time \<Rightarrow> int \<Rightarrow> time" where
  \<comment> \<open>\<open>t.Add(d)\<close>, at the precision of the database\<close>
  "addDuration t d = t + d div 1000"

section \<open>Hashes and secrets\<close>

definition HashMatches :: "crypto \<Rightarrow> string \<Rightarrow> string \<Rightarrow> bool" where
  "HashMatches c expected value = (length expected = length (sha256 c value) \<and> expected = sha256 c value)"

definition DeviceSecretBytes :: nat where
  "DeviceSecretBytes = 32"

definition NewDeviceSecret :: "crypto \<Rightarrow> string query" where
  \<comment> \<open>The draw is numbered like the random numbers.\<close>
  "NewDeviceSecret c s =
     (case randomBytes c DeviceSecretBytes (rand_ctr s) of
        Inl e \<Rightarrow> (Inl (WrapErr ''generate device secret'' e), s\<lparr>rand_ctr := rand_ctr s + 1\<rparr>)
      | Inr bs \<Rightarrow> (Inr (encodeToString bs), s\<lparr>rand_ctr := rand_ctr s + 1\<rparr>))"

section \<open>Email verification tokens\<close>

definition minSecretKeySize :: nat where
  "minSecretKeySize = 32"

definition keyTooShort :: error where
  "keyTooShort = GoErr ''invalid key size, must be at least 32 characters''"

definition uuidBytes :: "uuid \<Rightarrow> string" where
  "uuidBytes u = map (\<lambda>i. char_of (uint u div 256 ^ (15 - i) mod 256)) [0..<16]"

definition NewEmailVerificationMaker :: "crypto \<Rightarrow> string \<Rightarrow> error + string" where
  \<comment> \<open>The maker is its derived key.\<close>
  "NewEmailVerificationMaker c secretKey =
     (if length secretKey < minSecretKeySize then Inl keyTooShort
      else Inr (sha256 c (secretKey @ '':email-verification-opaque-v1'')))"

definition createVerificationToken :: "crypto \<Rightarrow> string \<Rightarrow> string \<Rightarrow> error + string" where
  \<comment> \<open>\<open>HMACEmailVerificationMaker.Create\<close>\<close>
  "createVerificationToken c key jobID =
     (case uuidParse c jobID of
        Inl e \<Rightarrow> Inl ErrInvalidToken
      | Inr u \<Rightarrow> Inr (encodeToString (hmacSha256 c key (uuidBytes u))))"

definition hashVerificationToken :: "crypto \<Rightarrow> string \<Rightarrow> error + string" where
  \<comment> \<open>\<open>HMACEmailVerificationMaker.Hash\<close>; \<open>sha256.Size\<close> is 32.\<close>
  "hashVerificationToken c value =
     (case decodeString value of
        None \<Rightarrow> Inl ErrInvalidToken
      | Some decoded \<Rightarrow> if length decoded \<noteq> 32 then Inl ErrInvalidToken else Inr (sha256 c value))"

section \<open>Access and refresh tokens\<close>

definition tokenIssuer :: string where "tokenIssuer = ''monierave''"
definition accessTokenAudience :: string where "accessTokenAudience = ''monierave-api''"
definition refreshTokenAudience :: string where "refreshTokenAudience = ''monierave-refresh''"

record JWTMaker =
  jm_accessKey :: string
  jm_refreshKey :: string

definition NewJWTMaker :: "crypto \<Rightarrow> string \<Rightarrow> error + JWTMaker" where
  "NewJWTMaker c secretKey =
     (if length secretKey < minSecretKeySize then Inl keyTooShort
      else Inr \<lparr>jm_accessKey = sha256 c (secretKey @ '':'' @ accessTokenAudience),
                jm_refreshKey = sha256 c (secretKey @ '':'' @ refreshTokenAudience)\<rparr>)"

definition numericDate :: "time \<Rightarrow> time" where
  \<comment> \<open>\<open>jwt.NewNumericDate\<close> truncates to whole seconds.\<close>
  "numericDate t = t - t mod 1000000"

definition NewPayload ::
  "string \<Rightarrow> uuid \<Rightarrow> TokenType \<Rightarrow> string \<Rightarrow> string \<Rightarrow> int \<Rightarrow> Payload query" where
  "NewPayload username sessionID tokenType issuer audience duration =
     failIf (username = '''' \<or> sessionID = 0 \<or> duration = 0) ErrInvalidToken
     (bindM nextUUID (\<lambda>tokenID.
      bindM timeNow (\<lambda>now.
      returnM \<lparr>pl_ID = tokenID, pl_SessionID = sessionID, pl_Username = username, pl_TokenType = tokenType,
               pl_cID = uuidString tokenID, pl_Issuer = issuer, pl_Audience = [audience], pl_Subject = username,
               pl_IssuedAt = numericDate now, pl_ExpiresAt = numericDate (addDuration now duration)\<rparr>)))"

definition createToken ::
  "crypto \<Rightarrow> string \<Rightarrow> uuid \<Rightarrow> TokenType \<Rightarrow> string \<Rightarrow> int \<Rightarrow> string \<Rightarrow> (string \<times> Payload) query" where
  "createToken c username sessionID tokenType audience duration key =
     bindM (NewPayload username sessionID tokenType tokenIssuer audience duration) (\<lambda>payload.
     case signHS256 c key payload of Inl e \<Rightarrow> failM e | Inr value \<Rightarrow> returnM (value, payload))"

definition CreateAccessToken :: "crypto \<Rightarrow> JWTMaker \<Rightarrow> string \<Rightarrow> uuid \<Rightarrow> int \<Rightarrow> (string \<times> Payload) query" where
  "CreateAccessToken c m username sessionID duration =
     createToken c username sessionID TypeAccess accessTokenAudience duration (jm_accessKey m)"

definition CreateRefreshToken :: "crypto \<Rightarrow> JWTMaker \<Rightarrow> string \<Rightarrow> uuid \<Rightarrow> int \<Rightarrow> (string \<times> Payload) query" where
  "CreateRefreshToken c m username sessionID duration =
     createToken c username sessionID TypeRefresh refreshTokenAudience duration (jm_refreshKey m)"

definition verifyToken :: "crypto \<Rightarrow> string \<Rightarrow> TokenType \<Rightarrow> string \<Rightarrow> string \<Rightarrow> Payload query" where
  "verifyToken c value expectedType audience key =
     bindM timeNow (\<lambda>now.
     case parseHS256 c now tokenIssuer audience key value of
       Inl expired \<Rightarrow> failM (if expired then ErrExpiredToken else ErrInvalidToken)
     | Inr payload \<Rightarrow>
         failIf (pl_ID payload = 0 \<or> pl_cID payload \<noteq> uuidString (pl_ID payload) \<or> pl_SessionID payload = 0 \<or>
                 pl_Username payload = '''' \<or> pl_Subject payload \<noteq> pl_Username payload \<or>
                 pl_TokenType payload \<noteq> expectedType) ErrInvalidToken
         (returnM payload))"

definition VerifyAccessToken :: "crypto \<Rightarrow> JWTMaker \<Rightarrow> string \<Rightarrow> Payload query" where
  "VerifyAccessToken c m value = verifyToken c value TypeAccess accessTokenAudience (jm_accessKey m)"

definition VerifyRefreshToken :: "crypto \<Rightarrow> JWTMaker \<Rightarrow> string \<Rightarrow> Payload query" where
  "VerifyRefreshToken c m value = verifyToken c value TypeRefresh refreshTokenAudience (jm_refreshKey m)"

section \<open>What tokens carry\<close>

lemma tokens_frame [frame]:
  assumes "\<And>g s. f (uuid_ctr_update g s) = f s" "\<And>g s. f (clock_ctr_update g s) = f s"
  shows "keeps f (CreateAccessToken c m u sid d)" "keeps f (CreateRefreshToken c m u sid d)"
    "keeps f (VerifyAccessToken c m v)" "keeps f (VerifyRefreshToken c m v)"
  unfolding CreateAccessToken_def CreateRefreshToken_def VerifyAccessToken_def VerifyRefreshToken_def
    createToken_def NewPayload_def verifyToken_def
  by (intro frame assms)+

lemma NewDeviceSecret_frame [frame]: "(\<And>g s. f (rand_ctr_update g s) = f s) \<Longrightarrow> keeps f (NewDeviceSecret c)"
  unfolding keeps_def within_def NewDeviceSecret_def by (simp split: sum.split)

text \<open>
  A verification token that was made for a job hashes: the hash can be stored and found again.
\<close>

lemma verification_token_hashes:
  assumes "createVerificationToken c key jobID = Inr value" "\<And>k m. length (hmacSha256 c k m) = 32"
  shows "hashVerificationToken c value = Inr (sha256 c value)"
  using assms by (auto simp: createVerificationToken_def hashVerificationToken_def split: sum.splits)

lemma verifyToken_ok:
  assumes "verifyToken c value ty audience key s = (Inr p, s')"
  shows "parseHS256 c (clockAt (envir s) (clock_ctr s)) tokenIssuer audience key value = Inr p"
    "pl_TokenType p = ty" "pl_Subject p = pl_Username p" "pl_Username p \<noteq> ''''" "pl_SessionID p \<noteq> 0"
    "s' = s\<lparr>clock_ctr := clock_ctr s + 1\<rparr>"
  using assms by (auto simp: verifyToken_def runs bindM_iff split: sum.splits if_splits)

text \<open>
  No value is both an access and a refresh token, given only that the library decodes the claims from
  the token itself.
\<close>

lemma access_is_not_refresh:
  assumes decoded: "\<And>t a k t' a' k' p p'. parseHS256 c t tokenIssuer a k value = Inr p \<Longrightarrow>
      parseHS256 c t' tokenIssuer a' k' value = Inr p' \<Longrightarrow> p = p'"
    and access: "VerifyAccessToken c m value s = (Inr p, s1)"
    and refresh: "VerifyRefreshToken c m value t = (Inr p', t1)"
  shows False
proof -
  have "p = p'"
    using access refresh unfolding VerifyAccessToken_def VerifyRefreshToken_def
    by (blast dest: verifyToken_ok(1) intro: decoded)
  moreover have "pl_TokenType p = TypeAccess" "pl_TokenType p' = TypeRefresh"
    using access refresh unfolding VerifyAccessToken_def VerifyRefreshToken_def by (blast dest: verifyToken_ok(2))+
  ultimately show False by simp
qed

text \<open>
  A token that was just created verifies until it expires, when the library accepts what it has signed.
\<close>

lemma created_token_verifies:
  assumes accepted: "\<And>p v now. signHS256 c key p = Inr v \<Longrightarrow> pl_Issuer p = tokenIssuer \<Longrightarrow>
      pl_Audience p = [audience] \<Longrightarrow> now < pl_ExpiresAt p \<Longrightarrow> parseHS256 c now tokenIssuer audience key v = Inr p"
    and made: "createToken c username sid ty audience d key s = (Inr (value, p), s')"
    and nonzero: "uuidAt (envir s) (uuid_ctr s) \<noteq> 0"
    and intime: "clockAt (envir t) (clock_ctr t) < pl_ExpiresAt p"
  shows "verifyToken c value ty audience key t = (Inr p, t\<lparr>clock_ctr := clock_ctr t + 1\<rparr>)"
proof -
  have p: "username \<noteq> ''''" "sid \<noteq> 0" "pl_ID p \<noteq> 0" "pl_cID p = uuidString (pl_ID p)" "pl_SessionID p = sid"
      "pl_Username p = username" "pl_Subject p = username" "pl_TokenType p = ty" "pl_Issuer p = tokenIssuer"
      "pl_Audience p = [audience]" and signed: "signHS256 c key p = Inr value"
    using made nonzero
    by (auto simp: createToken_def NewPayload_def runs bindM_iff failIf_iff split: sum.splits if_splits)
  have "parseHS256 c (clockAt (envir t) (clock_ctr t)) tokenIssuer audience key value = Inr p"
    using signed p(9,10) intime by (rule accepted)
  with p show ?thesis
    by (simp add: verifyToken_def bindM_def timeNow_def failIf_def returnM_def)
qed

end
