(* ===== verification/Worker.thy ===== *)
theory Worker
  imports Users Tokens Snapshot
begin

text \<open>
  The package \<open>worker\<close>: the relay that hands outbox events to the task queue (\<open>outbox_relay.go\<close>), the
  task that sends one email (\<open>task_send_verify_email.go\<close>) and the settings and error handler of the
  task server (\<open>processor.go\<close>). The queue (\<open>asynq\<close>) and the mail provider are parameters. Durations
  are in nanoseconds, points in time in microseconds, the precision the database stores.
\<close>

section \<open>Errors that must not be retried\<close>

fun IsPermanent :: "error \<Rightarrow> bool" where
  "IsPermanent (PermanentError e) = True"
| "IsPermanent (WrapErr m e) = IsPermanent e"
| "IsPermanent (JoinErr a b) = (IsPermanent a \<or> IsPermanent b)"
| "IsPermanent e = False"

section \<open>Tasks\<close>

record PayloadSendEmail =
  se_JobID :: string
  se_EventID :: string
  se_CorrelationID :: string
  se_EventType :: string

definition marshalSendEmail :: "PayloadSendEmail \<Rightarrow> json" where
  "marshalSendEmail p =
     JObj ([(''job_id'', JStr (se_JobID p))] @ omitEmpty ''event_id'' (se_EventID p) @
           omitEmpty ''correlation_id'' (se_CorrelationID p) @ omitEmpty ''event_type'' (se_EventType p))"

definition unmarshalSendEmail :: "json \<Rightarrow> error + PayloadSendEmail" where
  "unmarshalSendEmail j =
     (if \<not> isObject j then jsonErr else
      thenE (getStr (lookupField j ''job_id'')) (\<lambda>job.
      thenE (getStr (lookupField j ''event_id'')) (\<lambda>event.
      thenE (getStr (lookupField j ''correlation_id'')) (\<lambda>correlation.
      thenE (getStr (lookupField j ''event_type'')) (\<lambda>type.
      Inr \<lparr>se_JobID = job, se_EventID = event, se_CorrelationID = correlation, se_EventType = type\<rparr>)))))"

record emailTask =
  tk_Type :: string
  tk_Payload :: json
  tk_TaskID :: string
  tk_Queue :: string
  tk_MaxRetry :: int
  tk_Timeout :: int
  tk_Retention :: int

text \<open>
  What the worker calls: \<open>enqueue\<close> is \<open>asynq.Client.EnqueueContext\<close>, the two \<open>send\<close> functions are the
  methods of \<open>mailer.Mailer\<close> (job id, user, recipient, payload), \<open>int63n\<close> is \<open>rand.Int63n\<close>. Their
  answers may differ from call to call, so they also depend on the state.
\<close>

record services =
  sv_crypto :: crypto
  sv_enqueue :: "emailTask \<Rightarrow> world \<Rightarrow> error option"
  sv_SendVerificationEmail :: "string \<Rightarrow> string \<Rightarrow> string \<Rightarrow> json \<Rightarrow> world \<Rightarrow> error + string"
  sv_SendFinancialNotification :: "string \<Rightarrow> string \<Rightarrow> string \<Rightarrow> json \<Rightarrow> world \<Rightarrow> error + string"
  sv_int63n :: "int \<Rightarrow> world \<Rightarrow> int"

definition TaskSendVerifyEmail :: string where "TaskSendVerifyEmail = ''task:send_verify_email''"
definition QueueCritical :: string where "QueueCritical = ''critical''"
definition QueueDefault :: string where "QueueDefault = ''default''"

definition DistributeTaskSendEmail ::
  "services \<Rightarrow> PayloadSendEmail \<Rightarrow> string \<Rightarrow> string \<Rightarrow> int \<Rightarrow> int \<Rightarrow> int \<Rightarrow> unit query" where
  "DistributeTaskSendEmail sv payload taskID queue maxRetry timeout retention =
     bindM (readM (sv_enqueue sv
       \<lparr>tk_Type = TaskSendVerifyEmail, tk_Payload = marshalSendEmail payload, tk_TaskID = taskID,
        tk_Queue = queue, tk_MaxRetry = maxRetry, tk_Timeout = timeout, tk_Retention = retention\<rparr>)) (\<lambda>r.
     case r of None \<Rightarrow> returnM () | Some e \<Rightarrow> failM (WrapErr ''failed to enqueue task'' e))"

section \<open>The outbox relay\<close>

record RelayConfig =
  rc_InstanceID :: string
  rc_BatchSize :: int
  rc_PollInterval :: int
  rc_ClaimLease :: int
  rc_TaskTimeout :: int
  rc_TaskRetention :: int
  rc_OutboxRetention :: int
  rc_EmailRetention :: int
  rc_CleanupInterval :: int

definition orDefault :: "int \<Rightarrow> int \<Rightarrow> int" where
  "orDefault value fallback = (if value \<le> 0 then fallback else value)"

definition NewOutboxRelay :: "RelayConfig \<Rightarrow> RelayConfig query" where
  \<comment> \<open>The relay's configuration after its defaults are filled in.\<close>
  "NewOutboxRelay c =
     bindM (if rc_InstanceID c = '''' then bindM nextUUID (\<lambda>u. returnM (uuidString u))
            else returnM (rc_InstanceID c)) (\<lambda>instance'.
     returnM \<lparr>rc_InstanceID = instance', rc_BatchSize = orDefault (rc_BatchSize c) 50,
       rc_PollInterval = orDefault (rc_PollInterval c) (seconds 1),
       rc_ClaimLease = orDefault (rc_ClaimLease c) (seconds 30),
       rc_TaskTimeout = orDefault (rc_TaskTimeout c) (seconds 30),
       rc_TaskRetention = orDefault (rc_TaskRetention c) (7 * 24 * seconds 3600),
       rc_OutboxRetention = orDefault (rc_OutboxRetention c) (7 * 24 * seconds 3600),
       rc_EmailRetention = orDefault (rc_EmailRetention c) (90 * 24 * seconds 3600),
       rc_CleanupInterval = orDefault (rc_CleanupInterval c) (24 * seconds 3600)\<rparr>)"

definition outboxRetryBase :: "int \<Rightarrow> int" where
  \<comment> \<open>\<open>math.Pow\<close> of a negative exponent is below one, which truncates to no seconds.\<close>
  "outboxRetryBase attempt =
     (let base = (if attempt < 0 then 0 else seconds (2 ^ nat (min attempt 8)))
      in if 5 * seconds 60 < base then 5 * seconds 60 else base)"

definition outboxRetryDelay :: "services \<Rightarrow> int \<Rightarrow> int query" where
  "outboxRetryDelay sv attempt =
     (let base = outboxRetryBase attempt
      in bindM (readM (sv_int63n sv (base div 5 + 1))) (\<lambda>jitter. returnM (base + jitter)))"

definition release :: "services \<Rightarrow> OutboxEvent \<Rightarrow> error \<Rightarrow> unit query" where
  "release sv event publishErr =
     bindM timeNow (\<lambda>now.
     bindM (outboxRetryDelay sv (ob_publish_attempts event)) (\<lambda>delay.
     bindM (readM (\<lambda>s. errorText (driverText (envir s)) publishErr)) (\<lambda>message.
     bindM (mapErrM (\<lambda>e. WrapErr (''release outbox event after '' @ message) e)
       (autocommit (ReleaseOutboxEvent (Some (ob_id event)) (Some (addDuration now delay)) (Some message)))) (\<lambda>_.
     failM publishErr))))"

definition published :: "OutboxEvent \<Rightarrow> unit query" where
  \<comment> \<open>A failure to mark the job as queued is only logged.\<close>
  "published event =
     bindM (mapErrM (WrapErr ''mark outbox event published'')
       (autocommit (MarkOutboxEventPublished (Some (ob_id event))))) (\<lambda>_.
     bindM (tryM (autocommit (MarkEmailJobQueued (Some (ob_email_job_id event))))) (\<lambda>_. returnM ()))"

definition handOver :: "services \<Rightarrow> RelayConfig \<Rightarrow> OutboxEvent \<Rightarrow> PayloadSendEmail \<Rightarrow> EmailJob \<Rightarrow> unit query" where
  \<comment> \<open>A task the queue already has counts as handed over.\<close>
  "handOver sv c event payload job =
     bindM (tryM (DistributeTaskSendEmail sv payload (se_JobID payload)
        (if ej_job_type job = EmailJobTypeVerifyEmail then QueueCritical else QueueDefault)
        (ej_max_attempts job - 1) (rc_TaskTimeout c) (rc_TaskRetention c))) (\<lambda>sent.
     case sent of
       Inl e \<Rightarrow> if errIs e ErrTaskIDConflict then published event else release sv event e
     | Inr _ \<Rightarrow> published event)"

definition publishEvent :: "services \<Rightarrow> RelayConfig \<Rightarrow> OutboxEvent \<Rightarrow> unit query" where
  "publishEvent sv c event =
     (case unmarshalSendEmail (ob_payload event) of
        Inl e \<Rightarrow> release sv event (WrapErr ''decode outbox payload'' e)
      | Inr p0 \<Rightarrow>
        let payload = p0\<lparr>se_EventID := (if se_EventID p0 = '''' then uuidString (ob_id event) else se_EventID p0),
              se_CorrelationID := (if se_CorrelationID p0 = '''' then uuidString (ob_correlation_id event)
                                   else se_CorrelationID p0),
              se_EventType := ob_event_type event\<rparr>
        in bindM (tryM (autocommit (GetEmailJob (Some (ob_email_job_id event))))) (\<lambda>r.
           case r of
             Inl e \<Rightarrow> release sv event (WrapErr ''load email job'' e)
           | Inr job \<Rightarrow> handOver sv c event payload job))"

definition publishBatch :: "services \<Rightarrow> RelayConfig \<Rightarrow> unit query" where
  "publishBatch sv c =
     bindM timeNow (\<lambda>now.
     bindM (mapErrM (WrapErr ''claim outbox events'')
       (autocommit (ClaimOutboxEvents (Some (rc_InstanceID c)) (Some (addDuration now (rc_ClaimLease c)))
          (rc_BatchSize c)))) (\<lambda>events.
     bindM (forM events (\<lambda>event. tryM (publishEvent sv c event))) (\<lambda>_. returnM ())))"

definition cleanup :: "RelayConfig \<Rightarrow> unit query" where
  \<comment> \<open>Each deletion runs whatever became of the one before; their errors are logged.\<close>
  "cleanup c =
     bindM timeNow (\<lambda>now.
     bindM (tryM (autocommit (DeleteExpiredPublishedOutboxEvents (Some (addDuration now (- rc_OutboxRetention c)))))) (\<lambda>_.
     bindM (tryM (autocommit (DeleteExpiredSentEmailJobs (Some (addDuration now (- rc_EmailRetention c)))))) (\<lambda>_.
     bindM (tryM (autocommit DisableExpiredPendingUsers)) (\<lambda>_.
     bindM (tryM (autocommit DeleteExpiredIdempotencyKeys)) (\<lambda>_. returnM ())))))"

section \<open>Sending one email\<close>

record RedisTaskProcessor =
  rp_verificationKey :: "string option"
  rp_publicAPIURL :: string
  rp_emailVerificationDuration :: int

definition parseJobID :: "services \<Rightarrow> string \<Rightarrow> error + uuid" where
  "parseJobID sv value = uuidParse (sv_crypto sv) value"

definition unreserved :: "char \<Rightarrow> bool" where
  "unreserved c = List.member (urlAlphabet @ ''.~'') c"

definition queryEscape :: "string \<Rightarrow> string" where
  \<comment> \<open>\<open>url.QueryEscape\<close>\<close>
  "queryEscape s = concat (map (\<lambda>c.
     if unreserved c then [c] else if c = CHR '' '' then ''+''
     else [CHR ''%'', ''0123456789ABCDEF'' ! (of_char c div 16), ''0123456789ABCDEF'' ! (of_char c mod 16)]) s)"

definition trimRightSlashes :: "string \<Rightarrow> string" where
  "trimRightSlashes s = rev (dropWhile (\<lambda>c. c = CHR ''/'') (rev s))"

definition setField :: "string \<Rightarrow> json \<Rightarrow> (string \<times> json) list \<Rightarrow> (string \<times> json) list" where
  \<comment> \<open>Assignment to a key of a \<open>map[string]any\<close>; the order of the keys has no meaning.\<close>
  "setField k v kvs = filter (\<lambda>(k', _). k' \<noteq> k) kvs @ [(k, v)]"

definition withVerificationLink :: "json \<Rightarrow> string \<Rightarrow> time \<Rightarrow> error + json" where
  "withVerificationLink payload link expiresAt =
     (let add = (\<lambda>kvs. JObj (setField ''verification_expires_at'' (JTime (expiresAt - expiresAt mod 1000000))
                     (setField ''verification_url'' (JStr link) kvs)))
      in case payload of
           JObj kvs \<Rightarrow> Inr (add kvs)
         | JNull \<Rightarrow> Inr (add [])
         | _ \<Rightarrow> Inl (WrapErr ''decode email job payload'' (GoErr ''json: cannot unmarshal value'')))"

definition verificationEmailPayload :: "services \<Rightarrow> RedisTaskProcessor \<Rightarrow> EmailJob \<Rightarrow> string \<Rightarrow> json query" where
  "verificationEmailPayload sv rp job jobID =
     (case rp_verificationKey rp of
        None \<Rightarrow> returnM (ej_payload job)
      | Some key \<Rightarrow>
        (case createVerificationToken (sv_crypto sv) key jobID of
           Inl e \<Rightarrow> failM e
         | Inr value \<Rightarrow>
           (case hashVerificationToken (sv_crypto sv) value of
              Inl e \<Rightarrow> failM e
            | Inr tokenHash \<Rightarrow>
              let expiresAt = addDuration (ej_created_at job) (rp_emailVerificationDuration rp)
              in bindM (mapErrM (WrapErr ''persist verification token hash'')
                   (autocommit (SetEmailJobVerificationToken (Some (ej_id job)) tokenHash (Some expiresAt)))) (\<lambda>_.
                 case withVerificationLink (ej_payload job)
                        (trimRightSlashes (rp_publicAPIURL rp) @ ''/users/verify-email?token='' @ queryEscape value)
                        expiresAt of
                   Inl e \<Rightarrow> failM e
                 | Inr payload \<Rightarrow> returnM payload))))"

definition sendEmailJob :: "services \<Rightarrow> RedisTaskProcessor \<Rightarrow> EmailJob \<Rightarrow> string \<Rightarrow> string query" where
  "sendEmailJob sv rp job jobID =
     (if ej_job_type job = '''' \<or> ej_job_type job = EmailJobTypeVerifyEmail then
        bindM (mapErrM (\<lambda>e. PermanentError (WrapErr ''create verification email link'' e))
          (verificationEmailPayload sv rp job jobID)) (\<lambda>payload.
        bindM (readM (sv_SendVerificationEmail sv jobID (ej_username job) (ej_recipient job) payload)) (\<lambda>r.
        case r of Inl e \<Rightarrow> failM e | Inr providerID \<Rightarrow> returnM providerID))
      else if ej_job_type job = EmailJobTypeFinancialNotification then
        bindM (readM (sv_SendFinancialNotification sv jobID (ej_username job) (ej_recipient job) (ej_payload job))) (\<lambda>r.
        case r of Inl e \<Rightarrow> failM e | Inr providerID \<Rightarrow> returnM providerID)
      else failM (PermanentError (GoErr (''unsupported email job type '' @ ej_job_type job))))"

definition safeEmailSendError :: "error \<Rightarrow> string" where
  "safeEmailSendError err =
     (if IsPermanent err then ''permanent email delivery failure'' else ''temporary email delivery failure'')"

definition EmailJobStatusSent :: string where "EmailJobStatusSent = ''sent''"

lemmas worker_constants [simp] =
  EmailJobStatusSent_def TaskSendVerifyEmail_def QueueCritical_def QueueDefault_def

definition failedAttempt :: "uuid \<Rightarrow> EmailJob \<Rightarrow> error \<Rightarrow> unit query" where
  \<comment> \<open>What becomes of the job when sending failed.\<close>
  "failedAttempt jobID job sendErr =
     (let safeError = safeEmailSendError sendErr
      in if IsPermanent sendErr \<or> ej_max_attempts job \<le> ej_attempt_count job then
           bindM (mapErrM (WrapErr ''persist dead-letter state after send failure'')
             (autocommit (MarkEmailJobDeadLetter (Some jobID) (Some safeError)))) (\<lambda>_.
           if IsPermanent sendErr then failM (WrapErr safeError SkipRetry)
           else failM (GoErr ''email delivery retries exhausted''))
         else
           bindM (mapErrM (WrapErr ''persist retrying state after send failure'')
             (autocommit (MarkEmailJobRetrying (Some jobID) (Some safeError)))) (\<lambda>_.
           failM (GoErr safeError)))"

definition ProcessTaskSendEmail :: "services \<Rightarrow> RedisTaskProcessor \<Rightarrow> json \<Rightarrow> unit query" where
  "ProcessTaskSendEmail sv rp task =
     (case unmarshalSendEmail task of
        Inl e \<Rightarrow> failM (WrapErr ''failed to unmarshal payload'' SkipRetry)
      | Inr payload \<Rightarrow>
        (case parseJobID sv (se_JobID payload) of
           Inl e \<Rightarrow> bindM (readM (\<lambda>s. errorText (driverText (envir s)) e)) (\<lambda>text.
                     failM (WrapErr (''invalid email job ID: '' @ text) SkipRetry))
         | Inr jobID \<Rightarrow>
           bindM (mapErrM (\<lambda>e. if errIs e ErrNoRows then WrapErr ''email job does not exist'' SkipRetry
                               else WrapErr ''get email job'' e)
             (autocommit (GetEmailJob (Some jobID)))) (\<lambda>job0.
           if ej_status job0 = EmailJobStatusSent then returnM ()
           else failIf (ej_status job0 = EmailJobStatusDeadLetter)
             (WrapErr ''email job is already dead-lettered'' SkipRetry)
             (bindM (mapErrM (WrapErr ''start email job attempt'')
                (autocommit (StartEmailJobAttempt (Some jobID)))) (\<lambda>job.
              bindM (tryM (sendEmailJob sv rp job (se_JobID payload))) (\<lambda>r.
              case r of
                Inl sendErr \<Rightarrow> failedAttempt jobID job sendErr
              | Inr providerMessageID \<Rightarrow>
                  bindM (mapErrM (WrapErr ''persist sent email job'')
                    (autocommit (MarkEmailJobSent (Some jobID) (Some providerMessageID)))) (\<lambda>_.
                  returnM ())))))))"

section \<open>The task server\<close>

definition retrySchedule :: "int list" where
  "retrySchedule = map (\<lambda>m. m * seconds 60) [1, 5, 15, 30, 60, 120, 180, 240, 300]"

definition retryDelay :: "services \<Rightarrow> int \<Rightarrow> int query" where
  "retryDelay sv retryCount =
     (let index = (if retryCount - 1 < 0 then 0 else retryCount - 1);
          index' = (if int (length retrySchedule) \<le> index then int (length retrySchedule) - 1 else index);
          base = retrySchedule ! nat index'
      in bindM (readM (sv_int63n sv (base div 5 + 1))) (\<lambda>jitter. returnM (base + jitter)))"

record ProcessorConfig =
  pc_Concurrency :: int
  pc_TaskCheckInterval :: int
  pc_HealthCheckInterval :: int
  pc_DelayedTaskCheckInterval :: int
  pc_JanitorInterval :: int

definition normalizeProcessorConfig :: "ProcessorConfig \<Rightarrow> ProcessorConfig" where
  "normalizeProcessorConfig c =
     \<lparr>pc_Concurrency = orDefault (pc_Concurrency c) 1,
      pc_TaskCheckInterval = orDefault (pc_TaskCheckInterval c) (15 * seconds 1),
      pc_HealthCheckInterval = orDefault (pc_HealthCheckInterval c) (2 * seconds 60),
      pc_DelayedTaskCheckInterval = orDefault (pc_DelayedTaskCheckInterval c) (seconds 60),
      pc_JanitorInterval = orDefault (pc_JanitorInterval c) (seconds 3600)\<rparr>"

definition handleError :: "services \<Rightarrow> json \<Rightarrow> error \<Rightarrow> int option \<Rightarrow> int option \<Rightarrow> unit query" where
  \<comment> \<open>The retry counts are those the queue keeps, when the context carries them.\<close>
  "handleError sv task taskErr retried maxRetry =
     (case (retried, maxRetry) of
        (Some r, Some m) \<Rightarrow>
          if r < m then returnM ()
          else (case unmarshalSendEmail task of
                  Inl e \<Rightarrow> returnM ()
                | Inr payload \<Rightarrow>
                  (case parseJobID sv (se_JobID payload) of
                     Inl e \<Rightarrow> returnM ()
                   | Inr jobID \<Rightarrow>
                     bindM (readM (\<lambda>s. errorText (driverText (envir s)) taskErr)) (\<lambda>message.
                     bindM (tryM (autocommit (MarkEmailJobDeadLetter (Some jobID) (Some message)))) (\<lambda>_.
                     returnM ()))))
      | _ \<Rightarrow> returnM ())"

section \<open>Frames\<close>

lemma relay_parts_frame [frame]:
  "keeps f (outboxRetryDelay sv n)" "keeps f (DistributeTaskSendEmail sv p t q r to rt)"
  unfolding outboxRetryDelay_def DistributeTaskSendEmail_def Let_def by (intro frame)+

lemma release_frame [frame]:
  assumes "tableField f" "unnoticed f"
  shows "keeps f (release sv ev e)" "keeps f (published ev)"
  unfolding release_def published_def
  by (intro frame outbox_frame email_job_frame assms unnoticedD [OF assms(2)])+

lemma relay_frame [frame]:
  assumes "tableField f" "unnoticed f"
  shows "keeps f (publishEvent sv c ev)" "keeps f (publishBatch sv c)"
  unfolding publishBatch_def publishEvent_def handOver_def Let_def
  by (intro frame outbox_frame assms unnoticedD [OF assms(2)])+

lemma cleanup_frame [frame]:
  assumes "tableField f" "unnoticed f" "\<And>g s. f (users_update g s) = f s" "\<And>g s. f (idempotency_keys_update g s) = f s"
  shows "keeps f (cleanup c)"
  unfolding cleanup_def by (intro frame outbox_frame email_job_frame assms unnoticedD [OF assms(2)])

lemma processor_frame [frame]:
  assumes "tableField f" "unnoticed f"
  shows "keeps f (ProcessTaskSendEmail sv rp task)" "keeps f (handleError sv task e r m)"
    "keeps f (sendEmailJob sv rp job jid)"
  unfolding ProcessTaskSendEmail_def handleError_def sendEmailJob_def verificationEmailPayload_def
    failedAttempt_def Let_def
  by (intro frame email_job_frame assms)+

end
