(* ===== verification/Closure.thy ===== *)
theory Closure
  imports Reversal Reconcile Delivery Beneficiaries Worker
begin

text \<open>
  The interface between single statements and whole operations. A relation between the tables before and
  after that is reflexive and transitive, and that holds of every statement that writes, holds of every
  operation of the store: transactions, audits, retries, relay and worker included. What a component
  promises for ever (no record rewritten, keys unique, revocation permanent) is proved for statements and
  comes back for operations.
\<close>

definition jobFacts :: "EmailJob \<Rightarrow> uuid \<times> uuid option \<times> string \<times> string \<times> string \<times> json \<times> int \<times> time" where
  \<comment> \<open>What no update of a mail job changes\<close>
  "jobFacts j = (ej_id j, ej_parent_job_id j, ej_job_type j, ej_username j, ej_recipient j, ej_payload j,
     ej_max_attempts j, ej_created_at j)"

definition eventFacts :: "OutboxEvent \<Rightarrow> (uuid \<times> uuid \<times> string \<times> json) \<times> time \<times> uuid \<times> string \<times> uuid" where
  \<comment> \<open>What no update of an outbox event changes\<close>
  "eventFacts e = ((ob_id e, ob_email_job_id e, ob_event_type e, ob_payload e),
     ob_created_at e, ob_correlation_id e, ob_entity_type e, ob_entity_id e)"

lemma mail_deletes_frame [frame]:
  "(\<And>g s. f (email_jobs_update g s) = f s) \<Longrightarrow> keeps f (DeleteExpiredSentEmailJobs sb)"
  "(\<And>g s. f (outbox_events_update g s) = f s) \<Longrightarrow> keeps f (DeleteExpiredPublishedOutboxEvents pb)"
  unfolding DeleteExpiredSentEmailJobs_def DeleteExpiredPublishedOutboxEvents_def Let_def
  by (intro frame; simp)+

named_theorems ops \<open>programs that stay within the relation\<close>

locale statements_within = table_relation R for R :: "world \<Rightarrow> world \<Rightarrow> bool" +
  assumes account_writes:
      "within R (CreateAccount o1 c1 n1)" "within R (CloseAccount i1)" "within R (SetAccountStatus i2 st1)"
      "within R (AddAccountBalanceInternal n2 i3)" "within R (subtractAccountBalance i4 n3)"
    and ledger_writes:
      "within R (CreateCustomerLedgerAccount ca1 c2)"
      "within R (CreateBankingTransaction tid r ty c n na i ro)" "within R (CreateLedgerPosting tid' lid n')"
      "within R (MarkBankingTransactionPosted tid1)" "within R (MarkBankingTransactionReversed tid2)"
    and key_writes:
      "within R (DeleteExpiredIdempotencyKey u1 o2 k1)" "within R (CreateIdempotencyKey u2 o3 k2 h1)"
      "within R (CompleteIdempotencyKey u3 o4 k3 t1 st2 sn)" "within R DeleteExpiredIdempotencyKeys"
    and audit_writes: "within R (CreateAuditLog et eid cid ev actor fs ts msg md)"
    and user_writes:
      "within R (CreateUser un hp fn em)" "within R (UpdateUser a b c' d)"
      "within R (DisableExpiredPendingUser un3)" "within R DisableExpiredPendingUsers"
      "within R (MarkUserEmailVerified un4 em')" "within R (RestartUserEmailVerification un5)"
      "within R (UpdateCurrentUserEmailDeliverability st t1' t2 un6 em2)"
    and job_insert: "within R (insertRow emailJobInsertChecks email_jobs_update j)"
    and job_update: "(\<And>x. jobFacts (f x) = jobFacts x) \<Longrightarrow>
      within R (updateRow ErrNoRows emailJobRowChecks email_jobs email_jobs_update p f)"
    and job_delete: "within R (DeleteExpiredSentEmailJobs sb)"
    and event_insert: "within R (insertRow outboxInsertChecks outbox_events_update oe)"
    and event_update: "(\<And>x. eventFacts (g x) = eventFacts x) \<Longrightarrow>
      within R (updateRow ErrNoRows (\<lambda>s. outboxRowChecks) outbox_events outbox_events_update p' g)"
    and event_updates: "(\<And>x. eventFacts (g x) = eventFacts x) \<Longrightarrow>
      within R (updateMany outboxRowChecks outbox_events outbox_events_update p' g)"
    and event_delete: "within R (DeleteExpiredPublishedOutboxEvents pb)"
    and delivery_writes: "within R (CreateEmailDeliveryEvent w jid' mid' et' oc pl)"
    and session_writes:
      "within R (CreateSession cs)" "within R (RevokeAllUserSessions rs sn1)" "within R (RevokeSession rs' sid)"
      "within R (RotateSessionRefreshToken sid' h rid)"
    and beneficiary_writes:
      "within R (CreateBeneficiary ow aid nick)" "within R (DeleteOwnedBeneficiary bid ow')"
      "within R (UpdateOwnedBeneficiaryNickname nick' bid' ow2)"
begin

lemmas [ops] = rules execTx autocommit

lemmas writes [ops] = account_writes ledger_writes key_writes audit_writes user_writes job_insert job_delete event_insert
  event_delete delivery_writes session_writes beneficiary_writes

lemma keeps_tables: "keeps tablesOf m \<Longrightarrow> within R m"
  unfolding keeps_def within_def using same_tables by metis

lemma counters_tables [simp]:
  "tablesOf (uuid_ctr_update g s) = tablesOf s" "tablesOf (clock_ctr_update g s) = tablesOf s"
  "tablesOf (rand_ctr_update g s) = tablesOf s" "tablesOf (reconciliationDrift_update g' s) = tablesOf s"
  by (simp_all add: tablesOf_def)

text \<open>What reads, draws or computes only.\<close>

lemma quiet [ops]:
  "within R nextUUID" "within R timeNow" "within R (notNull col v)" "within R (sumBigint xs)"
  "within R (checkM cks)" "within R (selectOne er tbl q)" "within R (liftE res)" "within R newTransactionIdentity"
  "within R (equalFold s1 s2)" "within R generateAccountNumber" "within R (SetReconciliationDrift drift)"
  by (rule keeps_tables, intro frame; simp)+

lemma reads [ops]:
  "within R (GetAccountByPublicID p1)" "within R (GetAccountByPublicIDForUpdate p2)"
  "within R (GetAccountForUpdate i5)" "within R (loadAndLockTransferAccounts p3 n4)"
  "within R (GetAccountByAccountNumber an)" "within R (customerLedgerAccount i6)"
  "within R (GetDailyOutgoingTransferTotal i7)" "within R (GetSettlementLedgerAccount c3)"
  "within R (GetBankingTransactionForUpdate p4)" "within R (ListReversalSourcePostings p5)"
  "within R (GetUser u4)" "within R (GetUserForUpdate u5)" "within R (GetSessionForUpdate sid1)"
  "within R (replayIdempotentTransfer ia)"
  "within R (ListAccountReconciliationIssues p6)" "within R (ListTransactionReconciliationIssues i8)"
  "within R (ListDuplicateReversalIssues i9)"
  "within R (GetEmailJob jid)" "within R (GetEmailJobForUpdate jid)" "within R (GetOutboxEventByEmailJobID jid2)"
  "within R (GetLatestEmailJobForCurrentAddress n)"
  "within R (userDeliverabilityForEvent de)" "within R (bounceTimestamp de)" "within R (findEmailJobForDeliveryEvent de)"
  "within R (outboxRetryDelay sv att)" "within R (DistributeTaskSendEmail sv pay task q1 mr to rt)"
  by (rule keeps_tables, intro frame; simp)+

lemma audits [ops]: "within R (auditCorrelation corr)" "within R newPGUUID" "within R (createFinancialAudit fa)"
  "within R (createSessionAudit x ev' ac' fs' ts')" "within R (createOperatorAudit oa)"
  unfolding auditCorrelation_def newPGUUID_def createFinancialAudit_def createSessionAudit_def createOperatorAudit_def
  by (intro ops)+

lemma triggers [ops]:
  "within R (auditEmailJobInsert j1)" "within R (auditEmailJobUpdate j1 j2)"
  "within R (auditOutboxInsert e1)" "within R (auditOutboxUpdate e1 e2)"
  unfolding auditEmailJobInsert_def auditEmailJobUpdate_def auditOutboxInsert_def auditOutboxUpdate_def
  by (intro ops)+

lemma job_statements [ops]:
  "within R (CreateEmailJob jid pid jt n r' pl' ma)"
  "within R (MarkEmailJobDeadLetter jid le)" "within R (MarkEmailJobQueued jid)"
  "within R (MarkEmailJobRetrying jid le)" "within R (MarkEmailJobSent jid mid)"
  "within R (SetEmailJobVerificationToken jid hh ex)" "within R (StartEmailJobAttempt jid)"
  "within R (UpdateEmailJobDelivery mid ds oc' bt bs bm jid)"
  unfolding CreateEmailJob_def MarkEmailJobDeadLetter_def MarkEmailJobQueued_def MarkEmailJobRetrying_def
    MarkEmailJobSent_def SetEmailJobVerificationToken_def StartEmailJobAttempt_def
    UpdateEmailJobDelivery_def updateEmailJob_def
  by (intro ops job_update; simp add: jobFacts_def)+

lemma event_statements [ops]:
  "within R (CreateOutboxEvent eid' ejid et1 pl1 cid' ent entid)" "within R (ClaimOutboxEvents cb cu bs')"
  "within R (MarkOutboxEventPublished eid')" "within R (ReleaseOutboxEvent eid' av le)"
  unfolding CreateOutboxEvent_def ClaimOutboxEvents_def MarkOutboxEventPublished_def ReleaseOutboxEvent_def
    updateOutboxEvent_def
  by (intro ops event_update event_updates; simp add: eventFacts_def)+

lemma compositions [ops]:
  "within R (createFinancialNotification fn1)" "within R (createBalancedTransaction arg ps)"
  "within R (createVerificationEmailJob n a1)" "within R (createDeliveryAuditLog de job st')"
  unfolding createFinancialNotification_def createBalancedTransaction_def createVerificationEmailJob_def
    createDeliveryAuditLog_def
  by (intro ops)+

section \<open>Money\<close>

lemma money_bodies [ops]:
  "within R (transferWithQueries tp)" "within R (settlementBody p n na' tt ac c1')"
  "within R (closeAccountBody ca)" "within R (setAccountStatusBody sa)"
  "within R (createAccountAttempt o5 c5 n5)"
  unfolding transferWithQueries_def settlementBody_def closeAccountBody_def setAccountStatusBody_def
    createAccountAttempt_def
  by (intro ops)+

lemma idempotent_body [ops]: "within R (idempotentTransferBody ia)"
  unfolding idempotentTransferBody_def Let_def by (intro ops)

lemma reverse_body [ops]: "within R (reverseTransactionBody ra)"
proof -
  have "within R (reverseBalance row)" for row
    unfolding reverseBalance_def Let_def by (intro ops)
  moreover have "within R (lockAccountsForOperator ids)" for ids
    unfolding lockAccountsForOperator_def Let_def by (intro ops)
  ultimately show ?thesis
    unfolding reverseTransactionBody_def by (intro ops)
qed

lemma failure_audits [ops]:
  "within R (auditTransferFailure tp e)" "within R (auditOperatorFailure oa e)" "within R (RecordLoginFailure lf)"
  unfolding auditTransferFailure_def auditOperatorFailure_def RecordLoginFailure_def by (intro ops)+

lemma orAudit [ops]:
  "within R body \<Longrightarrow> (\<And>e. within R (audit e)) \<Longrightarrow> within R (orAudit body audit)"
  unfolding orAudit_def by (intro ops)

lemma retry [ops]:
  "within R generate \<Longrightarrow> (\<And>number. within R (create number)) \<Longrightarrow>
   within R (createAccountWithGeneratedNumber k generate create)"
  by (induction k) (simp_all, intro ops, intro ops, assumption+)

lemma money [ops]:
  "within R (TransferTx tp)" "within R (IdempotentTransferTx ia)" "within R (DepositTx dp)"
  "within R (WithdrawTx wp)" "within R (CreateAccountTx ca)" "within R (CloseAccountTx cl)"
  "within R (SetAccountStatusTx sa)" "within R (ReverseTransactionTx ra)" "within R (Reconcile rc)"
  unfolding TransferTx_def IdempotentTransferTx_def DepositTx_def WithdrawTx_def settlementMovementTx_def
    CreateAccountTx_def CloseAccountTx_def SetAccountStatusTx_def ReverseTransactionTx_def Reconcile_def Let_def
  by (intro ops)+

section \<open>Users, sessions, mail and beneficiaries\<close>

lemma session_bodies [ops]:
  "within R (exclusiveSessionBody csp)" "within R (rotateBody rrp)"
  "within R (revokeSessionBody sid2 h2 r2 a2)" "within R (revokeAllBody n r' ev1)"
  unfolding exclusiveSessionBody_def rotateBody_def revokeSessionBody_def revokeAllBody_def Let_def
  by (intro ops)+

lemma session_operations [ops]:
  "within R (CreateExclusiveSessionTx csp)" "within R (RotateRefreshTokenTx rrp)"
  "within R (RevokeSessionTx sid2 h2 r2 a2)" "within R (RevokeAllUserSessionsTx n r' ev1)"
  unfolding CreateExclusiveSessionTx_def RotateRefreshTokenTx_def RevokeSessionTx_def RevokeAllUserSessionsTx_def
  by (intro ops)+

lemma user_operations [ops]:
  "within R (CreateUserTx cup)" "within R (VerifyUserEmailTx vup)" "within R (RequestEmailVerificationTx n)"
  "within R (UpdateUserTx uup)" "within R (ReplayEmailJobTx jid)"
  unfolding CreateUserTx_def VerifyUserEmailTx_def RequestEmailVerificationTx_def UpdateUserTx_def ReplayEmailJobTx_def
    verifyUserEmailBody_def requestEmailVerificationBody_def
  by (intro ops)+

lemma delivery_operation [ops]: "within R (ProcessEmailDeliveryEventTx de)"
  unfolding ProcessEmailDeliveryEventTx_def processDeliveryBody_def applyDelivery_def Let_def by (intro ops)

lemma beneficiary_operation [ops]: "within R (CreateBeneficiaryTx cbp)"
  unfolding CreateBeneficiaryTx_def createBeneficiaryBody_def by (intro ops)

lemma relay_parts [ops]: "within R (release sv oe' e)" "within R (published oe')"
  unfolding release_def published_def by (intro ops)+

lemma worker [ops]:
  "within R (publishBatch sv rcf)" "within R (cleanup rcf)"
  "within R (ProcessTaskSendEmail sv rp task')" "within R (handleError sv task' e rt' mx)"
  unfolding publishBatch_def publishEvent_def handOver_def cleanup_def ProcessTaskSendEmail_def handleError_def sendEmailJob_def
    verificationEmailPayload_def failedAttempt_def Let_def
  by (intro ops)+

lemma alone:
  "within R (autocommit DeleteExpiredIdempotencyKeys)" "within R (autocommit (DisableExpiredPendingUser n))"
  "within R (autocommit (DeleteOwnedBeneficiary bid ow))"
  "within R (autocommit (UpdateOwnedBeneficiaryNickname nick bid' ow'))"
  by (intro ops)+

lemmas operations = money failure_audits session_operations user_operations delivery_operation
  beneficiary_operation worker alone

end

end
