(* ===== verification/History.thy ===== *)
theory History
  imports Closure
begin

text \<open>
  What is never rewritten: audit records and ledger postings are only appended, and a banking
  transaction keeps its financial details for ever; only its status and timestamps change.
\<close>

definition txDetails ::
  "BankingTransaction \<Rightarrow> (uuid \<times> string \<times> string \<times> string) \<times> (int \<times> string \<times> string \<times> uuid option \<times> time)" where
  "txDetails t =
     ((bt_id t, bt_reference t, bt_transaction_type t, bt_currency t),
      (bt_amount t, bt_narration t, bt_initiated_by t, bt_reversal_of t, bt_created_at t))"

definition extends :: "world \<Rightarrow> world \<Rightarrow> bool" where
  "extends s t \<longleftrightarrow>
     prefix (audit_logs s) (audit_logs t) \<and> prefix (ledger_postings s) (ledger_postings t) \<and>
     prefix (map txDetails (banking_transactions s)) (map txDetails (banking_transactions t))"

interpretation history: table_relation extends
proof
  show "extends s s" for s
    by (simp add: extends_def)
  show "extends s u" if "extends s t" "extends t u" for s t u
    using that unfolding extends_def by (meson prefix_order.trans)
  show "extends s' t'" if "tablesOf s = tablesOf s'" "tablesOf t = tablesOf t'" "extends s t" for s s' t t'
    using that by (simp add: extends_def tablesOf_def)
qed

definition historyTables ::
  "world \<Rightarrow> AuditLog list \<times> LedgerPosting list \<times> BankingTransaction list" where
  "historyTables s = (audit_logs s, ledger_postings s, banking_transactions s)"

lemma keeps_history: "keeps historyTables m \<Longrightarrow> within extends m"
  unfolding keeps_def within_def by (simp add: historyTables_def extends_def)

lemma historyFields [simp]:
  "historyTables (users_update g s) = historyTables s" "historyTables (accounts_update a s) = historyTables s"
  "historyTables (ledger_accounts_update b s) = historyTables s" "historyTables (idempotency_keys_update d s) = historyTables s"
  "historyTables (sessions_update h s) = historyTables s" "historyTables (beneficiaries_update k s) = historyTables s"
  "historyTables (email_delivery_events_update l s) = historyTables s"
  "historyTables (email_jobs_update m s) = historyTables s" "historyTables (outbox_events_update n s) = historyTables s"
  "historyTables (uuid_ctr_update c s) = historyTables s" "historyTables (clock_ctr_update c s) = historyTables s"
  "historyTables (accounts_id_seq_update q s) = historyTables s" "historyTables (ledger_accounts_id_seq_update q s) = historyTables s"
  "historyTables (ledger_postings_id_seq_update q s) = historyTables s"
  "historyTables (idempotency_keys_id_seq_update q s) = historyTables s" "historyTables (audit_logs_id_seq_update q s) = historyTables s"
  by (simp_all add: historyTables_def)

text \<open>The statements that write the three tables append to them, or change only what may change.\<close>

lemma insertRow_within:
  "(\<And>s. extends s (upd (\<lambda>t. t @ [r]) s)) \<Longrightarrow> within extends (insertRow checks upd r)"
  unfolding within_def insertRow_def by (simp add: history.refl split: option.split)

lemma quiet_history:
  "within extends nextUUID" "within extends (notNull c v)" "within extends (selectOne e tbl p)" "within extends (checkM cs)"
  "within extends (nextval n audit_logs_id_seq audit_logs_id_seq_update)"
  "within extends (nextval n ledger_postings_id_seq ledger_postings_id_seq_update)"
  by (rule keeps_history, intro frame; simp)+

lemma updateBankingTransaction_within:
  assumes "\<And>t. txDetails (f t) = txDetails t"
  shows "within extends (updateBankingTransaction p f)"
proof -
  have "within extends (updateRow e checks banking_transactions banking_transactions_update p f)" for e checks
    unfolding within_def updateRow_def
    by (simp add: history.refl extends_def map_if_key [of txDetails f, OF assms] del: map_map split: option.split)
  then show ?thesis
    unfolding updateBankingTransaction_def by (intro history.rules quiet_history)
qed

lemma history_writes:
  "within extends (CreateAuditLog et eid cid ev actor fs ts msg md)" "within extends (CreateLedgerPosting tid lid n)"
  "within extends (CreateBankingTransaction tid' r ty c n' na i ro)"
  "within extends (MarkBankingTransactionPosted tid1)" "within extends (MarkBankingTransactionReversed tid2)"
  unfolding CreateAuditLog_def CreateLedgerPosting_def CreateBankingTransaction_def
    MarkBankingTransactionPosted_def MarkBankingTransactionReversed_def
  by (intro history.rules quiet_history insertRow_within updateBankingTransaction_within;
      simp add: extends_def txDetails_def)+

interpretation history_ops: statements_within extends
  by unfold_locales ((rule history_writes) | (rule keeps_history, (intro frame; simp)))+

end
