(* ===== verification/SessionRules.thy ===== *)
theory SessionRules
  imports Closure
begin

text \<open>
  What the session calls promise: one active session for each user, revocation that is never undone,
  and refresh tokens that work once.
\<close>

section \<open>The invariant of the table\<close>

lemma sessionsOk_CreateSession:
  assumes "CreateSession arg s = (Inr x, t)" "sessionsOk (sessions s)"
  shows "sessionsOk (sessions t)" "sessions t = sessions s @ [x]" "se_username x = cs_Username arg"
    "se_revoked_at x = None" "se_refresh_token_hash x = cs_RefreshTokenHash arg" "Some (se_id x) = cs_ID arg"
    "se_device_token_hash x = cs_DeviceTokenHash arg" "Some (se_refresh_token_id x) = cs_RefreshTokenID arg"
proof -
  obtain sid ex rid where ins: "insertRow sessionInsertChecks sessions_update
       \<lparr>se_id = sid, se_username = cs_Username arg, se_user_agent = cs_UserAgent arg,
        se_client_ip = cs_ClientIp arg, se_expires_at = ex, se_created_at = tx_now s,
        se_refresh_token_hash = cs_RefreshTokenHash arg, se_refresh_token_id = rid,
        se_last_refreshed_at = None, se_revoked_at = None, se_revoked_reason = None,
        se_device_token_hash = cs_DeviceTokenHash arg\<rparr> s = (Inr x, t)"
    and "cs_ID arg = Some sid" "cs_RefreshTokenID arg = Some rid"
    using assms(1) unfolding CreateSession_def bindM_iff notNull_iff readM_iff by blast
  note r = sessionsOk_insert [OF ins assms(2)]
  show "sessionsOk (sessions t)" by (fact r(1))
  show "sessions t = sessions s @ [x]" using r(2,3) by simp
  show "se_username x = cs_Username arg" "se_revoked_at x = None" "se_refresh_token_hash x = cs_RefreshTokenHash arg"
    "Some (se_id x) = cs_ID arg" "se_device_token_hash x = cs_DeviceTokenHash arg"
    "Some (se_refresh_token_id x) = cs_RefreshTokenID arg"
    using r(3) \<open>cs_ID arg = Some sid\<close> \<open>cs_RefreshTokenID arg = Some rid\<close> by simp_all
qed

lemma sessionsOk_rotate:
  assumes "sessionsOk xs" "\<forall>y\<in>set xs. se_id y \<noteq> i \<longrightarrow> se_refresh_token_hash y \<noteq> h"
    and f: "\<And>x. se_id (f x) = se_id x" "\<And>x. se_username (f x) = se_username x" "\<And>x. se_revoked_at (f x) = se_revoked_at x"
      "\<And>x. se_device_token_hash (f x) = se_device_token_hash x" "\<And>x. se_refresh_token_hash (f x) = h"
  shows "sessionsOk (map (\<lambda>x. if se_id x = i then f x else x) xs)"
proof -
  let ?g = "\<lambda>x. if se_id x = i then f x else x"
  have ids: "distinct (map se_id xs)"
    using assms(1) by (simp add: sessionsOk_def)
  have "distinct (map se_refresh_token_hash (map ?g xs))"
    using assms(1,2) ids f(5) unfolding sessionsOk_def
    by (auto simp: distinct_map inj_on_def)
  moreover have "filter (\<lambda>x. se_revoked_at x = None) (map ?g xs) = map ?g (filter (\<lambda>x. se_revoked_at x = None) xs)"
    by (induction xs) (simp_all add: f(3))
  then have "map se_username (filter (\<lambda>x. se_revoked_at x = None) (map ?g xs)) =
      map se_username (filter (\<lambda>x. se_revoked_at x = None) xs)"
    by (simp only: map_if_key f(2))
  ultimately show ?thesis
    using assms(1) unfolding sessionsOk_def by (simp only: map_if_key f)
qed

definition goodSessions :: "world \<Rightarrow> bool" where
  "goodSessions s \<longleftrightarrow> sessionsOk (sessions s)"

interpretation goodSessions: table_invariant goodSessions
  by unfold_locales (simp add: goodSessions_def tablesOf_def)

lemma keeps_goodSessions: "keeps sessions m \<Longrightarrow> preserves goodSessions m"
  unfolding preserves_def goodSessions_def keeps_def within_def by simp

lemma statements_goodSessions:
  "preserves goodSessions (CreateSession arg)" "preserves goodSessions (RevokeAllUserSessions r n)"
  "preserves goodSessions (RevokeSession r' sid)" "preserves goodSessions (RotateSessionRefreshToken sid' h rid)"
proof -
  show "preserves goodSessions (CreateSession arg)"
  proof (rule preservesI)
    fix s r t assume "CreateSession arg s = (r, t)" "goodSessions s"
    then show "goodSessions t"
      using sessionsOk_CreateSession(1) unfolding goodSessions_def
      by (cases r) (auto simp: CreateSession_def bindM_def notNull_def readM_def failM_def returnM_def insertRow_def
          split: option.splits)
  qed
  show "preserves goodSessions (RevokeAllUserSessions r n)"
    by (rule preservesI)
      (auto simp: goodSessions_def RevokeAllUserSessions_def bindM_def updateMany_def sessionsOk_revoke split: option.splits)
  show "preserves goodSessions (RevokeSession r' sid)"
    by (rule preservesI)
      (auto simp: goodSessions_def RevokeSession_def bindM_def updateRow_def sessionsOk_revoke split: option.splits)
  show "preserves goodSessions (RotateSessionRefreshToken sid' h rid)"
  proof (rule preservesI)
    fix s r t assume run: "RotateSessionRefreshToken sid' h rid s = (r, t)" and ok: "goodSessions s"
    let ?f = "\<lambda>x. x\<lparr>se_refresh_token_hash := h,
              se_refresh_token_id := (case rid of None \<Rightarrow> se_refresh_token_id x | Some u \<Rightarrow> u),
              se_last_refreshed_at := Some (tx_now s)\<rparr>"
    show "goodSessions t"
    proof (cases r)
      case (Inl e)
      then have "t = s"
        using run by (auto simp: RotateSessionRefreshToken_def bindM_def updateRow_def split: option.splits)
      with ok show ?thesis by simp
    next
      case (Inr y)
      then obtain x where x: "find (\<lambda>x. Some (se_id x) = sid') (sessions s) = Some x"
        and un: "\<not> list_ex (\<lambda>y. se_id y \<noteq> se_id (?f x) \<and> se_refresh_token_hash y = se_refresh_token_hash (?f x)) (sessions s)"
        and t: "sessions t = map (\<lambda>x. if Some (se_id x) = sid' then ?f x else x) (sessions s)"
        using run by (auto simp: RotateSessionRefreshToken_def runs bindM_iff readM_iff)
      have "sid' = Some (se_id x)"
        using find_Some_iff2 [OF x] by simp
      then show ?thesis
        using sessionsOk_rotate [of "sessions s" "se_id x" h ?f] ok un unfolding goodSessions_def t
        by (auto simp: list_ex_iff)
    qed
  qed
qed

interpretation goodSessions_ops: statements_within "\<lambda>s t. goodSessions s \<longrightarrow> goodSessions t"
  by (unfold_locales, unfold preserves_within)
    ((rule statements_goodSessions) | (rule keeps_goodSessions, (intro frame; simp)))+

section \<open>Revocation is for ever\<close>

text \<open>
  \<open>sessionsKept s t\<close>: every session of \<open>s\<close> is still there in \<open>t\<close>, in its place, with the same user, device
  and expiry, and one that was revoked still is, since the same time and for the same reason.
\<close>

definition sessionKept :: "Session \<Rightarrow> Session \<Rightarrow> bool" where
  "sessionKept x y \<longleftrightarrow> se_id y = se_id x \<and> se_username y = se_username x \<and>
     se_device_token_hash y = se_device_token_hash x \<and> se_expires_at y = se_expires_at x \<and>
     (se_revoked_at x \<noteq> None \<longrightarrow> se_revoked_at y = se_revoked_at x)"

definition sessionsKept :: "world \<Rightarrow> world \<Rightarrow> bool" where
  "sessionsKept s t \<longleftrightarrow> (\<exists>ys zs. sessions t = ys @ zs \<and> list_all2 sessionKept (sessions s) ys)"

lemma sessionKept_refl [simp]: "sessionKept x x"
  by (simp add: sessionKept_def)

lemma sessionKept_trans: "sessionKept x y \<Longrightarrow> sessionKept y z \<Longrightarrow> sessionKept x z"
  by (simp add: sessionKept_def)

interpretation sessionsKept: table_relation sessionsKept
proof
  show "sessionsKept s s" for s
    unfolding sessionsKept_def by (intro exI [of _ "sessions s"] exI [of _ "[]"]) (simp add: list_all2_refl)
  show "sessionsKept s u" if st: "sessionsKept s t" and tu: "sessionsKept t u" for s t u
  proof -
    obtain ys zs where a: "sessions t = ys @ zs" "list_all2 sessionKept (sessions s) ys"
      using st unfolding sessionsKept_def by blast
    obtain vs ws where b: "sessions u = vs @ ws" "list_all2 sessionKept (ys @ zs) vs"
      using tu a(1) unfolding sessionsKept_def by auto
    obtain v1 v2 where c: "vs = v1 @ v2" "list_all2 sessionKept ys v1"
      using b(2) unfolding list_all2_append1 by blast
    have "list_all2 sessionKept (sessions s) v1"
      using a(2) c(2) by (rule list_all2_trans [rotated]) (rule sessionKept_trans)
    with b(1) c(1) show ?thesis
      unfolding sessionsKept_def by (intro exI [of _ v1] exI [of _ "v2 @ ws"]) simp
  qed
  show "sessionsKept s' t'" if "tablesOf s = tablesOf s'" "tablesOf t = tablesOf t'" "sessionsKept s t" for s s' t t'
    using that by (simp add: sessionsKept_def tablesOf_def)
qed

lemma keeps_sessionsKept: "keeps sessions m \<Longrightarrow> within sessionsKept m"
  unfolding keeps_def within_def sessionsKept_def
  by (metis append_Nil2 list_all2_refl sessionKept_refl)

lemma update_kept:
  assumes "\<And>x. p x \<Longrightarrow> sessionKept x (f x)"
  shows "sessionsKept s (sessions_update (map (\<lambda>x. if p x then f x else x)) s)"
  unfolding sessionsKept_def
  by (intro exI [of _ "map (\<lambda>x. if p x then f x else x) (sessions s)"] exI [of _ "[]"])
    (simp add: list_all2_conv_all_nth assms)

lemma revoke_kept: "se_revoked_at x = None \<Longrightarrow> sessionKept x (revokeRow now r x)"
  by (simp add: sessionKept_def revokeRow_def)

lemma statements_kept:
  "within sessionsKept (CreateSession arg)" "within sessionsKept (RevokeAllUserSessions r n)"
  "within sessionsKept (RevokeSession r' sid)" "within sessionsKept (RotateSessionRefreshToken sid' h rid)"
proof -
  have ins: "sessionsKept s (sessions_update (\<lambda>t. t @ [x]) s)" for s x
    unfolding sessionsKept_def by (intro exI [of _ "sessions s"] exI [of _ "[x]"]) (simp add: list_all2_refl)
  have "within sessionsKept (insertRow checks sessions_update x)" for checks x
    unfolding within_def insertRow_def by (simp add: sessionsKept.refl ins split: option.split)
  moreover have quiet: "within sessionsKept (notNull c v)" for c and v :: "'z option"
    by (rule keeps_sessionsKept) (intro frame)
  ultimately show "within sessionsKept (CreateSession arg)"
    unfolding CreateSession_def
    by (intro sessionsKept.rules keeps_sessionsKept [OF primitive_frame(4)])
  show "within sessionsKept (RevokeAllUserSessions r n)"
    unfolding RevokeAllUserSessions_def within_def bindM_def readM_def updateMany_def
    by (auto simp: sessionsKept.refl intro!: update_kept revoke_kept split: option.split)
  show "within sessionsKept (RevokeSession r' sid)"
    unfolding RevokeSession_def within_def bindM_def readM_def updateRow_def
    by (auto simp: sessionsKept.refl intro!: update_kept revoke_kept split: option.split)
  show "within sessionsKept (RotateSessionRefreshToken sid' h rid)"
    unfolding RotateSessionRefreshToken_def within_def bindM_def readM_def updateRow_def
    by (auto simp: sessionsKept.refl sessionKept_def intro!: update_kept simp del: firstError.simps split: option.split)
qed

interpretation sessionsKept_ops: statements_within sessionsKept
  by unfold_locales ((rule statements_kept) | (rule keeps_sessionsKept, (intro frame; simp)))+

section \<open>Logging in\<close>

lemma audits_keep_sessions:
  "forM xs (\<lambda>x. createSessionAudit x ev actor fs ts) s = (r, t) \<Longrightarrow> sessions t = sessions s"
  "createSessionAudit x ev actor fs ts s = (r', t) \<Longrightarrow> sessions t = sessions s"
  "createFinancialAudit fa s = (r'', t) \<Longrightarrow> sessions t = sessions s"
  by (rule keepsD [rotated], assumption, intro frame; simp)+

text \<open>After a login the new session is the user's only one that is not revoked.\<close>

lemma login_replaces:
  assumes run: "CreateExclusiveSessionTx arg s = (Inr x, s')" and ok: "goodSessions s"
  shows "activeOf (cs_Username arg) (sessions s') = [x]"
    and "filter (\<lambda>y. se_username y \<noteq> cs_Username arg) (sessions s') = filter (\<lambda>y. se_username y \<noteq> cs_Username arg) (sessions s)"
    and "Some (se_id x) = cs_ID arg" "se_refresh_token_hash x = cs_RefreshTokenHash arg"
proof -
  have "exclusiveSessionBody arg (startTx s) = (Inr x, s')"
    using run unfolding CreateExclusiveSessionTx_def by (rule execTx_ok)
  then obtain u s1 replaced s2 x1 s3 s4 x2 s5 x3 where get: "GetUserForUpdate (cs_Username arg) (startTx s) = (Inr u, s1)"
    and revoke: "RevokeAllUserSessions (textValue ''replaced_by_new_login'') (cs_Username arg) s1 = (Inr replaced, s2)"
    and a1: "forM replaced (\<lambda>session. createSessionAudit session ''session_replaced_by_login'' ''user'' ''active'' ''revoked'') s2 = (Inr x1, s3)"
    and create: "CreateSession arg s3 = (Inr x, s4)"
    and a2: "createSessionAudit x ''session_created'' ''user'' '''' ''active'' s4 = (Inr x2, s5)"
    and a3: "\<exists>fa. createFinancialAudit fa s5 = (Inr x3, s')"
    unfolding exclusiveSessionBody_def by (elim run_elims) blast
  have s1: "s1 = startTx s"
    using get by (auto simp: GetUserForUpdate_def runs)
  let ?old = "\<lambda>y. se_username y = cs_Username arg \<and> se_revoked_at y = None"
  have s3: "sessions s3 = map (\<lambda>y. if ?old y then revokeRow (tx_now s1) (textValue ''replaced_by_new_login'') y else y) (sessions s)"
    using revoke audits_keep_sessions(1) [OF a1] s1 by (simp add: RevokeAllUserSessions_def runs)
  have "goodSessions s3"
    using ok unfolding goodSessions_def s3 by (rule sessionsOk_revoke)
  note c = sessionsOk_CreateSession [OF create this [unfolded goodSessions_def]]
  have s': "sessions s' = sessions s3 @ [x]"
    using c(2) audits_keep_sessions(2) [OF a2] a3 audits_keep_sessions(3) by auto
  have none: "activeOf (cs_Username arg) (sessions s3) = []"
    unfolding activeOf_def s3 by (auto simp: filter_empty_conv revokeRow_def)
  then show "activeOf (cs_Username arg) (sessions s') = [x]"
    using c(3,4) unfolding s' by (simp add: activeOf_def)
  have "filter (\<lambda>y. se_username y \<noteq> cs_Username arg) (map (\<lambda>y. if ?old y then f y else y) ys) =
      filter (\<lambda>y. se_username y \<noteq> cs_Username arg) ys" if "\<And>y. se_username (f y) = se_username y" for f ys
    by (induction ys) (simp_all add: that)
  from this [of "revokeRow (tx_now s1) (textValue ''replaced_by_new_login'')" "sessions s"]
  show "filter (\<lambda>y. se_username y \<noteq> cs_Username arg) (sessions s') = filter (\<lambda>y. se_username y \<noteq> cs_Username arg) (sessions s)"
    using c(3) unfolding s' s3 by simp
  show "Some (se_id x) = cs_ID arg" "se_refresh_token_hash x = cs_RefreshTokenHash arg"
    by (fact c)+
qed

section \<open>Refresh tokens\<close>

text \<open>A rotation that returns a session has checked the token, the user, the device and the expiry.\<close>

lemma rotate_ok:
  assumes run: "RotateRefreshTokenTx arg s = (Inr y, s')" and ok: "goodSessions s"
  obtains x where "x \<in> set (sessions s)" "Some (se_id x) = rr_SessionID arg" "se_username x = rr_Username arg"
    "se_revoked_at x = None" "clockAt (envir s) (clock_ctr s + 1) < se_expires_at x"
    "se_device_token_hash x = rr_PresentedDeviceHash arg" "se_refresh_token_hash x = rr_PresentedTokenHash arg"
    "Some (se_refresh_token_id x) = rr_PresentedRefreshID arg"
    "y = x\<lparr>se_refresh_token_hash := rr_NewTokenHash arg, se_refresh_token_id := the (rr_NewRefreshID arg),
           se_last_refreshed_at := Some (clockAt (envir s) (clock_ctr s))\<rparr>"
    "sessions s' = map (\<lambda>z. if se_id z = se_id x then y else z) (sessions s)"
proof -
  obtain r where tx: "execTx (rotateBody arg) s = (Inr r, s')" "r = Some y"
    using run unfolding RotateRefreshTokenTx_def by (auto simp: bindM_iff failM_def returnM_def split: option.splits)
  have body: "rotateBody arg (startTx s) = (Inr (Some y), s')"
    using execTx_ok(1) [OF tx(1)] tx(2) by simp
  obtain x s1 where get: "GetSessionForUpdate (rr_SessionID arg) (startTx s) = (Inr x, s1)"
    using body unfolding rotateBody_def bindM_iff by blast
  have x: "x \<in> set (sessions s)" "Some (se_id x) = rr_SessionID arg" and s1: "s1 = startTx s"
    using get by (auto simp: GetSessionForUpdate_def runs dest: find_Some_iff2)
  have "rotateBody arg (startTx s) = (Inr (Some y), s')"
    by (fact body)
  with get s1 obtain x2 where user: "se_username x = rr_Username arg" "se_revoked_at x = None"
      "clockAt (envir s) (clock_ctr s + 1) < se_expires_at x" "se_device_token_hash x = rr_PresentedDeviceHash arg"
      "se_refresh_token_hash x = rr_PresentedTokenHash arg" "Some (se_refresh_token_id x) = rr_PresentedRefreshID arg"
    and rot: "\<exists>t2. RotateSessionRefreshToken (rr_SessionID arg) (rr_NewTokenHash arg) (rr_NewRefreshID arg)
        ((startTx s)\<lparr>clock_ctr := clock_ctr s + 2\<rparr>) = (Inr y, t2) \<and>
        createSessionAudit y ''refresh_token_rotated'' ''user'' ''active'' ''active'' t2 = (Inr x2, s')"
    unfolding rotateBody_def Let_def
    by (auto simp: bindM_iff failIf_iff timeNow_iff returnM_iff constantTimeHashEqual_def startTx_def split: if_splits)
  from rot obtain t2 where rot: "RotateSessionRefreshToken (rr_SessionID arg) (rr_NewTokenHash arg) (rr_NewRefreshID arg)
        ((startTx s)\<lparr>clock_ctr := clock_ctr s + 2\<rparr>) = (Inr y, t2)"
    and au: "createSessionAudit y ''refresh_token_rotated'' ''user'' ''active'' ''active'' t2 = (Inr x2, s')" by blast
  have ids: "distinct (map se_id (sessions s))"
    using ok by (simp add: goodSessions_def sessionsOk_def)
  let ?f = "\<lambda>x. x\<lparr>se_refresh_token_hash := rr_NewTokenHash arg,
      se_refresh_token_id := (case rr_NewRefreshID arg of None \<Rightarrow> se_refresh_token_id x | Some u \<Rightarrow> u),
      se_last_refreshed_at := Some (clockAt (envir s) (clock_ctr s))\<rparr>"
  have fx: "find (\<lambda>z. Some (se_id z) = rr_SessionID arg) (sessions s) = Some x"
    using x find_key [OF ids, of "se_id x" x] by (simp add: x(2) [symmetric])
  have y: "y = ?f x" "rr_NewRefreshID arg \<noteq> None" "sessions t2 = map (\<lambda>z. if Some (se_id z) = rr_SessionID arg then ?f z else z) (sessions s)"
    using rot fx by (auto simp: RotateSessionRefreshToken_def bindM_iff readM_iff updateRow_iff)
  have "sessions s' = map (\<lambda>z. if se_id z = se_id x then y else z) (sessions s)"
    using audits_keep_sessions(2) [OF au] y(3) unfolding y(1)
    by (auto simp: x(2) [symmetric] dest: find_key_inject [OF ids _ x(1)])
  with x user y show thesis
    by (intro that [of x]) auto
qed

text \<open>An audit record can be written: its number is in range and not taken.\<close>

definition auditReady :: "world \<Rightarrow> bool" where
  "auditReady s \<longleftrightarrow> in_int64 (audit_logs_id_seq s) \<and> audit_logs_id_seq s \<notin> au_id ` set (audit_logs s)"

lemma createSessionAudit_total:
  assumes "auditReady s"
  obtains t where "createSessionAudit x ev actor fs ts s = (Inr (), t)" "sessions t = sessions s"
    "banking_transactions t = banking_transactions s" "ledger_postings t = ledger_postings s"
proof -
  have "firstError (auditChecks (audit_logs_id_seq_update (\<lambda>n. n + 1) s) a) = None" if "au_id a = audit_logs_id_seq s" for a
    using assms that by (auto simp: auditReady_def auditChecks_def list_ex_iff image_iff)
  then have "\<exists>t. createSessionAudit x ev actor fs ts s = (Inr (), t)"
    using assms unfolding createSessionAudit_def CreateAuditLog_def
    by (simp add: bindM_def nextval_def auditReady_def notNull_def returnM_def readM_def insertRow_def
        del: firstError_None)
  then obtain t where run: "createSessionAudit x ev actor fs ts s = (Inr (), t)" ..
  show thesis
    by (rule that [OF run]) (rule keepsD [OF createSessionAudit_frame run], simp)+
qed

text \<open>A token that is not the session's current one revokes the session.\<close>

lemma reuse_revokes:
  assumes x: "x \<in> set (sessions s)" "Some (se_id x) = rr_SessionID arg" and ok: "goodSessions s"
    and live: "se_username x = rr_Username arg" "se_revoked_at x = None"
      "clockAt (envir s) (clock_ctr s + 1) < se_expires_at x" "se_device_token_hash x = rr_PresentedDeviceHash arg"
    and stale: "se_refresh_token_hash x \<noteq> rr_PresentedTokenHash arg \<or> Some (se_refresh_token_id x) \<noteq> rr_PresentedRefreshID arg"
    and fault: "beginFault (envir s) (tx_ctr s) = None" "commitFault (envir s) (tx_ctr s) = None" and audit: "auditReady s"
  obtains s' where "RotateRefreshTokenTx arg s = (Inl ErrRefreshTokenReuse, s')"
    "sessions s' = map (\<lambda>z. if se_id z = se_id x
       then revokeRow (clockAt (envir s) (clock_ctr s)) (Some ''refresh_token_reuse'') z else z) (sessions s)"
proof -
  have ids: "distinct (map se_id (sessions s))"
    using ok by (simp add: goodSessions_def sessionsOk_def)
  let ?now = "clockAt (envir s) (clock_ctr s)" and ?p = "\<lambda>z. Some (se_id z) = rr_SessionID arg \<and> se_revoked_at z = None"
  let ?t = "(startTx s)\<lparr>clock_ctr := clock_ctr s + 2\<rparr>"
  let ?u = "sessions_update (map (\<lambda>z. if ?p z then revokeRow ?now (Some ''refresh_token_reuse'') z else z)) ?t"
  have find_x: "find (\<lambda>z. Some (se_id z) = rr_SessionID arg) (sessions s) = Some x"
    using x find_key [OF ids, of "se_id x" x] by (simp add: x(2) [symmetric])
  have "find ?p (sessions s) = Some x"
    using find_x live(2) by (auto simp: find_Some_iff)
  then have revoke: "RevokeSession (textValue ''refresh_token_reuse'') (rr_SessionID arg) ?t =
      (Inr (revokeRow ?now (Some ''refresh_token_reuse'') x), ?u)"
    by (simp add: RevokeSession_def bindM_def updateRow_def textValue_def)
  have "auditReady ?u"
    using audit by (simp add: auditReady_def startTx_def)
  then obtain v where au: "createSessionAudit x ''refresh_token_reuse_detected'' ''security'' ''active'' ''revoked'' ?u = (Inr (), v)"
    and v: "sessions v = sessions ?u" "banking_transactions v = banking_transactions ?u" "ledger_postings v = ledger_postings ?u"
    by (rule createSessionAudit_total)
  have "GetSessionForUpdate (rr_SessionID arg) (startTx s) = (Inr x, startTx s)"
    using find_x by (simp add: GetSessionForUpdate_def selectOne_def)
  moreover have "timeNow (startTx s) = (Inr (clockAt (envir s) (clock_ctr s + 1)), ?t)"
    by (simp add: timeNow_def startTx_def)
  ultimately have "rotateBody arg (startTx s) = (Inr None, v)"
    using live stale revoke au unfolding rotateBody_def
    by (simp add: bindM_run constantTimeHashEqual_def Let_def)
  then have "execTx (rotateBody arg) s = (Inr None, v)"
    using fault v(2,3) by (intro execTx_through) (simp_all add: deferredChecks_none)
  then have "RotateRefreshTokenTx arg s = (Inl ErrRefreshTokenReuse, v)"
    by (simp add: RotateRefreshTokenTx_def bindM_def failM_def)
  moreover have "sessions v = map (\<lambda>z. if se_id z = se_id x
       then revokeRow ?now (Some ''refresh_token_reuse'') z else z) (sessions s)"
    using v(1) live(2) by (auto simp: x(2) [symmetric] dest: find_key_inject [OF ids _ x(1)])
  ultimately show thesis by (rule that)
qed

end
