(* ===== verification/Keys.thy ===== *)
theory Keys
  imports Closure
begin

text \<open>
  Invariants of the tables around the ledger: users, mail jobs and outbox events, saved beneficiaries.
  Each is proved for the statements that write the table and holds of every operation by \<open>Closure\<close>.
\<close>

section \<open>Users\<close>

text \<open>User names are unique, and an account is active exactly when its address is verified.\<close>

definition userRowOk :: "User \<Rightarrow> bool" where
  "userRowOk u \<longleftrightarrow> (us_account_status u = ''active'' \<longleftrightarrow> us_email_verified_at u \<noteq> None)"

definition usersOk :: "world \<Rightarrow> bool" where
  "usersOk s \<longleftrightarrow> distinct (map us_username (users s)) \<and> list_all userRowOk (users s)"

interpretation usersOk: table_invariant usersOk
  by unfold_locales (simp add: usersOk_def tablesOf_def)

lemma keeps_usersOk: "keeps users m \<Longrightarrow> preserves usersOk m"
  unfolding preserves_def usersOk_def keeps_def within_def by simp

lemma users_changed:
  assumes "\<And>u. us_username (f u) = us_username u" "\<And>u. p u \<Longrightarrow> userRowOk u \<Longrightarrow> userRowOk (f u)" "usersOk s"
  shows "usersOk (users_update (map (\<lambda>u. if p u then f u else u)) s)"
  using assms by (auto simp: usersOk_def map_if_key list_all_iff simp del: map_map)

lemma updateUserRow_usersOk:
  assumes "\<And>u. us_username (f u) = us_username u" "\<And>u. p u \<Longrightarrow> userRowOk u \<Longrightarrow> userRowOk (f u)"
  shows "preserves usersOk (updateUserRow p f)" "preserves usersOk (updateMany rchecks users users_update p f)"
  unfolding updateUserRow_def using users_changed [OF assms] by (auto intro: row_writes_preserve)

lemma user_writes_usersOk:
  "preserves usersOk (CreateUser un hp fn em)" "preserves usersOk (UpdateUser a b c d)"
  "preserves usersOk (DisableExpiredPendingUser un3)" "preserves usersOk DisableExpiredPendingUsers"
  "preserves usersOk (MarkUserEmailVerified un4 em')" "preserves usersOk (RestartUserEmailVerification un5)"
  "preserves usersOk (UpdateCurrentUserEmailDeliverability st t1 t2 un6 em2)"
proof -
  show "preserves usersOk (CreateUser un hp fn em)"
    unfolding CreateUser_def
    by (intro preserves_rules row_writes_preserve) (auto simp: usersOk_def userRowOk_def userInsertChecks_def list_ex_iff)
  show "preserves usersOk DisableExpiredPendingUsers"
    unfolding DisableExpiredPendingUsers_def
    by (intro preserves_rules updateUserRow_usersOk) (auto simp: userRowOk_def expiredPending_def)
  show "preserves usersOk (UpdateUser a b c d)"
    unfolding UpdateUser_def Let_def by (intro preserves_rules updateUserRow_usersOk) (auto simp: userRowOk_def)
  show "preserves usersOk (DisableExpiredPendingUser un3)"
    unfolding DisableExpiredPendingUser_def
    by (intro preserves_rules updateUserRow_usersOk) (auto simp: userRowOk_def expiredPending_def)
  show "preserves usersOk (MarkUserEmailVerified un4 em')"
    unfolding MarkUserEmailVerified_def
    by (intro preserves_rules updateUserRow_usersOk) (auto simp: userRowOk_def split: option.split)
  show "preserves usersOk (RestartUserEmailVerification un5)"
    unfolding RestartUserEmailVerification_def
    by (intro preserves_rules updateUserRow_usersOk) (auto simp: userRowOk_def)
  show "preserves usersOk (UpdateCurrentUserEmailDeliverability st t1 t2 un6 em2)"
    unfolding UpdateCurrentUserEmailDeliverability_def
    by (intro preserves_rules updateUserRow_usersOk) (auto simp: userRowOk_def)
qed

interpretation usersOk_ops: statements_within "\<lambda>s t. usersOk s \<longrightarrow> usersOk t"
  by (unfold_locales, unfold preserves_within)
    ((rule user_writes_usersOk) | (rule keeps_usersOk, (intro frame; simp)))+

section \<open>Mail\<close>

text \<open>
  The keys of mail jobs and outbox events are unique, and every event has a job of its own.
\<close>

definition mailOk :: "world \<Rightarrow> bool" where
  "mailOk s \<longleftrightarrow> distinct (map ej_id (email_jobs s)) \<and> distinct (map ob_id (outbox_events s)) \<and>
     distinct (map ob_email_job_id (outbox_events s)) \<and>
     ob_email_job_id ` set (outbox_events s) \<subseteq> ej_id ` set (email_jobs s)"

interpretation mailOk: table_invariant mailOk
  by unfold_locales (simp add: mailOk_def tablesOf_def)

definition mailTables :: "world \<Rightarrow> EmailJob list \<times> OutboxEvent list" where
  "mailTables s = (email_jobs s, outbox_events s)"

lemma keeps_mailOk: "keeps mailTables m \<Longrightarrow> preserves mailOk m"
  unfolding preserves_def mailOk_def keeps_def within_def mailTables_def by simp

lemma map_if_image: "(\<And>x. key (f x) = key x) \<Longrightarrow> key ` set (map (\<lambda>x. if p x then f x else x) xs) = key ` set xs"
  using map_if_key [of key f p xs] by (metis list.set_map)

lemma mail_changed:
  "(\<And>x. jobFacts (f x) = jobFacts x) \<Longrightarrow> mailOk s \<Longrightarrow>
     mailOk (email_jobs_update (map (\<lambda>x. if p x then f x else x)) s)"
  "(\<And>x. eventFacts (g x) = eventFacts x) \<Longrightarrow> mailOk s \<Longrightarrow>
     mailOk (outbox_events_update (map (\<lambda>x. if q x then g x else x)) s)"
  by (simp_all add: mailOk_def map_if_key map_if_image jobFacts_def eventFacts_def del: map_map set_map)

lemma mail_inserts:
  "preserves mailOk (insertRow emailJobInsertChecks email_jobs_update j)"
  "preserves mailOk (insertRow outboxInsertChecks outbox_events_update e)"
proof -
  show "preserves mailOk (insertRow emailJobInsertChecks email_jobs_update j)"
    by (rule row_writes_preserve) (auto simp: mailOk_def dest: email_job_ids.key_checked)
  show "preserves mailOk (insertRow outboxInsertChecks outbox_events_update e)"
    by (rule row_writes_preserve) (auto simp: mailOk_def outboxInsertChecks_def list_ex_iff intro: rev_image_eqI)
qed

lemma mail_updates:
  "(\<And>x. jobFacts (f x) = jobFacts x) \<Longrightarrow>
     preserves mailOk (updateRow ErrNoRows emailJobRowChecks email_jobs email_jobs_update p f)"
  "(\<And>x. eventFacts (g x) = eventFacts x) \<Longrightarrow>
     preserves mailOk (updateRow ErrNoRows (\<lambda>s. outboxRowChecks) outbox_events outbox_events_update q g)"
  "(\<And>x. eventFacts (g x) = eventFacts x) \<Longrightarrow>
     preserves mailOk (updateMany outboxRowChecks outbox_events outbox_events_update q g)"
  by (intro row_writes_preserve mail_changed, assumption+)+

lemma mail_deletes:
  "preserves mailOk (DeleteExpiredSentEmailJobs sb)" "preserves mailOk (DeleteExpiredPublishedOutboxEvents pb)"
proof -
  let ?doomed = "\<lambda>j. ej_status j = ''sent'' \<and> before (ej_sent_at j) sb"
  have kept: "mailOk (email_jobs_update (filter (\<lambda>j. \<not> ?doomed j)) s)"
    if "mailOk s" "\<not> list_ex (\<lambda>e. list_ex (\<lambda>g. ob_email_job_id e = ej_id g) (filter ?doomed (email_jobs s))) (outbox_events s)" for s
    using that by (fastforce simp: mailOk_def list_ex_iff distinct_map_filter)
  show "preserves mailOk (DeleteExpiredSentEmailJobs sb)"
    unfolding preserves_def
  proof (intro allI impI)
    fix s
    assume ok: "mailOk s"
    show "mailOk (snd (DeleteExpiredSentEmailJobs sb s))"
      using ok kept [OF ok]
      by (simp add: DeleteExpiredSentEmailJobs_def Let_def bindM_def readM_def checkM_def deleteWhere_def failM_def returnM_def)
  qed
  show "preserves mailOk (DeleteExpiredPublishedOutboxEvents pb)"
    unfolding DeleteExpiredPublishedOutboxEvents_def
    by (rule row_writes_preserve) (auto simp: mailOk_def distinct_map_filter)
qed

interpretation mailOk_ops: statements_within "\<lambda>s t. mailOk s \<longrightarrow> mailOk t"
  by (unfold_locales, unfold preserves_within)
    ((rule mail_inserts mail_deletes) | (rule mail_updates, assumption) | (rule keeps_mailOk, (intro frame; simp add: mailTables_def)))+

section \<open>Beneficiaries\<close>

text \<open>No owner has saved a destination twice.\<close>

definition beneficiariesOk :: "world \<Rightarrow> bool" where
  "beneficiariesOk s \<longleftrightarrow> distinct (map be_id (beneficiaries s)) \<and>
     distinct (map (\<lambda>b. (be_owner b, be_destination_account_id b)) (beneficiaries s))"

interpretation beneficiariesOk: table_invariant beneficiariesOk
  by unfold_locales (simp add: beneficiariesOk_def tablesOf_def)

lemma keeps_beneficiariesOk: "keeps beneficiaries m \<Longrightarrow> preserves beneficiariesOk m"
  unfolding preserves_def beneficiariesOk_def keeps_def within_def by simp

lemma beneficiary_writes_ok:
  "preserves beneficiariesOk (CreateBeneficiary ow aid nick)" "preserves beneficiariesOk (DeleteOwnedBeneficiary bid ow')"
  "preserves beneficiariesOk (UpdateOwnedBeneficiaryNickname nick' bid' ow2)"
proof -
  show "preserves beneficiariesOk (CreateBeneficiary ow aid nick)"
    unfolding CreateBeneficiary_def
    by (intro preserves_rules row_writes_preserve, rule keeps_beneficiariesOk, intro frame, simp)
      (auto simp: beneficiariesOk_def beneficiaryInsertChecks_def list_ex_iff)
  show "preserves beneficiariesOk (DeleteOwnedBeneficiary bid ow')"
    unfolding DeleteOwnedBeneficiary_def
    by (rule row_writes_preserve) (simp add: beneficiariesOk_def distinct_map_filter)
  show "preserves beneficiariesOk (UpdateOwnedBeneficiaryNickname nick' bid' ow2)"
    unfolding UpdateOwnedBeneficiaryNickname_def
    by (intro preserves_rules row_writes_preserve) (simp_all add: beneficiariesOk_def map_if_key del: map_map)
qed

interpretation beneficiariesOk_ops: statements_within "\<lambda>s t. beneficiariesOk s \<longrightarrow> beneficiariesOk t"
  by (unfold_locales, unfold preserves_within)
    ((rule beneficiary_writes_ok) | (rule keeps_beneficiariesOk, (intro frame; simp)))+

end
