(* ===== verification/Bank.thy ===== *)
theory Bank
  imports History SessionRules Keys
begin

text \<open>
  The whole store: the operations the servers and the operator's commands call, one after the other,
  on a database the migrations have just created, and the invariants of every state they reach.
  Reads change nothing and are left out.
\<close>

definition settlementAccount :: "int \<Rightarrow> string \<Rightarrow> uuid \<Rightarrow> LedgerAccount" where
  "settlementAccount lid currency u =
     \<lparr>la_id = lid, la_public_id = u, la_customer_account_id = None, la_code = Some (''settlement:'' @ currency),
      la_kind = ''settlement'', la_currency = currency, la_created_at = 0\<rparr>"

definition initialWorld :: "env \<Rightarrow> User list \<Rightarrow> world" where
  \<comment> \<open>After migration 14: the settlement ledgers of the two currencies, and nothing else but users.\<close>
  "initialWorld e us =
     \<lparr>envir = e, users = us, accounts = [],
      ledger_accounts = [settlementAccount 1 ''USD'' 1, settlementAccount 2 ''EUR'' 2],
      banking_transactions = [], ledger_postings = [], idempotency_keys = [], audit_logs = [],
      email_jobs = [], outbox_events = [], email_delivery_events = [], sessions = [], beneficiaries = [],
      accounts_id_seq = 1, ledger_accounts_id_seq = 3, ledger_postings_id_seq = 1,
      idempotency_keys_id_seq = 1, audit_logs_id_seq = 1, uuid_ctr = 0, clock_ctr = 0, rand_ctr = 0,
      tx_ctr = 0, tx_now = 0, reconciliationDrift = 0\<rparr>"

datatype operation =
    OpCreateAccount CreateAccountTxParams
  | OpCloseAccount CloseAccountTxParams
  | OpTransfer TransferTxParams
  | OpIdempotentTransfer IdempotentTransferTxParams
  | OpDeposit DepositTxParams
  | OpWithdraw WithdrawTxParams
  | OpSetAccountStatus AccountStatusTxParams
  | OpReverseTransaction ReverseTransactionTxParams
  | OpReconcile ReconciliationParams
  | OpLoginFailure LoginFailureAuditParams
  | OpDeleteExpiredKeys
  | OpCreateUser CreateUserParams
  | OpUpdateUser UpdateUserTxParams
  | OpVerifyUserEmail VerifyUserEmailTxParams
  | OpRequestEmailVerification string
  | OpReplayEmailJob "uuid option"
  | OpDisableExpiredPendingUser string
  | OpCreateExclusiveSession CreateSessionParams
  | OpRotateRefreshToken RotateRefreshTokenTxParams
  | OpRevokeSession "uuid option" string string string
  | OpRevokeAllUserSessions string string string
  | OpProcessEmailDeliveryEvent ProcessEmailDeliveryEventParams
  | OpCreateBeneficiary CreateBeneficiaryTxParams
  | OpUpdateBeneficiaryNickname string "uuid option" string
  | OpDeleteBeneficiary "uuid option" string
  | OpPublishBatch services RelayConfig
  | OpCleanup RelayConfig
  | OpSendEmail services RedisTaskProcessor json
  | OpTaskFailed services json error "int option" "int option"

fun perform :: "operation \<Rightarrow> world \<Rightarrow> world" where
  "perform (OpCreateAccount a) s = snd (CreateAccountTx a s)"
| "perform (OpCloseAccount a) s = snd (CloseAccountTx a s)"
| "perform (OpTransfer a) s = snd (TransferTx a s)"
| "perform (OpIdempotentTransfer a) s = snd (IdempotentTransferTx a s)"
| "perform (OpDeposit a) s = snd (DepositTx a s)"
| "perform (OpWithdraw a) s = snd (WithdrawTx a s)"
| "perform (OpSetAccountStatus a) s = snd (SetAccountStatusTx a s)"
| "perform (OpReverseTransaction a) s = snd (ReverseTransactionTx a s)"
| "perform (OpReconcile a) s = snd (Reconcile a s)"
| "perform (OpLoginFailure a) s = snd (RecordLoginFailure a s)"
| "perform OpDeleteExpiredKeys s = snd (autocommit DeleteExpiredIdempotencyKeys s)"
| "perform (OpCreateUser a) s = snd (CreateUserTx a s)"
| "perform (OpUpdateUser a) s = snd (UpdateUserTx a s)"
| "perform (OpVerifyUserEmail a) s = snd (VerifyUserEmailTx a s)"
| "perform (OpRequestEmailVerification n) s = snd (RequestEmailVerificationTx n s)"
| "perform (OpReplayEmailJob j) s = snd (ReplayEmailJobTx j s)"
| "perform (OpDisableExpiredPendingUser n) s = snd (autocommit (DisableExpiredPendingUser n) s)"
| "perform (OpCreateExclusiveSession a) s = snd (CreateExclusiveSessionTx a s)"
| "perform (OpRotateRefreshToken a) s = snd (RotateRefreshTokenTx a s)"
| "perform (OpRevokeSession i h r a) s = snd (RevokeSessionTx i h r a s)"
| "perform (OpRevokeAllUserSessions n r e) s = snd (RevokeAllUserSessionsTx n r e s)"
| "perform (OpProcessEmailDeliveryEvent a) s = snd (ProcessEmailDeliveryEventTx a s)"
| "perform (OpCreateBeneficiary a) s = snd (CreateBeneficiaryTx a s)"
| "perform (OpUpdateBeneficiaryNickname k i n) s = snd (autocommit (UpdateOwnedBeneficiaryNickname k i n) s)"
| "perform (OpDeleteBeneficiary i n) s = snd (autocommit (DeleteOwnedBeneficiary i n) s)"
| "perform (OpPublishBatch sv c) s = snd (publishBatch sv c s)"
| "perform (OpCleanup c) s = snd (cleanup c s)"
| "perform (OpSendEmail sv p t) s = snd (ProcessTaskSendEmail sv p t s)"
| "perform (OpTaskFailed sv t e r m) s = snd (handleError sv t e r m s)"

inductive reachable :: "env \<Rightarrow> world \<Rightarrow> bool" for e :: env where
  start: "reachable e (initialWorld e [])"
| step: "reachable e s \<Longrightarrow> reachable e (perform op s)"

inductive later :: "world \<Rightarrow> world \<Rightarrow> bool" where
  now: "later s s"
| after: "later s t \<Longrightarrow> later s (perform op t)"

section \<open>Every operation keeps the books and extends the history\<close>

lemma initial_books: "books (initialWorld e us)"
  by (simp add: initialWorld_def booksOk_def ledgerRowOk_def settlementAccount_def reversalsOk_def in_int64_def)

text \<open>Sign-in, sign-up, mail and beneficiaries leave the books alone.\<close>

lemma bookFields [simp]:
  "tableField bookTables" "unnoticed bookTables" "bookTables (users_update g s) = bookTables s"
  "bookTables (sessions_update h s) = bookTables s" "bookTables (beneficiaries_update k s) = bookTables s"
  "bookTables (email_delivery_events_update l s) = bookTables s" "bookTables (uuid_ctr_update c s) = bookTables s"
  "bookTables (idempotency_keys_update i s) = bookTables s"
  by (simp_all add: bookTables_def tableField_def tablesOf_def unnoticed_def)

lemma other_domains_books:
  "preserves books (CreateExclusiveSessionTx cs)" "preserves books (RotateRefreshTokenTx rt)"
  "preserves books (RevokeSessionTx sid h r a)" "preserves books (RevokeAllUserSessionsTx n r' ev)"
  "preserves books (CreateUserTx cu)" "preserves books (VerifyUserEmailTx vu)"
  "preserves books (RequestEmailVerificationTx n')" "preserves books (UpdateUserTx uu)" "preserves books (ReplayEmailJobTx jid)"
  "preserves books (ProcessEmailDeliveryEventTx de)" "preserves books (CreateBeneficiaryTx cb)"
  "preserves books (autocommit (DeleteOwnedBeneficiary bid ow))"
  "preserves books (autocommit (UpdateOwnedBeneficiaryNickname nick bid ow))"
  "preserves books (publishBatch sv c)" "preserves books (cleanup c)"
  "preserves books (ProcessTaskSendEmail sv rp task)" "preserves books (handleError sv task e rt' m)"
  by (intro keeps_preserves_books frame; simp)+

lemma quiet_books:
  "preserves books (Reconcile ra)" "preserves books (RecordLoginFailure lf)"
  "preserves books (autocommit DeleteExpiredIdempotencyKeys)"
  "preserves books (autocommit (DisableExpiredPendingUser n))"
proof -
  have drift: "bookTables (reconciliationDrift_update g s) = bookTables s" for g s
    by (simp add: bookTables_def)
  show "preserves books (Reconcile ra)"
    by (intro keeps_preserves_books Reconcile_frame drift; simp)
  show "preserves books (RecordLoginFailure lf)"
    by (intro keeps_preserves_books RecordLoginFailure_frame; simp)
  show "preserves books (autocommit DeleteExpiredIdempotencyKeys)"
    "preserves books (autocommit (DisableExpiredPendingUser n))"
    by (intro keeps_preserves_books frame; simp)+
qed

lemmas operations_books =
  CreateAccountTx_books CloseAccountTx_books TransferTx_books IdempotentTransferTx_books DepositTx_books
  WithdrawTx_books SetAccountStatusTx_books ReverseTransactionTx_books quiet_books other_domains_books

lemma perform_books: "books s \<Longrightarrow> books (perform op s)"
  using operations_books unfolding preserves_def by (cases op) simp_all

lemma reachable_inv: "reachable e s \<Longrightarrow> books s"
  by (induction rule: reachable.induct) (simp_all add: initial_books perform_books)

section \<open>What holds of statements holds of every operation\<close>

context statements_within
begin

lemma perform: "R s (perform op s)"
  using operations unfolding within_def by (cases op) simp_all

lemma later: "later s t \<Longrightarrow> R s t"
  by (induction rule: later.induct) (auto intro: refl trans [OF _ perform])

end

lemma later_extends: "later s t \<Longrightarrow> extends s t"
  by (rule history_ops.later)

lemma later_sessionsKept: "later s t \<Longrightarrow> sessionsKept s t"
  by (rule sessionsKept_ops.later)

text \<open>An invariant of the tables that holds at the start and of every statement holds of every reachable state.\<close>

lemma reachable_invariant:
  assumes "statements_within (\<lambda>s t. P s \<longrightarrow> P t)" "P (initialWorld e [])" "reachable e s"
  shows "P s"
  using assms(3)
proof (induction rule: reachable.induct)
  case start
  show ?case by (rule assms(2))
next
  case (step s op)
  then show ?case
    using statements_within.perform [OF assms(1)] by blast
qed

lemma reachable_tables:
  assumes "reachable e s"
  shows "goodSessions s" "usersOk s" "mailOk s" "beneficiariesOk s"
  using assms
  by (rule reachable_invariant [rotated 2], unfold_locales,
      simp add: initialWorld_def goodSessions_def sessionsOk_def usersOk_def mailOk_def beneficiariesOk_def)+

end
