(* ===== verification/TransferRules.thy ===== *)
theory TransferRules
  imports Reversal
begin

text \<open>
  What the transfer, deposit and withdrawal calls promise: their effect on success, that a reported
  error leaves the books alone (unless the acknowledgement of the commit was lost), the daily limit,
  and that the deferred trigger never refuses a transfer.
\<close>

section \<open>Atomicity\<close>

text \<open>The n-th transaction does not lose the acknowledgement of a commit that took effect.\<close>

definition commitKnown :: "env \<Rightarrow> nat \<Rightarrow> bool" where
  "commitKnown e n \<longleftrightarrow> (case commitFault e n of None \<Rightarrow> True | Some (err, committed) \<Rightarrow> \<not> committed)"

lemma runTx_error:
  assumes "runTx g body s = (Inl e, s')" "commitKnown (envir s) (tx_ctr s)"
  shows "tablesOf s' = tablesOf s"
proof (cases "beginFault (envir s) (tx_ctr s)")
  case (Some b)
  with assms(1) show ?thesis
    by (auto simp: runTx_def tablesOf_def)
next
  case None
  obtain b t where bt: "body (startTx s) = (b, t)"
    by (cases "body (startTx s)")
  show ?thesis
  proof (cases b)
    case (Inl d)
    with assms(1) None bt show ?thesis
      by (auto simp: runTx_def)
  next
    case (Inr x)
    then have "commitTx s x t = (Inl e, s')"
      using assms(1) None bt by (simp add: runTx_def)
    then show ?thesis
      using assms(2) unfolding commitTx_def commitKnown_def
      by (auto simp del: firstError_None split: option.splits prod.splits if_splits)
  qed
qed

lemma execTx_error:
  "execTx body s = (Inl e, s') \<Longrightarrow> commitKnown (envir s) (tx_ctr s) \<Longrightarrow> tablesOf s' = tablesOf s"
  unfolding execTx_def by (rule runTx_error)

lemma orAudit_error:
  assumes "orAudit body audit s = (Inl e, s')"
  obtains e' t where "body s = (Inl e', t)" "audit e' t = (Inl e, s') \<or> audit e' t = (Inr e, s')"
proof -
  obtain b t where b: "body s = (b, t)" by (cases "body s")
  then have run: "(case b of Inr x \<Rightarrow> returnM x | Inl e \<Rightarrow> bindM (audit e) failM) t = (Inl e, s')"
    using assms by (simp add: orAudit_def bindM_def tryM_def)
  show thesis
  proof (cases b)
    case (Inl e')
    then have "audit e' t = (Inl e, s') \<or> audit e' t = (Inr e, s')"
      using run by (cases "audit e' t") (auto simp: bindM_def failM_def split: sum.splits)
    with b Inl show thesis by (intro that [of e' t]) simp_all
  next
    case (Inr x)
    with run show thesis by (simp add: returnM_def)
  qed
qed

lemma draws_frame:
  "keeps envir (auditCorrelation v)" "keeps tx_ctr (auditCorrelation v)" "keeps tablesOf (auditCorrelation v)"
  "keeps clock_ctr (auditCorrelation v)"
  unfolding auditCorrelation_def newPGUUID_def by (intro frame; simp add: tablesOf_def)+

lemma auditCorrelation_total:
  obtains c t where "auditCorrelation v s = (Inr c, t)" "tablesOf t = tablesOf s" "envir t = envir s"
    "tx_ctr t = tx_ctr s" "v \<noteq> None \<Longrightarrow> c = v" "clock_ctr t = clock_ctr s"
proof -
  obtain c t where run: "auditCorrelation v s = (Inr c, t)" "v \<noteq> None \<Longrightarrow> c = v"
    by (cases v) (auto simp: auditCorrelation_def newPGUUID_def nextUUID_def bindM_def returnM_def)
  then show thesis
    using keepsD [OF draws_frame(1) run(1)] keepsD [OF draws_frame(2) run(1)] keepsD [OF draws_frame(3) run(1)]
      keepsD [OF draws_frame(4) run(1)]
    by (intro that [of c t])
qed

text \<open>A transfer that reports an error has moved no money.\<close>

lemma orAudit_tx_error:
  assumes "orAudit (execTx body) audit t = (Inl e, s')" "commitKnown (envir t) (tx_ctr t)" "tableField f"
    and "\<And>d. keeps f (audit d)"
  shows "f s' = f t"
proof -
  from assms(1) obtain e' u where tx: "execTx body t = (Inl e', u)"
    and au: "audit e' u = (Inl e, s') \<or> audit e' u = (Inr e, s')"
    by (rule orAudit_error)
  have "f u = f t"
    using tableFieldD [OF assms(3)] execTx_error [OF tx assms(2)] by blast
  then show ?thesis
    using au keepsD [OF assms(4)] by metis
qed

lemma TransferTx_error:
  assumes run: "TransferTx arg s = (Inl e, s')" and known: "commitKnown (envir s) (tx_ctr s)"
    and f: "tableField f" "unnoticed f"
  shows "f s' = f s"
proof -
  obtain c t where c: "auditCorrelation (tp_CorrelationID arg) s = (Inr c, t)" "tablesOf t = tablesOf s"
      "envir t = envir s" "tx_ctr t = tx_ctr s"
    by (rule auditCorrelation_total)
  let ?arg = "arg\<lparr>tp_CorrelationID := c\<rparr>"
  have "orAudit (execTx (transferWithQueries ?arg)) (auditTransferFailure ?arg) t = (Inl e, s')"
    using run c(1) by (simp add: TransferTx_def Let_def)
  then have "f s' = f t"
    using known c auditTransferFailure_frame [OF f] by (intro orAudit_tx_error [OF _ _ f(1)]) simp_all
  then show ?thesis
    using tableFieldD [OF f(1) c(2)] by simp
qed

lemma settlement_error:
  assumes run: "settlementMovementTx p n na tt ac cid s = (Inl e, s')" and known: "commitKnown (envir s) (tx_ctr s)"
  shows "tablesOf s' = tablesOf s"
proof (cases "n \<le> 0")
  case True
  then show ?thesis using run by (simp add: settlementMovementTx_def)
next
  case False
  obtain c t where c: "auditCorrelation cid s = (Inr c, t)" "tablesOf t = tablesOf s"
      "envir t = envir s" "tx_ctr t = tx_ctr s"
    by (rule auditCorrelation_total)
  have "execTx (settlementBody p n na tt (if ac = '''' then ''operator_cli'' else ac) c) t = (Inl e, s')"
    using run c(1) False by (simp add: settlementMovementTx_def)
  then show ?thesis
    using execTx_error known c by metis
qed

section \<open>Success\<close>

text \<open>What a successful call did, as if its body had run on the state before at some time \<open>now\<close>.\<close>

lemma TransferTx_ok:
  assumes run: "TransferTx arg s = (Inr r, s')"
  obtains c t where "auditCorrelation (tp_CorrelationID arg) s = (Inr c, t)" "tablesOf t = tablesOf s"
    "transferWithQueries (arg\<lparr>tp_CorrelationID := c\<rparr>) (startTx t) = (Inr r, s')"
    "tx_now (startTx t) = clockAt (envir s) (clock_ctr s)"
proof -
  obtain c t where c: "auditCorrelation (tp_CorrelationID arg) s = (Inr c, t)" "tablesOf t = tablesOf s"
      "envir t = envir s" "clock_ctr t = clock_ctr s"
    by (rule auditCorrelation_total)
  let ?arg = "arg\<lparr>tp_CorrelationID := c\<rparr>"
  have "execTx (transferWithQueries ?arg) t = (Inr r, s')"
    using run c(1) by (simp add: TransferTx_def Let_def orAudit_ok)
  then have "transferWithQueries ?arg (startTx t) = (Inr r, s')"
    by (rule execTx_ok)
  then show thesis
    using c by (intro that [of c t]) simp_all
qed

lemma booksTables_of: "tablesOf t = tablesOf s \<Longrightarrow> bookTables (startTx t) = bookTables s"
  using tableFieldD [OF bookTables_fields(1)] by (metis tablesOf_startTx)

lemma transferDone_cong:
  "bookTables t = bookTables s \<Longrightarrow> tx_now u = tx_now t \<Longrightarrow> bookTables u = bookTables s \<Longrightarrow>
   transferDone (arg\<lparr>tp_CorrelationID := c\<rparr>) t a b la lb tr p q r s' \<longleftrightarrow> transferDone arg u a b la lb tr p q r s'"
  by (simp add: transferDone_def bookTables_def)

lemma TransferTx_done:
  assumes run: "TransferTx arg s = (Inr r, s')" and ok: "books s"
  obtains a b la lb t p q where
    "transferDone arg (s\<lparr>tx_now := clockAt (envir s) (clock_ctr s)\<rparr>) a b la lb t p q r s'"
proof -
  obtain c t where c: "tablesOf t = tablesOf s"
    and body: "transferWithQueries (arg\<lparr>tp_CorrelationID := c\<rparr>) (startTx t) = (Inr r, s')"
    and now: "tx_now (startTx t) = clockAt (envir s) (clock_ctr s)"
    by (rule TransferTx_ok [OF run])
  have same: "bookTables (startTx t) = bookTables s"
    by (rule booksTables_of [OF c])
  then have "books (startTx t)"
    using ok books_cong by blast
  with body obtain a b la lb tr p q where
    "transferDone (arg\<lparr>tp_CorrelationID := c\<rparr>) (startTx t) a b la lb tr p q r s'"
    by (rule transferWithQueries_ok)
  moreover have "bookTables (s\<lparr>tx_now := tx_now (startTx t)\<rparr>) = bookTables s"
    by (simp add: bookTables_def)
  ultimately have "transferDone arg (s\<lparr>tx_now := tx_now (startTx t)\<rparr>) a b la lb tr p q r s'"
    using transferDone_cong [OF same, of "s\<lparr>tx_now := tx_now (startTx t)\<rparr>"] by simp
  then show thesis unfolding now by (rule that)
qed

text \<open>
  The contract of a transfer, on the tables before and after: the guards that held, the balances, the
  transaction and its two postings.
\<close>

definition transferred :: "TransferTxParams \<Rightarrow> world \<Rightarrow> TransferTxResult \<Rightarrow> world \<Rightarrow> bool" where
  "transferred arg s r s' \<longleftrightarrow> (\<exists>a b la lb t p q.
     a \<in> set (accounts s) \<and> b \<in> set (accounts s) \<and> ac_id a \<noteq> ac_id b \<and>
     Some (ac_public_id a) = tp_FromAccountPublicID arg \<and> ac_account_number b = tp_ToAccountNumber arg \<and>
     ac_owner a = tp_Username arg \<and> ac_currency a = tp_Currency arg \<and> ac_currency b = tp_Currency arg \<and>
     ac_status a = ''active'' \<and> ac_status b \<noteq> ''closed'' \<and>
     0 < tp_Amount arg \<and> tp_Amount arg \<le> ac_balance a \<and> tp_Amount arg \<le> 1000000 \<and>
     map (\<lambda>x. (ac_id x, ac_balance x)) (accounts s') =
       map (\<lambda>x. (ac_id x, if ac_id x = ac_id a then ac_balance x - tp_Amount arg
                         else if ac_id x = ac_id b then ac_balance x + tp_Amount arg
                         else ac_balance x)) (accounts s) \<and>
     banking_transactions s' = banking_transactions s @ [t] \<and> bt_status t = ''posted'' \<and>
     bt_amount t = tp_Amount arg \<and> bt_currency t = tp_Currency arg \<and> bt_transaction_type t = ''internal_transfer'' \<and>
     la \<in> set (ledger_accounts s) \<and> ledgerFor a la \<and> lb \<in> set (ledger_accounts s) \<and> ledgerFor b lb \<and>
     ledger_postings s' = ledger_postings s @ [p, q] \<and>
     lp_transaction_id p = bt_id t \<and> lp_ledger_account_id p = la_id la \<and> lp_amount p = - tp_Amount arg \<and>
     lp_transaction_id q = bt_id t \<and> lp_ledger_account_id q = la_id lb \<and> lp_amount q = tp_Amount arg \<and>
     tr_Transaction r = t \<and> tr_Postings r = [p, q] \<and> \<not> tr_Replayed r)"

lemma transferDone_transferred:
  assumes ok: "books s" and dn: "transferDone arg (s\<lparr>tx_now := now\<rparr>) a b la lb t p q r s'"
  shows "transferred arg s r s'"
proof -
  note d = dn [unfolded transferDone_def]
  have "ac_status a = ''active''"
    using booksD(4) [OF ok, of a] d by (simp add: accountRowOk_def)
  moreover have "map (\<lambda>x. (ac_id x, ac_balance x)) (accounts s') =
      map (\<lambda>x. (ac_id x, if ac_id x = ac_id a then ac_balance x - tp_Amount arg
                        else if ac_id x = ac_id b then ac_balance x + tp_Amount arg
                        else ac_balance x)) (accounts s)"
    using d by auto
  ultimately show ?thesis
    using d unfolding transferred_def
    by (intro exI [of _ a] exI [of _ b] exI [of _ la] exI [of _ lb] exI [of _ t] exI [of _ p] exI [of _ q]) simp
qed

lemma TransferTx_transferred: "TransferTx arg s = (Inr r, s') \<Longrightarrow> books s \<Longrightarrow> transferred arg s r s'"
  by (rule TransferTx_done) (auto intro: transferDone_transferred)

text \<open>The contract of a deposit (\<open>delta\<close> positive) and a withdrawal (\<open>delta\<close> negative).\<close>

definition settledMovement :: "uuid option \<Rightarrow> string \<Rightarrow> int \<Rightarrow> world \<Rightarrow> MoneyMovementTxResult \<Rightarrow> world \<Rightarrow> bool" where
  "settledMovement pid tt delta s r s' \<longleftrightarrow> (\<exists>a la ls t p q.
     a \<in> set (accounts s) \<and> Some (ac_public_id a) = pid \<and> ac_status a \<noteq> ''closed'' \<and>
     (ac_status a = ''frozen'' \<longrightarrow> 0 < delta) \<and> 0 \<le> ac_balance a + delta \<and>
     map (\<lambda>x. (ac_id x, ac_balance x)) (accounts s') =
       map (\<lambda>x. (ac_id x, if ac_id x = ac_id a then ac_balance x + delta else ac_balance x)) (accounts s) \<and>
     banking_transactions s' = banking_transactions s @ [t] \<and> bt_status t = ''posted'' \<and>
     bt_amount t = \<bar>delta\<bar> \<and> bt_currency t = ac_currency a \<and> bt_transaction_type t = tt \<and>
     la \<in> set (ledger_accounts s) \<and> ledgerFor a la \<and>
     ls \<in> set (ledger_accounts s) \<and> la_code ls = Some (''settlement:'' @ ac_currency a) \<and>
     ledger_postings s' = ledger_postings s @ [p, q] \<and>
     lp_transaction_id p = bt_id t \<and> lp_ledger_account_id p = la_id ls \<and> lp_amount p = - delta \<and>
     lp_transaction_id q = bt_id t \<and> lp_ledger_account_id q = la_id la \<and> lp_amount q = delta \<and>
     mm_Transaction r = t \<and> mm_Postings r = [p, q])"

lemma settlement_ok:
  assumes run: "settlementMovementTx pid n na tt ac cid s = (Inr r, s')" and ok: "books s"
    and tt: "tt = ''deposit'' \<or> tt = ''withdrawal''"
  shows "settledMovement pid tt (if tt = ''withdrawal'' then - n else n) s r s'"
proof -
  obtain c t where c: "auditCorrelation cid s = (Inr c, t)" "tablesOf t = tablesOf s"
    by (rule auditCorrelation_total)
  have "0 < n" "execTx (settlementBody pid n na tt (if ac = '''' then ''operator_cli'' else ac) c) t = (Inr r, s')"
    using run c(1) by (simp_all add: settlementMovementTx_def failIf_iff)
  note n = this(1) and body = execTx_ok(1) [OF this(2)]
  have same: "bookTables (startTx t) = bookTables s"
    by (rule booksTables_of [OF c(2)])
  then have "books (startTx t)"
    using ok books_cong by blast
  with body obtain a la ls bt p q where "movementDone pid n tt (startTx t) a la ls bt p q r s'"
    by (rule settlementBody_ok)
  then show ?thesis
    using same tt n unfolding movementDone_def settledMovement_def Let_def bookTables_def
    by (intro exI [of _ a] exI [of _ la] exI [of _ ls] exI [of _ bt] exI [of _ p] exI [of _ q])
      (cases "tt = ''withdrawal''"; simp)
qed

section \<open>The daily limit\<close>

lemma dailyOutgoing_append:
  "dailyOutgoing (P @ Q) T lid since = dailyOutgoing P T lid since @ dailyOutgoing Q T lid since"
  by (simp add: dailyOutgoing_def)

lemma dailyOutgoing_other:
  assumes "\<forall>p\<in>set P. lp_transaction_id p \<noteq> bt_id t"
  shows "dailyOutgoing P (T @ [t]) lid since = dailyOutgoing P T lid since"
  unfolding dailyOutgoing_def
  by (rule arg_cong [where f = concat], rule map_cong [OF refl]) (use assms in auto)

lemma dailyOutgoing_new:
  assumes "\<forall>u\<in>set T. bt_id u \<noteq> lp_transaction_id p" "lp_transaction_id p = bt_id t"
  shows "dailyOutgoing [p] (T @ [t]) lid since =
    (if lp_ledger_account_id p = lid \<and> lp_amount p < 0 \<and> bt_transaction_type t = ''internal_transfer'' \<and>
        (bt_status t = ''posted'' \<or> bt_status t = ''reversed'') \<and> since \<le> bt_created_at t
     then [bt_amount t] else [])"
proof -
  have "concat (map (\<lambda>u. if bt_id u = lp_transaction_id p \<and> lp_ledger_account_id p = lid \<and> lp_amount p < 0
        \<and> bt_transaction_type u = ''internal_transfer''
        \<and> List.member [''posted'', ''reversed''] (bt_status u) \<and> since \<le> bt_created_at u then [bt_amount u] else []) T) = []"
    using assms(1) by simp
  then show ?thesis
    using assms(2) unfolding dailyOutgoing_def by simp
qed

lemma transferDone_daily:
  assumes ok: "books s" and dn: "transferDone arg s a b la lb t p q r s'"
  shows "dailyOutgoing (ledger_postings s') (banking_transactions s') (la_id la) (startOfDay (tx_now s)) =
    dailyOutgoing (ledger_postings s) (banking_transactions s) (la_id la) (startOfDay (tx_now s)) @ [tp_Amount arg]"
proof -
  note d = dn [unfolded transferDone_def]
  let ?D = "\<lambda>P T. dailyOutgoing P T (la_id la) (startOfDay (tx_now s))"
  have pq: "lp_transaction_id p = bt_id t" "lp_transaction_id q = bt_id t" "lp_ledger_account_id p = la_id la"
      "lp_amount p = - tp_Amount arg" "lp_amount q = tp_Amount arg" "0 < tp_Amount arg"
    and t: "bt_transaction_type t = ''internal_transfer''" "bt_status t = ''posted''" "bt_created_at t = tx_now s"
      "bt_amount t = tp_Amount arg" "bt_id t \<notin> bt_id ` set (banking_transactions s)"
    and s': "banking_transactions s' = banking_transactions s @ [t]" "ledger_postings s' = ledger_postings s @ [p] @ [q]"
    using d by simp_all
  have fresh: "\<forall>u\<in>set (banking_transactions s). bt_id u \<noteq> bt_id t"
    using t(5) by (metis imageI)
  have old: "\<forall>x\<in>set (ledger_postings s). lp_transaction_id x \<noteq> bt_id t"
    using booksD(9) [OF ok] t(5) by metis
  show ?thesis
    using dailyOutgoing_other [OF old, of "banking_transactions s"] dailyOutgoing_new [of "banking_transactions s" p t]
      dailyOutgoing_new [of "banking_transactions s" q t] fresh pq t startOfDay_le(1) [of "tx_now s"]
    unfolding s' dailyOutgoing_append by simp
qed

section \<open>The deferred trigger\<close>

text \<open>With books in order no transaction of at most \<open>2 ^ 62 - 1\<close> can be refused at commit.\<close>

lemma trigger_passes:
  assumes ok: "books t" and small: "\<And>u. u \<in> set (banking_transactions t) \<Longrightarrow> bt_id u = tid \<Longrightarrow> bt_amount u < 2 ^ 62"
  shows "\<forall>c\<in>set (validateBankingTransaction t tid). \<not> fst c"
proof (cases "find (\<lambda>u. bt_id u = tid) (banking_transactions t)")
  case None
  then show ?thesis by (simp add: validateBankingTransaction_def)
next
  case (Some u)
  then have u: "u \<in> set (banking_transactions t)" "bt_id u = tid"
    using find_Some_iff2 [OF Some] by auto
  note D = booksD [OF ok]
  let ?ps = "postingsOf tid (ledger_postings t)"
  let ?cur = "\<lambda>p. ledgerCurrency (ledger_accounts t) (lp_ledger_account_id p)"
  have bal: "2 \<le> length ?ps" "sum_list (map lp_amount ?ps) = 0"
    "sum_list (map (\<lambda>p. \<bar>lp_amount p\<bar>) ?ps) = 2 * bt_amount u" "\<forall>p\<in>set ?ps. ?cur p = Some (bt_currency u)"
    using D(12) [OF u(1)] u(2) by (simp_all add: txBalanced_def Let_def)
  have all: "filter (\<lambda>p. ?cur p \<noteq> None) ?ps = ?ps" "filter (\<lambda>p. ?cur p \<noteq> Some (bt_currency u)) ?ps = []"
    using bal(4) by (simp_all add: filter_id_conv filter_empty_conv)
  have amount: "0 < bt_amount u" "bt_amount u < 2 ^ 62"
    using D(13) [OF u(1)] small [OF u] by simp_all
  have "\<forall>p\<in>set ?ps. in_int64 \<bar>lp_amount p\<bar>"
  proof
    fix p assume "p \<in> set ?ps"
    then have "\<bar>lp_amount p\<bar> \<le> bt_amount u"
      using balanced_negation(1) [OF D(12,14) [OF u(1)]] u(2) by simp
    then show "in_int64 \<bar>lp_amount p\<bar>"
      using amount by (simp add: in_int64_def)
  qed
  moreover have "in_int64 (2 * bt_amount u)" "in_int64 (bt_amount u * 2)" "in_int64 0"
    using amount by (simp_all add: in_int64_def)
  moreover have "bt_status u = ''posted'' \<or> bt_status u = ''reversed''"
    using D(11) [OF u(1)] by (simp add: settled_def)
  ultimately show ?thesis
    using bal amount unfolding validateBankingTransaction_def Some Let_def option.case all
    by (auto simp: list_ex_iff)
qed

end
