(* ===== verification/Scenario.thy ===== *)
theory Scenario
  imports Bank TransferRules
begin

text \<open>
  Concrete states on which the properties are exercised: a bank with two customers, a deposit on the
  books, and calls on it.
\<close>

definition sampleEnv :: env where
  \<comment> \<open>Distinct UUIDs, a clock that advances by one second, and no faults\<close>
  "sampleEnv = \<lparr>uuidAt = (\<lambda>n. word_of_int (int n + 100)), clockAt = (\<lambda>n. 1700000000000000 + int n * 1000000),
     randAt = (\<lambda>n. Inr (int n + 7)), beginFault = (\<lambda>n. None), rollbackFault = (\<lambda>n. None),
     commitFault = (\<lambda>n. None), driverText = (\<lambda>e. ''driver error''), lowerCase = (\<lambda>t. t), foldCase = (\<lambda>t. t)\<rparr>"

definition sampleUser :: "string \<Rightarrow> User" where
  "sampleUser name =
     \<lparr>us_username = name, us_hashed_password = ''h'', us_full_name = name, us_email = name @ ''@example.com'',
      us_password_changed_at = 0, us_created_at = 0, us_email_verified_at = Some 0,
      us_email_deliverability_status = ''unknown'', us_email_deliverability_updated_at = None,
      us_email_bounced_at = None, us_account_status = ''active'', us_registration_expires_at = None\<rparr>"

definition sampleAccount :: "int \<Rightarrow> string \<Rightarrow> uuid \<Rightarrow> string \<Rightarrow> int \<Rightarrow> Account" where
  "sampleAccount i owner u number balance =
     \<lparr>ac_id = i, ac_owner = owner, ac_balance = balance, ac_currency = ''USD'', ac_created_at = 0,
      ac_public_id = u, ac_status = ''active'', ac_updated_at = 0, ac_closed_at = None,
      ac_account_number = number\<rparr>"

definition sampleLedger :: "int \<Rightarrow> int \<Rightarrow> LedgerAccount" where
  "sampleLedger i a = \<lparr>la_id = i, la_public_id = word_of_int (i + 40), la_customer_account_id = Some a,
     la_code = None, la_kind = ''customer'', la_currency = ''USD'', la_created_at = 0\<rparr>"

definition sampleDeposit :: BankingTransaction where
  "sampleDeposit = \<lparr>bt_id = 50, bt_reference = ''TXN-50'', bt_transaction_type = ''deposit'', bt_status = ''posted'',
     bt_currency = ''USD'', bt_amount = 500, bt_narration = ''opening'', bt_initiated_by = ''operator'',
     bt_reversal_of = None, bt_created_at = 10, bt_posted_at = Some 10, bt_failed_at = None, bt_reversed_at = None\<rparr>"

definition samplePostings :: "LedgerPosting list" where
  "samplePostings =
     [\<lparr>lp_id = 1, lp_transaction_id = 50, lp_ledger_account_id = 1, lp_amount = -500, lp_created_at = 10\<rparr>,
      \<lparr>lp_id = 2, lp_transaction_id = 50, lp_ledger_account_id = 3, lp_amount = 500, lp_created_at = 10\<rparr>]"

definition sampleWorldIn :: "env \<Rightarrow> world" where
  "sampleWorldIn e = (initialWorld e [sampleUser ''alice'', sampleUser ''bob''])
     \<lparr>accounts := [sampleAccount 1 ''alice'' 10 ''0000000001'' 500, sampleAccount 2 ''bob'' 20 ''0000000002'' 0],
      ledger_accounts := [settlementAccount 1 ''USD'' 1, settlementAccount 2 ''EUR'' 2, sampleLedger 3 1, sampleLedger 4 2],
      banking_transactions := [sampleDeposit], ledger_postings := samplePostings,
      accounts_id_seq := 3, ledger_accounts_id_seq := 5, ledger_postings_id_seq := 3\<rparr>"

definition sampleWorld :: world where
  "sampleWorld = sampleWorldIn sampleEnv"

definition sampleTransfer :: TransferTxParams where
  "sampleTransfer = \<lparr>tp_FromAccountPublicID = Some 10, tp_ToAccountNumber = ''0000000002'', tp_Amount = 200,
     tp_Currency = ''USD'', tp_Username = ''alice'', tp_Narration = ''rent'', tp_CorrelationID = Some 7\<rparr>"

definition sampleOpen :: operation where
  "sampleOpen = OpCreateAccount \<lparr>ca_Owner = ''alice'', ca_Currency = ''USD''\<rparr>"

definition sampleSignUp :: operation where
  "sampleSignUp = OpCreateUser \<lparr>cu_Username = ''alice'', cu_HashedPassword = ''h'', cu_FullName = ''Alice'',
     cu_Email = ''alice@example.com''\<rparr>"

definition sampleTooMuch :: TransferTxParams where
  "sampleTooMuch = sampleTransfer\<lparr>tp_Amount := 1000001\<rparr>"

definition sampleKeyed :: IdempotentTransferTxParams where
  "sampleKeyed = \<lparr>it_TransferTxParams = sampleTransfer, it_IdempotencyKey = ''k-1'', it_RequestHash = replicate 32 (CHR ''x'')\<rparr>"

definition sampleKeyRow :: IdempotencyKey where
  \<comment> \<open>The same key, used for another request\<close>
  "sampleKeyRow = \<lparr>ik_id = 0, ik_username = ''alice'', ik_operation = ''internal_transfer'', ik_idempotency_key = ''k-1'',
     ik_request_hash = replicate 32 (CHR ''y''), ik_transaction_id = None, ik_response_status = None,
     ik_result_snapshot = None, ik_created_at = 0, ik_expires_at = 1800000000000000\<rparr>"

definition sampleDepositArg :: DepositTxParams where
  "sampleDepositArg = \<lparr>dp_AccountPublicID = Some 20, dp_Amount = 70, dp_Narration = ''cash'', dp_Actor = ''teller'',
     dp_CorrelationID = Some 8\<rparr>"

definition sampleWithdrawArg :: WithdrawTxParams where
  "sampleWithdrawArg = \<lparr>wp_AccountPublicID = Some 10, wp_Amount = 70, wp_Narration = ''cash'', wp_Actor = ''teller'',
     wp_CorrelationID = Some 8\<rparr>"

definition sampleReverse :: ReverseTransactionTxParams where
  "sampleReverse = \<lparr>rt_TransactionID = Some 50, rt_Actor = ''operator'', rt_Reason = ''entered twice'', rt_CorrelationID = Some 9\<rparr>"

definition sampleClose :: CloseAccountTxParams where
  "sampleClose = \<lparr>cl_PublicID = Some 20, cl_Username = ''bob''\<rparr>"

definition sampleFreeze :: AccountStatusTxParams where
  "sampleFreeze = \<lparr>as_AccountPublicID = Some 20, as_TargetStatus = ''frozen'', as_Actor = ''operator'',
     as_Reason = ''fraud'', as_CorrelationID = Some 9\<rparr>"

definition sampleReconcile :: ReconciliationParams where
  "sampleReconcile = \<lparr>rp_AccountPublicID = None, rp_Actor = ''operator''\<rparr>"

definition sampleResult :: TransferTxResult where
  "sampleResult = \<lparr>tr_Transaction = sampleDeposit, tr_Postings = samplePostings,
     tr_FromAccount = sampleAccount 1 ''alice'' 10 ''0000000001'' 500,
     tr_ToAccount = sampleAccount 2 ''bob'' 20 ''0000000002'' 0, tr_Replayed = False\<rparr>"

lemma sample_books: "books (sampleWorldIn e)"
  by (simp add: sampleWorldIn_def initialWorld_def booksOk_def ledgerRowOk_def settlementAccount_def
      reversalsOk_def in_int64_def sampleAccount_def sampleLedger_def sampleDeposit_def samplePostings_def
      accountRowOk_def ledgerFor_def ledgerTotal_def settled_def txBalanced_def postingsOf_def
      ledgerCurrency_def isDigit_def Let_def)

definition sampleReversedWorld :: world where
  "sampleReversedWorld = sampleWorld
     \<lparr>accounts := [sampleAccount 1 ''alice'' 10 ''0000000001'' 0, sampleAccount 2 ''bob'' 20 ''0000000002'' 0],
      banking_transactions := [sampleDeposit\<lparr>bt_status := ''reversed'', bt_reversed_at := Some 20\<rparr>,
        sampleDeposit\<lparr>bt_id := 51, bt_reference := ''TXN-51'', bt_transaction_type := ''reversal'',
          bt_reversal_of := Some 50, bt_created_at := 20, bt_posted_at := Some 20\<rparr>],
      ledger_postings := samplePostings @
        [\<lparr>lp_id = 3, lp_transaction_id = 51, lp_ledger_account_id = 1, lp_amount = 500, lp_created_at = 20\<rparr>,
         \<lparr>lp_id = 4, lp_transaction_id = 51, lp_ledger_account_id = 3, lp_amount = -500, lp_created_at = 20\<rparr>]\<rparr>"

lemma sample_reversed_books: "books sampleReversedWorld"
  by (simp add: sampleReversedWorld_def sampleWorld_def sampleWorldIn_def initialWorld_def booksOk_def ledgerRowOk_def
      settlementAccount_def reversalsOk_def in_int64_def sampleAccount_def sampleLedger_def sampleDeposit_def
      samplePostings_def accountRowOk_def ledgerFor_def ledgerTotal_def settled_def txBalanced_def postingsOf_def
      ledgerCurrency_def isDigit_def Let_def)

lemma sample_action_valid:
  "validateOperatorAction (rt_Actor sampleReverse) (rt_Reason sampleReverse) (rt_CorrelationID sampleReverse)"
  by code_simp

section \<open>Users, sessions and mail\<close>

definition sampleLogin :: CreateSessionParams where
  "sampleLogin = \<lparr>cs_ID = Some 310, cs_Username = ''alice'', cs_RefreshTokenHash = ''r2'', cs_RefreshTokenID = Some 311,
     cs_DeviceTokenHash = ''d2'', cs_UserAgent = ''ua'', cs_ClientIp = ''ip'', cs_ExpiresAt = Some 1800000000000000\<rparr>"

definition sampleSession :: Session where
  "sampleSession = \<lparr>se_id = 300, se_username = ''alice'', se_user_agent = ''ua'', se_client_ip = ''ip'',
     se_expires_at = 1800000000000000, se_created_at = 1600000000000000, se_refresh_token_hash = ''r1'',
     se_refresh_token_id = 301, se_last_refreshed_at = None, se_revoked_at = None, se_revoked_reason = None,
     se_device_token_hash = ''d1''\<rparr>"

definition sampleSessionWorld :: world where
  "sampleSessionWorld = sampleWorld\<lparr>sessions := [sampleSession]\<rparr>"

definition sampleRevokedWorld :: world where
  "sampleRevokedWorld = sampleWorld\<lparr>sessions := [sampleSession\<lparr>se_revoked_at := Some 1650000000000000,
     se_revoked_reason := Some ''user_logout''\<rparr>]\<rparr>"

definition sampleRotate :: RotateRefreshTokenTxParams where
  "sampleRotate = \<lparr>rr_SessionID = Some 300, rr_Username = ''alice'', rr_PresentedTokenHash = ''r1'',
     rr_PresentedRefreshID = Some 301, rr_PresentedDeviceHash = ''d1'', rr_NewTokenHash = ''r3'',
     rr_NewRefreshID = Some 303\<rparr>"

definition sampleSignUpArg :: CreateUserParams where
  "sampleSignUpArg = \<lparr>cu_Username = ''carol'', cu_HashedPassword = ''h'', cu_FullName = ''Carol'',
     cu_Email = ''carol@example.com''\<rparr>"

definition sampleJob :: EmailJob where
  "sampleJob = \<lparr>ej_id = 400, ej_parent_job_id = None, ej_job_type = ''verify_email'', ej_username = ''alice'',
     ej_recipient = ''alice@example.com'', ej_payload = JObj [], ej_status = ''sent'', ej_attempt_count = 1,
     ej_max_attempts = 10, ej_provider_message_id = Some ''m-1'', ej_last_error = None,
     ej_created_at = 1650000000000000, ej_updated_at = 1650000000000000, ej_queued_at = None, ej_processing_at = None,
     ej_last_attempt_at = None, ej_sent_at = Some 1650000000000000, ej_dead_lettered_at = None,
     ej_delivery_status = ''accepted'', ej_delivery_event_at = Some 1650000000000000, ej_accepted_at = None,
     ej_delivered_at = None, ej_bounced_at = None, ej_bounce_type = None, ej_bounce_subtype = None,
     ej_bounce_message = None, ej_verification_token_hash = Some (replicate 32 (CHR ''t'')),
     ej_verification_token_expires_at = Some 1800000000000000\<rparr>"

definition sampleMailWorld :: world where
  \<comment> \<open>Alice has signed up and was sent a verification link.\<close>
  "sampleMailWorld = sampleWorld\<lparr>email_jobs := [sampleJob],
     users := [(sampleUser ''alice'')\<lparr>us_account_status := ''pending'', us_email_verified_at := None\<rparr>, sampleUser ''bob'']\<rparr>"

definition sampleVerify :: VerifyUserEmailTxParams where
  "sampleVerify = \<lparr>ve_Username = ''alice'', ve_Email = ''alice@example.com'', ve_JobID = Some 400,
     ve_TokenHash = replicate 32 (CHR ''t'')\<rparr>"

definition sampleDelivered :: ProcessEmailDeliveryEventParams where
  "sampleDelivered = \<lparr>pe_WebhookID = ''w-1'', pe_EventType = ''email.delivered'', pe_ProviderMessageID = ''m-1'',
     pe_JobID = None, pe_OccurredAt = 1660000000000000, pe_Payload = JObj [], pe_DeliveryStatus = ''delivered'',
     pe_BounceType = '''', pe_BounceSubtype = '''', pe_BounceMessage = ''''\<rparr>"

definition sampleSeenWorld :: world where
  "sampleSeenWorld = sampleMailWorld\<lparr>email_delivery_events :=
     [\<lparr>ed_webhook_id = ''w-1'', ed_email_job_id = Some 400, ed_provider_message_id = ''m-1'', ed_event_type = ''email.delivered'',
       ed_occurred_at = 1660000000000000, ed_received_at = 1660000000000000, ed_payload = JObj []\<rparr>]\<rparr>"

definition sampleBeneficiary :: CreateBeneficiaryTxParams where
  "sampleBeneficiary = \<lparr>cb_Owner = ''alice'', cb_DestinationAccountNumber = ''0000000002'', cb_Nickname = ''Bob''\<rparr>"

lemma sample_sessions:
  "sessionsOk (sessions sampleSessionWorld)" "sessionsOk (sessions sampleRevokedWorld)"
  by (simp_all add: sampleSessionWorld_def sampleRevokedWorld_def sampleSession_def sessionsOk_def)

text \<open>A run, taken apart into its result and its final state.\<close>

lemma run_pair: "\<not> isl (fst x) \<Longrightarrow> x = (Inr (projr (fst x)), snd x)"
  by (cases x) (auto simp: isl_def)

lemma run_pair_error: "isl (fst x) \<Longrightarrow> x = (Inl (projl (fst x)), snd x)"
  by (cases x) (auto simp: isl_def)

end
