(* ===== verification/Runs.thy ===== *)
theory Runs
  imports Scenario
begin

text \<open>Runs of the operations on the concrete states, evaluated once for all the properties.\<close>

lemma sample_transfer_succeeds: "\<not> isl (fst (TransferTx sampleTransfer sampleWorld))"
  by code_simp

lemma sample_transfer_refused: "isl (fst (TransferTx sampleTooMuch sampleWorld))"
  by code_simp

lemma sample_keyed_moves:
  "case IdempotentTransferTx sampleKeyed sampleWorld of (x, t) \<Rightarrow>
     length (banking_transactions t) = 2 \<and> idempotency_keys_id_seq t = 2 \<and>
     clockAt (envir t) (clock_ctr t) < 1700080000000000 \<and>
     beginFault (envir t) (tx_ctr t) = None \<and> commitFault (envir t) (tx_ctr t) = None"
  by code_simp

lemma sample_deposit_succeeds: "\<not> isl (fst (DepositTx sampleDepositArg sampleWorld))"
  by code_simp

lemma sample_withdraw_succeeds: "\<not> isl (fst (WithdrawTx sampleWithdrawArg sampleWorld))"
  by code_simp

lemma sample_reverse_succeeds: "\<not> isl (fst (ReverseTransactionTx sampleReverse sampleWorld))"
  by code_simp

lemma sample_close_succeeds: "\<not> isl (fst (CloseAccountTx sampleClose sampleWorld))"
  by code_simp

lemma sample_freeze_succeeds: "\<not> isl (fst (SetAccountStatusTx sampleFreeze sampleWorld))"
  by code_simp

lemma sample_reconcile_succeeds: "\<not> isl (fst (Reconcile sampleReconcile sampleWorld))"
  by code_simp

lemma sample_keyed_refused:
  "isl (fst (IdempotentTransferTx (sampleKeyed\<lparr>it_TransferTxParams := sampleTooMuch\<rparr>) sampleWorld))"
  by code_simp

lemma sample_open_succeeds:
  "\<not> isl (fst (CreateAccountTx \<lparr>ca_Owner = ''alice'', ca_Currency = ''EUR''\<rparr> sampleWorld))"
  by code_simp

lemma sample_body_succeeds: "\<not> isl (fst (transferWithQueries sampleTransfer (startTx sampleWorld)))"
  by code_simp

lemma initial_reconcile_succeeds: "\<not> isl (fst (Reconcile sampleReconcile (initialWorld sampleEnv [])))"
  by code_simp

lemma sample_login_succeeds: "\<not> isl (fst (CreateExclusiveSessionTx sampleLogin sampleSessionWorld))"
  by code_simp

lemma sample_rotate_succeeds: "\<not> isl (fst (RotateRefreshTokenTx sampleRotate sampleSessionWorld))"
  by code_simp

lemma sample_sign_up_succeeds: "\<not> isl (fst (CreateUserTx sampleSignUpArg sampleWorld))"
  by code_simp

lemma sample_verify_succeeds: "\<not> isl (fst (VerifyUserEmailTx sampleVerify sampleMailWorld))"
  by code_simp

lemma sample_beneficiary_succeeds: "\<not> isl (fst (CreateBeneficiaryTx sampleBeneficiary sampleWorld))"
  by code_simp

end
