(* ===== verification/DeliveryRules.thy ===== *)
theory DeliveryRules
  imports Delivery
begin

text \<open>
  What the processing of delivery reports promises: statuses only advance, a webhook that comes again
  changes nothing, and a report that is older than the recorded one leaves the job alone.
\<close>

section \<open>Statuses advance\<close>

text \<open>Pending, accepted, delayed, delivered, and the four statuses that end a delivery.\<close>

definition deliveryRank :: "string \<Rightarrow> nat" where
  "deliveryRank status =
     (if status = ''pending'' then 0 else if status = ''accepted'' then 1 else if status = ''delayed'' then 2
      else if status = ''delivered'' then 3 else 4)"

lemma transition_advances:
  assumes "canApplyEmailDeliveryTransition current new at at'"
  shows "deliveryRank current < deliveryRank new" "\<not> isTerminalEmailDeliveryStatus current" "isRecognizedEmailDeliveryStatus new"
    "\<And>t. at = Some t \<Longrightarrow> t < at'"
  using assms
  by (auto simp: canApplyEmailDeliveryTransition_def deliveryRank_def isRecognizedEmailDeliveryStatus_def
      isTerminalEmailDeliveryStatus_def split: if_splits)

section \<open>What one report does\<close>

lemma findEmailJob_run:
  "findEmailJobForDeliveryEvent arg s =
     (Inr (case find (\<lambda>j. ej_provider_message_id j = Some (pe_ProviderMessageID arg)) (email_jobs s) of
             Some job \<Rightarrow> (Some (ej_id job), Some job)
           | None \<Rightarrow>
               if pe_JobID arg = None then (None, None)
               else case find (\<lambda>j. Some (ej_id j) = pe_JobID arg) (email_jobs s) of
                 None \<Rightarrow> (pe_JobID arg, None)
               | Some job \<Rightarrow>
                   if ej_provider_message_id job \<noteq> None \<and> ej_provider_message_id job \<noteq> Some (pe_ProviderMessageID arg)
                   then (pe_JobID arg, None) else (Some (ej_id job), Some job)), s)"
  by (simp add: findEmailJobForDeliveryEvent_def GetEmailJobByProviderMessageIDForUpdate_def GetEmailJobForUpdate_def
      selectOne_def tryM_def bindM_def returnM_def failIf_def split: option.split)

lemma findEmailJob_ok:
  assumes "findEmailJobForDeliveryEvent arg s = (Inr (jobID, found), t)"
  shows "t = s" "\<And>job. found = Some job \<Longrightarrow> job \<in> set (email_jobs s)"
  using assms unfolding findEmailJob_run by (auto split: option.splits if_splits dest: find_Some_iff2)

lemma seen_webhook:
  assumes "d \<in> set (email_delivery_events s)" "ed_webhook_id d = w"
  shows "CreateEmailDeliveryEvent w jid mid et (Some t) pl s = (Inl ErrNoRows, s)"
  using assms by (auto simp: CreateEmailDeliveryEvent_def bindM_def insertRow_def list_ex_iff notNull_def returnM_def)

lemma duplicate_ignored:
  assumes run: "processDeliveryBody arg s = (Inr r, s')"
    and seen: "d \<in> set (email_delivery_events s)" "ed_webhook_id d = pe_WebhookID arg"
  shows "s' = s" "pr_Duplicate r" "\<not> pr_StateUpdated r"
proof -
  obtain jobID found t where find': "findEmailJobForDeliveryEvent arg s = (Inr (jobID, found), t)"
    using run unfolding processDeliveryBody_def bindM_iff by fast
  then have "t = s"
    by (rule findEmailJob_ok)
  have seen': "tryM (CreateEmailDeliveryEvent (pe_WebhookID arg) jobID (pe_ProviderMessageID arg) (pe_EventType arg)
       (Some (pe_OccurredAt arg)) (pe_Payload arg)) s = (Inr (Inl ErrNoRows), s)"
    using seen_webhook [OF seen] by (simp add: tryM_def)
  show "s' = s" "pr_Duplicate r" "\<not> pr_StateUpdated r"
    using run find' seen' \<open>t = s\<close> unfolding processDeliveryBody_def
    by (auto simp: bindM_run Let_def)
qed

section \<open>How a job moves\<close>

text \<open>
  One report leaves a job's delivery status and its time alone, or advances both.
\<close>

definition deliveryStep :: "EmailJob \<Rightarrow> EmailJob \<Rightarrow> bool" where
  "deliveryStep j j' \<longleftrightarrow> ej_id j' = ej_id j \<and>
     (ej_delivery_status j' = ej_delivery_status j \<and> ej_delivery_event_at j' = ej_delivery_event_at j \<or>
      deliveryRank (ej_delivery_status j) < deliveryRank (ej_delivery_status j') \<and>
      \<not> isTerminalEmailDeliveryStatus (ej_delivery_status j) \<and>
      (ej_delivery_event_at j = None \<or> before (ej_delivery_event_at j) (ej_delivery_event_at j')))"

lemma updateEmailJob_jobs:
  assumes "updateEmailJob p f s = (r, t)"
  shows "email_jobs t = email_jobs s \<or> email_jobs t = map (\<lambda>x. if p x then f x else x) (email_jobs s)"
proof -
  have quiet: "keeps email_jobs (bindM (auditEmailJobUpdate old new) (\<lambda>_. returnM new))" for old new
    unfolding auditEmailJobUpdate_def by (intro frame; simp)
  have audit: "email_jobs v = email_jobs u" if "bindM (auditEmailJobUpdate old new) (\<lambda>_. returnM new) u = (r, v)" for old new u v
    using quiet that by (rule keepsD)
  show ?thesis
    using assms audit unfolding updateEmailJob_def
    by (auto simp: bindM_def [of "selectOne _ _ _"] bindM_def [of "updateRow _ _ _ _ _ _"] selectOne_def updateRow_def
        split: option.splits)
qed

lemma delivery_jobs_frame:
  "keeps email_jobs (userDeliverabilityForEvent arg)" "keeps email_jobs (bounceTimestamp arg)"
  "keeps email_jobs (UpdateCurrentUserEmailDeliverability ds oa ba n r)" "keeps email_jobs (createDeliveryAuditLog arg job st)"
  "keeps email_jobs (CreateEmailDeliveryEvent w jid mid et oc pl)"
  unfolding createDeliveryAuditLog_def by (intro frame; simp)+

lemma bindM_keeps:
  "bindM m k s = (r, s') \<Longrightarrow> m s = (Inr x, t) \<Longrightarrow> (\<And>x. keeps f (k x)) \<Longrightarrow> f s' = f t"
  by (metis bindM_run(1) keepsD)

text \<open>The rows a report may change: the one of its job, and only along the order.\<close>

lemma delivery_steps:
  assumes job: "job \<in> set js" and ids: "distinct (map ej_id js)"
    and p: "\<And>x. p x \<Longrightarrow> ej_id x = ej_id job" and step: "deliveryStep job (f job)"
  shows "list_all2 deliveryStep js (map (\<lambda>x. if p x then f x else x) js)"
proof -
  have "deliveryStep x (if p x then f x else x)" if "x \<in> set js" for x
  proof (cases "p x")
    case True
    then have "x = job"
      by (rule find_key_inject [OF ids that job p])
    with True step show ?thesis by simp
  next
    case False
    then show ?thesis by (simp add: deliveryStep_def)
  qed
  then show ?thesis
    by (simp add: list_all2_conv_all_nth)
qed

lemma applyDelivery_steps:
  assumes run: "applyDelivery arg job s = (r, s')" and job: "job \<in> set (email_jobs s)"
    and ids: "distinct (map ej_id (email_jobs s))"
    and can: "canApplyEmailDeliveryTransition (ej_delivery_status job) (pe_DeliveryStatus arg)
      (ej_delivery_event_at job) (pe_OccurredAt arg)"
  shows "list_all2 deliveryStep (email_jobs s) (email_jobs s')"
proof -
  let ?upd = "UpdateEmailJobDelivery (Some (pe_ProviderMessageID arg)) (pe_DeliveryStatus arg)
       (Some (pe_OccurredAt arg)) (nullableText (pe_BounceType arg)) (nullableText (pe_BounceSubtype arg))
       (nullableText (pe_BounceMessage arg)) (Some (ej_id job))"
  obtain u t where upd: "?upd s = (u, t)"
    by (cases "?upd s")
  then have "tryM ?upd s = (Inr u, t)"
    by (simp add: tryM_def)
  with run have "email_jobs s' = email_jobs t"
    unfolding applyDelivery_def by (rule bindM_keeps) (intro frame delivery_jobs_frame)
  moreover obtain p f where "?upd s = updateEmailJob p f s"
    and p: "\<And>x. p x \<Longrightarrow> ej_id x = ej_id job" and f: "ej_id (f job) = ej_id job"
      "ej_delivery_status (f job) = pe_DeliveryStatus arg" "ej_delivery_event_at (f job) = Some (pe_OccurredAt arg)"
    unfolding UpdateEmailJobDelivery_def by (simp add: bindM_def readM_def)
  then have "email_jobs t = email_jobs s \<or> email_jobs t = map (\<lambda>x. if p x then f x else x) (email_jobs s)"
    using upd updateEmailJob_jobs by metis
  moreover have "deliveryStep job (f job)"
    using f transition_advances [OF can] by (auto simp: deliveryStep_def before_def split: option.split)
  ultimately show ?thesis
    using delivery_steps [OF job ids, of p f] p by (auto simp: list_all2_refl deliveryStep_def)
qed

lemma processDelivery_steps:
  assumes run: "processDeliveryBody arg s = (r, s')" and ids: "distinct (map ej_id (email_jobs s))"
  shows "list_all2 deliveryStep (email_jobs s) (email_jobs s')"
proof -
  obtain jf where "findEmailJobForDeliveryEvent arg s = (Inr jf, s)"
    by (rule that, rule findEmailJob_run)
  then obtain jobID found where find': "findEmailJobForDeliveryEvent arg s = (Inr (jobID, found), s)"
    by (cases jf) simp
  obtain c t where create: "CreateEmailDeliveryEvent (pe_WebhookID arg) jobID (pe_ProviderMessageID arg) (pe_EventType arg)
       (Some (pe_OccurredAt arg)) (pe_Payload arg) s = (c, t)"
    by (meson surj_pair)
  have t: "email_jobs t = email_jobs s"
    by (rule keepsD [OF delivery_jobs_frame(5) create])
  have same: "list_all2 deliveryStep (email_jobs s) (email_jobs t)"
    by (simp add: t list_all2_refl deliveryStep_def)
  have "s' = t \<or> (\<exists>job r'. found = Some job \<and> applyDelivery arg job t = (r', s') \<and>
      canApplyEmailDeliveryTransition (ej_delivery_status job) (pe_DeliveryStatus arg)
        (ej_delivery_event_at job) (pe_OccurredAt arg))"
    using run find' create unfolding processDeliveryBody_def Let_def
    by (auto simp: bindM_def [of "findEmailJobForDeliveryEvent arg"] bindM_def [of "tryM _"] bindM_def [of "applyDelivery _ _"]
        tryM_def failM_def returnM_def split: sum.splits option.splits if_splits prod.splits)
  then show ?thesis
  proof
    assume "s' = t"
    with same show ?thesis by simp
  next
    assume "\<exists>job r'. found = Some job \<and> applyDelivery arg job t = (r', s') \<and>
      canApplyEmailDeliveryTransition (ej_delivery_status job) (pe_DeliveryStatus arg)
        (ej_delivery_event_at job) (pe_OccurredAt arg)"
    then obtain job r' where job: "found = Some job" "applyDelivery arg job t = (r', s')"
      "canApplyEmailDeliveryTransition (ej_delivery_status job) (pe_DeliveryStatus arg)
        (ej_delivery_event_at job) (pe_OccurredAt arg)" by blast
    then show ?thesis
      using applyDelivery_steps [OF job(2) _ _ job(3)] findEmailJob_ok(2) [OF find' job(1)] ids by (simp add: t)
  qed
qed

lemma delivery_advances:
  assumes "distinct (map ej_id (email_jobs s))"
  shows "list_all2 deliveryStep (email_jobs s) (email_jobs (snd (ProcessEmailDeliveryEventTx arg s)))"
proof -
  obtain r s' where run: "execTx (processDeliveryBody arg) s = (r, s')"
    by (cases "execTx (processDeliveryBody arg) s")
  then have "list_all2 deliveryStep (email_jobs s) (email_jobs s')"
  proof (cases rule: execTx_cases)
    case (restored e)
    then have "email_jobs s' = email_jobs s"
      by (simp add: tablesOf_def)
    then show ?thesis
      by (simp add: list_all2_refl deliveryStep_def)
  next
    case (committed x)
    then show ?thesis
      using processDelivery_steps [OF committed(1)] assms by simp
  qed
  with run show ?thesis
    by (simp add: ProcessEmailDeliveryEventTx_def)
qed

lemma duplicate_webhook:
  assumes "d \<in> set (email_delivery_events s)" "ed_webhook_id d = pe_WebhookID arg"
  shows "tablesOf (snd (ProcessEmailDeliveryEventTx arg s)) = tablesOf s"
proof -
  obtain r s' where run: "execTx (processDeliveryBody arg) s = (r, s')"
    by (cases "execTx (processDeliveryBody arg) s")
  then have "tablesOf s' = tablesOf s"
  proof (cases rule: execTx_cases)
    case (restored e)
    then show ?thesis by simp
  next
    case (committed x)
    then show ?thesis
      using duplicate_ignored(1) [OF committed(1)] assms by simp
  qed
  with run show ?thesis
    by (simp add: ProcessEmailDeliveryEventTx_def)
qed

end
