(* ===== verification/UserRules.thy ===== *)
theory UserRules
  imports DeliveryRules
begin

text \<open>
  What sign-up, email verification and a change of the profile promise.
\<close>

section \<open>Sign-up\<close>

lemma createVerificationEmailJob_ok:
  assumes "createVerificationEmailJob n a s = (Inr (job, event), s')"
  shows "email_jobs s' = email_jobs s @ [job]" "outbox_events s' = outbox_events s @ [event]"
    "ob_email_job_id event = ej_id job" "ob_event_type event = ''email_job.ready''"
    "ej_username job = n" "ej_recipient job = a" "ej_status job = ''pending''" "ej_job_type job = ''verify_email''"
    "users s' = users s"
proof -
  obtain jid t1 t2 eid t3 where steps: "newPGUUID s = (Inr jid, t1)"
      "CreateEmailJob jid None EmailJobTypeVerifyEmail n a (emailJobPayload n a) DefaultEmailMaxAttempts t1 = (Inr job, t2)"
      "newPGUUID t2 = (Inr eid, t3)"
      "CreateOutboxEvent eid jid OutboxEventTypeEmailReady (outboxEmailPayload jid) jid ''email_job'' jid t3 = (Inr event, s')"
    using assms unfolding createVerificationEmailJob_def bindM_iff returnM_iff by blast
  have same: "email_jobs t1 = email_jobs s" "outbox_events t1 = outbox_events s"
      "email_jobs t3 = email_jobs t2" "outbox_events t3 = outbox_events t2"
    using steps(1,3) by (auto simp: newPGUUID_def runs)
  note j = CreateEmailJob_ok [OF steps(2)] and e = CreateOutboxEvent_ok [OF steps(4)]
  show "email_jobs s' = email_jobs s @ [job]" "outbox_events s' = outbox_events s @ [event]"
    "ob_email_job_id event = ej_id job" "ob_event_type event = ''email_job.ready''"
    "ej_username job = n" "ej_status job = ''pending''"
    using j e same by auto
  show "ej_recipient job = a" "ej_job_type job = ''verify_email''"
    using steps(2) by (auto simp: CreateEmailJob_def runs)
  show "users s' = users s"
    by (rule keepsD [OF createVerificationEmailJob_frame assms]) simp
qed

lemma CreateUserTx_ok:
  assumes "CreateUserTx arg s = (Inr r, s')"
  shows "users s' = users s @ [ur_User r]" "us_username (ur_User r) = cu_Username arg" "us_email (ur_User r) = cu_Email arg"
    "us_account_status (ur_User r) = ''pending''" "us_email_verified_at (ur_User r) = None"
    "cu_Username arg \<notin> us_username ` set (users s)"
    "email_jobs s' = email_jobs s @ [ur_EmailJob r]" "ej_recipient (ur_EmailJob r) = cu_Email arg"
    "outbox_events s' = outbox_events s @ [ur_OutboxEvent r]" "ob_email_job_id (ur_OutboxEvent r) = ej_id (ur_EmailJob r)"
proof -
  have "bindM (CreateUser (cu_Username arg) (cu_HashedPassword arg) (cu_FullName arg) (cu_Email arg)) (\<lambda>user.
      bindM (createVerificationEmailJob (us_username user) (us_email user)) (\<lambda>(job, event).
      returnM \<lparr>ur_User = user, ur_EmailJob = job, ur_OutboxEvent = event\<rparr>)) (startTx s) = (Inr r, s')"
    using assms unfolding CreateUserTx_def by (rule execTx_ok)
  then obtain u t job event where
    create: "CreateUser (cu_Username arg) (cu_HashedPassword arg) (cu_FullName arg) (cu_Email arg) (startTx s) = (Inr u, t)"
    and mail: "createVerificationEmailJob (us_username u) (us_email u) t = (Inr (job, event), s')"
    and r: "r = \<lparr>ur_User = u, ur_EmailJob = job, ur_OutboxEvent = event\<rparr>"
    unfolding bindM_iff by (auto simp: returnM_iff)
  have u: "users t = users s @ [u]" "us_username u = cu_Username arg" "us_email u = cu_Email arg"
    "us_account_status u = ''pending''" "us_email_verified_at u = None" "email_jobs t = email_jobs s" "outbox_events t = outbox_events s"
    "cu_Username arg \<notin> us_username ` set (users s)"
    using create unfolding CreateUser_def
    by (auto simp: runs userInsertChecks_def list_ex_iff)
  note m = createVerificationEmailJob_ok [OF mail]
  show "users s' = users s @ [ur_User r]" "us_username (ur_User r) = cu_Username arg" "us_email (ur_User r) = cu_Email arg"
    "us_account_status (ur_User r) = ''pending''" "us_email_verified_at (ur_User r) = None"
    "cu_Username arg \<notin> us_username ` set (users s)"
    "email_jobs s' = email_jobs s @ [ur_EmailJob r]" "ej_recipient (ur_EmailJob r) = cu_Email arg"
    "outbox_events s' = outbox_events s @ [ur_OutboxEvent r]" "ob_email_job_id (ur_OutboxEvent r) = ej_id (ur_EmailJob r)"
    using u m r by simp_all
qed

section \<open>Verification\<close>

text \<open>
  Who is verified: the user of a job whose token, not yet expired, was presented, under the address the
  job was sent to and the account still has.
\<close>

definition verifiedBy :: "VerifyUserEmailTxParams \<Rightarrow> world \<Rightarrow> EmailJob \<Rightarrow> User \<Rightarrow> bool" where
  "verifiedBy arg s job user \<longleftrightarrow>
     job \<in> set (email_jobs s) \<and> Some (ej_id job) = ve_JobID arg \<and> ej_username job = ve_Username arg \<and>
     foldCase (envir s) (ej_recipient job) = foldCase (envir s) (ve_Email arg) \<and>
     tokenLive job (clockAt (envir s) (clock_ctr s + 1)) \<and>
     orElse (ej_verification_token_hash job) '''' = ve_TokenHash arg \<and>
     user \<in> set (users s) \<and> us_username user = ve_Username arg \<and>
     foldCase (envir s) (us_email user) = foldCase (envir s) (ve_Email arg) \<and>
     us_account_status user \<noteq> ''disabled'' \<and> us_email_deliverability_status user \<noteq> ''undeliverable''"

lemma MarkUserEmailVerified_ok:
  assumes "MarkUserEmailVerified n e s = (Inr u, s')"
  shows "us_username u = n" "us_account_status u = ''active''" "us_email_verified_at u \<noteq> None"
  using assms unfolding MarkUserEmailVerified_def updateUserRow_def
  by (auto simp: runs dest: find_Some_iff2 split: option.splits)

lemma VerifyUserEmailTx_ok:
  assumes "VerifyUserEmailTx arg s = (Inr u, s')"
  obtains job user where "verifiedBy arg s job user" "us_username u = ve_Username arg"
    "us_account_status u = ''active''" "us_email_verified_at u \<noteq> None"
proof -
  have "verifyUserEmailBody arg (startTx s) = (Inr u, s')"
    using assms unfolding VerifyUserEmailTx_def by (rule execTx_ok)
  then obtain job s1 sameR s2 now s3 user s4 sameA s5 where
    get: "mapErrM (errIfNoRows ErrEmailVerificationJobMismatch) (GetEmailJobForUpdate (ve_JobID arg)) (startTx s) = (Inr job, s1)"
    and r: "equalFold (ej_recipient job) (ve_Email arg) s1 = (Inr sameR, s2)"
    and g1: "\<not> (ej_username job \<noteq> ve_Username arg \<or> \<not> sameR)" and clock: "timeNow s2 = (Inr now, s3)"
    and g2: "\<not> \<not> tokenLive job now" "\<not> \<not> constantTimeHashEqual (orElse (ej_verification_token_hash job) '''') (ve_TokenHash arg)"
    and us: "GetUserForUpdate (ve_Username arg) s3 = (Inr user, s4)"
    and a: "equalFold (us_email user) (ve_Email arg) s4 = (Inr sameA, s5)" and g3: "\<not> \<not> sameA"
    and g4: "\<not> us_account_status user = AccountStatusDisabled"
      "\<not> us_email_deliverability_status user = EmailDeliverabilityUndeliverable"
    and end': "(if us_account_status user = AccountStatusActive \<and> us_email_verified_at user \<noteq> None then returnM user
      else bindM (MarkUserEmailVerified (ve_Username arg) (ve_Email arg)) (\<lambda>result.
           bindM (CreateAuditLog ''email_job'' (Some (ej_id job)) (Some (ej_id job)) ''email_verified'' ''user''
                    (nullableText (us_account_status user)) (nullableText AccountStatusActive) None (JObj [])) (\<lambda>_.
           returnM result))) s5 = (Inr u, s')"
    unfolding verifyUserEmailBody_def bindM_iff failIf_iff by blast
  have j: "job \<in> set (email_jobs s)" "Some (ej_id job) = ve_JobID arg" "s1 = startTx s"
    using get by (auto simp: GetEmailJobForUpdate_def runs dest: find_Some_iff2)
  have st: "s2 = startTx s" "sameR \<longleftrightarrow> foldCase (envir s) (ej_recipient job) = foldCase (envir s) (ve_Email arg)"
      "now = clockAt (envir s) (clock_ctr s + 1)" "s3 = (startTx s)\<lparr>clock_ctr := clock_ctr s + 2\<rparr>"
    using r clock j(3) by (auto simp: equalFold_def runs startTx_def)
  have u: "user \<in> set (users s)" "us_username user = ve_Username arg" "s4 = s3" "s5 = s3"
      "sameA \<longleftrightarrow> foldCase (envir s) (us_email user) = foldCase (envir s) (ve_Email arg)"
    using us a st(4) by (auto simp: GetUserForUpdate_def equalFold_def runs dest: find_Some_iff2)
  have "verifiedBy arg s job user"
    using j st u g1 g2 g3 g4 by (simp add: verifiedBy_def constantTimeHashEqual_def)
  moreover have "us_username u = ve_Username arg \<and> us_account_status u = ''active'' \<and> us_email_verified_at u \<noteq> None"
  proof (cases "us_account_status user = AccountStatusActive \<and> us_email_verified_at user \<noteq> None")
    case True
    then show ?thesis using end' u(2) by (simp add: returnM_iff)
  next
    case False
    then obtain t where "MarkUserEmailVerified (ve_Username arg) (ve_Email arg) s5 = (Inr u, t)"
      using end' unfolding if_not_P [OF False] bindM_iff returnM_iff by blast
    then show ?thesis
      using MarkUserEmailVerified_ok by blast
  qed
  ultimately show thesis
    using that by blast
qed

end
