(* ===== verification/AccessProperties.thy ===== *)
theory AccessProperties
  imports Runs UserRules
begin

text \<open>
  The properties of sign-up, email verification, sessions and refresh tokens.
\<close>

lemma sample_in_sessions: "goodSessions sampleSessionWorld" "goodSessions sampleRevokedWorld"
  using sample_sessions by (simp_all add: goodSessions_def)

lemma sample_faultless:
  "beginFault (envir sampleSessionWorld) n = None" "commitFault (envir sampleSessionWorld) n = None"
  "auditReady sampleSessionWorld"
  by (simp_all add: sampleSessionWorld_def sampleWorld_def sampleWorldIn_def initialWorld_def sampleEnv_def
      auditReady_def in_int64_def)

lemma sample_clock: "clockAt (envir sampleSessionWorld) n = 1700000000000000 + int n * 1000000"
  "clock_ctr sampleSessionWorld = 0"
  by (simp_all add: sampleSessionWorld_def sampleWorld_def sampleWorldIn_def initialWorld_def sampleEnv_def)

section \<open>Helpers\<close>

lemma GetSession_run:
  assumes "distinct (map se_id (sessions s))" "y \<in> set (sessions s)" "autocommit (GetSession (Some (se_id y))) s = (Inr z, t)"
  shows "z = y"
proof -
  have "find (\<lambda>x. Some (se_id x) = Some (se_id y)) (sessions s) = Some z"
    using autocommit_ok(1) [OF assms(3)] by (simp add: GetSession_def selectOne_iff)
  then have "z \<in> set (sessions s)" "se_id z = se_id y"
    by (auto dest: find_Some_iff2)
  then show ?thesis
    using find_key_inject [OF assms(1) _ assms(2)] by blast
qed

lemma revoked_kept:
  assumes "sessionsKept s t" "x \<in> set (sessions s)" "se_revoked_at x \<noteq> None"
  obtains y where "y \<in> set (sessions t)" "se_id y = se_id x" "se_revoked_at y = se_revoked_at x"
proof -
  obtain ys zs where ys: "sessions t = ys @ zs" "list_all2 sessionKept (sessions s) ys"
    using assms(1) unfolding sessionsKept_def by blast
  obtain i where "i < length (sessions s)" "x = sessions s ! i"
    using assms(2) by (metis in_set_conv_nth)
  then have "ys ! i \<in> set (sessions t)" "sessionKept x (ys ! i)"
    using ys by (auto simp: list_all2_conv_all_nth)
  with assms(3) show thesis
    by (intro that [of "ys ! i"]) (auto simp: sessionKept_def)
qed

section \<open>Sessions\<close>

text \<open>
  C21. In every reachable state a user has at most one session that is not revoked.
\<close>

theorem one_session_per_user:
  assumes "reachable e s"
  shows "length (activeOf username (sessions s)) \<le> 1"
  using reachable_tables(1) [OF assms] unfolding goodSessions_def by (rule sessionsOk_active)

theorem one_session_per_user_witness:
  "length (activeOf ''alice'' (sessions (perform (OpCreateExclusiveSession sampleLogin)
     (perform sampleSignUp (initialWorld sampleEnv []))))) \<le> 1"
  using one_session_per_user [OF reachable.step [OF reachable.step [OF reachable.start]]] .

text \<open>
  C22. A session that was revoked is refused for ever: whatever operations follow, no later check of it
  succeeds, with any user name and any device.
\<close>

theorem revoked_for_ever:
  assumes "sessionsOk (sessions s)" "x \<in> set (sessions s)" "se_revoked_at x \<noteq> None" "later s t"
  shows "isl (fst (ValidateSession (Some (se_id x)) username device t))"
proof (rule ccontr)
  assume "\<not> ?thesis"
  then obtain t' where ok: "ValidateSession (Some (se_id x)) username device t = (Inr (), t')"
    using run_pair by (metis (full_types) unit.exhaust)
  have good: "goodSessions t"
    using goodSessions_ops.later [OF assms(4)] assms(1) by (simp add: goodSessions_def)
  obtain y where y: "y \<in> set (sessions t)" "se_id y = se_id x" "se_revoked_at y = se_revoked_at x"
    using revoked_kept [OF later_sessionsKept [OF assms(4)] assms(2,3)] .
  obtain z u where get: "autocommit (GetSession (Some (se_id y))) t = (Inr z, u)" and "se_revoked_at z = None"
    using ok y(2) unfolding ValidateSession_def by (auto simp: bindM_iff failIf_iff)
  moreover have "z = y"
    using GetSession_run [OF _ y(1) get] good by (simp add: goodSessions_def sessionsOk_def)
  ultimately show False
    using y(3) assms(3) by simp
qed

theorem revoked_for_ever_witness:
  "isl (fst (ValidateSession (Some 300) ''alice'' ''d1'' (perform (OpCreateExclusiveSession sampleLogin) sampleRevokedWorld)))"
proof -
  let ?x = "sampleSession\<lparr>se_revoked_at := Some 1650000000000000, se_revoked_reason := Some ''user_logout''\<rparr>"
  have "?x \<in> set (sessions sampleRevokedWorld)" "se_revoked_at ?x \<noteq> None"
    by (simp_all add: sampleRevokedWorld_def)
  then show ?thesis
    using revoked_for_ever [OF sample_sessions(2) _ _ later.after [OF later.now], of ?x]
    by (simp add: sampleSession_def del: perform.simps)
qed

text \<open>
  C23. After a login the new session is the user's only session that is not revoked; it has the id and
  the token hash of the request, and the sessions of other users are untouched.
\<close>

theorem login_effect:
  assumes "sessionsOk (sessions s)" "CreateExclusiveSessionTx arg s = (Inr x, s')"
  shows "activeOf (cs_Username arg) (sessions s') = [x] \<and> Some (se_id x) = cs_ID arg \<and>
     se_refresh_token_hash x = cs_RefreshTokenHash arg \<and>
     filter (\<lambda>y. se_username y \<noteq> cs_Username arg) (sessions s') =
     filter (\<lambda>y. se_username y \<noteq> cs_Username arg) (sessions s)"
  using login_replaces [OF assms(2)] assms(1) by (simp add: goodSessions_def)

theorem login_effect_witness:
  "\<not> isl (fst (CreateExclusiveSessionTx sampleLogin sampleSessionWorld)) \<and>
   activeOf ''alice'' (sessions (snd (CreateExclusiveSessionTx sampleLogin sampleSessionWorld))) =
     [projr (fst (CreateExclusiveSessionTx sampleLogin sampleSessionWorld))]"
  using sample_login_succeeds login_effect [OF sample_sessions(1) run_pair [OF sample_login_succeeds]]
  by (simp add: sampleLogin_def)

section \<open>Refresh tokens\<close>



text \<open>
  C25. A refresh token works once: presenting one that is no longer the session's current token, from its
  user and device, fails with the reuse error and revokes the session, as long as the database answers.
\<close>

theorem refresh_reuse_revokes:
  assumes "sessionsOk (sessions s)" "x \<in> set (sessions s)" "Some (se_id x) = rr_SessionID arg"
    "se_username x = rr_Username arg" "se_revoked_at x = None" "clockAt (envir s) (clock_ctr s + 1) < se_expires_at x"
    "se_device_token_hash x = rr_PresentedDeviceHash arg"
    "se_refresh_token_hash x \<noteq> rr_PresentedTokenHash arg \<or> Some (se_refresh_token_id x) \<noteq> rr_PresentedRefreshID arg"
    "beginFault (envir s) (tx_ctr s) = None" "commitFault (envir s) (tx_ctr s) = None" "auditReady s"
  shows "fst (RotateRefreshTokenTx arg s) = Inl ErrRefreshTokenReuse \<and>
     activeOf (se_username x) (sessions (snd (RotateRefreshTokenTx arg s))) = []"
proof -
  have good: "goodSessions s"
    using assms(1) by (simp add: goodSessions_def)
  obtain s' where s': "RotateRefreshTokenTx arg s = (Inl ErrRefreshTokenReuse, s')"
    "sessions s' = map (\<lambda>z. if se_id z = se_id x
       then revokeRow (clockAt (envir s) (clock_ctr s)) (Some ''refresh_token_reuse'') z else z) (sessions s)"
    using reuse_revokes [OF assms(2,3) good assms(4-11)] .
  have "z = x" if "z \<in> set (sessions s)" "se_username z = se_username x" "se_revoked_at z = None" for z
  proof -
    have "z \<in> set (activeOf (se_username x) (sessions s))" "x \<in> set (activeOf (se_username x) (sessions s))"
      using that assms(2,5) by (simp_all add: activeOf_def)
    moreover have "length (activeOf (se_username x) (sessions s)) \<le> 1"
      using assms(1) by (rule sessionsOk_active)
    ultimately show ?thesis
      by (cases "activeOf (se_username x) (sessions s)") auto
  qed
  then have "activeOf (se_username x) (sessions s') = []"
    unfolding s'(2) activeOf_def by (auto simp: filter_empty_conv revokeRow_def split: option.split)
  with s'(1) show ?thesis by simp
qed

theorem refresh_reuse_revokes_witness:
  "fst (RotateRefreshTokenTx (sampleRotate\<lparr>rr_PresentedTokenHash := ''r0''\<rparr>) sampleSessionWorld) = Inl ErrRefreshTokenReuse"
  using refresh_reuse_revokes [OF sample_sessions(1), of sampleSession "sampleRotate\<lparr>rr_PresentedTokenHash := ''r0''\<rparr>"]
    sample_faultless sample_clock
  by (simp add: sampleSession_def sampleRotate_def) (simp add: sampleSessionWorld_def sampleSession_def)

section \<open>Users\<close>

text \<open>
  C26. In every reachable state user names are unique, and an account is active exactly when its email
  address is verified.
\<close>

theorem active_iff_verified:
  assumes "reachable e s"
  shows "distinct (map us_username (users s)) \<and>
     (\<forall>u\<in>set (users s). us_account_status u = ''active'' \<longleftrightarrow> us_email_verified_at u \<noteq> None)"
  using reachable_tables(2) [OF assms] by (auto simp: usersOk_def list_all_iff userRowOk_def)

theorem active_iff_verified_witness:
  "distinct (map us_username (users (perform sampleSignUp (initialWorld sampleEnv []))))"
  using active_iff_verified [OF reachable.step [OF reachable.start]] by blast

text \<open>
  C27. A sign-up that returns has added one user with a fresh name, pending and not verified, and in the
  same transaction the mail job for the user's address together with the outbox event that announces it.
\<close>

theorem sign_up_effect:
  assumes "CreateUserTx arg s = (Inr r, s')"
  shows "users s' = users s @ [ur_User r] \<and> cu_Username arg \<notin> us_username ` set (users s) \<and>
     us_username (ur_User r) = cu_Username arg \<and> us_email (ur_User r) = cu_Email arg \<and>
     us_account_status (ur_User r) = ''pending'' \<and> us_email_verified_at (ur_User r) = None \<and>
     email_jobs s' = email_jobs s @ [ur_EmailJob r] \<and> ej_recipient (ur_EmailJob r) = cu_Email arg \<and>
     outbox_events s' = outbox_events s @ [ur_OutboxEvent r] \<and>
     ob_email_job_id (ur_OutboxEvent r) = ej_id (ur_EmailJob r)"
  using CreateUserTx_ok [OF assms] by blast

theorem sign_up_effect_witness:
  "users (snd (CreateUserTx sampleSignUpArg sampleWorld)) =
     users sampleWorld @ [ur_User (projr (fst (CreateUserTx sampleSignUpArg sampleWorld)))]"
  using sign_up_effect [OF run_pair [OF sample_sign_up_succeeds]] by blast

text \<open>
  C28. Verification is sound: a user becomes verified only through a mail job of theirs whose token was
  presented before it expired, addressed to the address the account still has, and neither disabled nor
  undeliverable.
\<close>

theorem verification_sound:
  assumes "VerifyUserEmailTx arg s = (Inr u, s')"
  shows "\<exists>job user. verifiedBy arg s job user \<and> us_username u = ve_Username arg \<and>
     us_account_status u = ''active'' \<and> us_email_verified_at u \<noteq> None"
  using assms by (rule VerifyUserEmailTx_ok) blast

theorem verification_sound_witness:
  "\<exists>job user. verifiedBy sampleVerify sampleMailWorld job user"
  using verification_sound [OF run_pair [OF sample_verify_succeeds]] by blast

section \<open>Beneficiaries\<close>

text \<open>
  C29. A saved destination is an existing account that is not closed; the owner had not saved it before,
  and the call adds this one row and changes no account.
\<close>

theorem beneficiary_effect:
  assumes "CreateBeneficiaryTx arg s = (Inr r, s')"
  shows "cr_DestinationAccount r \<in> set (accounts s) \<and> ac_status (cr_DestinationAccount r) \<noteq> ''closed'' \<and>
     be_owner (cr_Beneficiary r) = cb_Owner arg \<and>
     be_destination_account_id (cr_Beneficiary r) = ac_id (cr_DestinationAccount r) \<and>
     beneficiaries s' = beneficiaries s @ [cr_Beneficiary r] \<and> accounts s' = accounts s \<and>
     (cb_Owner arg, ac_id (cr_DestinationAccount r)) \<notin>
       (\<lambda>b. (be_owner b, be_destination_account_id b)) ` set (beneficiaries s)"
  using CreateBeneficiaryTx_ok [OF assms] by blast

theorem beneficiary_effect_witness:
  "cr_DestinationAccount (projr (fst (CreateBeneficiaryTx sampleBeneficiary sampleWorld))) \<in> set (accounts sampleWorld)"
  using beneficiary_effect [OF run_pair [OF sample_beneficiary_succeeds]] by blast

end
