(* ===== verification/WorkerRules.thy ===== *)
theory WorkerRules
  imports Keys DeliveryRules
begin

text \<open>
  What the worker promises: what it reports to the queue is what the table says of the job, finished jobs
  are not sent again, and an outbox event counts as published only when the queue has taken its task.
\<close>

section \<open>Updates of mail jobs\<close>

lemma updateEmailJob_ok:
  assumes "updateEmailJob p f s = (Inr new, t)"
  shows "email_jobs t = map (\<lambda>x. if p x then f x else x) (email_jobs s)"
    "\<exists>old\<in>set (email_jobs s). p old \<and> new = f old"
proof -
  have keep: "keeps email_jobs (auditEmailJobUpdate j j')" for j j'
    unfolding auditEmailJobUpdate_def by (intro frame; simp)
  obtain old t1 where "selectOne ErrNoRows email_jobs p s = (Inr old, s)"
    and up: "updateRow ErrNoRows emailJobRowChecks email_jobs email_jobs_update p f s = (Inr new, t1)"
    and "auditEmailJobUpdate old new t1 = (Inr (), t)"
    using assms unfolding updateEmailJob_def by (auto simp: bindM_iff selectOne_iff returnM_iff)
  then show "email_jobs t = map (\<lambda>x. if p x then f x else x) (email_jobs s)"
    using keepsD [OF keep] email_jobs.after_update [OF up] by simp
  show "\<exists>old\<in>set (email_jobs s). p old \<and> new = f old"
    using up by (auto simp: updateRow_iff dest: find_Some_iff2)
qed

lemma updated_job:
  assumes "updateEmailJob p f s = (Inr new, t)" "distinct (map ej_id (email_jobs s))" "\<And>x. ej_id (f x) = ej_id x"
  shows "new \<in> set (email_jobs t)" "distinct (map ej_id (email_jobs t))"
  using updateEmailJob_ok [OF assms(1)] assms(2,3) by (auto simp: map_if_key simp del: map_map)

lemma job_rows:
  assumes "updateEmailJob p f s = (Inr new, t)" "distinct (map ej_id (email_jobs s))" "\<And>x. ej_id (f x) = ej_id x"
    and "\<And>x. p x \<Longrightarrow> ej_id x = i" "j \<in> set (email_jobs t)" "ej_id j = i"
  shows "j = new"
proof -
  have "ej_id new = i"
    using updateEmailJob_ok(2) [OF assms(1)] assms(3,4) by auto
  then show ?thesis
    using find_key_inject [OF updated_job(2) [OF assms(1-3)] assms(5) updated_job(1) [OF assms(1-3)]] assms(6) by simp
qed

text \<open>The attempts of each job, which a single attempt's later statements leave alone.\<close>

definition attemptsOf :: "world \<Rightarrow> (uuid \<times> int \<times> int) list" where
  "attemptsOf s = map (\<lambda>j. (ej_id j, ej_attempt_count j, ej_max_attempts j)) (email_jobs s)"

lemma attemptsOf_fields [simp]:
  "tableField attemptsOf" "attemptsOf (audit_logs_update g s) = attemptsOf s"
  "attemptsOf (audit_logs_id_seq_update h s) = attemptsOf s"
  by (simp_all add: tableField_def tablesOf_def attemptsOf_def)

lemma updateEmailJob_attempts:
  assumes "\<And>j. ej_id (f j) = ej_id j" "\<And>j. ej_attempt_count (f j) = ej_attempt_count j" "\<And>j. ej_max_attempts (f j) = ej_max_attempts j"
  shows "keeps attemptsOf (updateEmailJob p f)"
proof -
  have "attemptsOf (email_jobs_update (map (\<lambda>x. if p x then f x else x)) s) = attemptsOf s" for s
    using map_if_key [of "\<lambda>j. (ej_id j, ej_attempt_count j, ej_max_attempts j)" f p "email_jobs s"] assms
    by (simp add: attemptsOf_def del: map_map)
  then have "keeps attemptsOf (updateRow ErrNoRows emailJobRowChecks email_jobs email_jobs_update p f)"
    unfolding keeps_def within_def updateRow_def by (simp split: option.split)
  moreover have "keeps attemptsOf (auditEmailJobUpdate j j')" for j j'
    unfolding auditEmailJobUpdate_def by (intro frame; simp)
  ultimately show ?thesis
    unfolding updateEmailJob_def by (intro keeps_rules table_frame(2))
qed

lemma sending_keeps_attempts: "keeps attemptsOf (sendEmailJob sv rp job jid)"
proof -
  have "keeps attemptsOf (SetEmailJobVerificationToken i h ex)" for i h ex
    unfolding SetEmailJobVerificationToken_def by (intro frame updateEmailJob_attempts) simp_all
  then show ?thesis
    unfolding sendEmailJob_def verificationEmailPayload_def Let_def by (intro frame; simp)
qed

section \<open>What an attempt reports\<close>

text \<open>
  The result of the task and the state of its job: sent, to be retried with attempts left, or given up.
\<close>

definition reported :: "error + unit \<Rightarrow> EmailJob \<Rightarrow> bool" where
  "reported r j \<longleftrightarrow>
     (case r of
        Inr _ \<Rightarrow> ej_status j = ''sent''
      | Inl e \<Rightarrow>
          (e = GoErr ''temporary email delivery failure'' \<longrightarrow>
             ej_status j = ''retrying'' \<and> ej_attempt_count j < ej_max_attempts j) \<and>
          (e = GoErr ''email delivery retries exhausted'' \<or> e = WrapErr ''permanent email delivery failure'' SkipRetry \<longrightarrow>
             ej_status j = ''dead_letter''))"

lemma Mark_status:
  assumes "distinct (map ej_id (email_jobs s))" "j \<in> set (email_jobs t)" "ej_id j = i"
  shows "MarkEmailJobSent (Some i) mid s = (Inr j', t) \<Longrightarrow> ej_status j = ''sent''"
    "MarkEmailJobDeadLetter (Some i) le s = (Inr j', t) \<Longrightarrow> ej_status j = ''dead_letter''"
    "MarkEmailJobRetrying (Some i) le s = (Inr j', t) \<Longrightarrow> ej_status j = ''retrying''"
proof -
  have row: "ej_status j = st" if up: "updateEmailJob p f s = (Inr j', t)"
    and f: "\<And>x. ej_id (f x) = ej_id x" "\<And>x. ej_status (f x) = st" and p: "\<And>x. p x \<Longrightarrow> ej_id x = i" for p f st
    using job_rows [OF up assms(1) f(1) p assms(2,3)] updateEmailJob_ok(2) [OF up] f(2) by auto
  show "MarkEmailJobSent (Some i) mid s = (Inr j', t) \<Longrightarrow> ej_status j = ''sent''"
    "MarkEmailJobDeadLetter (Some i) le s = (Inr j', t) \<Longrightarrow> ej_status j = ''dead_letter''"
    "MarkEmailJobRetrying (Some i) le s = (Inr j', t) \<Longrightarrow> ej_status j = ''retrying''"
    unfolding MarkEmailJobSent_def MarkEmailJobDeadLetter_def MarkEmailJobRetrying_def
    by (auto simp: bindM_iff readM_iff elim!: row)
qed

lemma attempts_source:
  assumes "attemptsOf t = attemptsOf s" "j \<in> set (email_jobs t)"
  shows "\<exists>y\<in>set (email_jobs s). ej_id y = ej_id j \<and> ej_attempt_count y = ej_attempt_count j \<and> ej_max_attempts y = ej_max_attempts j"
proof -
  have "(ej_id j, ej_attempt_count j, ej_max_attempts j) \<in> set (attemptsOf t)"
    using assms(2) by (auto simp: attemptsOf_def)
  then show ?thesis
    unfolding assms(1) by (auto simp: attemptsOf_def)
qed

lemma StartEmailJobAttempt_ok:
  assumes "autocommit (StartEmailJobAttempt (Some i)) s = (Inr job, t)" "distinct (map ej_id (email_jobs s))"
  shows "job \<in> set (email_jobs t)" "ej_id job = i" "distinct (map ej_id (email_jobs t))" "ej_status job = ''processing''"
proof -
  obtain p f where up: "updateEmailJob p f (startTx s) = (Inr job, t)"
    and pf: "\<And>x. ej_id (f x) = ej_id x" "\<And>x. ej_status (f x) = ''processing''" "\<And>x. p x \<Longrightarrow> ej_id x = i"
    using autocommit_ok(1) [OF assms(1)] unfolding StartEmailJobAttempt_def by (auto simp: bindM_iff readM_iff)
  have "distinct (map ej_id (email_jobs (startTx s)))"
    using assms(2) by simp
  from updated_job [OF up this pf(1)] show "job \<in> set (email_jobs t)" "distinct (map ej_id (email_jobs t))" .
  show "ej_id job = i" "ej_status job = ''processing''"
    using updateEmailJob_ok(2) [OF up] pf by auto
qed

text \<open>The statement that records the outcome, and what the row says then.\<close>

lemma failedAttempt_reported:
  assumes run: "failedAttempt i job sendErr s = (r, t)" and j: "j \<in> set (email_jobs t)" "ej_id j = i"
    and ids: "distinct (map ej_id (email_jobs s))"
    and attempts: "ej_attempt_count job < ej_max_attempts job \<Longrightarrow> \<forall>x\<in>set (email_jobs s). ej_id x = i \<longrightarrow> ej_attempt_count x < ej_max_attempts x"
  shows "reported r j"
proof (cases "IsPermanent sendErr \<or> ej_max_attempts job \<le> ej_attempt_count job")
  case True
  let ?m = "autocommit (MarkEmailJobDeadLetter (Some i) (Some (safeEmailSendError sendErr)))"
  obtain m u where m: "?m s = (m, u)" by (cases "?m s")
  show ?thesis
  proof (cases m)
    case (Inl e)
    then have "r = Inl (WrapErr ''persist dead-letter state after send failure'' e)"
      using run True m unfolding failedAttempt_def Let_def by (simp add: bindM_def mapErrM_def)
    then show ?thesis by (simp add: reported_def)
  next
    case (Inr x)
    then have "t = u" and r: "r = Inl (if IsPermanent sendErr then WrapErr (safeEmailSendError sendErr) SkipRetry
        else GoErr ''email delivery retries exhausted'')"
      using run True m unfolding failedAttempt_def Let_def by (auto simp: bindM_def mapErrM_def failM_def split: if_splits)
    moreover have "MarkEmailJobDeadLetter (Some i) (Some (safeEmailSendError sendErr)) (startTx s) = (Inr x, u)"
      using m Inr by (auto dest: autocommit_ok)
    then have "ej_status j = ''dead_letter''"
      using Mark_status(2) [of "startTx s" j t i] ids j \<open>t = u\<close> by simp
    ultimately show ?thesis by (simp add: reported_def)
  qed
next
  case False
  let ?m = "autocommit (MarkEmailJobRetrying (Some i) (Some (safeEmailSendError sendErr)))"
  obtain m u where m: "?m s = (m, u)" by (cases "?m s")
  show ?thesis
  proof (cases m)
    case (Inl e)
    then have "r = Inl (WrapErr ''persist retrying state after send failure'' e)"
      using run False m unfolding failedAttempt_def Let_def by (simp add: bindM_def mapErrM_def)
    then show ?thesis by (simp add: reported_def)
  next
    case (Inr x)
    then have tu: "t = u" and r: "r = Inl (GoErr ''temporary email delivery failure'')"
      using run False m unfolding failedAttempt_def Let_def
      by (auto simp: bindM_def mapErrM_def failM_def safeEmailSendError_def)
    have body: "MarkEmailJobRetrying (Some i) (Some (safeEmailSendError sendErr)) (startTx s) = (Inr x, t)"
      using m Inr tu by (auto dest: autocommit_ok)
    then have "ej_status j = ''retrying''"
      using Mark_status(3) [of "startTx s" j t i] ids j by simp
    moreover have "keeps attemptsOf (MarkEmailJobRetrying a b)" for a b
      unfolding MarkEmailJobRetrying_def by (intro frame updateEmailJob_attempts) simp_all
    then have "attemptsOf t = attemptsOf s"
      using keepsD body by (fastforce simp: attemptsOf_def)
    then have "\<exists>y\<in>set (email_jobs s). ej_id y = i \<and> ej_attempt_count y = ej_attempt_count j \<and> ej_max_attempts y = ej_max_attempts j"
      using attempts_source j by blast
    ultimately show ?thesis
      using False attempts r by (auto simp: reported_def)
  qed
qed

lemma sent_reported:
  assumes run: "bindM (mapErrM (WrapErr ''persist sent email job'') (autocommit (MarkEmailJobSent (Some i) mid))) (\<lambda>_. returnM ()) s = (r, t)"
    and j: "j \<in> set (email_jobs t)" "ej_id j = i" and ids: "distinct (map ej_id (email_jobs s))"
  shows "reported r j"
proof -
  obtain m u where m: "autocommit (MarkEmailJobSent (Some i) mid) s = (m, u)"
    by (cases "autocommit (MarkEmailJobSent (Some i) mid) s")
  show ?thesis
  proof (cases m)
    case (Inl e)
    then have "r = Inl (WrapErr ''persist sent email job'' e)"
      using run m by (simp add: bindM_def mapErrM_def)
    then show ?thesis by (simp add: reported_def)
  next
    case (Inr x)
    then have "t = u" "r = Inr ()"
      using run m by (auto simp: bindM_def mapErrM_def returnM_def)
    moreover have "MarkEmailJobSent (Some i) mid (startTx s) = (Inr x, t)"
      using m Inr \<open>t = u\<close> by (auto dest: autocommit_ok)
    then have "ej_status j = ''sent''"
      using Mark_status(1) [of "startTx s" j t i] ids j by simp
    ultimately show ?thesis by (simp add: reported_def)
  qed
qed

lemma attempt_reported:
  assumes start: "autocommit (StartEmailJobAttempt (Some i)) s = (Inr job, t1)"
    and run: "bindM (tryM (sendEmailJob sv rp job jid)) (\<lambda>r. case r of
        Inl sendErr \<Rightarrow> failedAttempt i job sendErr
      | Inr mid \<Rightarrow> bindM (mapErrM (WrapErr ''persist sent email job'')
                    (autocommit (MarkEmailJobSent (Some i) (Some mid)))) (\<lambda>_. returnM ())) t1 = (r, t)"
    and j: "j \<in> set (email_jobs t)" "ej_id j = i" and ids: "distinct (map ej_id (email_jobs s))"
  shows "reported r j"
proof -
  note job = StartEmailJobAttempt_ok [OF start ids]
  obtain m t2 where send: "sendEmailJob sv rp job jid t1 = (m, t2)"
    by (cases "sendEmailJob sv rp job jid t1")
  have same: "attemptsOf t2 = attemptsOf t1"
    using sending_keeps_attempts send by (rule keepsD)
  have ids2: "distinct (map ej_id (email_jobs t2))"
    using job(3) arg_cong [OF same, of "map fst"] by (simp add: attemptsOf_def comp_def)
  have "ej_attempt_count x < ej_max_attempts x" if left: "ej_attempt_count job < ej_max_attempts job"
    and x: "x \<in> set (email_jobs t2)" "ej_id x = i" for x
  proof -
    obtain y where y: "y \<in> set (email_jobs t1)" "ej_id y = ej_id x" "ej_attempt_count y = ej_attempt_count x"
      "ej_max_attempts y = ej_max_attempts x"
      using attempts_source [OF same x(1)] by blast
    then have "y = job"
      using find_key_inject [OF job(3) y(1) job(1)] job(2) x(2) by simp
    with y left show ?thesis by simp
  qed
  then show ?thesis
    using run send j ids2 failedAttempt_reported sent_reported
    by (cases m) (auto simp: bindM_def [of "tryM _"] tryM_def)
qed

text \<open>A job that was sent or given up is left alone; any other run reports what the row says.\<close>

lemma task_reported:
  assumes run: "ProcessTaskSendEmail sv rp task s = (r, t)" and payload: "unmarshalSendEmail task = Inr p" "parseJobID sv (se_JobID p) = Inr i"
    and j: "j \<in> set (email_jobs t)" "ej_id j = i" and ids: "distinct (map ej_id (email_jobs s))"
  shows "reported r j"
proof -
  obtain m s1 where get: "autocommit (GetEmailJob (Some i)) s = (m, s1)"
    by (cases "autocommit (GetEmailJob (Some i)) s")
  have "keeps email_jobs (autocommit (GetEmailJob (Some i)))"
    by (intro frame; simp)
  then have same: "email_jobs s1 = email_jobs s"
    using get by (rule keepsD)
  show ?thesis
  proof (cases m)
    case (Inl e)
    then show ?thesis
      using run get payload unfolding ProcessTaskSendEmail_def
      by (auto simp: bindM_def mapErrM_def reported_def split: if_splits)
  next
    case (Inr job0)
    then have "GetEmailJob (Some i) (startTx s) = (Inr job0, s1)"
      using get by (auto dest: autocommit_ok)
    then have job0: "job0 \<in> set (email_jobs s)" "ej_id job0 = i"
      by (auto simp: GetEmailJob_def selectOne_iff dest: find_Some_iff2)
    show ?thesis
    proof (cases "ej_status job0 = ''sent'' \<or> ej_status job0 = ''dead_letter''")
      case True
      then have "t = s1" "r = Inr () \<and> ej_status job0 = ''sent'' \<or> r = Inl (WrapErr ''email job is already dead-lettered'' SkipRetry)"
        using run get payload Inr unfolding ProcessTaskSendEmail_def
        by (auto simp: bindM_def mapErrM_def returnM_def failIf_def failM_def)
      moreover have "j = job0"
        using find_key_inject [OF ids _ job0(1)] j job0(2) \<open>t = s1\<close> same by simp
      ultimately show ?thesis by (auto simp: reported_def)
    next
      case False
      obtain m2 t1 where start: "autocommit (StartEmailJobAttempt (Some i)) s1 = (m2, t1)"
        by (cases "autocommit (StartEmailJobAttempt (Some i)) s1")
      show ?thesis
      proof (cases m2)
        case e: (Inl e)
        then show ?thesis
          using run get payload Inr False start unfolding ProcessTaskSendEmail_def
          by (auto simp: bindM_def mapErrM_def failIf_def reported_def)
      next
        case job: (Inr job)
        show ?thesis
          using run get payload Inr False start job same ids j
          by (intro attempt_reported [where s = s1 and t = t and i = i and job = job and sv = sv and rp = rp and ?t1.0 = t1])
            (auto simp: ProcessTaskSendEmail_def bindM_def [of "mapErrM _ _"] mapErrM_def failIf_def)
      qed
    qed
  qed
qed

text \<open>Finished jobs.\<close>

lemma finished_untouched:
  assumes "unmarshalSendEmail task = Inr p" "parseJobID sv (se_JobID p) = Inr i"
    and "x \<in> set (email_jobs s)" "ej_id x = i" "ej_status x = ''sent'' \<or> ej_status x = ''dead_letter''"
    and "distinct (map ej_id (email_jobs s))"
  shows "tablesOf (snd (ProcessTaskSendEmail sv rp task s)) = tablesOf s"
proof -
  obtain m s1 where get: "autocommit (GetEmailJob (Some i)) s = (m, s1)"
    by (cases "autocommit (GetEmailJob (Some i)) s")
  have "keeps tablesOf (GetEmailJob (Some i))"
    by (rule frame)
  moreover have "tableField tablesOf"
    by (simp add: tableField_def)
  ultimately have "keeps tablesOf (autocommit (GetEmailJob (Some i)))"
    by (intro frame)
  then have same: "tablesOf s1 = tablesOf s"
    using get by (rule keepsD)
  have "job0 = x" if "m = Inr job0" for job0
  proof -
    have "GetEmailJob (Some i) (startTx s) = (Inr job0, s1)"
      using get that by (auto dest: autocommit_ok)
    then have "job0 \<in> set (email_jobs s)" "ej_id job0 = i"
      by (auto simp: GetEmailJob_def selectOne_iff dest: find_Some_iff2)
    then show ?thesis
      using find_key_inject [OF assms(6) _ assms(3)] assms(4) by simp
  qed
  then show ?thesis
    using get same assms(1,2,5) unfolding ProcessTaskSendEmail_def
    by (cases m) (auto simp: bindM_def mapErrM_def returnM_def failIf_def failM_def)
qed

section \<open>The outbox while the queue is down\<close>

text \<open>What the outbox announces: each event's facts, and whether it counts as published.\<close>

definition announced :: "world \<Rightarrow> (((uuid \<times> uuid \<times> string \<times> json) \<times> time \<times> uuid \<times> string \<times> uuid) \<times> bool) list" where
  "announced s = map (\<lambda>e. (eventFacts e, ob_status e = ''published'')) (outbox_events s)"

definition refuses :: "services \<Rightarrow> bool" where
  "refuses sv \<longleftrightarrow> (\<forall>task w. \<exists>e. sv_enqueue sv task w = Some e \<and> \<not> errIs e ErrTaskIDConflict)"

text \<open>\<open>waiting i s\<close>: event ids are unique and the event \<open>i\<close> is not published.\<close>

definition waiting :: "uuid \<Rightarrow> world \<Rightarrow> bool" where
  "waiting i s \<longleftrightarrow> distinct (map (fst \<circ> fst \<circ> fst) (announced s)) \<and> (\<exists>f. (f, False) \<in> set (announced s) \<and> fst (fst f) = i)"

lemma announced_ids: "map (fst \<circ> fst \<circ> fst) (announced s) = map ob_id (outbox_events s)"
  by (simp add: announced_def eventFacts_def)

lemma waiting_row:
  assumes "waiting i s" "e \<in> set (outbox_events s)" "ob_id e = i"
  shows "ob_status e \<noteq> ''published''"
proof -
  obtain e' where "e' \<in> set (outbox_events s)" "ob_id e' = i" "ob_status e' \<noteq> ''published''"
    using assms(1) by (auto simp: waiting_def announced_def eventFacts_def)
  then show ?thesis
    using assms find_key_inject unfolding waiting_def announced_ids by metis
qed

lemma announced_update:
  assumes "\<And>e. e \<in> set (outbox_events s) \<Longrightarrow> p e \<Longrightarrow> ob_status e \<noteq> ''published''"
    and "\<And>e. eventFacts (f e) = eventFacts e" "\<And>e. ob_status (f e) \<noteq> ''published''"
  shows "announced (outbox_events_update (map (\<lambda>e. if p e then f e else e)) s) = announced s"
  using assms by (auto simp: announced_def)

lemma announced_cong: "announced t = announced s \<Longrightarrow> waiting i t \<longleftrightarrow> waiting i s"
  "tablesOf t = tablesOf s \<Longrightarrow> announced t = announced s"
  by (simp_all add: waiting_def) (simp add: announced_def tablesOf_def)

interpretation waiting: table_relation "\<lambda>s t. waiting i s \<longrightarrow> announced t = announced s" for i
  by unfold_locales (metis announced_cong)+

lemma keeps_announced: "keeps outbox_events m \<Longrightarrow> within (\<lambda>s t. waiting i s \<longrightarrow> announced t = announced s) m"
  unfolding keeps_def within_def announced_def by simp

lemma release_waiting: "within (\<lambda>s t. waiting (ob_id ev) s \<longrightarrow> announced t = announced s) (release sv ev err)"
proof -
  let ?R = "\<lambda>s t. waiting (ob_id ev) s \<longrightarrow> announced t = announced s"
  have "within ?R (updateRow ErrNoRows (\<lambda>s. outboxRowChecks) outbox_events outbox_events_update
      (\<lambda>e. Some (ob_id e) = Some (ob_id ev)) (\<lambda>e. e\<lparr>ob_status := ''pending'', ob_available_at := a, ob_claimed_by := None,
              ob_claimed_until := None, ob_last_error := l\<rparr>))" for a l
    unfolding within_def updateRow_def
    by (auto intro!: announced_update dest: waiting_row simp: eventFacts_def simp del: firstError.simps split: option.split)
  moreover have "within ?R (auditOutboxUpdate e e')" for e e'
    unfolding auditOutboxUpdate_def by (rule keeps_announced, intro frame; simp)
  ultimately have "within ?R (ReleaseOutboxEvent (Some (ob_id ev)) (Some a) l)" for a l
    unfolding ReleaseOutboxEvent_def updateOutboxEvent_def
    by (intro waiting.rules keeps_announced [OF primitive_frame(4)] keeps_announced [OF table_frame(2)])
  moreover have "within ?R timeNow" "within ?R (outboxRetryDelay sv n)" for n
    by (rule keeps_announced, intro frame; simp)+
  ultimately show ?thesis
    unfolding release_def by (intro waiting.rules waiting.autocommit)
qed

lemma bindM_tryM: "m s = (r, t) \<Longrightarrow> bindM (tryM m) k s = k r t"
  by (simp add: bindM_def tryM_def)

lemma publishEvent_waiting:
  assumes "refuses sv"
  shows "within (\<lambda>s t. waiting (ob_id ev) s \<longrightarrow> announced t = announced s) (publishEvent sv c ev)"
proof -
  let ?R = "\<lambda>s t. waiting (ob_id ev) s \<longrightarrow> announced t = announced s"
  have refused: "\<exists>e. DistributeTaskSendEmail sv p t q m to rt s = (Inl e, s) \<and> \<not> errIs e ErrTaskIDConflict" for p t q m to rt s
  proof -
    obtain e where e: "sv_enqueue sv \<lparr>tk_Type = TaskSendVerifyEmail, tk_Payload = marshalSendEmail p, tk_TaskID = t,
        tk_Queue = q, tk_MaxRetry = m, tk_Timeout = to, tk_Retention = rt\<rparr> s = Some e" "\<not> errIs e ErrTaskIDConflict"
      using assms unfolding refuses_def by blast
    then have "\<not> errIs (WrapErr ''failed to enqueue task'' e) ErrTaskIDConflict"
      by (subst errIs.simps) simp
    with e show ?thesis
      by (auto simp: DistributeTaskSendEmail_def bindM_def readM_def failM_def)
  qed
  have "\<exists>e. handOver sv c ev payload job s = release sv ev e s" for payload job s
    using refused [of payload "se_JobID payload" "if ej_job_type job = EmailJobTypeVerifyEmail then QueueCritical else QueueDefault"
        "ej_max_attempts job - 1" "rc_TaskTimeout c" "rc_TaskRetention c" s]
    by (elim exE conjE) (simp only: handOver_def bindM_tryM sum.case if_False, blast)
  then have "within ?R (handOver sv c ev payload job)" for payload job
    using release_waiting [of ev sv] unfolding within_def by metis
  moreover have "within ?R (autocommit (GetEmailJob (Some i)))" for i
    by (rule keeps_announced, intro frame; simp)
  ultimately show ?thesis
    unfolding publishEvent_def Let_def by (intro waiting.rules release_waiting)
qed

lemma publishEvents_waiting:
  assumes "refuses sv" "\<And>ev. ev \<in> set evs \<Longrightarrow> waiting (ob_id ev) s" "forM evs (\<lambda>ev. tryM (publishEvent sv c ev)) s = (r, t)"
  shows "announced t = announced s"
  using assms(2,3)
proof (induction evs arbitrary: s r t)
  case Nil
  then show ?case by (simp add: returnM_def)
next
  case (Cons ev evs)
  obtain m u where m: "publishEvent sv c ev s = (m, u)"
    by (cases "publishEvent sv c ev s")
  have u: "announced u = announced s"
    using withinD [OF publishEvent_waiting [OF assms(1)] m] Cons.prems(1) by simp
  then have w: "waiting (ob_id x) u" if "x \<in> set evs" for x
    using Cons.prems(1) [of x] that u by (simp add: waiting_def)
  obtain r' v where rest: "forM evs (\<lambda>ev. tryM (publishEvent sv c ev)) u = (r', v)"
    by (cases "forM evs (\<lambda>ev. tryM (publishEvent sv c ev)) u")
  have "announced v = announced u"
    by (rule Cons.IH [OF w rest])
  moreover have "t = v"
    using Cons.prems(2) rest
    by (auto simp: bindM_tryM [where m = "publishEvent sv c ev", OF m] bindM_def [of "forM _ _"] returnM_def split: sum.splits)
  ultimately show ?case
    using u by simp
qed

lemma ClaimOutboxEvents_announced:
  assumes run: "ClaimOutboxEvents cb cu n s = (r, t)" and ids: "distinct (map ob_id (outbox_events s))"
  shows "announced t = announced s" "\<And>evs ev. r = Inr evs \<Longrightarrow> ev \<in> set evs \<Longrightarrow> waiting (ob_id ev) t"
proof -
  define cands where "cands = take (nat n) (sort_key ob_created_at (filter (claimable (tx_now s)) (outbox_events s)))"
  let ?p = "\<lambda>e. list_ex (\<lambda>c. ob_id c = ob_id e) cands"
  let ?f = "\<lambda>e. e\<lparr>ob_status := ''publishing'', ob_claimed_by := cb, ob_claimed_until := cu,
               ob_publish_attempts := ob_publish_attempts e + 1\<rparr>"
  let ?audit = "forM cands (\<lambda>c. bindM (selectOne ErrNoRows outbox_events (\<lambda>e. ob_id e = ob_id c)) (\<lambda>new.
        bindM (auditOutboxUpdate c new) (\<lambda>_. returnM new)))"
  have sub: "c \<in> set (outbox_events s) \<and> claimable (tx_now s) c" if "c \<in> set cands" for c
    using that unfolding cands_def by (auto dest: in_set_takeD)
  have open': "ob_status e \<noteq> ''published''" if e: "e \<in> set (outbox_events s)" "?p e" for e
  proof -
    obtain c where c: "c \<in> set cands" "ob_id c = ob_id e"
      using e(2) by (auto simp: list_ex_iff)
    then have "c = e"
      using find_key_inject [OF ids _ e(1)] sub by blast
    then show ?thesis
      using sub [OF c(1)] by (auto simp: claimable_def)
  qed
  have quiet: "keeps outbox_events ?audit"
    unfolding auditOutboxUpdate_def by (intro frame; simp)
  consider (bad) e where "r = Inl e" "t = s"
    | (good) u where "?audit u = (r, t)" "u = outbox_events_update (map (\<lambda>e. if ?p e then ?f e else e)) s"
  proof (cases "n < 0 \<or> firstError (concat (map (\<lambda>r. outboxRowChecks (?f r)) (filter ?p (outbox_events s)))) \<noteq> None")
    case True
    then consider "n < 0" | e where "\<not> n < 0"
        "firstError (concat (map (\<lambda>r. outboxRowChecks (?f r)) (filter ?p (outbox_events s)))) = Some e"
      by blast
    then have "\<exists>e. (r, t) = (Inl e, s)"
      using run
      by cases ((simp add: ClaimOutboxEvents_def failIf_def failM_def bindM_def [of "readM _"] bindM_def [of "updateMany _ _ _ _ _"]
          readM_def updateMany_def cands_def [symmetric] del: firstError_None), metis)+
    then show ?thesis
      using bad by blast
  next
    case False
    then have "firstError (concat (map (\<lambda>r. outboxRowChecks (?f r)) (filter ?p (outbox_events s)))) = None" "\<not> n < 0"
      by blast+
    then show ?thesis
      using run good
      by (simp add: ClaimOutboxEvents_def failIf_def bindM_def [of "readM _"] bindM_def [of "updateMany _ _ _ _ _"] readM_def
          updateMany_def cands_def [symmetric] del: firstError_None)
  qed
  then have main: "announced t = announced s \<and> (\<forall>evs ev. r = Inr evs \<longrightarrow> ev \<in> set evs \<longrightarrow> waiting (ob_id ev) t)"
  proof cases
    case bad
    then show ?thesis by simp
  next
    case good
    have t: "outbox_events t = outbox_events u"
      using quiet good(1) by (rule keepsD)
    have "announced u = announced s"
      unfolding good(2) using open' by (intro announced_update) (auto simp: eventFacts_def)
    then have same: "announced t = announced s"
      using t by (simp add: announced_def)
    have "waiting (ob_id ev) t" if "r = Inr evs" "ev \<in> set evs" for evs ev
    proof -
      have "\<exists>c\<in>set cands. ob_id ev = ob_id c"
        using good(1) that by (auto dest!: forM_results simp: bindM_iff selectOne_iff returnM_iff find_Some_iff)
      then obtain c where "c \<in> set cands" "ob_id ev = ob_id c" by blast
      with sub [of c] have "c \<in> set (outbox_events s)" "ob_id ev = ob_id c" "ob_status c \<noteq> ''published''"
        by (auto simp: claimable_def)
      then have "(eventFacts c, False) \<in> set (announced s)" "fst (fst (eventFacts c)) = ob_id ev"
        by (auto simp: announced_def eventFacts_def)
      then show ?thesis
        using ids unfolding waiting_def same announced_ids by blast
    qed
    with same show ?thesis by blast
  qed
  then show "announced t = announced s" "\<And>evs ev. r = Inr evs \<Longrightarrow> ev \<in> set evs \<Longrightarrow> waiting (ob_id ev) t"
    by blast+
qed

lemma publishBatch_refused:
  assumes "refuses sv" "distinct (map ob_id (outbox_events s))"
  shows "announced (snd (publishBatch sv c s)) = announced s"
proof -
  obtain now s1 where now: "timeNow s = (Inr now, s1)" "outbox_events s1 = outbox_events s"
    by (simp add: timeNow_def)
  let ?claim = "autocommit (ClaimOutboxEvents (Some (rc_InstanceID c)) (Some (addDuration now (rc_ClaimLease c))) (rc_BatchSize c))"
  obtain m s2 where claim: "?claim s1 = (m, s2)"
    by (cases "?claim s1")
  have "announced s2 = announced s1 \<and> (\<forall>evs ev. m = Inr evs \<longrightarrow> ev \<in> set evs \<longrightarrow> waiting (ob_id ev) s2)"
    using claim
  proof (cases rule: autocommit_cases)
    case (restored e)
    then show ?thesis by (simp add: announced_def tablesOf_def)
  next
    case (committed evs)
    from ClaimOutboxEvents_announced [OF committed(1)] assms(2) now(2) committed(3) show ?thesis
      by (auto simp: announced_def)
  qed
  moreover from this have "announced t = announced s2"
    if "m = Inr evs" "forM evs (\<lambda>ev. tryM (publishEvent sv c ev)) s2 = (r, t)" for evs r t
    using publishEvents_waiting [OF assms(1) _ that(2)] that(1) by blast
  ultimately show ?thesis
    using now claim unfolding publishBatch_def
    by (cases m) (auto simp: bindM_def mapErrM_def returnM_def announced_def split: prod.splits sum.splits)
qed

end
