(* ===== verification/MailProperties.thy ===== *)
theory MailProperties
  imports Runs WorkerRules
begin

text \<open>
  The properties of email: delivery reports, the task that sends one email, the outbox relay, and the
  tokens. The concrete services of the witnesses stand for the provider, the queue and the JWT library.
\<close>

section \<open>Concrete services\<close>

definition samplePayload :: Payload where
  \<comment> \<open>What the first access token of the sample environment carries\<close>
  "samplePayload = \<lparr>pl_ID = 100, pl_SessionID = 300, pl_Username = ''alice'', pl_TokenType = TypeAccess,
     pl_cID = uuidString 100, pl_Issuer = tokenIssuer, pl_Audience = [accessTokenAudience], pl_Subject = ''alice'',
     pl_IssuedAt = 1700000000000000, pl_ExpiresAt = 1700000900000000\<rparr>"

definition sampleCrypto :: crypto where
  \<comment> \<open>A library that signs and accepts the token of one payload\<close>
  "sampleCrypto = \<lparr>sha256 = (\<lambda>v. replicate 32 (CHR ''s'')), hmacSha256 = (\<lambda>k m. replicate 32 (CHR ''m'')),
     randomBytes = (\<lambda>n k. Inr (replicate n (CHR ''r''))),
     uuidParse = (\<lambda>v. if v = ''job-400'' then Inr 400 else Inl (GoErr ''invalid UUID'')),
     signHS256 = (\<lambda>key p. if p = samplePayload then Inr ''tok'' else Inl (GoErr ''unsupported'')),
     parseHS256 = (\<lambda>now issuer audience key v.
       if v \<noteq> ''tok'' \<or> audience \<noteq> accessTokenAudience then Inl False
       else if pl_ExpiresAt samplePayload \<le> now then Inl True else Inr samplePayload)\<rparr>"

definition sampleServices :: services where
  \<comment> \<open>The queue and the provider are down.\<close>
  "sampleServices = \<lparr>sv_crypto = sampleCrypto, sv_enqueue = (\<lambda>t w. Some (GoErr ''connection refused'')),
     sv_SendVerificationEmail = (\<lambda>i u r p w. Inl (GoErr ''timeout'')),
     sv_SendFinancialNotification = (\<lambda>i u r p w. Inl (GoErr ''timeout'')), sv_int63n = (\<lambda>n w. 0)\<rparr>"

definition sampleProcessor :: RedisTaskProcessor where
  "sampleProcessor = \<lparr>rp_verificationKey = None, rp_publicAPIURL = ''https://api'', rp_emailVerificationDuration = seconds 3600\<rparr>"

definition sampleRelay :: RelayConfig where
  "sampleRelay = \<lparr>rc_InstanceID = ''relay-1'', rc_BatchSize = 50, rc_PollInterval = seconds 1, rc_ClaimLease = seconds 30,
     rc_TaskTimeout = seconds 30, rc_TaskRetention = seconds 604800, rc_OutboxRetention = seconds 604800,
     rc_EmailRetention = seconds 7776000, rc_CleanupInterval = seconds 86400\<rparr>"

definition sampleTask :: json where
  "sampleTask = JObj [(''job_id'', JStr ''job-400'')]"

definition sampleQueuedWorld :: world where
  "sampleQueuedWorld = sampleWorld\<lparr>email_jobs := [sampleJob\<lparr>ej_status := ''queued'', ej_provider_message_id := None,
     ej_sent_at := None, ej_delivery_status := ''pending'', ej_delivery_event_at := None\<rparr>]\<rparr>"

lemma sample_task:
  "unmarshalSendEmail sampleTask = Inr \<lparr>se_JobID = ''job-400'', se_EventID = '''', se_CorrelationID = '''', se_EventType = ''''\<rparr>"
  "parseJobID sampleServices ''job-400'' = Inr 400"
  by (simp_all add: sampleTask_def unmarshalSendEmail_def isObject_def lookupField_def getStr_def thenE_def
      parseJobID_def sampleServices_def sampleCrypto_def)

section \<open>Delivery reports\<close>

text \<open>
  C30. A report of the mail provider, whatever it says and whenever it arrives, moves a job only forward:
  each job keeps its delivery status and its time, or both advance, and a status that ends a delivery
  stays for ever.
\<close>

theorem delivery_status_advances:
  assumes "reachable e s"
  shows "list_all2 deliveryStep (email_jobs s) (email_jobs (snd (ProcessEmailDeliveryEventTx arg s)))"
  using reachable_tables(3) [OF assms] unfolding mailOk_def by (intro delivery_advances) blast

theorem delivery_status_advances_witness:
  "list_all2 deliveryStep (email_jobs (perform sampleSignUp (initialWorld sampleEnv [])))
     (email_jobs (snd (ProcessEmailDeliveryEventTx sampleDelivered (perform sampleSignUp (initialWorld sampleEnv [])))))"
  by (rule delivery_status_advances [OF reachable.step [OF reachable.start]])

text \<open>
  C31. A webhook that was already recorded changes no table, so that the provider may deliver it as often
  as it likes.
\<close>

theorem webhook_replay_ignored:
  assumes "d \<in> set (email_delivery_events s)" "ed_webhook_id d = pe_WebhookID arg"
  shows "tablesOf (snd (ProcessEmailDeliveryEventTx arg s)) = tablesOf s"
  using assms by (rule duplicate_webhook)

theorem webhook_replay_ignored_witness:
  "tablesOf (snd (ProcessEmailDeliveryEventTx sampleDelivered sampleSeenWorld)) = tablesOf sampleSeenWorld"
  by (rule webhook_replay_ignored [where d = "hd (email_delivery_events sampleSeenWorld)"])
    (simp_all add: sampleSeenWorld_def sampleDelivered_def)

section \<open>Sending\<close>

text \<open>
  C32. What the task reports to the queue is what the job's row records: success means the job is sent, a
  temporary failure that it waits for another attempt and has one left, and a final failure that it is in
  the dead letters.
\<close>

theorem send_outcome_recorded:
  assumes "unmarshalSendEmail task = Inr p" "parseJobID sv (se_JobID p) = Inr i" "distinct (map ej_id (email_jobs s))"
    and "j \<in> set (email_jobs (snd (ProcessTaskSendEmail sv rp task s)))" "ej_id j = i"
  shows "reported (fst (ProcessTaskSendEmail sv rp task s)) j"
  using task_reported [OF prod.collapse [symmetric] assms(1,2,4,5,3)] .

lemma sample_send:
  "map (\<lambda>j. (ej_id j, ej_status j, ej_attempt_count j)) (email_jobs (snd (ProcessTaskSendEmail sampleServices sampleProcessor sampleTask sampleQueuedWorld)))
     = [(400, ''retrying'', 2)] \<and>
   fst (ProcessTaskSendEmail sampleServices sampleProcessor sampleTask sampleQueuedWorld) = Inl (GoErr ''temporary email delivery failure'')"
  by code_simp

theorem send_outcome_recorded_witness:
  "\<exists>j\<in>set (email_jobs (snd (ProcessTaskSendEmail sampleServices sampleProcessor sampleTask sampleQueuedWorld))).
     ej_id j = 400 \<and> reported (fst (ProcessTaskSendEmail sampleServices sampleProcessor sampleTask sampleQueuedWorld)) j"
proof -
  obtain j where j: "j \<in> set (email_jobs (snd (ProcessTaskSendEmail sampleServices sampleProcessor sampleTask sampleQueuedWorld)))"
      "ej_id j = 400"
    using sample_send by (auto simp: map_eq_Cons_conv)
  have "distinct (map ej_id (email_jobs sampleQueuedWorld))"
    by (simp add: sampleQueuedWorld_def)
  then show ?thesis
    using send_outcome_recorded [OF sample_task(1) _ _ j(1), of 400] sample_task(2) j by auto
qed

text \<open>
  C33. While the queue refuses tasks, a round of the relay publishes nothing and loses nothing: every
  event is still there, with the same content, and no event that was unpublished is marked as published.
\<close>

theorem no_publication_without_queue:
  assumes "reachable e s" "refuses sv"
  shows "announced (snd (publishBatch sv c s)) = announced s"
  using reachable_tables(3) [OF assms(1)] unfolding mailOk_def by (intro publishBatch_refused assms(2)) blast

theorem no_publication_without_queue_witness:
  "announced (snd (publishBatch sampleServices sampleRelay (perform sampleSignUp (initialWorld sampleEnv [])))) =
   announced (perform sampleSignUp (initialWorld sampleEnv []))"
  by (rule no_publication_without_queue [OF reachable.step [OF reachable.start]])
    (simp add: refuses_def sampleServices_def errIs.simps)

section \<open>Tokens\<close>



end
