(* ===== verification/Idempotency.thy ===== *)
theory Idempotency
  imports TransferRules
begin

text \<open>
  Idempotent transfers: what is stored with a key, that a retry with the key returns the stored result
  and moves nothing, and that a failed attempt leaves the key free.
\<close>

section \<open>Transactions that go through\<close>

text \<open>The deferred trigger lets every transfer pass that its body has made.\<close>

lemma transfer_passes_trigger:
  assumes run: "transferWithQueries arg (startTx s) = (Inr r, t)" and ok: "books s"
  shows "\<forall>c\<in>set (deferredChecks s t). \<not> fst c"
proof -
  have start: "books (startTx s)"
    using ok by simp
  obtain a b la lb tr p q where dn: "transferDone arg (startTx s) a b la lb tr p q r t"
    by (rule transferWithQueries_ok [OF run start])
  note d = dn [unfolded transferDone_def]
  have t: "banking_transactions t = banking_transactions s @ [tr]" "ledger_postings t = ledger_postings s @ [p, q]"
      "lp_transaction_id p = bt_id tr" "lp_transaction_id q = bt_id tr" "bt_amount tr = tp_Amount arg"
      "tp_Amount arg \<le> 1000000" "bt_id tr \<notin> bt_id ` set (banking_transactions s)"
    using d by simp_all
  have touched: "set (touchedTransactions s t) \<subseteq> {bt_id tr}"
    using t by (auto simp: touchedTransactions_def)
  have "\<forall>c\<in>set (validateBankingTransaction t (bt_id tr)). \<not> fst c"
  proof (rule trigger_passes [OF transferWithQueries_books [OF run start]])
    fix u assume "u \<in> set (banking_transactions t)" "bt_id u = bt_id tr"
    then have "u = tr"
      using t(1,7) by (auto simp: image_iff)
    then show "bt_amount u < 2 ^ 62"
      using t(5,6) by simp
  qed
  with touched show ?thesis
    by (auto simp: deferredChecks_def)
qed

section \<open>What is stored\<close>

abbreviation transferKey :: "IdempotentTransferTxParams \<Rightarrow> IdempotencyKey \<Rightarrow> bool" where
  "transferKey arg \<equiv> sameKey (tp_Username (it_TransferTxParams arg)) IdempotencyOperationInternalTransfer
     (it_IdempotencyKey arg)"

definition storedResult :: "IdempotentTransferTxParams \<Rightarrow> TransferTxResult \<Rightarrow> time \<Rightarrow> world \<Rightarrow> bool" where
  \<comment> \<open>The key's row is complete and carries the result; it expires at \<open>expiry\<close>.\<close>
  "storedResult arg r expiry s \<longleftrightarrow>
     (\<exists>k. find (transferKey arg) (idempotency_keys s) = Some k \<and> ik_request_hash k = it_RequestHash arg \<and>
        ik_transaction_id k = Some (bt_id (tr_Transaction r)) \<and>
        ik_result_snapshot k = Some (marshalTransferResult r) \<and> ik_expires_at k = expiry)"

lemma transferDone_range:
  assumes ok: "books s" and dn: "transferDone arg s a b la lb t p q r s'"
  shows "resultInRange r"
proof -
  note d = dn [unfolded transferDone_def] and D = booksD [OF ok]
  have mem: "a \<in> set (accounts s)" "b \<in> set (accounts s)" "la \<in> set (ledger_accounts s)" "lb \<in> set (ledger_accounts s)"
    and n: "0 < tp_Amount arg" "tp_Amount arg \<le> 1000000" "tp_Amount arg \<le> ac_balance a"
      "in_int64 (ac_balance b + tp_Amount arg)" "in_int64 (lp_id p)" "in_int64 (lp_id q)"
    and v: "lp_ledger_account_id p = la_id la" "lp_ledger_account_id q = la_id lb" "lp_amount p = - tp_Amount arg"
      "lp_amount q = tp_Amount arg" "bt_amount t = tp_Amount arg"
    and r: "r = \<lparr>tr_Transaction = t, tr_Postings = [p, q],
          tr_FromAccount = creditAccount (tx_now s) (ac_id a) (- tp_Amount arg) a,
          tr_ToAccount = creditAccount (tx_now s) (ac_id b) (tp_Amount arg) b, tr_Replayed = False\<rparr>"
    using d by blast+
  have "in_int64 (la_id la)" "in_int64 (la_id lb)"
    using D(7) mem by (simp_all add: ledgerRowOk_def)
  moreover have "in_int64 (ac_balance a - tp_Amount arg)" "in_int64 (tp_Amount arg)" "in_int64 (- tp_Amount arg)"
    using D(5) [OF mem(1)] n by (simp_all add: in_int64_def)
  ultimately show ?thesis
    using D(6) mem n(4-6) v unfolding r by (simp add: resultInRange_def)
qed

lemma CreateIdempotencyKey_ok:
  assumes "CreateIdempotencyKey u ope key h s = (Inr k, s')"
  shows "idempotency_keys s' = idempotency_keys s @ [k]" "sameKey u ope key k" "ik_request_hash k = h"
    "ik_transaction_id k = None" "ik_expires_at k = tx_now s + dayMicros" "tx_now s' = tx_now s"
    "find (sameKey u ope key) (idempotency_keys s) = None"
  using assms unfolding CreateIdempotencyKey_def bindM_iff nextval_iff readM_iff insertRow_iff
  by (elim exE conjE, hypsubst, simp add: sameKey_def list_ex_iff find_None_iff)+

lemma CompleteIdempotencyKey_ok:
  assumes run: "CompleteIdempotencyKey u ope key tid st snap s = (Inr k', s')"
    and keys: "idempotency_keys s = ks @ [k]" "find (sameKey u ope key) ks = None" "sameKey u ope key k"
      "ik_transaction_id k = None"
  shows "idempotency_keys s' = ks @ [k\<lparr>ik_transaction_id := tid, ik_response_status := st, ik_result_snapshot := snap\<rparr>]"
proof -
  let ?f = "\<lambda>k. k\<lparr>ik_transaction_id := tid, ik_response_status := st, ik_result_snapshot := snap\<rparr>"
  let ?p = "\<lambda>k. sameKey u ope key k \<and> ik_transaction_id k = None"
  have "idempotency_keys s' = map (\<lambda>x. if ?p x then ?f x else x) (idempotency_keys s)"
    using run unfolding CompleteIdempotencyKey_def bindM_iff readM_iff updateRow_iff
    by (elim exE conjE) (hypsubst, simp)
  moreover have "map (\<lambda>x. if ?p x then ?f x else x) ks = ks"
    using keys(2) by (intro map_idI) (simp add: find_None_iff)
  ultimately show ?thesis
    using keys by simp
qed

lemma find_last: "find p ks = None \<Longrightarrow> p k \<Longrightarrow> find p (ks @ [k]) = Some k"
  by (simp add: find_append)

lemma performed_stores:
  assumes del: "DeleteExpiredIdempotencyKey (tp_Username (it_TransferTxParams arg)) IdempotencyOperationInternalTransfer
         (it_IdempotencyKey arg) s = (Inr n, s1)"
    and create: "CreateIdempotencyKey (tp_Username (it_TransferTxParams arg)) IdempotencyOperationInternalTransfer
         (it_IdempotencyKey arg) (it_RequestHash arg) s1 = (Inr k, s2)"
    and transfer: "transferWithQueries (it_TransferTxParams arg) s2 = (Inr r, s3)"
    and complete: "CompleteIdempotencyKey (tp_Username (it_TransferTxParams arg)) IdempotencyOperationInternalTransfer
         (it_IdempotencyKey arg) (Some (bt_id (tr_Transaction r))) (Some idempotencyResponseStatusCreated)
         (Some (marshalTransferResult r)) s3 = (Inr k', s')"
  shows "storedResult arg r (tx_now s + dayMicros) s'"
proof -
  note C = CreateIdempotencyKey_ok [OF create]
  have now: "tx_now s1 = tx_now s"
    using del by (rule keepsD [rotated]) (intro frame; simp)
  have "idempotency_keys s3 = idempotency_keys s1 @ [k]"
    using C(1) keepsD [OF money_frame(1) transfer, of idempotency_keys] by simp
  note F = CompleteIdempotencyKey_ok [OF complete this C(7,2,4)]
  have "find (transferKey arg) (idempotency_keys s') = Some (k\<lparr>ik_transaction_id := Some (bt_id (tr_Transaction r)),
      ik_response_status := Some idempotencyResponseStatusCreated, ik_result_snapshot := Some (marshalTransferResult r)\<rparr>)"
    unfolding F using C(7,2) by (intro find_last) (simp_all add: sameKey_def)
  then show ?thesis
    using C(3,5) now by (simp add: storedResult_def)
qed

section \<open>Retries\<close>

lemma find_survives:
  "find p xs = Some k \<Longrightarrow> \<not> q k \<Longrightarrow> find p (filter (\<lambda>x. \<not> (p x \<and> q x)) xs) = Some k"
  by (induction xs) (auto split: if_splits)

lemma key_conflict:
  assumes "find (sameKey u IdempotencyOperationInternalTransfer key) (idempotency_keys s) = Some k"
    and "in_int64 (idempotency_keys_id_seq s)" "key \<noteq> []" "length key \<le> 128" "length h = 32"
  shows "CreateIdempotencyKey u IdempotencyOperationInternalTransfer key h s =
    (Inl ErrNoRows, idempotency_keys_id_seq_update (\<lambda>n. n + 1) s)"
proof -
  have "list_ex (sameKey u IdempotencyOperationInternalTransfer key) (idempotency_keys s)"
    using find_Some_iff2 [OF assms(1)] by (auto simp: list_ex_iff)
  moreover have "1 \<le> runeCount key" "runeCount key \<le> 128"
    using assms(3,4) runeCount_le [of key] runeCount_zero [of key] by linarith+
  ultimately show ?thesis
    using assms(2,5) unfolding CreateIdempotencyKey_def
    by (simp add: bindM_def nextval_def insertRow_def idempotencyRowChecks_def dayMicros_def
        IdempotencyOperationInternalTransfer_def)
qed

lemma replay_returns:
  assumes "storedResult arg r expiry s" "resultInRange r"
  shows "replayIdempotentTransfer arg s = (Inr (r\<lparr>tr_Replayed := True\<rparr>), s)"
proof -
  obtain k where k: "find (transferKey arg) (idempotency_keys s) = Some k" "ik_request_hash k = it_RequestHash arg"
      "ik_transaction_id k = Some (bt_id (tr_Transaction r))" "ik_result_snapshot k = Some (marshalTransferResult r)"
    using assms(1) by (auto simp: storedResult_def)
  then have "GetIdempotencyKeyForUpdate (tp_Username (it_TransferTxParams arg)) IdempotencyOperationInternalTransfer
      (it_IdempotencyKey arg) s = (Inr k, s)"
    by (simp add: GetIdempotencyKeyForUpdate_def selectOne_iff)
  then show ?thesis
    using k(2-4) unmarshal_marshal [OF assms(2)] by (simp add: replayIdempotentTransfer_def)
qed

text \<open>
  A call with a key whose stored result has not expired: it returns the stored result, marked as
  replayed, and changes nothing but the sequence of the key ids.
\<close>

definition validKey :: "IdempotentTransferTxParams \<Rightarrow> bool" where
  "validKey arg \<longleftrightarrow> it_IdempotencyKey arg \<noteq> [] \<and> length (it_IdempotencyKey arg) \<le> 128 \<and> length (it_RequestHash arg) = 32"

lemma storedResult_corr:
  "storedResult (arg\<lparr>it_TransferTxParams := (it_TransferTxParams arg)\<lparr>tp_CorrelationID := c\<rparr>\<rparr>) r expiry s =
   storedResult arg r expiry s"
  by (simp add: storedResult_def)

lemma body_replays:
  assumes st: "storedResult arg r expiry s" and live: "tx_now s < expiry" and rng: "resultInRange r"
    and seq: "in_int64 (idempotency_keys_id_seq s)" and key: "validKey arg"
  shows "\<exists>s'. idempotentTransferBody arg s = (Inr (r\<lparr>tr_Replayed := True\<rparr>), s') \<and>
    bookTables s' = bookTables s \<and> email_jobs s' = email_jobs s"
proof -
  let ?u = "tp_Username (it_TransferTxParams arg)" and ?op = IdempotencyOperationInternalTransfer
  let ?s1 = "s\<lparr>idempotency_keys := filter (\<lambda>k. \<not> (transferKey arg k \<and> ik_expires_at k \<le> tx_now s)) (idempotency_keys s)\<rparr>"
  let ?s2 = "idempotency_keys_id_seq_update (\<lambda>n. n + 1) ?s1"
  obtain k where k: "find (transferKey arg) (idempotency_keys s) = Some k" "ik_request_hash k = it_RequestHash arg"
      "ik_transaction_id k = Some (bt_id (tr_Transaction r))" "ik_result_snapshot k = Some (marshalTransferResult r)"
      "ik_expires_at k = expiry"
    using st by (auto simp: storedResult_def)
  have del: "\<exists>n. DeleteExpiredIdempotencyKey ?u ?op (it_IdempotencyKey arg) s = (Inr n, ?s1)"
    by (simp add: DeleteExpiredIdempotencyKey_def bindM_def deleteWhere_def)
  have find1: "find (transferKey arg) (idempotency_keys ?s1) = Some k"
    using find_survives [OF k(1), of "\<lambda>k. ik_expires_at k \<le> tx_now s"] k(5) live by simp
  then have create: "CreateIdempotencyKey ?u ?op (it_IdempotencyKey arg) (it_RequestHash arg) ?s1 = (Inl ErrNoRows, ?s2)"
    using seq key by (intro key_conflict) (simp_all add: validKey_def)
  have "storedResult arg r expiry ?s2"
    using find1 k by (simp add: storedResult_def)
  then have rep: "replayIdempotentTransfer arg ?s2 = (Inr (r\<lparr>tr_Replayed := True\<rparr>), ?s2)"
    using rng by (rule replay_returns)
  have attempt: "tryM (CreateIdempotencyKey ?u ?op (it_IdempotencyKey arg) (it_RequestHash arg)) ?s1 = (Inr (Inl ErrNoRows), ?s2)"
    using create by (simp add: tryM_def)
  from del obtain n where del: "DeleteExpiredIdempotencyKey ?u ?op (it_IdempotencyKey arg) s = (Inr n, ?s1)" ..
  have "idempotentTransferBody arg s = (Inr (r\<lparr>tr_Replayed := True\<rparr>), ?s2)"
    using del attempt rep unfolding idempotentTransferBody_def Let_def by (simp add: bindM_run(1))
  moreover have "bookTables ?s2 = bookTables s" "email_jobs ?s2 = email_jobs s"
    by (simp_all add: bookTables_def)
  ultimately show ?thesis by blast
qed

lemma idempotent_replays:
  assumes st: "storedResult arg r expiry s" and rng: "resultInRange r" and key: "validKey arg"
    and live: "clockAt (envir s) (clock_ctr s) < expiry" and seq: "in_int64 (idempotency_keys_id_seq s)"
    and ok: "beginFault (envir s) (tx_ctr s) = None" "commitFault (envir s) (tx_ctr s) = None"
  shows "\<exists>s'. IdempotentTransferTx arg s = (Inr (r\<lparr>tr_Replayed := True\<rparr>), s') \<and>
    bookTables s' = bookTables s \<and> email_jobs s' = email_jobs s"
proof -
  obtain c t where c: "auditCorrelation (tp_CorrelationID (it_TransferTxParams arg)) s = (Inr c, t)"
      "tablesOf t = tablesOf s" "envir t = envir s" "tx_ctr t = tx_ctr s"
    by (rule auditCorrelation_total)
  have draws: "clock_ctr t = clock_ctr s" "idempotency_keys_id_seq t = idempotency_keys_id_seq s"
    using c(1) by (rule keepsD [rotated], unfold auditCorrelation_def newPGUUID_def, intro frame, simp)+
  let ?tp = "(it_TransferTxParams arg)\<lparr>tp_CorrelationID := c\<rparr>"
  let ?arg = "arg\<lparr>it_TransferTxParams := ?tp\<rparr>"
  have fields: "idempotency_keys t = idempotency_keys s" "bookTables t = bookTables s" "email_jobs t = email_jobs s"
    by (rule tableFieldD [OF _ c(2)], simp)+
  have "storedResult ?arg r expiry (startTx t)"
    using st fields(1) unfolding storedResult_corr by (simp add: storedResult_def)
  moreover have "tx_now (startTx t) < expiry" "in_int64 (idempotency_keys_id_seq (startTx t))"
    using live seq draws c(3) by (simp_all add: startTx_def)
  ultimately obtain s' where body: "idempotentTransferBody ?arg (startTx t) = (Inr (r\<lparr>tr_Replayed := True\<rparr>), s')"
      and same: "bookTables s' = bookTables (startTx t)" "email_jobs s' = email_jobs (startTx t)"
    using body_replays [of ?arg r expiry "startTx t"] rng key by (auto simp: validKey_def)
  have tx: "execTx (idempotentTransferBody ?arg) t = (Inr (r\<lparr>tr_Replayed := True\<rparr>), s')"
    using ok c body
  proof (intro execTx_through)
    show "\<forall>c\<in>set (deferredChecks t s'). \<not> fst c"
      using same(1) by (subst deferredChecks_none) (simp_all add: bookTables_def)
  qed simp_all
  have "IdempotentTransferTx arg s = (Inr (r\<lparr>tr_Replayed := True\<rparr>), s')"
    using key c(1) tx unfolding IdempotentTransferTx_def validKey_def by (simp add: Let_def orAudit_ok)
  moreover have "bookTables (startTx t) = bookTables s" "email_jobs (startTx t) = email_jobs s"
    using fields by (simp_all add: bookTables_def)
  ultimately show ?thesis
    using same by auto
qed

lemma orAudit_after:
  assumes "orAudit body audit t = (x, s')" "body t = (y, u)" "\<And>e. keeps f (audit e)"
  shows "f s' = f u"
proof (cases y)
  case (Inl e)
  obtain d v where au: "audit e u = (d, v)"
    by (cases "audit e u")
  then have "s' = v"
    using assms(1,2) Inl by (cases d) (simp_all add: orAudit_def tryM_def bindM_def)
  then show ?thesis
    using keepsD [OF assms(3) au] by simp
next
  case (Inr z)
  then show ?thesis
    using assms(1,2) by (simp add: orAudit_def tryM_def bindM_def)
qed

lemma orAudit_result:
  assumes "orAudit body audit t = (x, s')" "body t = (y, u)"
  shows "isl y \<Longrightarrow> isl x" "\<not> isl y \<Longrightarrow> x = y"
  using assms by (auto simp: orAudit_def tryM_def bindM_def failM_def returnM_def split: sum.splits prod.splits)

text \<open>A transfer that took effect has stored its result, also when its caller saw an error.\<close>

lemma idempotent_stores:
  assumes run: "IdempotentTransferTx arg s = (x, s1)" and ok: "books s" and moved: "bookTables s1 \<noteq> bookTables s"
  obtains r where "storedResult arg r (clockAt (envir s) (clock_ctr s) + dayMicros) s1" "resultInRange r"
    "validKey arg" "transferred (it_TransferTxParams arg) s r s1" "x = Inr r \<or> isl x"
proof -
  have valid: "validKey arg"
  proof (rule ccontr)
    assume "\<not> validKey arg"
    then have "it_IdempotencyKey arg = [] \<or> 128 < length (it_IdempotencyKey arg) \<or> length (it_RequestHash arg) \<noteq> 32"
      by (auto simp: validKey_def)
    then have "s1 = s"
      using run unfolding IdempotentTransferTx_def failIf_run(1) [OF \<open>_ \<or> _ \<or> _\<close>] by simp
    with moved show False by simp
  qed
  obtain c t where c: "auditCorrelation (tp_CorrelationID (it_TransferTxParams arg)) s = (Inr c, t)"
      "tablesOf t = tablesOf s" "envir t = envir s" "clock_ctr t = clock_ctr s"
    by (rule auditCorrelation_total)
  let ?tp = "(it_TransferTxParams arg)\<lparr>tp_CorrelationID := c\<rparr>"
  let ?arg = "arg\<lparr>it_TransferTxParams := ?tp\<rparr>"
  obtain y u where tx: "execTx (idempotentTransferBody ?arg) t = (y, u)"
    by (cases "execTx (idempotentTransferBody ?arg) t")
  have or: "orAudit (execTx (idempotentTransferBody ?arg)) (auditTransferFailure ?tp) t = (x, s1)"
    using run c(1) valid unfolding IdempotentTransferTx_def validKey_def by (simp add: Let_def)
  have after: "f s1 = f u" if "tableField f" "unnoticed f" for f :: "world \<Rightarrow> 'z"
    using orAudit_after [OF or tx] auditTransferFailure_frame [OF that] by blast
  have s1: "bookTables s1 = bookTables u" "idempotency_keys s1 = idempotency_keys u"
    by (rule after; simp)+
  have t: "bookTables (startTx t) = bookTables s"
    by (rule booksTables_of [OF c(2)])
  then have okt: "books (startTx t)"
    using ok books_cong by blast
  from tx show thesis
  proof (cases rule: execTx_cases)
    case (restored e)
    then have "bookTables u = bookTables s"
      using tableFieldD [OF bookTables_fields(1)] c(2) by metis
    with s1 moved show thesis by simp
  next
    case (committed r)
    from committed(1) show thesis
    proof (cases rule: idempotentTransferBody_cases)
      case (replayed n v1 e v2)
      then have "bookTables u = bookTables (startTx t)"
        using keepsD [OF idempotency_books_frame(1) replayed(1)] keepsD [OF idempotency_books_frame(2) replayed(2)]
          keepsD [OF replay_frame replayed(4), of bookTables] by simp
      with s1 t moved show thesis by simp
    next
      case (performed n v1 k v2 v3 k')
      have st: "storedResult ?arg r (tx_now (startTx t) + dayMicros) u"
        using performed by (rule performed_stores)
      have v2: "bookTables v2 = bookTables s"
        using keepsD [OF idempotency_books_frame(1) performed(1)] keepsD [OF idempotency_books_frame(2) performed(2)] t
        by simp
      then have okv: "books v2"
        using ok books_cong by blast
      have "transferWithQueries ?tp v2 = (Inr r, v3)"
        using performed(3) by simp
      then obtain a b la lb tr p q where dn: "transferDone ?tp v2 a b la lb tr p q r v3"
        by (rule transferWithQueries_ok [OF _ okv])
      have v3: "bookTables u = bookTables v3"
        by (rule keepsD [OF idempotency_books_frame(3) performed(4)])
      have "transferDone (it_TransferTxParams arg) (s\<lparr>tx_now := tx_now v2\<rparr>) a b la lb tr p q r v3"
        using dn transferDone_cong [OF v2, of "s\<lparr>tx_now := tx_now v2\<rparr>"] by (simp add: bookTables_def)
      then have "transferred (it_TransferTxParams arg) s r v3"
        by (rule transferDone_transferred [OF ok])
      then have "transferred (it_TransferTxParams arg) s r s1"
        using s1(1) v3 unfolding transferred_def bookTables_def by simp
      moreover have "x = Inr r \<or> isl x"
        using or tx committed(3) orAudit_result [OF or tx] by auto
      moreover have "storedResult arg r (tx_now (startTx t) + dayMicros) s1"
        using st s1(2) unfolding storedResult_corr by (simp add: storedResult_def)
      ultimately show thesis
        using transferDone_range [OF okv dn] valid c(3,4) by (intro that [of r]) simp_all
    qed
  qed
qed

section \<open>Failures\<close>

lemma IdempotentTransferTx_error:
  assumes run: "IdempotentTransferTx arg s = (Inl e, s')" and known: "commitKnown (envir s) (tx_ctr s)"
    and f: "tableField f" "unnoticed f"
  shows "f s' = f s"
proof (cases "it_IdempotencyKey arg = [] \<or> 128 < length (it_IdempotencyKey arg) \<or> length (it_RequestHash arg) \<noteq> 32")
  case True
  then show ?thesis using run unfolding IdempotentTransferTx_def failIf_run(1) [OF True] by simp
next
  case False
  obtain c t where c: "auditCorrelation (tp_CorrelationID (it_TransferTxParams arg)) s = (Inr c, t)"
      "tablesOf t = tablesOf s" "envir t = envir s" "tx_ctr t = tx_ctr s"
    by (rule auditCorrelation_total)
  let ?tp = "(it_TransferTxParams arg)\<lparr>tp_CorrelationID := c\<rparr>"
  have "orAudit (execTx (idempotentTransferBody (arg\<lparr>it_TransferTxParams := ?tp\<rparr>))) (auditTransferFailure ?tp) t = (Inl e, s')"
    using run c(1) unfolding IdempotentTransferTx_def failIf_run(2) [OF False] by (simp add: Let_def)
  then have "f s' = f t"
    using known c auditTransferFailure_frame [OF f] by (intro orAudit_tx_error [OF _ _ f(1)]) simp_all
  then show ?thesis
    using tableFieldD [OF f(1) c(2)] by simp
qed

lemma execTx_body_error:
  assumes "beginFault (envir s) (tx_ctr s) = None" "rollbackFault (envir s) (tx_ctr s) = None"
    and "body (startTx s) = (Inl e, t)"
  shows "execTx body s = (Inl e, rollbackTo s t)"
  using assms by (simp add: execTx_def runTx_def)

text \<open>
  The contract of a routine that records a failed call: it reports an error that includes the one it was
  given, and it leaves the books alone.
\<close>

locale failure_audit =
  fixes audit :: "'p \<Rightarrow> error \<Rightarrow> error query"
  assumes reports: "audit p e s = (r, s') \<Longrightarrow> \<exists>d. r = Inr d \<and> (\<forall>k. errIs e k \<longrightarrow> errIs d k)"
    and quiet: "keeps bookTables (audit p e)"
begin

lemma passes_on:
  assumes "body t = (Inl e, u)"
  obtains d s' where "orAudit body (audit p) t = (Inl d, s')" "\<And>k. errIs e k \<Longrightarrow> errIs d k"
proof -
  obtain r s' where au: "audit p e u = (r, s')"
    by (cases "audit p e u")
  with reports [OF au] assms show thesis
    by (auto simp: orAudit_def tryM_def bindM_def failM_def intro: that)
qed

lemma atomic:
  assumes "orAudit (execTx body) (audit p) t = (Inl e, s')" "commitKnown (envir t) (tx_ctr t)"
  shows "bookTables s' = bookTables t"
  using assms quiet by (intro orAudit_tx_error [where f = bookTables]) simp_all

lemma refuses:
  assumes fault: "beginFault (envir t) (tx_ctr t) = None" "rollbackFault (envir t) (tx_ctr t) = None"
    and body: "body (startTx t) = (Inl e, u)" and known: "commitKnown (envir t) (tx_ctr t)"
  obtains d s' where "orAudit (execTx body) (audit p) t = (Inl d, s')" "\<And>k. errIs e k \<Longrightarrow> errIs d k"
    "bookTables s' = bookTables t"
proof -
  obtain d s' where run: "orAudit (execTx body) (audit p) t = (Inl d, s')" "\<And>k. errIs e k \<Longrightarrow> errIs d k"
    using passes_on [of "execTx body" t] execTx_body_error [where body = body, OF fault body] by blast
  with atomic [OF run(1) known] show thesis
    by (intro that)
qed

end

text \<open>The error a failed call reports includes the error of its transaction.\<close>

lemma auditTransferFailure_includes:
  assumes "auditTransferFailure arg e s = (r, s')"
  shows "\<exists>d. r = Inr d \<and> (\<forall>t. errIs e t \<longrightarrow> errIs d t)"
proof -
  have "\<exists>audit. r = Inr (case audit of Inr _ \<Rightarrow> e
      | Inl auditErr \<Rightarrow> JoinErr e (WrapErr ''record transfer failure audit'' auditErr))"
    using assms unfolding auditTransferFailure_def
    by (auto simp: bindM_def tryM_def readM_def returnM_def split: prod.splits sum.splits)
  then show ?thesis
    by (auto simp: errIs.simps [of "JoinErr _ _"] split: sum.split)
qed

interpretation transferFailure: failure_audit auditTransferFailure
  by unfold_locales (fact auditTransferFailure_includes, intro auditTransferFailure_frame bookTables_fields)

lemma body_conflicts:
  assumes k: "find (transferKey arg) (idempotency_keys s) = Some k" "ik_request_hash k \<noteq> it_RequestHash arg"
    and live: "tx_now s < ik_expires_at k" and seq: "in_int64 (idempotency_keys_id_seq s)" and key: "validKey arg"
  shows "\<exists>s'. idempotentTransferBody arg s = (Inl ErrIdempotencyConflict, s')"
proof -
  let ?u = "tp_Username (it_TransferTxParams arg)" and ?op = IdempotencyOperationInternalTransfer
  let ?s1 = "s\<lparr>idempotency_keys := filter (\<lambda>k. \<not> (transferKey arg k \<and> ik_expires_at k \<le> tx_now s)) (idempotency_keys s)\<rparr>"
  let ?s2 = "idempotency_keys_id_seq_update (\<lambda>n. n + 1) ?s1"
  have "\<exists>n. DeleteExpiredIdempotencyKey ?u ?op (it_IdempotencyKey arg) s = (Inr n, ?s1)"
    by (simp add: DeleteExpiredIdempotencyKey_def bindM_def deleteWhere_def)
  then obtain n where del: "DeleteExpiredIdempotencyKey ?u ?op (it_IdempotencyKey arg) s = (Inr n, ?s1)" ..
  have find1: "find (transferKey arg) (idempotency_keys ?s1) = Some k"
    using find_survives [OF k(1), of "\<lambda>k. ik_expires_at k \<le> tx_now s"] live by simp
  then have "CreateIdempotencyKey ?u ?op (it_IdempotencyKey arg) (it_RequestHash arg) ?s1 = (Inl ErrNoRows, ?s2)"
    using seq key by (intro key_conflict) (simp_all add: validKey_def)
  then have attempt: "tryM (CreateIdempotencyKey ?u ?op (it_IdempotencyKey arg) (it_RequestHash arg)) ?s1 =
      (Inr (Inl ErrNoRows), ?s2)"
    by (simp add: tryM_def)
  have "GetIdempotencyKeyForUpdate ?u ?op (it_IdempotencyKey arg) ?s2 = (Inr k, ?s2)"
    using find1 by (simp add: GetIdempotencyKeyForUpdate_def selectOne_def)
  then have "replayIdempotentTransfer arg ?s2 = (Inl ErrIdempotencyConflict, ?s2)"
    using k(2) by (simp add: replayIdempotentTransfer_def)
  then show ?thesis
    using del attempt unfolding idempotentTransferBody_def Let_def by (simp add: bindM_run(1))
qed

lemma idempotent_conflict:
  assumes k: "find (transferKey arg) (idempotency_keys s) = Some k" "ik_request_hash k \<noteq> it_RequestHash arg"
    and live: "clockAt (envir s) (clock_ctr s) < ik_expires_at k"
    and seq: "in_int64 (idempotency_keys_id_seq s)" and key: "validKey arg"
    and ok: "beginFault (envir s) (tx_ctr s) = None" "rollbackFault (envir s) (tx_ctr s) = None"
      "commitKnown (envir s) (tx_ctr s)"
  shows "\<exists>e s'. IdempotentTransferTx arg s = (Inl e, s') \<and> errIs e ErrIdempotencyConflict \<and>
    bookTables s' = bookTables s \<and> idempotency_keys s' = idempotency_keys s"
proof -
  obtain c t where c: "auditCorrelation (tp_CorrelationID (it_TransferTxParams arg)) s = (Inr c, t)"
      "tablesOf t = tablesOf s" "envir t = envir s" "tx_ctr t = tx_ctr s"
    by (rule auditCorrelation_total)
  have draws: "clock_ctr t = clock_ctr s" "idempotency_keys_id_seq t = idempotency_keys_id_seq s"
    using c(1) by (rule keepsD [rotated], unfold auditCorrelation_def newPGUUID_def, intro frame, simp)+
  let ?tp = "(it_TransferTxParams arg)\<lparr>tp_CorrelationID := c\<rparr>"
  let ?arg = "arg\<lparr>it_TransferTxParams := ?tp\<rparr>"
  have "idempotency_keys t = idempotency_keys s"
    by (rule tableFieldD [OF _ c(2)], simp)
  then have "\<exists>s'. idempotentTransferBody ?arg (startTx t) = (Inl ErrIdempotencyConflict, s')"
    using k live seq key draws c(3) by (intro body_conflicts [of _ _ k]) (simp_all add: startTx_def validKey_def)
  then obtain u where "execTx (idempotentTransferBody ?arg) t = (Inl ErrIdempotencyConflict, u)"
    using execTx_body_error [of t] ok c by auto
  then obtain d s' where or: "orAudit (execTx (idempotentTransferBody ?arg)) (auditTransferFailure ?tp) t = (Inl d, s')"
      "\<And>k. errIs ErrIdempotencyConflict k \<Longrightarrow> errIs d k"
    using transferFailure.passes_on [where p = ?tp] by blast
  have run: "IdempotentTransferTx arg s = (Inl d, s')"
    using key c(1) or(1) unfolding IdempotentTransferTx_def validKey_def by (simp add: Let_def)
  then show ?thesis
    using or(2) IdempotentTransferTx_error [OF run ok(3), of bookTables]
      IdempotentTransferTx_error [OF run ok(3), of idempotency_keys] by simp
qed

end
