(* ===== verification/OperatorRules.thy ===== *)
theory OperatorRules
  imports Idempotency
begin

text \<open>
  What the operator's calls and the closing of an account promise: the effect of a reversal, that a
  transaction is reversed at most once, that a failed call leaves the books alone, and what happens to
  the account that is closed, frozen or unfrozen.
\<close>

section \<open>Reversals\<close>

text \<open>
  The contract of a reversal: the original was posted and is no reversal itself; it is marked as
  reversed, a new posted transaction refers to it, and every customer gets back what the original took
  or gives back what it gave.
\<close>

definition reversed :: "ReverseTransactionTxParams \<Rightarrow> world \<Rightarrow> ReverseTransactionTxResult \<Rightarrow> world \<Rightarrow> bool" where
  "reversed arg s r s' \<longleftrightarrow> (\<exists>t u qs.
     t \<in> set (banking_transactions s) \<and> Some (bt_id t) = rt_TransactionID arg \<and>
     bt_status t = ''posted'' \<and> bt_transaction_type t \<noteq> ''reversal'' \<and>
     bt_status u = ''posted'' \<and> bt_transaction_type u = ''reversal'' \<and> bt_reversal_of u = Some (bt_id t) \<and>
     bt_amount u = bt_amount t \<and> bt_currency u = bt_currency t \<and>
     map (\<lambda>x. (bt_id x, bt_status x)) (banking_transactions s') =
       map (\<lambda>x. (bt_id x, if bt_id x = bt_id t then ''reversed'' else bt_status x)) (banking_transactions s) @
       [(bt_id u, ''posted'')] \<and>
     ledger_postings s' = ledger_postings s @ qs \<and> (\<forall>q\<in>set qs. lp_transaction_id q = bt_id u) \<and>
     mset (map (\<lambda>q. (lp_ledger_account_id q, lp_amount q)) qs) =
       mset (map (\<lambda>p. (lp_ledger_account_id p, - lp_amount p)) (postingsOf (bt_id t) (ledger_postings s))) \<and>
     map (\<lambda>a. (ac_id a, ac_balance a)) (accounts s') =
       map (\<lambda>a. (ac_id a, ac_balance a - moved (ledger_accounts s) (ledger_postings s) (bt_id t) (ac_id a))) (accounts s) \<and>
     rv_Reversal r = u \<and> rv_Postings r = qs)"

lemma map_pair_eq:
  "map f xs = map f' ys \<Longrightarrow> map g xs = map g' ys \<Longrightarrow> map (\<lambda>x. (f x, g x)) xs = map (\<lambda>y. (f' y, g' y)) ys"
proof (induction xs arbitrary: ys)
  case (Cons x xs)
  then show ?case by (cases ys) simp_all
qed simp

lemma reversalDone_postings:
  assumes "reversalDone arg s t u qs r s'"
  shows "mset (map (\<lambda>q. (lp_ledger_account_id q, lp_amount q)) qs) =
    mset (map (\<lambda>p. (lp_ledger_account_id p, - lp_amount p)) (postingsOf (bt_id t) (ledger_postings s)))"
proof -
  let ?ps = "sort_key lp_id (postingsOf (bt_id t) (ledger_postings s))"
  have "map lp_ledger_account_id qs = map lp_ledger_account_id ?ps" "map lp_amount qs = map (\<lambda>p. - lp_amount p) ?ps"
    using assms unfolding reversalDone_def sourceRows_def by (simp_all add: comp_def)
  then have "map (\<lambda>q. (lp_ledger_account_id q, lp_amount q)) qs = map (\<lambda>p. (lp_ledger_account_id p, - lp_amount p)) ?ps"
    by (rule map_pair_eq)
  then show ?thesis
    by (metis mset_map mset_sort)
qed

lemma reversalDone_reversed:
  assumes ok: "books s" and dn: "reversalDone arg s t u qs r s'"
  shows "reversed arg s r s'"
proof -
  note d = dn [unfolded reversalDone_def]
  have "map (\<lambda>x. (bt_id x, bt_status x)) (banking_transactions s') =
       map (\<lambda>x. (bt_id x, if bt_id x = bt_id t then ''reversed'' else bt_status x)) (banking_transactions s) @
       [(bt_id u, ''posted'')]"
    using d by (simp add: reverseTransaction_def)
  then show ?thesis
    using d reversalDone_postings [OF dn] reversalDone_balances [OF ok dn] unfolding reversed_def
    by (intro exI [of _ t] exI [of _ u] exI [of _ qs]) simp
qed

lemma reversed_cong:
  "bookTables t = bookTables s \<Longrightarrow> reversed arg t r s' \<longleftrightarrow> reversed arg s r s'"
  by (simp add: reversed_def bookTables_def)

lemma ReverseTransactionTx_reversed:
  assumes run: "ReverseTransactionTx arg s = (Inr r, s')" and ok: "books s"
  shows "reversed arg s r s'"
proof -
  have "execTx (reverseTransactionBody arg) s = (Inr r, s')"
    using run unfolding ReverseTransactionTx_def by (simp add: failIf_iff orAudit_ok)
  then have body: "reverseTransactionBody arg (startTx s) = (Inr r, s')"
    by (rule execTx_ok)
  have same: "bookTables (startTx s) = bookTables s"
    by (simp add: bookTables_def)
  then have start: "books (startTx s)"
    using ok books_cong by blast
  with body obtain t u qs where "reversalDone arg (startTx s) t u qs r s'"
    by (rule reverseTransactionBody_ok)
  then show ?thesis
    using reversalDone_reversed [OF start] reversed_cong [OF same] by blast
qed

section \<open>Failures\<close>

lemma auditOperatorFailure_includes:
  assumes "auditOperatorFailure arg e s = (r, s')"
  shows "\<exists>d. r = Inr d \<and> (\<forall>t. errIs e t \<longrightarrow> errIs d t)"
proof -
  have "\<exists>audit. r = Inr (case audit of Inr _ \<Rightarrow> e
      | Inl auditErr \<Rightarrow> JoinErr e (WrapErr ''record operator failure audit'' auditErr))"
    using assms unfolding auditOperatorFailure_def
    by (auto simp: bindM_def tryM_def readM_def returnM_def split: prod.splits sum.splits)
  then show ?thesis
    by (auto simp: errIs.simps [of "JoinErr _ _"] split: sum.split)
qed

lemma auditOperatorFailure_frame [frame]:
  assumes "tableField f" "unnoticed f"
  shows "keeps f (auditOperatorFailure arg e)"
  unfolding auditOperatorFailure_def by (intro frame assms unnoticedD [OF assms(2)])

interpretation operatorFailure: failure_audit auditOperatorFailure
  by unfold_locales (fact auditOperatorFailure_includes, intro auditOperatorFailure_frame bookTables_fields)

text \<open>The second reversal of a transaction, and the reversal of a reversal, are refused.\<close>

lemma reverse_refused:
  assumes t: "t \<in> set (banking_transactions s)" "Some (bt_id t) = rt_TransactionID arg"
    and ids: "distinct (map bt_id (banking_transactions s))"
    and e: "bt_transaction_type t = ''reversal'' \<and> e = ErrTransactionNotReversible \<or>
      bt_transaction_type t \<noteq> ''reversal'' \<and> bt_status t = ''reversed'' \<and> e = ErrTransactionAlreadyReversed"
  shows "reverseTransactionBody arg s = (Inl e, s)"
proof -
  have "find (\<lambda>u. Some (bt_id u) = rt_TransactionID arg) (banking_transactions s) = Some t"
    using find_key [OF ids, of "bt_id t" t] t by (simp add: t(2) [symmetric])
  then have "mapErrM (errIfNoRows ErrTransactionNotFound) (GetBankingTransactionForUpdate (rt_TransactionID arg)) s = (Inr t, s)"
    by (simp add: GetBankingTransactionForUpdate_def selectOne_def mapErrM_def)
  then show ?thesis
    using e unfolding reverseTransactionBody_def by (auto simp: bindM_def failIf_def failM_def)
qed

lemma ReverseTransactionTx_refused:
  assumes t: "t \<in> set (banking_transactions s)" "Some (bt_id t) = rt_TransactionID arg"
    and ok: "books s" and valid: "validateOperatorAction (rt_Actor arg) (rt_Reason arg) (rt_CorrelationID arg)"
    and e: "bt_transaction_type t = ''reversal'' \<and> e = ErrTransactionNotReversible \<or>
      bt_transaction_type t \<noteq> ''reversal'' \<and> bt_status t = ''reversed'' \<and> e = ErrTransactionAlreadyReversed"
    and fault: "beginFault (envir s) (tx_ctr s) = None" "rollbackFault (envir s) (tx_ctr s) = None"
      "commitKnown (envir s) (tx_ctr s)"
  obtains d s' where "ReverseTransactionTx arg s = (Inl d, s')" "errIs d e" "bookTables s' = bookTables s"
proof -
  have "reverseTransactionBody arg (startTx s) = (Inl e, startTx s)"
    using t e booksD(3) [OF ok] by (intro reverse_refused [of t]) simp_all
  note refused = operatorFailure.refuses [where body = "reverseTransactionBody arg", OF fault(1,2) this fault(3)]
  obtain d s' where run: "orAudit (execTx (reverseTransactionBody arg)) (auditOperatorFailure
        \<lparr>oa_EntityType = ''banking_transaction'', oa_EntityID = rt_TransactionID arg,
         oa_CorrelationID = rt_CorrelationID arg, oa_EventType = ''transaction_reversal_failed'',
         oa_Actor = rt_Actor arg, oa_FromState = '''', oa_ToState = ''rejected'',
         oa_Reason = rt_Reason arg, oa_Metadata = None\<rparr>) s = (Inl d, s')"
      "\<And>k. errIs e k \<Longrightarrow> errIs d k" "bookTables s' = bookTables s"
    using refused by blast
  have "ReverseTransactionTx arg s = (Inl d, s')"
    using valid run(1) unfolding ReverseTransactionTx_def by (simp add: failIf_def)
  moreover have "errIs e e"
    using e by auto
  ultimately show thesis
    using run(2,3) that by blast
qed

lemma ReverseTransactionTx_error:
  assumes run: "ReverseTransactionTx arg s = (Inl e, s')" and known: "commitKnown (envir s) (tx_ctr s)"
  shows "bookTables s' = bookTables s"
proof (cases "validateOperatorAction (rt_Actor arg) (rt_Reason arg) (rt_CorrelationID arg)")
  case True
  then show ?thesis
    using run unfolding ReverseTransactionTx_def by (simp add: failIf_def operatorFailure.atomic [OF _ known])
next
  case False
  then show ?thesis
    using run by (simp add: ReverseTransactionTx_def failIf_def failM_def)
qed

section \<open>Closing, freezing and unfreezing\<close>

text \<open>One account changes its status, nobody's balance changes.\<close>

definition statusChanged :: "uuid option \<Rightarrow> string \<Rightarrow> Account \<Rightarrow> world \<Rightarrow> Account \<Rightarrow> world \<Rightarrow> bool" where
  "statusChanged pid target a s r s' \<longleftrightarrow>
     a \<in> set (accounts s) \<and> Some (ac_public_id a) = pid \<and> ac_status a \<noteq> ''closed'' \<and> ac_status a \<noteq> target \<and>
     ac_id r = ac_id a \<and> ac_status r = target \<and>
     map (\<lambda>x. (ac_id x, ac_owner x, ac_balance x, ac_currency x, ac_account_number x, ac_status x)) (accounts s') =
       map (\<lambda>x. (ac_id x, ac_owner x, ac_balance x, ac_currency x, ac_account_number x,
                 if ac_id x = ac_id a then target else ac_status x)) (accounts s) \<and>
     ledger_accounts s' = ledger_accounts s \<and> banking_transactions s' = banking_transactions s \<and>
     ledger_postings s' = ledger_postings s"

lemma status_update:
  assumes run: "updateAccount (\<lambda>x. ac_id x = ac_id a \<and> p x)
      (\<lambda>x. x\<lparr>ac_status := target, ac_closed_at := c, ac_updated_at := n\<rparr>) s = (Inr r, s')"
    and ok: "books s" and a: "a \<in> set (accounts s)" "Some (ac_public_id a) = pid" "ac_status a \<noteq> ''closed''"
      "ac_status a \<noteq> target"
  shows "statusChanged pid target a s r s'"
proof -
  obtain x where x: "x \<in> set (accounts s)" "ac_id x = ac_id a"
      "r = x\<lparr>ac_status := target, ac_closed_at := c, ac_updated_at := n\<rparr>"
    and s': "s' = s\<lparr>accounts := map (\<lambda>x. if ac_id x = ac_id a
        then x\<lparr>ac_status := target, ac_closed_at := c, ac_updated_at := n\<rparr> else x) (accounts s)\<rparr>"
    by (rule updateAccount_ok [OF run booksD(1) [OF ok]]) (rule that)
  have "map (\<lambda>x. (ac_id x, ac_owner x, ac_balance x, ac_currency x, ac_account_number x, ac_status x)) (accounts s') =
       map (\<lambda>x. (ac_id x, ac_owner x, ac_balance x, ac_currency x, ac_account_number x,
                 if ac_id x = ac_id a then target else ac_status x)) (accounts s)"
    unfolding s' by simp
  then show ?thesis
    using a x(2) unfolding statusChanged_def x(3) by (simp add: s')
qed

lemma statusChanged_cong:
  "bookTables t = bookTables s \<Longrightarrow> bookTables t' = bookTables s' \<Longrightarrow>
   statusChanged pid target a t r t' \<longleftrightarrow> statusChanged pid target a s r s'"
  by (simp add: statusChanged_def bookTables_def)

lemma closeAccountBody_ok:
  assumes body: "closeAccountBody arg s = (Inr r, s')" and ok: "books s"
  obtains a where "statusChanged (cl_PublicID arg) ''closed'' a s r s'" "ac_owner a = cl_Username arg" "ac_balance a = 0"
proof -
  obtain account s1 closed s2 x1 x2 s3 x3 x4 s4
    where get: "mapErrM (errIfNoRows ErrAccountNotFound) (GetAccountByPublicIDForUpdate (cl_PublicID arg)) s = (Inr account, s1)"
    and guards: "\<not> ac_owner account \<noteq> cl_Username arg" "\<not> ac_status account = FinancialAccountStatusClosed" "\<not> ac_balance account \<noteq> 0"
    and close: "CloseAccount (ac_id account) s1 = (Inr closed, s2)"
    and audit: "createFinancialAudit x1 s2 = (Inr x2, s3)"
    and notify: "createFinancialNotification x3 s3 = (Inr x4, s4)" and s': "s' = s4" "r = closed"
    using body unfolding closeAccountBody_def by (elim run_elims) (rule that, assumption+)
  have a: "s1 = s" "account \<in> set (accounts s)" "Some (ac_public_id account) = cl_PublicID arg"
    using get by (auto simp: runs account_select_defs dest: find_Some_iff2)
  have "statusChanged (cl_PublicID arg) ''closed'' account s closed s2"
    using close guards a unfolding CloseAccount_def bindM_iff readM_iff
    by (elim exE conjE) (hypsubst, erule status_update [OF _ ok]; simp)
  moreover have "bookTables s' = bookTables s2"
    using keepsD [OF financial_frame(1) audit, of bookTables] keepsD [OF financial_frame(4) notify, of bookTables] s'
    by simp
  ultimately have "statusChanged (cl_PublicID arg) ''closed'' account s r s'"
    using statusChanged_cong [OF HOL.refl] s'(2) by metis
  with guards show thesis by (intro that) simp_all
qed

lemma setAccountStatusBody_ok:
  assumes body: "setAccountStatusBody arg s = (Inr r, s')" and ok: "books s"
  obtains a where "statusChanged (as_AccountPublicID arg) (as_TargetStatus arg) a s (sr_Account r) s'"
proof -
  obtain account s1 updated s2 x1 x2 s3 x3 x4 s4
    where get: "mapErrM (errIfNoRows ErrAccountNotFound) (GetAccountByPublicIDForUpdate (as_AccountPublicID arg)) s = (Inr account, s1)"
    and guards: "\<not> ac_status account = FinancialAccountStatusClosed" "\<not> ac_status account = as_TargetStatus arg"
    and status: "SetAccountStatus (ac_id account) (as_TargetStatus arg) s1 = (Inr updated, s2)"
    and audit: "createOperatorAudit x1 s2 = (Inr x2, s3)"
    and notify: "createFinancialNotification x3 s3 = (Inr x4, s4)"
    and s': "r = \<lparr>sr_Account = updated, sr_AuditLog = x2\<rparr>" "s' = s4"
    using body unfolding setAccountStatusBody_def by (elim run_elims) (rule that, assumption+)
  have a: "s1 = s" "account \<in> set (accounts s)" "Some (ac_public_id account) = as_AccountPublicID arg"
    using get by (auto simp: runs account_select_defs dest: find_Some_iff2)
  have "statusChanged (as_AccountPublicID arg) (as_TargetStatus arg) account s updated s2"
    using status guards a unfolding SetAccountStatus_def bindM_iff readM_iff
    by (elim exE conjE) (hypsubst, erule status_update [OF _ ok]; simp)
  moreover have "bookTables s' = bookTables s2"
    using keepsD [OF createOperatorAudit_frame audit, of bookTables] keepsD [OF financial_frame(4) notify, of bookTables] s'
    by simp
  ultimately have "statusChanged (as_AccountPublicID arg) (as_TargetStatus arg) account s updated s'"
    using statusChanged_cong [OF HOL.refl] by metis
  with s' show thesis by (intro that) simp_all
qed

text \<open>A transaction starts on the books as they are.\<close>

lemma startTx_books: "bookTables (startTx s) = bookTables s" "books s \<Longrightarrow> books (startTx s)"
  by (simp_all add: bookTables_def)

lemma CloseAccountTx_ok:
  assumes run: "CloseAccountTx arg s = (Inr r, s')" and ok: "books s"
  obtains a where "statusChanged (cl_PublicID arg) ''closed'' a s r s'" "ac_owner a = cl_Username arg" "ac_balance a = 0"
proof -
  have "closeAccountBody arg (startTx s) = (Inr r, s')"
    using run unfolding CloseAccountTx_def by (rule execTx_ok)
  then show thesis
    using closeAccountBody_ok [OF _ startTx_books(2) [OF ok]] statusChanged_cong [OF startTx_books(1) HOL.refl] that by metis
qed

lemma SetAccountStatusTx_ok:
  assumes run: "SetAccountStatusTx arg s = (Inr r, s')" and ok: "books s"
  obtains a where "statusChanged (as_AccountPublicID arg) (as_TargetStatus arg) a s (sr_Account r) s'"
    "as_TargetStatus arg = ''frozen'' \<or> as_TargetStatus arg = ''active''"
proof -
  have target: "as_TargetStatus arg = ''frozen'' \<or> as_TargetStatus arg = ''active''"
    and "execTx (setAccountStatusBody arg) s = (Inr r, s')"
    using run unfolding SetAccountStatusTx_def by (auto simp: failIf_iff orAudit_ok)
  from this(2) have "setAccountStatusBody arg (startTx s) = (Inr r, s')"
    by (rule execTx_ok)
  then show thesis
    using setAccountStatusBody_ok [OF _ startTx_books(2) [OF ok]] statusChanged_cong [OF startTx_books(1) HOL.refl] that target by metis
qed

end
