(* ===== verification/AccountRules.thy ===== *)
theory AccountRules
  imports Accounts
begin

text \<open>
  What opening an account promises: a fresh row with a fresh ten-digit number and its own ledger account,
  found within five draws of the random source.
\<close>

definition opened :: "string \<Rightarrow> string \<Rightarrow> world \<Rightarrow> Account \<Rightarrow> world \<Rightarrow> bool" where
  "opened owner currency s a s' \<longleftrightarrow>
     accounts s' = accounts s @ [a] \<and> ac_owner a = owner \<and> ac_currency a = currency \<and>
     ac_balance a = 0 \<and> ac_status a = ''active'' \<and>
     length (ac_account_number a) = 10 \<and> list_all isDigit (ac_account_number a) \<and>
     ac_account_number a \<notin> ac_account_number ` set (accounts s) \<and>
     (owner, currency) \<notin> (\<lambda>b. (ac_owner b, ac_currency b)) ` set (accounts s) \<and>
     (\<exists>l. ledger_accounts s' = ledger_accounts s @ [l] \<and> ledgerFor a l) \<and>
     banking_transactions s' = banking_transactions s \<and> ledger_postings s' = ledger_postings s"

lemma opened_cong: "bookTables t = bookTables s \<Longrightarrow> opened owner currency t a s' \<longleftrightarrow> opened owner currency s a s'"
  by (simp add: opened_def bookTables_def)

lemma attempt_cases:
  assumes "createAccountAttempt owner currency number s = (x, s')"
  obtains (refused) "isl x" "bookTables s' = bookTables s"
  | (opens) a where "opened owner currency s a s'" "x = Inr a \<or> isl x"
  using assms unfolding createAccountAttempt_def
proof (cases rule: execTx_cases)
  case (restored e)
  have "bookTables s' = bookTables s"
    by (rule tableFieldD [OF bookTables_fields(1) restored(2)])
  with restored(1) show thesis
    by (intro refused) simp_all
next
  case (committed a)
  then obtain t1 l t2 x1 x2 where create: "CreateAccount owner currency number (startTx s) = (Inr a, t1)"
    and ledger: "CreateCustomerLedgerAccount (Some (ac_id a)) (ac_currency a) t1 = (Inr l, t2)"
    and audit: "createFinancialAudit x1 t2 = (Inr x2, s')"
    by (elim run_elims) blast
  note c = CreateAccount_ok [OF create] and l = CreateCustomerLedgerAccount_ok [OF ledger]
  have "bookTables s' = bookTables t2"
    by (rule keepsD [OF financial_frame(1) audit]) simp
  then have "opened owner currency s a s'"
    using c l unfolding opened_def bookTables_def by (simp add: ledgerFor_def accountRowOk_def)
  with committed(3) show thesis
    by (intro opens) auto
qed

lemma generated_opens:
  "createAccountWithGeneratedNumber n generateAccountNumber (createAccountAttempt owner currency) s = (Inr a, s') \<Longrightarrow>
   opened owner currency s a s'"
proof (induction n arbitrary: s)
  case 0
  then show ?case by (simp add: failM_def)
next
  case (Suc n)
  then obtain number t1 where gen: "generateAccountNumber s = (Inr number, t1)"
    and loop: "bindM (tryM (createAccountAttempt owner currency number)) (\<lambda>r. case r of Inr account \<Rightarrow> returnM account
        | Inl e \<Rightarrow> if isAccountNumberCollision e
            then createAccountWithGeneratedNumber n generateAccountNumber (createAccountAttempt owner currency)
            else failM e) t1 = (Inr a, s')"
    unfolding createAccountWithGeneratedNumber.simps bindM_iff by blast
  have t1: "bookTables t1 = bookTables s"
    by (rule keepsD [OF generateAccountNumber_frame gen]) (simp add: bookTables_def)
  obtain x t2 where att: "createAccountAttempt owner currency number t1 = (x, t2)"
    by (cases "createAccountAttempt owner currency number t1")
  show ?case
  proof (cases x)
    case (Inr b)
    then have "a = b" "t2 = s'"
      using loop att by (simp_all add: bindM_def tryM_def returnM_def)
    from att have "opened owner currency t1 b t2"
      by (cases rule: attempt_cases) (use Inr in auto)
    then show ?thesis
      using \<open>a = b\<close> \<open>t2 = s'\<close> opened_cong [OF t1] by simp
  next
    case (Inl e)
    then have "createAccountWithGeneratedNumber n generateAccountNumber (createAccountAttempt owner currency) t2 = (Inr a, s')"
      using loop att by (auto simp: bindM_def tryM_def failM_def split: if_splits)
    then have again: "opened owner currency t2 a s'"
      by (rule Suc.IH)
    from att show ?thesis
    proof (cases rule: attempt_cases)
      case refused
      then show ?thesis
        using again opened_cong t1 by metis
    next
      case (opens b)
      then show ?thesis
        using again by (simp add: opened_def)
    qed
  qed
qed

lemma CreateAccountTx_opens: "CreateAccountTx arg s = (Inr a, s') \<Longrightarrow> opened (ca_Owner arg) (ca_Currency arg) s a s'"
  unfolding CreateAccountTx_def by (rule generated_opens)

text \<open>Every round draws one number, and there are at most five.\<close>

lemma execTx_draws:
  assumes "keeps rand_ctr body"
  shows "keeps rand_ctr (execTx body)"
proof -
  have "rand_ctr t = rand_ctr s" if "body (startTx s) = (x, t)" for s x t
    using keepsD [OF assms that] by (simp add: startTx_def)
  then show ?thesis
    unfolding keeps_def within_def execTx_def runTx_def commitTx_def
    by (auto simp: rollbackTo_def simp del: firstError_None split: option.splits prod.splits sum.splits if_splits)
qed

lemma attempt_draws: "keeps rand_ctr (createAccountAttempt owner currency number)"
  unfolding createAccountAttempt_def
  by (intro execTx_draws frame; simp)

lemma generateAccountNumber_draws: "generateAccountNumber s = (x, t) \<Longrightarrow> rand_ctr t = rand_ctr s + 1"
  by (auto simp: generateAccountNumber_def bindM_def mapErrM_def randInt_def returnM_def split: sum.splits)

lemma generated_draws:
  "createAccountWithGeneratedNumber n generateAccountNumber (createAccountAttempt owner currency) s = (x, s') \<Longrightarrow>
   rand_ctr s' \<le> rand_ctr s + n"
proof (induction n arbitrary: s)
  case 0
  then show ?case by (simp add: failM_def)
next
  case (Suc n)
  obtain g t1 where gen: "generateAccountNumber s = (g, t1)"
    by (cases "generateAccountNumber s")
  note one = generateAccountNumber_draws [OF gen]
  show ?case
  proof (cases g)
    case (Inl e)
    then show ?thesis using Suc.prems gen one by (simp add: bindM_def)
  next
    case (Inr number)
    obtain r t2 where att: "createAccountAttempt owner currency number t1 = (r, t2)"
      by (cases "createAccountAttempt owner currency number t1")
    have same: "rand_ctr t2 = rand_ctr t1"
      by (rule keepsD [OF attempt_draws att])
    have "s' = t2 \<or> createAccountWithGeneratedNumber n generateAccountNumber (createAccountAttempt owner currency) t2 = (x, s')"
      using Suc.prems gen att Inr
      by (auto simp: bindM_def tryM_def failM_def returnM_def split: sum.splits if_splits)
    then show ?thesis
      using Suc.IH [of t2] one same by auto
  qed
qed

lemma CreateAccountTx_draws: "CreateAccountTx arg s = (x, s') \<Longrightarrow> rand_ctr s' \<le> rand_ctr s + 5"
  unfolding CreateAccountTx_def accountNumberGenerationAttempts_def by (rule generated_draws)

end
