(* ===== verification/HistoryQueries.thy ===== *)
theory HistoryQueries
  imports UserQueries
begin

text \<open>
  The read-only statements of \<open>db/sqlc/transaction_history.sql.go\<close>: the activity of an account with its
  running balance, one transaction by its reference, the balances of a statement, and money movement by
  day or week.
\<close>

section \<open>The activity of an account\<close>

definition targetLedgers :: "uuid option \<Rightarrow> string \<Rightarrow> world \<Rightarrow> int list" where
  \<comment> \<open>The common table expression \<open>target_ledger\<close>\<close>
  "targetLedgers account_public_id username s =
     concat (map (\<lambda>a. map la_id (filter (\<lambda>l. la_customer_account_id l = Some (ac_id a) \<and> la_kind l = ''customer'')
                          (ledger_accounts s)))
       (filter (\<lambda>a. Some (ac_public_id a) = account_public_id \<and> ac_owner a = username) (accounts s)))"

definition movements :: "int list \<Rightarrow> world \<Rightarrow> (LedgerPosting \<times> BankingTransaction) list" where
  \<comment> \<open>\<open>target_ledger JOIN ledger_postings JOIN banking_transactions\<close>\<close>
  "movements lids s =
     concat (map (\<lambda>lid.
       concat (map (\<lambda>p. map (Pair p) (filter (\<lambda>t. bt_id t = lp_transaction_id p) (banking_transactions s)))
         (filter (\<lambda>p. lp_ledger_account_id p = lid) (ledger_postings s)))) lids)"

definition counterpartyOf :: "world \<Rightarrow> LedgerPosting \<Rightarrow> BankingTransaction \<Rightarrow> string \<times> string option" where
  \<comment> \<open>The lateral join: the first other posting's kind of ledger, and the text shown for it. An account
     that is missing gives NULL.\<close>
  "counterpartyOf s p t =
     (case concat (map (\<lambda>q. filter (\<lambda>l. la_id l = lp_ledger_account_id q) (ledger_accounts s))
         (sort_key lp_id (filter (\<lambda>q. lp_transaction_id q = bt_id t \<and> lp_ledger_account_id q \<noteq> lp_ledger_account_id p)
            (ledger_postings s)))) of
        [] \<Rightarrow> ('''', Some '''')
      | l # _ \<Rightarrow>
          (la_kind l,
           if la_kind l = ''customer''
           then map_option ac_account_number (find (\<lambda>a. Some (ac_id a) = la_customer_account_id l) (accounts s))
           else if la_kind l = ''settlement'' then Some ''Monierave'' else Some ''''))"

record ListOwnedAccountTransactionsRow =
  tx_id :: uuid
  tx_reference :: string
  tx_transaction_type :: string
  tx_status :: string
  tx_currency :: string
  tx_amount :: int
  tx_narration :: string
  tx_created_at :: time
  tx_posted_at :: "time option"
  tx_signed_amount :: int
  tx_direction :: string
  tx_counterparty_kind :: string
  tx_counterparty :: "string option"
  tx_balance_after :: int

definition activityRow :: "world \<Rightarrow> LedgerPosting \<times> BankingTransaction \<Rightarrow> ListOwnedAccountTransactionsRow" where
  \<comment> \<open>A row before the window function has run\<close>
  "activityRow s pt = (case pt of (p, t) \<Rightarrow>
     \<lparr>tx_id = bt_id t, tx_reference = bt_reference t, tx_transaction_type = bt_transaction_type t,
      tx_status = bt_status t, tx_currency = bt_currency t, tx_amount = bt_amount t,
      tx_narration = bt_narration t, tx_created_at = bt_created_at t, tx_posted_at = bt_posted_at t,
      tx_signed_amount = lp_amount p, tx_direction = (if 0 < lp_amount p then ''incoming'' else ''outgoing''),
      tx_counterparty_kind = fst (counterpartyOf s p t), tx_counterparty = snd (counterpartyOf s p t),
      tx_balance_after = 0\<rparr>)"

fun runningBalance :: "int \<Rightarrow> ListOwnedAccountTransactionsRow list \<Rightarrow> ListOwnedAccountTransactionsRow list" where
  \<comment> \<open>\<open>sum(posting.amount) OVER (ORDER BY ... ROWS BETWEEN UNBOUNDED PRECEDING AND CURRENT ROW)\<close>\<close>
  "runningBalance acc [] = []"
| "runningBalance acc (r # rs) =
     r\<lparr>tx_balance_after := acc + tx_signed_amount r\<rparr> # runningBalance (acc + tx_signed_amount r) rs"

definition accountActivity :: "int list \<Rightarrow> world \<Rightarrow> ListOwnedAccountTransactionsRow list" where
  "accountActivity lids s =
     runningBalance 0 (sort_key tx_created_at (sort_key (uint \<circ> tx_id) (map (activityRow s) (movements lids s))))"

record ListOwnedAccountTransactionsParams =
  lt_PageLimit :: int
  lt_AccountPublicID :: "uuid option"
  lt_Username :: string
  lt_FromTime :: "time option"
  lt_ToTime :: "time option"
  lt_TransactionType :: "string option"
  lt_TransactionStatus :: "string option"
  lt_Direction :: "string option"
  lt_CursorCreatedAt :: "time option"
  lt_CursorID :: "uuid option"

definition allowed :: "'a option \<Rightarrow> ('a \<Rightarrow> bool) \<Rightarrow> bool" where
  \<comment> \<open>\<open>$n IS NULL OR ...\<close>\<close>
  "allowed v p = (case v of None \<Rightarrow> True | Some x \<Rightarrow> p x)"

definition beforeCursor :: "time option \<Rightarrow> uuid option \<Rightarrow> ListOwnedAccountTransactionsRow \<Rightarrow> bool" where
  \<comment> \<open>\<open>(created_at, id) < (cursor_created_at, cursor_id)\<close>, the comparison of SQL rows\<close>
  "beforeCursor cursor_created_at cursor_id r =
     allowed cursor_created_at (\<lambda>c. tx_created_at r < c \<or>
       tx_created_at r = c \<and> (case cursor_id of None \<Rightarrow> False | Some u \<Rightarrow> tx_id r < u))"

definition activityFilter :: "ListOwnedAccountTransactionsParams \<Rightarrow> ListOwnedAccountTransactionsRow \<Rightarrow> bool" where
  \<comment> \<open>The conditions of \<open>filtered_activity\<close> apart from the cursor\<close>
  "activityFilter arg r \<longleftrightarrow>
     allowed (lt_FromTime arg) (\<lambda>f. f \<le> tx_created_at r) \<and> allowed (lt_ToTime arg) (\<lambda>t. tx_created_at r < t) \<and>
     allowed (lt_TransactionType arg) (\<lambda>v. tx_transaction_type r = v) \<and>
     allowed (lt_TransactionStatus arg) (\<lambda>v. tx_status r = v) \<and> allowed (lt_Direction arg) (\<lambda>v. tx_direction r = v)"

definition newestFirst :: "ListOwnedAccountTransactionsRow list \<Rightarrow> ListOwnedAccountTransactionsRow list" where
  \<comment> \<open>\<open>ORDER BY created_at DESC, id DESC\<close>\<close>
  "newestFirst rs = sortDesc tx_created_at (sortDesc (uint \<circ> tx_id) rs)"

definition scanRow :: "ListOwnedAccountTransactionsRow \<Rightarrow> ListOwnedAccountTransactionsRow query" where
  \<comment> \<open>\<open>counterparty\<close> is scanned into a \<open>string\<close>, which has no room for NULL.\<close>
  "scanRow r = (case tx_counterparty r of None \<Rightarrow> failM (GoErr ''cannot scan NULL into *string'') | Some c \<Rightarrow> returnM r)"

definition ListOwnedAccountTransactions ::
  "ListOwnedAccountTransactionsParams \<Rightarrow> ListOwnedAccountTransactionsRow list query" where
  "ListOwnedAccountTransactions arg =
     failIf (lt_PageLimit arg < 0) (PgRaise ''LIMIT must not be negative'')
     (bindM (readM (\<lambda>s. accountActivity (targetLedgers (lt_AccountPublicID arg) (lt_Username arg) s) s)) (\<lambda>activity.
      failIf (list_ex (\<lambda>r. \<not> in_int64 (tx_balance_after r)) activity) PgOutOfRange
      (forM (take (nat (lt_PageLimit arg)) (newestFirst (filter (\<lambda>r. activityFilter arg r \<and>
               beforeCursor (lt_CursorCreatedAt arg) (lt_CursorID arg) r) activity))) scanRow)))"

section \<open>One transaction\<close>

record GetOwnedTransactionByReferenceRow = ListOwnedAccountTransactionsRow +
  ot_account_public_id :: uuid

definition GetOwnedTransactionByReference :: "string \<Rightarrow> string \<Rightarrow> GetOwnedTransactionByReferenceRow query" where
  \<comment> \<open>The first row of \<open>owned_activity\<close>; this statement has no running balance, and no order: a user with
     both sides of a transaction gets either.\<close>
  "GetOwnedTransactionByReference username reference =
     bindM (readM (\<lambda>s.
       concat (map (\<lambda>t.
         concat (map (\<lambda>p.
           concat (map (\<lambda>l.
             map (\<lambda>a. ListOwnedAccountTransactionsRow.extend (activityRow s (p, t))
                        (GetOwnedTransactionByReferenceRow.fields (ac_public_id a)))
               (filter (\<lambda>a. Some (ac_id a) = la_customer_account_id l \<and> ac_owner a = username) (accounts s)))
             (filter (\<lambda>l. la_id l = lp_ledger_account_id p) (ledger_accounts s))))
           (filter (\<lambda>p. lp_transaction_id p = bt_id t) (ledger_postings s))))
         (filter (\<lambda>t. bt_reference t = reference) (banking_transactions s))))) (\<lambda>rows.
     case rows of
       [] \<Rightarrow> failM ErrNoRows
     | r # _ \<Rightarrow> bindM (scanRow (ListOwnedAccountTransactionsRow.truncate r)) (\<lambda>_. returnM r))"

section \<open>Statements\<close>

definition GetOwnedAccountStatementBalances ::
  "time option \<Rightarrow> time option \<Rightarrow> uuid option \<Rightarrow> string \<Rightarrow> (int \<times> int) query" where
  \<comment> \<open>The opening and the closing balance\<close>
  "GetOwnedAccountStatementBalances from_time to_time account_public_id username =
     bindM (readM (\<lambda>s. movements (targetLedgers account_public_id username s) s)) (\<lambda>ms.
     bindM (sumBigint (map (lp_amount \<circ> fst) (filter (\<lambda>(p, t).
        (case from_time of None \<Rightarrow> False | Some f \<Rightarrow> bt_created_at t < f)) ms))) (\<lambda>opening.
     bindM (sumBigint (map (lp_amount \<circ> fst) (filter (\<lambda>(p, t).
        allowed to_time (\<lambda>u. bt_created_at t < u)) ms))) (\<lambda>closing.
     returnM (opening, closing))))"

section \<open>Money movement\<close>

text \<open>
  \<open>date_trunc\<close> of a \<open>timestamptz\<close> works in the time zone of the connection. The zone is a parameter: a
  fixed offset from UTC in microseconds (0 for a server that runs in UTC). Weeks start on Monday; the
  5th of January 1970 was one.
\<close>

definition bucketWidth :: "string \<Rightarrow> int" where
  "bucketWidth bucket_interval = (if bucket_interval = ''week'' then 7 * dayMicros else dayMicros)"

definition bucketOf :: "int \<Rightarrow> string \<Rightarrow> time \<Rightarrow> time" where
  "bucketOf zone bucket_interval t =
     (if bucket_interval = ''week'' then t - (t + zone - 4 * dayMicros) mod (7 * dayMicros)
      else t - (t + zone) mod dayMicros)"

definition generateSeries :: "int \<Rightarrow> int \<Rightarrow> int \<Rightarrow> int list" where
  \<comment> \<open>\<open>generate_series(start, stop, step)\<close> for a positive step\<close>
  "generateSeries start stop step =
     (if stop < start then [] else map (\<lambda>k. start + int k * step) [0..<nat ((stop - start) div step) + 1])"

record GetOwnedAccountMoneyMovementRow =
  mv_bucket_start :: time
  mv_incoming :: int
  mv_outgoing :: int

definition GetOwnedAccountMoneyMovement ::
  "int \<Rightarrow> uuid option \<Rightarrow> string \<Rightarrow> string \<Rightarrow> time option \<Rightarrow> time option \<Rightarrow> GetOwnedAccountMoneyMovementRow list query" where
  "GetOwnedAccountMoneyMovement zone account_public_id username bucket_interval from_time to_time =
     (case (from_time, to_time) of
        (Some f, Some u) \<Rightarrow>
          bindM (readM (\<lambda>s. map (\<lambda>(p, t). (bucketOf zone bucket_interval (the (bt_posted_at t)), lp_amount p))
            (filter (\<lambda>(p, t). List.member [''posted'', ''reversed''] (bt_status t) \<and>
               (case bt_posted_at t of None \<Rightarrow> False | Some at \<Rightarrow> f \<le> at \<and> at < u))
              (movements (targetLedgers account_public_id username s) s)))) (\<lambda>movement.
          forM (generateSeries (bucketOf zone bucket_interval f) (bucketOf zone bucket_interval (u - 1))
                 (bucketWidth bucket_interval)) (\<lambda>b.
            bindM (sumBigint (filter (\<lambda>n. 0 < n) (map snd (filter (\<lambda>m. fst m = b) movement)))) (\<lambda>incoming.
            bindM (sumBigint (map (\<lambda>n. - n) (filter (\<lambda>n. n < 0) (map snd (filter (\<lambda>m. fst m = b) movement))))) (\<lambda>outgoing.
            returnM \<lparr>mv_bucket_start = b, mv_incoming = incoming, mv_outgoing = outgoing\<rparr>))))
      | _ \<Rightarrow> returnM [])"

lemma scanRow_frame [frame]: "keeps f (scanRow r)"
  unfolding scanRow_def by (intro frame)

lemma history_selects_frame [frame]:
  "keeps f (GetOwnedAccountStatementBalances ft tt pid n)" "keeps f (GetOwnedTransactionByReference n' r)"
  "keeps f (ListOwnedAccountTransactions arg)" "keeps f (GetOwnedAccountMoneyMovement z pid' n'' iv ft' tt')"
  unfolding GetOwnedAccountStatementBalances_def GetOwnedTransactionByReference_def
    ListOwnedAccountTransactions_def GetOwnedAccountMoneyMovement_def
  by (intro frame)+

end
