(* ===== verification/Config.thy ===== *)
theory Config
  imports Worker
begin

text \<open>
  The configuration and its validation (\<open>db/util/config.go\<close>). Reading the environment is the work of a
  library; a configuration is the record it fills. URLs and letter case are functions of Go's standard
  library on Unicode text and stay parameters, collected in a record.
\<close>

section \<open>What the standard library knows about texts\<close>

text \<open>
  \<open>gl_ParseURL\<close> is \<open>url.Parse\<close>, \<open>gl_ToLower\<close> and \<open>gl_fold\<close> are \<open>strings.ToLower\<close> and the folding by which
  \<open>strings.EqualFold\<close> compares, \<open>gl_ParseDate\<close> and \<open>gl_ParseRFC3339\<close> are \<open>time.Parse\<close> with those layouts,
  and \<open>gl_Quote\<close> is the format \<open>%q\<close>.
\<close>

record URL =
  url_Scheme :: string
  url_Host :: string
  url_sslmode :: string

record golib =
  gl_ParseURL :: "string \<Rightarrow> URL option"
  gl_ToLower :: "string \<Rightarrow> string"
  gl_fold :: "string \<Rightarrow> string"
  gl_Quote :: "string \<Rightarrow> string"
  gl_ParseDate :: "string \<Rightarrow> time option"
  gl_ParseRFC3339 :: "string \<Rightarrow> time option"

definition EqualFold :: "golib \<Rightarrow> string \<Rightarrow> string \<Rightarrow> bool" where
  "EqualFold g a b = (gl_fold g a = gl_fold g b)"

fun splitOn :: "char \<Rightarrow> string \<Rightarrow> string list" where
  \<comment> \<open>\<open>strings.Split\<close> at a one-byte separator\<close>
  "splitOn c [] = [[]]"
| "splitOn c (x # xs) = (if x = c then [] # splitOn c xs else (x # hd (splitOn c xs)) # tl (splitOn c xs))"

section \<open>The configuration\<close>

record Config =
  cf_Environment :: string
  cf_DBSource :: string
  cf_DBTestSource :: string
  cf_ServerAddress :: string
  cf_SecretKey :: string
  cf_AccessTokenDuration :: int
  cf_RefreshTokenDuration :: int
  cf_RefreshCookieName :: string
  cf_DeviceCookieName :: string
  cf_RefreshCookieDomain :: string
  cf_RefreshCookieSecure :: bool
  cf_RefreshCookieSameSite :: string
  cf_AllowedOrigins :: string
  cf_RedisURL :: string
  cf_RedisAddress :: string
  cf_DBMaxConns :: int
  cf_DBMinConns :: int
  cf_DBMaxConnLifetime :: int
  cf_DBMaxConnIdleTime :: int
  cf_DBConnectTimeout :: int
  cf_MailerProvider :: string
  cf_WorkerConcurrency :: int
  cf_WorkerTaskCheckInterval :: int
  cf_WorkerHealthCheckInterval :: int
  cf_WorkerDelayedTaskInterval :: int
  cf_WorkerJanitorInterval :: int
  cf_RelayBatchSize :: int
  cf_RelayPollInterval :: int
  cf_RelayClaimLease :: int
  cf_ResendAPIKey :: string
  cf_EmailFrom :: string
  cf_ResendWebhookSecret :: string
  cf_PublicAPIURL :: string
  cf_EmailVerificationDuration :: int
  cf_EnforceEmailVerification :: bool
  cf_LogLevel :: string
  cf_PasswordBreachCheckURL :: string
  cf_PasswordBreachTimeout :: int
  cf_PasswordBreachCacheTTL :: int
  cf_OperationsToken :: string

text \<open>
  A validation is the list of its checks in order; the first that fires is the error. \<open>httpURL\<close> is the
  test the code repeats: the text parses, has a host, and one of the two schemes.
\<close>

definition httpURL :: "golib \<Rightarrow> string \<Rightarrow> bool" where
  "httpURL g value =
     (case gl_ParseURL g value of
        None \<Rightarrow> False
      | Some u \<Rightarrow> url_Host u \<noteq> '''' \<and> (url_Scheme u = ''http'' \<or> url_Scheme u = ''https''))"

definition httpsURL :: "golib \<Rightarrow> string \<Rightarrow> bool" where
  "httpsURL g value = (case gl_ParseURL g value of None \<Rightarrow> False | Some u \<Rightarrow> url_Scheme u = ''https'')"

definition origins :: "Config \<Rightarrow> string list" where
  "origins c = filter (\<lambda>origin. origin \<noteq> '''') (map trimSpace (splitOn (CHR '','') (cf_AllowedOrigins c)))"

definition isProduction :: "golib \<Rightarrow> Config \<Rightarrow> bool" where
  "isProduction g c = EqualFold g (trimSpace (cf_Environment c)) ''production''"

definition productionChecks :: "golib \<Rightarrow> Config \<Rightarrow> (bool \<times> error) list" where
  "productionChecks g c =
     [(\<not> cf_RefreshCookieSecure c, GoErr ''REFRESH_COOKIE_SECURE must be true in production''),
      (\<not> cf_EnforceEmailVerification c, GoErr ''ENFORCE_EMAIL_VERIFICATION must be true in production''),
      (length (cf_OperationsToken c) < 32, GoErr ''OPERATIONS_TOKEN must contain at least 32 characters in production''),
      (trimSpace (cf_AllowedOrigins c) = '''', GoErr ''ALLOWED_ORIGINS must contain at least one HTTPS origin in production''),
      (\<exists>origin\<in>set (origins c). \<not> httpsURL g origin, GoErr ''ALLOWED_ORIGINS must use HTTPS in production''),
      (gl_ParseURL g (cf_DBSource c) = None, GoErr ''DB_SOURCE must be a valid URL in production''),
      (case gl_ParseURL g (cf_DBSource c) of
         None \<Rightarrow> True
       | Some u \<Rightarrow> gl_ToLower g (url_sslmode u) \<notin> {''require'', ''verify-ca'', ''verify-full''},
         GoErr ''DB_SOURCE must require TLS in production''),
      (case gl_ParseURL g (cf_RedisURL c) of
         None \<Rightarrow> True
       | Some u \<Rightarrow> url_Host u = '''' \<or> url_Scheme u \<noteq> ''rediss'',
         GoErr ''REDIS_URL must use TLS (rediss://) in production'')]"

definition validateProductionSecurity :: "golib \<Rightarrow> Config \<Rightarrow> error option" where
  "validateProductionSecurity g c = (if \<not> isProduction g c then None else firstError (productionChecks g c))"

definition validateRedis :: "golib \<Rightarrow> Config \<Rightarrow> error option" where
  "validateRedis g c =
     (if trimSpace (cf_RedisURL c) = '''' \<and> trimSpace (cf_RedisAddress c) = ''''
      then Some (GoErr ''REDIS_URL or REDIS_ADDRESS is required'')
      else if cf_RedisURL c = '''' then None
      else case gl_ParseURL g (cf_RedisURL c) of
             None \<Rightarrow> Some (GoErr ''REDIS_URL must be a valid redis:// or rediss:// URL'')
           | Some u \<Rightarrow> if url_Host u = '''' \<or> (url_Scheme u \<noteq> ''redis'' \<and> url_Scheme u \<noteq> ''rediss'')
                       then Some (GoErr ''REDIS_URL must be a valid redis:// or rediss:// URL'') else None)"

definition validateDatabasePool :: "Config \<Rightarrow> error option" where
  "validateDatabasePool c = firstError
     [(cf_DBMaxConns c \<le> 0, GoErr ''DB_MAX_CONNS must be greater than 0''),
      (cf_DBMinConns c < 0, GoErr ''DB_MIN_CONNS must not be negative''),
      (cf_DBMaxConns c < cf_DBMinConns c, GoErr ''DB_MIN_CONNS must not exceed DB_MAX_CONNS''),
      (cf_DBMaxConnLifetime c \<le> 0, GoErr ''DB_MAX_CONN_LIFETIME must be greater than 0''),
      (cf_DBMaxConnIdleTime c \<le> 0, GoErr ''DB_MAX_CONN_IDLE_TIME must be greater than 0''),
      (cf_DBConnectTimeout c \<le> 0, GoErr ''DB_CONNECT_TIMEOUT must be greater than 0'')]"

definition orElseCheck :: "error option \<Rightarrow> error option \<Rightarrow> error option" where
  \<comment> \<open>\<open>if err := a; err != nil { return err }\<close>, and then \<open>b\<close>\<close>
  "orElseCheck a b = (case a of Some e \<Rightarrow> Some e | None \<Rightarrow> b)"

definition ValidateAPIConfig :: "golib \<Rightarrow> Config \<Rightarrow> error option" where
  "ValidateAPIConfig g c =
     orElseCheck (firstError
       [(cf_DBSource c = '''', GoErr ''DB_SOURCE is required''),
        (cf_ServerAddress c = '''', GoErr ''SERVER_ADDRESS is required'')])
     (orElseCheck (validateDatabasePool c)
     (orElseCheck (validateRedis g c)
     (orElseCheck (firstError
       [(cf_SecretKey c = '''', GoErr ''SECRET_KEY is required''),
        (length (cf_SecretKey c) < 32, GoErr ''SECRET_KEY must contain at least 32 characters''),
        (cf_AccessTokenDuration c \<le> 0, GoErr ''ACCESS_TOKEN_DURATION must be greater than 0''),
        (cf_RefreshTokenDuration c \<le> 0, GoErr ''REFRESH_TOKEN_DURATION must be greater than 0''),
        (cf_RefreshCookieName c = '''', GoErr ''REFRESH_COOKIE_NAME is required''),
        (cf_DeviceCookieName c = '''', GoErr ''DEVICE_COOKIE_NAME is required''),
        (cf_DeviceCookieName c = cf_RefreshCookieName c, GoErr ''DEVICE_COOKIE_NAME must differ from REFRESH_COOKIE_NAME''),
        (cf_RefreshCookieSameSite c \<notin> {''strict'', ''lax'', ''none''},
           GoErr ''REFRESH_COOKIE_SAME_SITE must be strict, lax, or none''),
        (cf_RefreshCookieSameSite c = ''none'' \<and> \<not> cf_RefreshCookieSecure c,
           GoErr ''REFRESH_COOKIE_SECURE must be true when SameSite is none''),
        (\<exists>origin\<in>set (origins c). \<not> httpURL g origin,
           GoErr ''ALLOWED_ORIGINS must contain absolute HTTP or HTTPS origins''),
        (cf_PasswordBreachCheckURL c = '''', GoErr ''PASSWORD_BREACH_CHECK_URL is required''),
        (\<not> httpURL g (cf_PasswordBreachCheckURL c),
           GoErr ''PASSWORD_BREACH_CHECK_URL must be an absolute HTTP or HTTPS URL''),
        (cf_PasswordBreachTimeout c \<le> 0, GoErr ''PASSWORD_BREACH_CHECK_TIMEOUT must be greater than 0''),
        (cf_PasswordBreachCacheTTL c \<le> 0, GoErr ''PASSWORD_BREACH_CACHE_TTL must be greater than 0''),
        (isProduction g c \<and> length (trimSpace (cf_ResendWebhookSecret c)) < 32,
           GoErr ''RESEND_WEBHOOK_SECRET must contain at least 32 characters in production'')])
     (validateProductionSecurity g c))))"

definition ValidateConfig :: "golib \<Rightarrow> Config \<Rightarrow> error option" where
  "ValidateConfig g c = ValidateAPIConfig g c"

definition ValidateRelayConfig :: "golib \<Rightarrow> Config \<Rightarrow> error option" where
  "ValidateRelayConfig g c =
     orElseCheck (firstError [(cf_DBSource c = '''', GoErr ''DB_SOURCE is required'')])
     (orElseCheck (validateDatabasePool c)
     (orElseCheck (validateRedis g c)
     (orElseCheck (firstError
       [(cf_RelayBatchSize c \<le> 0, GoErr ''RELAY_BATCH_SIZE must be greater than 0''),
        (cf_RelayPollInterval c \<le> 0, GoErr ''RELAY_POLL_INTERVAL must be greater than 0''),
        (cf_RelayClaimLease c \<le> 0, GoErr ''RELAY_CLAIM_LEASE must be greater than 0'')])
     (validateProductionSecurity g c))))"

definition ValidateWorkerConfig :: "golib \<Rightarrow> Config \<Rightarrow> error option" where
  \<comment> \<open>Here the environment's name is compared as it is, without trimming it.\<close>
  "ValidateWorkerConfig g c =
     orElseCheck (firstError [(cf_DBSource c = '''', GoErr ''DB_SOURCE is required'')])
     (orElseCheck (validateDatabasePool c)
     (orElseCheck (validateRedis g c)
     (orElseCheck (firstError
       [(cf_MailerProvider c = '''', GoErr ''MAILER_PROVIDER is required''),
        (cf_MailerProvider c = ''resend'' \<and> cf_ResendAPIKey c = '''',
           GoErr ''RESEND_API_KEY is required when MAILER_PROVIDER=resend''),
        (cf_MailerProvider c = ''resend'' \<and> cf_EmailFrom c = '''',
           GoErr ''EMAIL_FROM is required when MAILER_PROVIDER=resend''),
        (cf_MailerProvider c \<notin> {''log'', ''resend''}, GoErr (''unsupported MAILER_PROVIDER '' @ gl_Quote g (cf_MailerProvider c))),
        (cf_WorkerConcurrency c \<le> 0, GoErr ''WORKER_CONCURRENCY must be greater than 0''),
        (cf_WorkerTaskCheckInterval c \<le> 0, GoErr ''WORKER_TASK_CHECK_INTERVAL must be greater than 0''),
        (cf_WorkerHealthCheckInterval c \<le> 0, GoErr ''WORKER_HEALTH_CHECK_INTERVAL must be greater than 0''),
        (cf_WorkerDelayedTaskInterval c \<le> 0, GoErr ''WORKER_DELAYED_TASK_CHECK_INTERVAL must be greater than 0''),
        (cf_WorkerJanitorInterval c \<le> 0, GoErr ''WORKER_JANITOR_INTERVAL must be greater than 0''),
        (cf_PublicAPIURL c = '''', GoErr ''PUBLIC_API_URL is required''),
        (EqualFold g (cf_Environment c) ''production'' \<and> \<not> httpsURL g (cf_PublicAPIURL c),
           GoErr ''PUBLIC_API_URL must use HTTPS in production''),
        (EqualFold g (cf_Environment c) ''production'' \<and> cf_MailerProvider c \<noteq> ''resend'',
           GoErr ''MAILER_PROVIDER must be resend in production''),
        (\<not> httpURL g (cf_PublicAPIURL c), GoErr ''PUBLIC_API_URL must be an absolute HTTP or HTTPS URL''),
        (cf_EmailVerificationDuration c \<le> 0, GoErr ''EMAIL_VERIFICATION_DURATION must be greater than 0'')])
     (validateProductionSecurity g c))))"

lemma orElseCheck_None [simp]: "orElseCheck a b = None \<longleftrightarrow> a = None \<and> b = None"
  by (simp add: orElseCheck_def split: option.split)

text \<open>A configuration the API accepts in production is a hardened one.\<close>

lemma validated_production:
  assumes "ValidateAPIConfig g c = None" "isProduction g c"
  shows "cf_RefreshCookieSecure c" "cf_EnforceEmailVerification c" "32 \<le> length (cf_SecretKey c)"
    "32 \<le> length (cf_OperationsToken c)" "32 \<le> length (trimSpace (cf_ResendWebhookSecret c))"
    "\<And>origin. origin \<in> set (origins c) \<Longrightarrow> httpsURL g origin"
  using assms by (auto simp: ValidateAPIConfig_def validateProductionSecurity_def productionChecks_def simp del: firstError.simps)

end
