(* ===== verification/RateLimits.thy ===== *)
theory RateLimits
  imports Worker "HOL-Library.AList"
begin

text \<open>
  The in-memory rate limiter of \<open>api/operations.go\<close>, which protects an instance while Redis does not
  answer: fixed windows, one entry per key, and a bound on the number of entries. The map is an
  association list; the clock readings are arguments here and are drawn by the callers.
\<close>

section \<open>The limiter\<close>

record memoryRateLimitEntry =
  re_count :: int
  re_expiresAt :: time

record memoryRateLimiter =
  ml_entries :: "(string \<times> memoryRateLimitEntry) list"
  ml_maxEntries :: int

definition NewMemoryRateLimiter :: "int \<Rightarrow> memoryRateLimiter" where
  "NewMemoryRateLimiter maxEntries = \<lparr>ml_entries = [], ml_maxEntries = maxEntries\<rparr>"

definition live :: "time \<Rightarrow> string \<times> memoryRateLimitEntry \<Rightarrow> bool" where
  "live now kv = (now < re_expiresAt (snd kv))"

definition removeExpired :: "time \<Rightarrow> memoryRateLimiter \<Rightarrow> memoryRateLimiter" where
  "removeExpired now l = l\<lparr>ml_entries := filter (live now) (ml_entries l)\<rparr>"

definition full :: "memoryRateLimiter \<Rightarrow> bool" where
  "full l = (ml_maxEntries l \<le> int (length (ml_entries l)))"

definition dropExpired :: "string \<Rightarrow> time \<Rightarrow> memoryRateLimiter \<Rightarrow> memoryRateLimiter" where
  \<comment> \<open>An entry of the key that has expired is deleted first.\<close>
  "dropExpired key now l =
     (case map_of (ml_entries l) key of
        Some entry \<Rightarrow> if now < re_expiresAt entry then l else l\<lparr>ml_entries := AList.delete key (ml_entries l)\<rparr>
      | None \<Rightarrow> l)"

definition makeRoom :: "time \<Rightarrow> memoryRateLimiter \<Rightarrow> memoryRateLimiter" where
  "makeRoom now l = (if full l then removeExpired now l else l)"

definition countRequest :: "string \<Rightarrow> int \<Rightarrow> memoryRateLimitEntry \<Rightarrow> memoryRateLimiter \<Rightarrow>
    (error + bool \<times> memoryRateLimitEntry) \<times> memoryRateLimiter" where
  "countRequest key limit entry l =
     (let entry' = entry\<lparr>re_count := go_add (re_count entry) 1\<rparr>
      in (Inr (re_count entry' \<le> limit, entry'), l\<lparr>ml_entries := AList.update key entry' (ml_entries l)\<rparr>))"

definition admit :: "string \<Rightarrow> int \<Rightarrow> int \<Rightarrow> time \<Rightarrow> memoryRateLimiter \<Rightarrow>
    (error + bool \<times> memoryRateLimitEntry) \<times> memoryRateLimiter" where
  \<comment> \<open>\<open>Allow\<close> between its two readings of the clock\<close>
  "admit key limit window now l0 =
     (let l = dropExpired key now l0
      in case map_of (ml_entries l) key of
           Some entry \<Rightarrow> countRequest key limit entry l
         | None \<Rightarrow>
           (let l' = makeRoom now l
            in if full l' then (Inl (GoErr ''local rate limiter capacity reached''), l')
               else countRequest key limit \<lparr>re_count = 0, re_expiresAt = addDuration now window\<rparr> l'))"

definition resetEntry :: "string \<Rightarrow> memoryRateLimiter \<Rightarrow> memoryRateLimiter" where
  "resetEntry key l = l\<lparr>ml_entries := AList.delete key (ml_entries l)\<rparr>"

section \<open>The table stays bounded\<close>

definition limiterOk :: "memoryRateLimiter \<Rightarrow> bool" where
  "limiterOk l \<longleftrightarrow> distinct (map fst (ml_entries l)) \<and> int (length (ml_entries l)) \<le> max 0 (ml_maxEntries l)"

lemma length_update_present: "map_of xs k = Some v \<Longrightarrow> length (AList.update k w xs) = length xs"
  by (induction xs) (auto split: if_splits)

lemma length_update_absent: "map_of xs k = None \<Longrightarrow> length (AList.update k w xs) = Suc (length xs)"
  by (induction xs) (auto split: if_splits)

lemma limiter_parts:
  assumes "limiterOk l"
  shows "limiterOk (dropExpired key now l)" "limiterOk (removeExpired now l)" "limiterOk (makeRoom now l)"
    "limiterOk (resetEntry key l)"
proof -
  have del: "limiterOk (l\<lparr>ml_entries := AList.delete key (ml_entries l)\<rparr>)"
    using assms length_delete_le [of key "ml_entries l"] by (simp add: limiterOk_def distinct_delete)
  have filt: "limiterOk (l\<lparr>ml_entries := filter (live now) (ml_entries l)\<rparr>)"
    using assms length_filter_le [of "live now" "ml_entries l"] unfolding limiterOk_def
    by (simp add: distinct_map_filter del: length_filter_le)
  show "limiterOk (dropExpired key now l)" "limiterOk (removeExpired now l)" "limiterOk (makeRoom now l)"
      "limiterOk (resetEntry key l)"
    using assms del filt
    by (simp_all add: dropExpired_def removeExpired_def makeRoom_def resetEntry_def split: option.split)
qed

lemma makeRoom_keeps [simp]: "ml_maxEntries (makeRoom now l) = ml_maxEntries l"
  by (simp add: makeRoom_def removeExpired_def)

lemma dropExpired_keeps [simp]: "ml_maxEntries (dropExpired key now l) = ml_maxEntries l"
  by (simp add: dropExpired_def split: option.split)

lemma admit_keeps [simp]: "ml_maxEntries (snd (admit key limit window now l)) = ml_maxEntries l"
  by (simp add: admit_def countRequest_def Let_def split: option.split)

lemma makeRoom_absent: "map_of (ml_entries l) key = None \<Longrightarrow> map_of (ml_entries (makeRoom now l)) key = None"
  by (auto simp: makeRoom_def removeExpired_def map_of_eq_None_iff)

lemma admit_ok:
  assumes "limiterOk l"
  shows "limiterOk (snd (admit key limit window now l))"
proof (cases "map_of (ml_entries (dropExpired key now l)) key")
  case None
  let ?m = "makeRoom now (dropExpired key now l)"
  have ok: "limiterOk ?m"
    using limiter_parts assms by blast
  have absent: "map_of (ml_entries ?m) key = None"
    by (rule makeRoom_absent [OF None])
  show ?thesis
  proof (cases "full ?m")
    case True
    then show ?thesis using None ok by (simp add: admit_def)
  next
    case False
    have "length (AList.update key e (ml_entries ?m)) = Suc (length (ml_entries ?m))" for e
      by (rule length_update_absent [OF absent])
    with False ok None show ?thesis
      by (simp add: admit_def countRequest_def Let_def limiterOk_def full_def distinct_update)
  qed
next
  case (Some entry)
  have ok: "limiterOk (dropExpired key now l)"
    using limiter_parts assms by blast
  have "length (AList.update key e (ml_entries (dropExpired key now l))) = length (ml_entries (dropExpired key now l))" for e
    by (rule length_update_present [OF Some])
  with Some ok show ?thesis
    by (simp add: admit_def countRequest_def Let_def limiterOk_def distinct_update)
qed

section \<open>How many requests pass\<close>

text \<open>
  A run of the limiter: calls of \<open>Allow\<close> and \<open>Reset\<close> for any keys, each with the time it happens.
  \<open>passed\<close> counts the calls for one key that were let through.
\<close>

datatype limiterCall = AllowCall string int int time | ResetCall string time

fun callTime :: "limiterCall \<Rightarrow> time" where
  "callTime (AllowCall k l w t) = t"
| "callTime (ResetCall k t) = t"

fun passed :: "string \<Rightarrow> limiterCall list \<Rightarrow> memoryRateLimiter \<Rightarrow> nat" where
  "passed key [] l = 0"
| "passed key (AllowCall k limit window now # cs) l =
     (case admit k limit window now l of (r, l') \<Rightarrow>
        (if k = key \<and> (case r of Inr (ok, _) \<Rightarrow> ok | Inl _ \<Rightarrow> False) then 1 else 0) + passed key cs l')"
| "passed key (ResetCall k now # cs) l = passed key cs (resetEntry k l)"

text \<open>
  What a key may still pass before the time \<open>end\<close>: the rest of its live window, and a whole window more
  if that one ends first. Every call for the key has the same limit and window, and none resets it.
\<close>

definition budget :: "string \<Rightarrow> int \<Rightarrow> time \<Rightarrow> time \<Rightarrow> memoryRateLimiter \<Rightarrow> nat" where
  "budget key limit finish now l =
     (case map_of (ml_entries l) key of
        Some e \<Rightarrow> if now < re_expiresAt e
                  then nat (limit - re_count e) + (if re_expiresAt e < finish then nat limit else 0) else nat limit
      | None \<Rightarrow> nat limit)"

definition callOf :: "string \<Rightarrow> int \<Rightarrow> int \<Rightarrow> limiterCall \<Rightarrow> bool" where
  "callOf key limit window c =
     (case c of AllowCall k l w t \<Rightarrow> k = key \<longrightarrow> l = limit \<and> w = window | ResetCall k t \<Rightarrow> k \<noteq> key)"

definition counted :: "int \<Rightarrow> memoryRateLimiter \<Rightarrow> bool" where
  "counted n l \<longleftrightarrow> limiterOk l \<and> 0 \<le> n \<and> (\<forall>k e. map_of (ml_entries l) k = Some e \<longrightarrow> 0 \<le> re_count e \<and> re_count e \<le> n)"

fun runLimiter :: "limiterCall list \<Rightarrow> memoryRateLimiter \<Rightarrow> memoryRateLimiter" where
  "runLimiter [] l = l"
| "runLimiter (AllowCall k limit window now # cs) l = runLimiter cs (snd (admit k limit window now l))"
| "runLimiter (ResetCall k now # cs) l = runLimiter cs (resetEntry k l)"

lemma budget_le: "counted n l \<Longrightarrow> budget key limit finish now l \<le> 2 * nat limit"
  by (fastforce simp: budget_def counted_def split: option.split)

lemma budget_later: "now \<le> t \<Longrightarrow> t < finish \<Longrightarrow> budget key limit finish t l \<le> budget key limit finish now l"
  by (auto simp: budget_def split: option.split)
text \<open>What the parts do to the entry of one key.\<close>

lemma map_of_filter_key:
  "distinct (map fst xs) \<Longrightarrow>
     map_of (filter p xs) k = (case map_of xs k of Some v \<Rightarrow> if p (k, v) then Some v else None | None \<Rightarrow> None)"
proof (induction xs)
  case (Cons a xs)
  moreover have "map_of xs (fst a) = None"
    using Cons.prems by (simp add: map_of_eq_None_iff)
  ultimately show ?case
    by (cases a) (auto split: option.split)
qed simp

lemma makeRoom_entry:
  assumes "limiterOk l"
  shows "map_of (ml_entries (makeRoom now l)) k = map_of (ml_entries l) k \<or>
     (map_of (ml_entries (makeRoom now l)) k = None \<and> (\<exists>e. map_of (ml_entries l) k = Some e \<and> re_expiresAt e \<le> now))"
  using assms by (auto simp: makeRoom_def removeExpired_def map_of_filter_key limiterOk_def live_def split: option.splits)

lemma dropExpired_entry:
  "map_of (ml_entries (dropExpired key now l)) k =
     (if k = key then (case map_of (ml_entries l) key of Some e \<Rightarrow> if now < re_expiresAt e then Some e else None | None \<Rightarrow> None)
      else map_of (ml_entries l) k)"
  by (auto simp: dropExpired_def delete_conv split: option.split)

lemma admit_live:
  assumes "map_of (ml_entries l) key = Some e" "now < re_expiresAt e"
  shows "fst (admit key limit window now l) = Inr (go_add (re_count e) 1 \<le> limit, e\<lparr>re_count := go_add (re_count e) 1\<rparr>)"
    "map_of (ml_entries (snd (admit key limit window now l))) k =
       (if k = key then Some (e\<lparr>re_count := go_add (re_count e) 1\<rparr>) else map_of (ml_entries l) k)"
  using assms by (simp_all add: admit_def countRequest_def Let_def dropExpired_entry update_conv)

text \<open>Any other call either fails or opens a window; entries of other keys only go when they expired.\<close>

lemma admit_other:
  assumes "limiterOk l" "k \<noteq> key"
  shows "map_of (ml_entries (snd (admit key limit window now l))) k = map_of (ml_entries l) k \<or>
     (map_of (ml_entries (snd (admit key limit window now l))) k = None \<and>
      (\<exists>e. map_of (ml_entries l) k = Some e \<and> re_expiresAt e \<le> now))"
proof -
  let ?l = "dropExpired key now l"
  have same: "map_of (ml_entries ?l) k = map_of (ml_entries l) k"
    using assms(2) by (simp add: dropExpired_entry)
  have ok: "limiterOk ?l"
    using limiter_parts assms(1) by blast
  show ?thesis
    using makeRoom_entry [OF ok, of now k] assms(2) unfolding same
    by (auto simp: admit_def countRequest_def Let_def update_conv same split: option.split)
qed

lemma admit_opens:
  assumes "\<forall>e. map_of (ml_entries l) key = Some e \<longrightarrow> re_expiresAt e \<le> now"
  shows "(\<exists>e. fst (admit key limit window now l) = Inl e \<and> map_of (ml_entries (snd (admit key limit window now l))) key = None) \<or>
     (fst (admit key limit window now l) = Inr (1 \<le> limit, \<lparr>re_count = 1, re_expiresAt = addDuration now window\<rparr>) \<and>
      map_of (ml_entries (snd (admit key limit window now l))) key = Some \<lparr>re_count = 1, re_expiresAt = addDuration now window\<rparr>)"
proof -
  let ?l = "dropExpired key now l"
  have none: "map_of (ml_entries ?l) key = None"
    using assms by (auto simp: dropExpired_entry split: option.split)
  then have "map_of (ml_entries (makeRoom now ?l)) key = None"
    by (rule makeRoom_absent)
  moreover have "go_add 0 1 = 1"
    by (simp add: go_add_def in_int64_def)
  ultimately show ?thesis
    using none by (auto simp: admit_def countRequest_def Let_def update_conv)
qed
section \<open>The bound\<close>

lemma counted_reset: "counted n l \<Longrightarrow> counted n (resetEntry k l)"
  using limiter_parts(4) [of l k] by (auto simp: counted_def resetEntry_def delete_conv split: if_splits)

lemma counted_admit:
  assumes "counted n l" "n + 1 < 2 ^ 63"
  shows "counted (n + 1) (snd (admit key limit window now l))"
proof -
  let ?l = "snd (admit key limit window now l)"
  have ok: "limiterOk l"
    using assms(1) by (simp add: counted_def)
  have "0 \<le> re_count e \<and> re_count e \<le> n + 1" if e: "map_of (ml_entries ?l) k = Some e" for k e
  proof (cases "k = key")
    case False
    then have "map_of (ml_entries l) k = Some e"
      using admit_other [OF ok False, of limit window now] e by auto
    then show ?thesis using assms(1) unfolding counted_def by fastforce
  next
    case True
    show ?thesis
    proof (cases "\<exists>f. map_of (ml_entries l) key = Some f \<and> now < re_expiresAt f")
      case True
      then obtain f where f: "map_of (ml_entries l) key = Some f" "now < re_expiresAt f" by blast
      then have range: "0 \<le> re_count f" "re_count f \<le> n"
        using assms(1) unfolding counted_def by blast+
      then have "go_add (re_count f) 1 = re_count f + 1"
        using assms(2) by (simp add: go_add_def in_int64_def)
      then show ?thesis
        using admit_live(2) [OF f, of limit window key] e \<open>k = key\<close> range by auto
    next
      case no: False
      have "0 \<le> n"
        using assms(1) by (simp add: counted_def)
      then show ?thesis
        using admit_opens [of l key now limit window] no e \<open>k = key\<close> by (auto simp: not_less)
    qed
  qed
  then show ?thesis
    using admit_ok [OF ok] assms(1) by (simp add: counted_def)
qed
lemma counted_run:
  "counted n l \<Longrightarrow> n + int (length cs) < 2 ^ 63 \<Longrightarrow> counted (n + int (length cs)) (runLimiter cs l)"
proof (induction cs arbitrary: n l)
  case (Cons c cs)
  have n: "counted (n + 1) (case c of AllowCall k limit window now \<Rightarrow> snd (admit k limit window now l) | ResetCall k now \<Rightarrow> resetEntry k l)"
  proof (cases c)
    case (AllowCall k limit window now)
    then show ?thesis using counted_admit [OF Cons.prems(1)] Cons.prems(2) by simp
  next
    case (ResetCall k now)
    have "counted (n + 1) l" if "counted n l" for l
      using that unfolding counted_def by fastforce
    then show ?thesis using counted_reset [OF Cons.prems(1)] ResetCall by simp
  qed
  have "counted (n + 1 + int (length cs))
      (runLimiter cs (case c of AllowCall k limit window now \<Rightarrow> snd (admit k limit window now l) | ResetCall k now \<Rightarrow> resetEntry k l))"
    by (rule Cons.IH [OF n]) (use Cons.prems in simp)
  then show ?case
    by (cases c) (simp_all add: ac_simps)
qed simp

lemma budget_cong:
  "map_of (ml_entries l') key = map_of (ml_entries l) key \<or>
     (map_of (ml_entries l') key = None \<and> (\<exists>e. map_of (ml_entries l) key = Some e \<and> re_expiresAt e \<le> now)) \<Longrightarrow>
   budget key limit finish now l' = budget key limit finish now l"
  by (auto simp: budget_def)

lemma budget_pays:
  assumes "counted n l" "n + 1 < 2 ^ 63" "0 \<le> limit" "now < finish" "finish \<le> addDuration now window"
  shows "(case fst (admit key limit window now l) of Inr (ok, _) \<Rightarrow> of_bool ok | Inl _ \<Rightarrow> 0) +
     budget key limit finish now (snd (admit key limit window now l)) \<le> budget key limit finish now l"
proof (cases "\<exists>e. map_of (ml_entries l) key = Some e \<and> now < re_expiresAt e")
  case True
  then obtain e where e: "map_of (ml_entries l) key = Some e" "now < re_expiresAt e" by blast
  have "0 \<le> re_count e" "re_count e \<le> n"
    using assms(1) e(1) unfolding counted_def by blast+
  then have "go_add (re_count e) 1 = re_count e + 1"
    using assms(2) by (simp add: go_add_def in_int64_def)
  then show ?thesis
    using e by (auto simp: admit_live [OF e] budget_def)
next
  case False
  then have old: "budget key limit finish now l = nat limit" "\<forall>e. map_of (ml_entries l) key = Some e \<longrightarrow> re_expiresAt e \<le> now"
    by (auto simp: budget_def not_less split: option.split)
  from admit_opens [OF this(2), of limit window] show ?thesis
    using assms(3-5) unfolding old(1) by (auto simp: budget_def)
qed

lemma passed_budget:
  assumes "counted n l" "n + int (length cs) < 2 ^ 63" "0 \<le> limit" "sorted (map callTime cs)"
    and "\<forall>c\<in>set cs. now \<le> callTime c \<and> callTime c < finish \<and> finish \<le> addDuration (callTime c) window \<and> callOf key limit window c"
  shows "passed key cs l \<le> budget key limit finish now l"
  using assms
proof (induction cs arbitrary: n l now)
  case (Cons c cs)
  let ?t = "callTime c"
  have t: "now \<le> ?t" "?t < finish" "finish \<le> addDuration ?t window"
    using Cons.prems(5) by simp_all
  have less: "budget key limit finish ?t l \<le> budget key limit finish now l"
    by (rule budget_later [OF t(1,2)])
  have rest: "passed key cs l' \<le> budget key limit finish ?t l'" if "counted (n + 1) l'" for l'
    using Cons.IH [OF that, of ?t] Cons.prems by (auto simp: ac_simps)
  show ?case
  proof (cases c)
    case (ResetCall k u)
    then have "k \<noteq> key"
      using Cons.prems(5) by (simp add: callOf_def)
    then have "budget key limit finish ?t (resetEntry k l) = budget key limit finish ?t l"
      by (intro budget_cong) (simp add: resetEntry_def delete_conv)
    moreover have "counted (n + 1) (resetEntry k l)"
      using counted_reset [OF Cons.prems(1)] unfolding counted_def by fastforce
    ultimately show ?thesis
      using rest [of "resetEntry k l"] less ResetCall by simp
  next
    case (AllowCall k lim win u)
    let ?l = "snd (admit k lim win u l)"
    have n: "n + 1 < 2 ^ 63"
      using Cons.prems(2) by simp
    have c1: "counted (n + 1) ?l"
      by (rule counted_admit [OF Cons.prems(1) n])
    show ?thesis
    proof (cases "k = key")
      case False
      then have "budget key limit finish ?t ?l = budget key limit finish ?t l"
        using admit_other [of l key k lim win u] Cons.prems(1) AllowCall
        by (intro budget_cong) (auto simp: counted_def)
      then show ?thesis
        using rest [OF c1] less AllowCall False by (simp add: case_prod_beta)
    next
      case True
      then have "lim = limit" "win = window"
        using Cons.prems(5) AllowCall by (simp_all add: callOf_def)
      then show ?thesis
        using budget_pays [OF Cons.prems(1) n Cons.prems(3) t(2,3), of key] rest [OF c1] less AllowCall True
        by (auto simp: case_prod_beta split: sum.splits)
    qed
  qed
qed simp

text \<open>
  Within one window's length the limiter lets through at most twice the limit for a key, whatever came
  before: a window that was open at the start, and the one that follows it.
\<close>

lemma new_counted: "counted 0 (NewMemoryRateLimiter n)"
  by (simp add: counted_def limiterOk_def NewMemoryRateLimiter_def)

lemma passed_bounded:
  assumes "0 \<le> limit" "sorted (map callTime cs)" "int (length earlier + length cs) < 2 ^ 63"
    and "\<forall>c\<in>set cs. start \<le> callTime c \<and> callTime c < addDuration start window \<and> callOf key limit window c"
  shows "passed key cs (runLimiter earlier (NewMemoryRateLimiter n)) \<le> 2 * nat limit"
proof -
  let ?l = "runLimiter earlier (NewMemoryRateLimiter n)"
  have l: "counted (int (length earlier)) ?l"
    using counted_run [OF new_counted] assms(3) by simp
  have "passed key cs ?l \<le> budget key limit (addDuration start window) start ?l"
    using assms by (intro passed_budget [OF l]) (auto simp: addDuration_def)
  also have "\<dots> \<le> 2 * nat limit"
    by (rule budget_le [OF l])
  finally show ?thesis .
qed

lemma run_bounded: "limiterOk l \<Longrightarrow> limiterOk (runLimiter cs l)"
  by (induction cs l rule: runLimiter.induct) (simp_all add: admit_ok limiter_parts)

lemma runLimiter_size: "ml_maxEntries (runLimiter cs l) = ml_maxEntries l"
  by (induction cs l rule: runLimiter.induct) (simp_all add: resetEntry_def)

lemma run_new_bounded: "int (length (ml_entries (runLimiter cs (NewMemoryRateLimiter n)))) \<le> max 0 n"
  using run_bounded [of "NewMemoryRateLimiter n" cs] runLimiter_size [of cs "NewMemoryRateLimiter n"]
  by (simp add: limiterOk_def NewMemoryRateLimiter_def)

end
