(* ===== verification/PasswordPolicy.thy ===== *)
theory PasswordPolicy
  imports Worker "HOL-Library.AList"
begin

text \<open>
  The rules for new passwords (\<open>api/password_policy.go\<close>): their length, and the check against the
  breached passwords of an external service, which is asked by a prefix of the password's hash and whose
  answers are cached. The service's answer (the lines of the body, or an error) and the hash are
  parameters; the map is an association list.
\<close>

section \<open>Length\<close>

definition minPasswordRunes :: nat where "minPasswordRunes = 8"
definition maxPasswordBytes :: nat where "maxPasswordBytes = 72"
definition hibpCacheSize :: nat where "hibpCacheSize = 1024"

definition validateNewPassword :: "string \<Rightarrow> bool" where
  \<comment> \<open>False is \<open>ErrInvalidPasswordLength\<close>.\<close>
  "validateNewPassword password \<longleftrightarrow>
     \<not> (runeCount password < minPasswordRunes \<or> maxPasswordBytes < length password)"

section \<open>The answer of the service\<close>

definition hexOfBytes :: "string \<Rightarrow> string" where
  "hexOfBytes bs = concat (map (\<lambda>b. [''0123456789abcdef'' ! (of_char b div 16), ''0123456789abcdef'' ! (of_char b mod 16)]) bs)"

fun cutAt :: "char \<Rightarrow> string \<Rightarrow> (string \<times> string) option" where
  \<comment> \<open>\<open>strings.Cut\<close> at a one-byte separator\<close>
  "cutAt c [] = None"
| "cutAt c (x # xs) = (if x = c then Some ([], xs) else map_option (\<lambda>(a, b). (x # a, b)) (cutAt c xs))"

definition parseUint64 :: "string \<Rightarrow> nat option" where
  \<comment> \<open>\<open>strconv.ParseUint\<close> with base 10 and 64 bits\<close>
  "parseUint64 s =
     (if s = '''' \<or> \<not> list_all isDigit s then None
      else let n = foldl (\<lambda>n d. 10 * n + (of_char d - 48)) 0 s in if n < 2 ^ 64 then Some n else None)"

fun parseRange :: "string list \<Rightarrow> string list \<Rightarrow> error + string list" where
  \<comment> \<open>The scanner's loop in \<open>fetch\<close>, over the lines of the body. Outside ASCII no letter has an upper case
    among the hexadecimal digits, so the other letters of \<open>strings.ToUpper\<close> do not matter.\<close>
  "parseRange [] found = Inr found"
| "parseRange (line # rest) found =
     (case cutAt (CHR '':'') (trimSpace line) of
        None \<Rightarrow> Inl (GoErr ''invalid HIBP range response'')
      | Some (value, countValue) \<Rightarrow>
        if length value \<noteq> 35 then Inl (GoErr ''invalid HIBP range response'')
        else case parseUint64 countValue of
          None \<Rightarrow> Inl (WrapErr ''invalid HIBP range count'' (GoErr ''strconv.ParseUint''))
        | Some n \<Rightarrow> parseRange rest (if 0 < n then List.insert (toUpperASCII value) found else found))"

text \<open>What the HTTP client gave: a transport error, or the status, the lines read, and the reader's error.\<close>

record rangeReply =
  rg_status :: int
  rg_lines :: "string list"
  rg_error :: "error option"

definition fetch :: "(string \<Rightarrow> error + rangeReply) \<Rightarrow> (int \<Rightarrow> string) \<Rightarrow> string \<Rightarrow> error + string list" where
  "fetch get showInt key =
     (case get key of
        Inl e \<Rightarrow> Inl (WrapErr ''query HIBP password range'' e)
      | Inr reply \<Rightarrow>
        if rg_status reply \<noteq> 200 then Inl (GoErr (''HIBP returned status '' @ showInt (rg_status reply)))
        else case parseRange (rg_lines reply) [] of
          Inl e \<Rightarrow> Inl e
        | Inr found \<Rightarrow>
          (case rg_error reply of
             Some e \<Rightarrow> Inl (WrapErr ''read HIBP range response'' e)
           | None \<Rightarrow> Inr found))"

section \<open>The cache\<close>

record hibpCacheEntry =
  hc_suffixes :: "string list"
  hc_expiresAt :: time

record HIBPPasswordBreachChecker =
  hb_ttl :: int
  hb_entries :: "(string \<times> hibpCacheEntry) list"
  hb_order :: "string list"

definition NewHIBPPasswordBreachChecker :: "int \<Rightarrow> HIBPPasswordBreachChecker" where
  "NewHIBPPasswordBreachChecker cacheTTL = \<lparr>hb_ttl = cacheTTL, hb_entries = [], hb_order = []\<rparr>"

definition removeFromOrder :: "string \<Rightarrow> HIBPPasswordBreachChecker \<Rightarrow> HIBPPasswordBreachChecker" where
  "removeFromOrder key c = c\<lparr>hb_order := remove1 key (hb_order c)\<rparr>"

definition cached :: "string \<Rightarrow> time \<Rightarrow> HIBPPasswordBreachChecker \<Rightarrow> string list option \<times> HIBPPasswordBreachChecker" where
  "cached key now c =
     (case map_of (hb_entries c) key of
        None \<Rightarrow> (None, c)
      | Some entry \<Rightarrow>
        if hc_expiresAt entry < now
        then (None, removeFromOrder key (c\<lparr>hb_entries := AList.delete key (hb_entries c)\<rparr>))
        else (Some (hc_suffixes entry), c))"

fun evict :: "string list \<Rightarrow> (string \<times> hibpCacheEntry) list \<Rightarrow> string list \<times> (string \<times> hibpCacheEntry) list" where
  \<comment> \<open>The loop that drops the oldest entries\<close>
  "evict [] entries = ([], entries)"
| "evict (oldest # order) entries =
     (if hibpCacheSize < length entries then evict order (AList.delete oldest entries) else (oldest # order, entries))"

definition store :: "string \<Rightarrow> string list \<Rightarrow> time \<Rightarrow> HIBPPasswordBreachChecker \<Rightarrow> HIBPPasswordBreachChecker" where
  "store key found now c =
     (let order = (if map_of (hb_entries c) key = None then hb_order c @ [key] else hb_order c);
          entries = AList.update key \<lparr>hc_suffixes = found, hc_expiresAt = addDuration now (hb_ttl c)\<rparr> (hb_entries c);
          (order', entries') = evict order entries
      in c\<lparr>hb_order := order', hb_entries := entries'\<rparr>)"

definition digestOf :: "(string \<Rightarrow> string) \<Rightarrow> string \<Rightarrow> string" where
  "digestOf sha1 password = toUpperASCII (hexOfBytes (sha1 password))"

definition IsCompromised ::
  "(string \<Rightarrow> string) \<Rightarrow> (string \<Rightarrow> error + string list) \<Rightarrow> string \<Rightarrow> time \<Rightarrow> time \<Rightarrow> HIBPPasswordBreachChecker \<Rightarrow>
   (error + bool) \<times> HIBPPasswordBreachChecker" where
  \<comment> \<open>\<open>now\<close> and \<open>then'\<close> are the clock when the cache is read and when it is written.\<close>
  "IsCompromised sha1 fetchRange password now then' c =
     (let digest = digestOf sha1 password; key = take 5 digest; suffix = drop 5 digest
      in case cached key now c of
           (Some found, c') \<Rightarrow> (Inr (List.member found suffix), c')
         | (None, c') \<Rightarrow>
           (case fetchRange key of
              Inl e \<Rightarrow> (Inl e, c')
            | Inr found \<Rightarrow> (Inr (List.member found suffix), store key found then' c')))"

section \<open>The cache stays small and consistent\<close>

text \<open>The order lists the keys of the map, each once, and there are at most \<open>hibpCacheSize\<close>.\<close>

definition cacheOk :: "HIBPPasswordBreachChecker \<Rightarrow> bool" where
  "cacheOk c \<longleftrightarrow> distinct (map fst (hb_entries c)) \<and> distinct (hb_order c) \<and>
     set (hb_order c) = fst ` set (hb_entries c) \<and> length (hb_entries c) \<le> hibpCacheSize"

lemma keys_delete: "fst ` set (AList.delete k xs) = fst ` set xs - {k}"
  by (induction xs) auto

lemma length_of_keys: "distinct (map fst xs) \<Longrightarrow> length xs = card (fst ` set xs)"
  by (metis distinct_card length_map set_map)

lemma evict_ok:
  assumes "distinct order" "distinct (map fst entries)" "set order = fst ` set entries"
  shows "distinct (fst (evict order entries)) \<and> distinct (map fst (snd (evict order entries))) \<and>
     set (fst (evict order entries)) = fst ` set (snd (evict order entries)) \<and>
     length (snd (evict order entries)) \<le> hibpCacheSize"
  using assms
proof (induction order entries rule: evict.induct)
  case (1 entries)
  then show ?case by simp
next
  case (2 oldest order entries)
  show ?case
  proof (cases "hibpCacheSize < length entries")
    case True
    have "distinct (map fst (AList.delete oldest entries))" "set order = fst ` set (AList.delete oldest entries)"
      using "2.prems" by (auto simp: distinct_delete keys_delete)
    with "2.IH" [OF True] "2.prems" True show ?thesis by simp
  next
    case False
    with "2.prems" show ?thesis by simp
  qed
qed

lemma cached_ok: "cacheOk c \<Longrightarrow> cacheOk (snd (cached key now c))"
  using length_delete_le [of key "hb_entries c"]
  by (auto simp: cacheOk_def cached_def removeFromOrder_def distinct_delete keys_delete set_remove1_eq
      split: option.split)

lemma store_ok:
  assumes "cacheOk c"
  shows "cacheOk (store key found now c)"
proof -
  let ?order = "if map_of (hb_entries c) key = None then hb_order c @ [key] else hb_order c"
  let ?entries = "AList.update key \<lparr>hc_suffixes = found, hc_expiresAt = addDuration now (hb_ttl c)\<rparr> (hb_entries c)"
  have "distinct (map fst ?entries)"
    using assms by (simp add: cacheOk_def distinct_update)
  moreover have "distinct ?order" "set ?order = fst ` set ?entries"
    using assms by (auto simp: cacheOk_def map_of_eq_None_iff dom_update)
  ultimately show ?thesis
    using evict_ok [of ?order ?entries] by (simp add: store_def Let_def cacheOk_def case_prod_beta)
qed

lemma IsCompromised_ok: "cacheOk c \<Longrightarrow> cacheOk (snd (IsCompromised sha1 fetchRange password now then' c))"
  using cached_ok [of c] store_ok
  by (auto simp: IsCompromised_def Let_def split: prod.split option.split sum.split) (metis snd_conv)+

section \<open>The cache is transparent\<close>

text \<open>
  Against a service that gives each prefix one answer, the checker says what a checker without a cache
  says.
\<close>

definition agrees :: "(string \<Rightarrow> error + string list) \<Rightarrow> HIBPPasswordBreachChecker \<Rightarrow> bool" where
  "agrees fetchRange c \<longleftrightarrow> (\<forall>k e. map_of (hb_entries c) k = Some e \<longrightarrow> fetchRange k = Inr (hc_suffixes e))"

lemma evict_entries: "map_of (snd (evict order entries)) k = Some e \<Longrightarrow> map_of entries k = Some e"
  by (induction order entries rule: evict.induct) (auto simp: delete_conv split: if_splits)

lemma cached_agrees:
  assumes "agrees f c"
  shows "agrees f (snd (cached key now c))"
    and "\<And>found. fst (cached key now c) = Some found \<Longrightarrow> f key = Inr found"
  using assms
  by (auto simp: agrees_def cached_def removeFromOrder_def delete_conv split: option.splits if_splits)

lemma store_agrees:
  assumes "agrees f c" "f key = Inr found"
  shows "agrees f (store key found now c)"
  using assms
  by (auto simp: agrees_def store_def Let_def case_prod_beta update_conv dest!: evict_entries split: if_splits)

definition checkedDirectly :: "(string \<Rightarrow> string) \<Rightarrow> (string \<Rightarrow> error + string list) \<Rightarrow> string \<Rightarrow> error + bool" where
  "checkedDirectly sha1 fetchRange password =
     (case fetchRange (take 5 (digestOf sha1 password)) of
        Inl e \<Rightarrow> Inl e
      | Inr found \<Rightarrow> Inr (List.member found (drop 5 (digestOf sha1 password))))"

lemma IsCompromised_transparent:
  assumes "agrees f c"
  shows "fst (IsCompromised sha1 f password now then' c) = checkedDirectly sha1 f password"
    "agrees f (snd (IsCompromised sha1 f password now then' c))"
proof -
  let ?k = "take 5 (digestOf sha1 password)"
  note c = cached_agrees [OF assms, where key = ?k and now = now]
  obtain r c' where split: "cached ?k now c = (r, c')"
    by (cases "cached ?k now c")
  show "fst (IsCompromised sha1 f password now then' c) = checkedDirectly sha1 f password"
      "agrees f (snd (IsCompromised sha1 f password now then' c))"
    using c store_agrees [of f c' ?k] split
    by (auto simp: IsCompromised_def checkedDirectly_def Let_def split: option.split sum.split)
qed
end
