(* ===== verification/Service.thy ===== *)
theory Service
  imports Bank HistoryQueries Config RateLimits PasswordPolicy
begin

text \<open>
  The frame of the HTTP service: its state, requests and replies, the errors it answers with
  (\<open>api/errors.go\<close>, \<open>api/server.go\<close>, \<open>api/request_limits.go\<close>, \<open>api/validator.go\<close>), the rate limits and
  request identities (\<open>api/operations.go\<close>) and the counters (\<open>observability/metrics.go\<close>).
\<close>

section \<open>State and replies\<close>

fun joinWith :: "string \<Rightarrow> string list \<Rightarrow> string" where
  "joinWith sep [] = ''''"
| "joinWith sep [x] = x"
| "joinWith sep (x # y # zs) = x @ sep @ joinWith sep (y # zs)"

text \<open>
  The counters of \<open>observability.Registry\<close>, by their label text; a label that was never counted has zero.
\<close>

record Registry =
  mr_requests :: "string \<Rightarrow> 64 word"
  mr_requestLatency :: "string \<Rightarrow> 64 word"
  mr_transferResult :: "string \<Rightarrow> 64 word"
  mr_rateLimited :: "string \<Rightarrow> 64 word"
  mr_databaseErrors :: "64 word"
  mr_workerRetries :: "64 word"

record cookie =
  ck_Name :: string
  ck_Value :: string
  ck_Domain :: string
  ck_MaxAge :: int
  ck_Expires :: time
  ck_HttpOnly :: bool
  ck_Secure :: bool
  ck_SameSite :: string

text \<open>
  The state of a server: the database, what the process keeps in memory, and the headers and cookies
  set so far on the reply in progress.
\<close>

record app =
  ap_store :: world
  ap_limiter :: memoryRateLimiter
  ap_checker :: HIBPPasswordBreachChecker
  ap_metrics :: Registry
  ap_headers :: "(string \<times> string) list"
  ap_cookies :: "cookie list"

type_synonym 'a service = "(app, error, 'a) prog"

definition onStore :: "'a query \<Rightarrow> 'a service" where
  "onStore m a = (case m (ap_store a) of (r, w) \<Rightarrow> (r, a\<lparr>ap_store := w\<rparr>))"

definition attempt :: "('s, 'e, 'a) prog \<Rightarrow> ('s, 'f, 'e + 'a) prog" where
  \<comment> \<open>The error of a call is a value to look at, as \<open>tryM\<close>, where failing means replying.\<close>
  "attempt m s = (case m s of (r, t) \<Rightarrow> (Inr r, t))"

definition updateM :: "('s \<Rightarrow> 's) \<Rightarrow> ('s, 'e, unit) prog" where
  "updateM f s = (Inr (), f s)"

section \<open>The errors of the service\<close>

text \<open>Names that the store's errors have too carry the suffix \<open>Api\<close>; \<open>ApiText\<close> is any other error.\<close>

datatype apiError =
    ErrInvalidCredentials | ErrUnauthorized | ErrForbidden | ErrInternalServer | ErrServiceUnavailable
  | ErrRateLimited | ErrInvalidTokenApi | ErrExpiredTokenApi | ErrInvalidSession
  | ErrCurrentPasswordRequired | ErrInvalidPasswordLength | ErrPasswordCompromised | ErrPasswordCheckUnavailable
  | ErrInvalidFullName | ErrAccountNotFoundApi | ErrAccountAlreadyExists | ErrInvalidAccountID
  | ErrRecipientNotFoundApi | ErrAccountBalanceNotZeroApi | ErrAccountAlreadyClosed | ErrAccountFrozenApi
  | ErrAccountClosedApi | ErrCurrencyMismatchApi | ErrInsufficientBalanceApi | ErrSameAccountApi | ErrTransferFailed
  | ErrIdempotencyKeyRequired | ErrInvalidIdempotencyKeyApi | ErrIdempotencyConflictApi | ErrTransactionNotFoundApi
  | ErrInvalidCursor | ErrInvalidDateRange | ErrBeneficiaryNotFound | ErrInvalidBeneficiaryID
  | ErrBeneficiaryAlreadyExistsApi | ErrInvalidBeneficiaryNickname | ErrPerTransferLimitExceededApi
  | ErrDailyTransferLimitExceededApi | ErrUserNotFound | ErrUsernameAlreadyExists | ErrEmailAlreadyExists
  | ErrEmailVerificationRequired | ErrRegistrationExpired | ErrEmailAlreadyVerifiedApi | ErrVerificationCooldown
  | ErrEmailAddressUndeliverableApi | ErrRequestBodyTooLarge | ApiText string

fun apiErrorText :: "apiError \<Rightarrow> string" where
  "apiErrorText ErrInvalidCredentials = ''invalid username or password''"
| "apiErrorText ErrUnauthorized = ''unauthorized''"
| "apiErrorText ErrForbidden = ''forbidden''"
| "apiErrorText ErrInternalServer = ''internal server error''"
| "apiErrorText ErrServiceUnavailable = ''service dependency unavailable''"
| "apiErrorText ErrRateLimited = ''too many requests''"
| "apiErrorText ErrInvalidTokenApi = ''invalid token''"
| "apiErrorText ErrExpiredTokenApi = ''expired token''"
| "apiErrorText ErrInvalidSession = ''invalid user session''"
| "apiErrorText ErrCurrentPasswordRequired = ''current password is required for this security-sensitive change''"
| "apiErrorText ErrInvalidPasswordLength = ''password must be at least 8 characters and at most 72 bytes''"
| "apiErrorText ErrPasswordCompromised = ''password has appeared in a known data breach''"
| "apiErrorText ErrPasswordCheckUnavailable = ''password safety check is temporarily unavailable''"
| "apiErrorText ErrInvalidFullName = ''full name must be 1-100 characters after trimming''"
| "apiErrorText ErrAccountNotFoundApi = ''account not found''"
| "apiErrorText ErrAccountAlreadyExists = ''an account already exists for this currency''"
| "apiErrorText ErrInvalidAccountID = ''invalid account ID''"
| "apiErrorText ErrRecipientNotFoundApi = ''recipient not found''"
| "apiErrorText ErrAccountBalanceNotZeroApi = ''account balance must be zero before closure''"
| "apiErrorText ErrAccountAlreadyClosed = ''account is already closed''"
| "apiErrorText ErrAccountFrozenApi = ''source account is frozen''"
| "apiErrorText ErrAccountClosedApi = ''closed accounts cannot transact''"
| "apiErrorText ErrCurrencyMismatchApi = ''account currency mismatch''"
| "apiErrorText ErrInsufficientBalanceApi = ''insufficient balance''"
| "apiErrorText ErrSameAccountApi = ''source and destination accounts must differ''"
| "apiErrorText ErrTransferFailed = ''transfer failed''"
| "apiErrorText ErrIdempotencyKeyRequired = ''Idempotency-Key header is required''"
| "apiErrorText ErrInvalidIdempotencyKeyApi =
     ''Idempotency-Key must be 1-128 characters using letters, numbers, '' @ [CHR 0x27] @ ''.'' @ [CHR 0x27] @ '', '' @
     [CHR 0x27] @ ''_'' @ [CHR 0x27] @ '', '' @ [CHR 0x27] @ '':'' @ [CHR 0x27] @ '', or '' @ [CHR 0x27] @ ''-'' @ [CHR 0x27]"
| "apiErrorText ErrIdempotencyConflictApi = ''Idempotency-Key was already used with a different request''"
| "apiErrorText ErrTransactionNotFoundApi = ''transaction not found''"
| "apiErrorText ErrInvalidCursor = ''invalid transaction cursor''"
| "apiErrorText ErrInvalidDateRange = ''invalid date range''"
| "apiErrorText ErrBeneficiaryNotFound = ''beneficiary not found''"
| "apiErrorText ErrInvalidBeneficiaryID = ''invalid beneficiary ID''"
| "apiErrorText ErrBeneficiaryAlreadyExistsApi = ''beneficiary already exists''"
| "apiErrorText ErrInvalidBeneficiaryNickname = ''beneficiary nickname must be 1-50 characters after trimming''"
| "apiErrorText ErrPerTransferLimitExceededApi = ''per-transfer limit exceeded''"
| "apiErrorText ErrDailyTransferLimitExceededApi = ''daily transfer limit exceeded''"
| "apiErrorText ErrUserNotFound = ''user not found''"
| "apiErrorText ErrUsernameAlreadyExists = ''username already exists''"
| "apiErrorText ErrEmailAlreadyExists = ''email already exists''"
| "apiErrorText ErrEmailVerificationRequired = ''email verification is required for financial features''"
| "apiErrorText ErrRegistrationExpired =
     ''email verification window expired; update your email or request another verification email''"
| "apiErrorText ErrEmailAlreadyVerifiedApi = ''email is already verified''"
| "apiErrorText ErrVerificationCooldown = ''wait before requesting another verification email''"
| "apiErrorText ErrEmailAddressUndeliverableApi = ''change your email address before requesting another verification email''"
| "apiErrorText ErrRequestBodyTooLarge = ''request body exceeds 64 KiB''"
| "apiErrorText (ApiText m) = m"

definition lowerAlnum :: "char \<Rightarrow> bool" where
  "lowerAlnum c = (List.member ''abcdefghijklmnopqrstuvwxyz0123456789'' c)"

fun squeeze :: "string \<Rightarrow> string" where
  \<comment> \<open>Runs of underscores become one.\<close>
  "squeeze (x # y # zs) = (if x = CHR ''_'' \<and> y = CHR ''_'' then squeeze (y # zs) else x # squeeze (y # zs))"
| "squeeze zs = zs"

definition trimUnderscores :: "string \<Rightarrow> string" where
  "trimUnderscores s = dropWhile (\<lambda>c. c = CHR ''_'') (rev (dropWhile (\<lambda>c. c = CHR ''_'') (rev s)))"

definition stableErrorCode :: "golib \<Rightarrow> apiError \<Rightarrow> string" where
  "stableErrorCode g err =
     (if err = ErrInternalServer then ''internal_error''
      else if err = ErrUnauthorized then ''unauthorized''
      else if err = ErrForbidden then ''forbidden''
      else if err = ErrInvalidCredentials then ''invalid_credentials''
      else if err = ErrCurrentPasswordRequired then ''current_password_required''
      else if err = ErrRateLimited then ''rate_limited''
      else if err = ErrServiceUnavailable then ''dependency_unavailable''
      else
        let value = trimUnderscores (squeeze (map (\<lambda>c. if lowerAlnum c then c else CHR ''_'')
                      (gl_ToLower g (apiErrorText err))))
        in if value = '''' then ''request_failed'' else if 64 < length value then ''request_failed'' else value)"

section \<open>Bodies\<close>

record accountResponse =
  ar_ID :: string
  ar_AccountNumber :: string
  ar_Balance :: int
  ar_Currency :: string
  ar_Status :: string
  ar_CreatedAt :: time
  ar_UpdatedAt :: time
  ar_ClosedAt :: "time option"

record bankingTransactionResponse =
  br_ID :: string
  br_Reference :: string
  br_TransactionType :: string
  br_Status :: string
  br_Currency :: string
  br_Amount :: int
  br_Narration :: string
  br_CreatedAt :: time
  br_PostedAt :: "time option"

record transferResponse =
  fr_Transaction :: bankingTransactionResponse
  fr_FromAccount :: accountResponse
  fr_ToAccount :: "string \<times> string"
  fr_Fee :: int

record recipientResolutionResponse =
  rp_AccountNumber :: string
  rp_AccountName :: string
  rp_Currency :: string
  rp_CanReceive :: bool

record beneficiaryResponse =
  bf_ID :: string
  bf_Nickname :: string
  bf_DestinationAccountNumber :: string
  bf_Currency :: string
  bf_CanReceive :: bool
  bf_CreatedAt :: time
  bf_UpdatedAt :: time

record transactionResponse =
  xr_ID :: string
  xr_Reference :: string
  xr_AccountID :: string
  xr_Type :: string
  xr_Status :: string
  xr_Currency :: string
  xr_Amount :: int
  xr_Direction :: string
  xr_Narration :: string
  xr_CounterpartyType :: string
  xr_Counterparty :: string
  xr_BalanceAfter :: "int option"
  xr_CreatedAt :: time
  xr_PostedAt :: "time option"

record transactionHistoryResponse =
  hr_Transactions :: "transactionResponse list"
  hr_NextCursor :: string

record accountStatementResponse =
  sr_AccountID :: string
  sr_Currency :: string
  sr_From :: "time option"
  sr_To :: "time option"
  sr_OpeningBalance :: int
  sr_ClosingBalance :: int
  sr_Transactions :: "transactionResponse list"
  sr_NextCursor :: string

record moneyMovementResponse =
  mm_AccountID :: string
  mm_Currency :: string
  mm_From :: time
  mm_To :: time
  mm_Interval :: string
  mm_MoneyIn :: int
  mm_MoneyOut :: int
  mm_Buckets :: "GetOwnedAccountMoneyMovementRow list"

record userResponse =
  us'_Username :: string
  us'_FullName :: string
  us'_Email :: string
  us'_EmailVerifiedAt :: "time option"
  us'_EmailDeliverabilityStatus :: string
  us'_EmailBouncedAt :: "time option"
  us'_AccountStatus :: string
  us'_RegistrationExpiresAt :: "time option"
  us'_PasswordChangedAt :: time
  us'_CreatedAt :: time

record emailJobStatus =
  js_ID :: uuid
  js_WorkerStatus :: string
  js_DeliveryStatus :: string
  js_ProviderMessageID :: "string option"
  js_AcceptedAt :: "time option"
  js_DeliveredAt :: "time option"
  js_BouncedAt :: "time option"
  js_BounceType :: "string option"
  js_BounceSubtype :: "string option"
  js_BounceMessage :: "string option"

record emailStatusResponse =
  es_Email :: string
  es_VerifiedAt :: "time option"
  es_DeliverabilityStatus :: string
  es_BouncedAt :: "time option"
  es_LatestJob :: "emailJobStatus option"
  es_AccountStatus :: string
  es_RegistrationExpiresAt :: "time option"
  es_AllowedFeatures :: "string list"
  es_RestrictedFeatures :: "string list"

text \<open>
  \<open>ErrorBody code message request_id\<close> is the body of every error; \<open>RestrictedBody\<close> adds the account's
  status and the lists of features. \<open>PageBody\<close> is the verification page: title, message, token and
  whether it shows the button.
\<close>

datatype body =
    NoBody
  | ErrorBody string string string
  | RestrictedBody string string string string
  | AccountBody accountResponse
  | AccountsBody "accountResponse list"
  | RecipientBody recipientResolutionResponse
  | TransferBody transferResponse
  | BeneficiaryBody beneficiaryResponse
  | BeneficiariesBody "beneficiaryResponse list"
  | TransactionBody transactionResponse
  | HistoryBody transactionHistoryResponse
  | StatementBody accountStatementResponse
  | MovementBody moneyMovementResponse
  | UserBody userResponse
  | LoginBody string time userResponse
  | RenewedBody string time
  | EmailStatusBody emailStatusResponse
  | QueuedBody uuid
  | VerifiedBody userResponse
  | PageBody string string string bool
  | ReadyBody string "(string \<times> string) list"

record reply =
  rs_status :: int
  rs_body :: body

type_synonym 'a handler = "(app, reply, 'a) prog"

section \<open>Requests\<close>

text \<open>
  A request as the handlers see it. \<open>rq_requestID\<close> and \<open>rq_correlationID\<close> are what
  \<open>requestContextMiddleware\<close> put into its context. Bodies and queries arrive bound: gin decodes and
  validates them, so a handler receives the bound structure or the reason why there is none.
\<close>

record request =
  rq_header :: "string \<Rightarrow> string"
  rq_cookie :: "string \<Rightarrow> string option"
  rq_param :: "string \<Rightarrow> string"
  rq_method :: string
  rq_route :: string
  rq_host :: string
  rq_clientIP :: string
  rq_userAgent :: string
  rq_contentType :: string
  rq_requestID :: string
  rq_correlationID :: uuid

record fieldError =
  fe_Field :: string
  fe_Tag :: string
  fe_Param :: string

text \<open>The fields a validation rejected with the library's own text, or any other error with its text.\<close>

datatype bindError = MaxBytesError | ValidationErrors "fieldError list" string | BindError string

type_synonym 'a bound = "bindError + 'a"

text \<open>
  The server: its configuration, the token makers, and the libraries and services it calls. Their
  answers may change from call to call, so they also depend on the state.
\<close>

record server =
  sr_config :: Config
  sr_lib :: golib
  sr_crypto :: crypto
  sr_tokenMaker :: JWTMaker
  sr_redis :: "(string \<Rightarrow> int \<Rightarrow> int \<Rightarrow> app \<Rightarrow> error + int list) option"
  sr_redisDel :: "string \<Rightarrow> app \<Rightarrow> error option"
  sr_sha1 :: "string \<Rightarrow> string"
  sr_range :: "(string \<Rightarrow> app \<Rightarrow> error + rangeReply) option"
  sr_showInt :: "int \<Rightarrow> string"
  sr_bcryptHash :: "string \<Rightarrow> app \<Rightarrow> error + string"
  sr_bcryptMatches :: "string \<Rightarrow> string \<Rightarrow> bool"
  sr_marshal :: "json \<Rightarrow> string"
  sr_unmarshalCursor :: "string \<Rightarrow> (time \<times> uuid) option"
  sr_zone :: int
  sr_databaseReady :: "(app \<Rightarrow> error option) option"
  sr_redisReady :: "(app \<Rightarrow> error option) option"

section \<open>Replying\<close>

definition replyM :: "int \<Rightarrow> body \<Rightarrow> 'a handler" where
  \<comment> \<open>\<open>ctx.JSON(status, body)\<close> followed by \<open>return\<close>\<close>
  "replyM status b = failM \<lparr>rs_status = status, rs_body = b\<rparr>"

definition codedErrorResponse :: "request \<Rightarrow> string \<Rightarrow> apiError \<Rightarrow> body" where
  "codedErrorResponse rq code err = ErrorBody code (apiErrorText err) (rq_requestID rq)"

definition errorResponse :: "server \<Rightarrow> request \<Rightarrow> apiError \<Rightarrow> body" where
  "errorResponse sv rq err = codedErrorResponse rq (stableErrorCode (sr_lib sv) err) err"

definition setHeader :: "string \<Rightarrow> string \<Rightarrow> unit handler" where
  "setHeader name value = updateM (ap_headers_update (\<lambda>hs. hs @ [(name, value)]))"

definition serve :: "reply handler \<Rightarrow> app \<Rightarrow> reply \<times> app" where
  "serve h a = (case h a of (Inl r, b) \<Rightarrow> (r, b) | (Inr r, b) \<Rightarrow> (r, b))"

section \<open>Binding errors\<close>

fun toSnakeRest :: "string \<Rightarrow> string" where
  "toSnakeRest [] = []"
| "toSnakeRest (c # cs) = (if List.member ''ABCDEFGHIJKLMNOPQRSTUVWXYZ'' c then [CHR ''_'', c] else [c]) @ toSnakeRest cs"

definition toSnakeCase :: "golib \<Rightarrow> string \<Rightarrow> string" where
  "toSnakeCase g s = gl_ToLower g (case s of [] \<Rightarrow> [] | c # cs \<Rightarrow> c # toSnakeRest cs)"

definition displayFieldName :: "string \<Rightarrow> string" where
  \<comment> \<open>The listed names are spelled like the default, with spaces for underscores.\<close>
  "displayFieldName field = map (\<lambda>c. if c = CHR ''_'' then CHR '' '' else c) field"

definition validationMessage :: "string \<Rightarrow> fieldError \<Rightarrow> string" where
  "validationMessage field fe =
     (if fe_Tag fe = ''required'' then field @ '' is required''
      else if fe_Tag fe = ''alphanum'' then field @ '' can only contain letters and numbers''
      else if fe_Tag fe = ''email'' then field @ '' must be a valid email address''
      else if fe_Tag fe = ''currency'' then field @ '' is not a supported currency''
      else if fe_Tag fe = ''min'' then
        (if fe_Field fe = ''Password'' then field @ '' must be at least '' @ fe_Param fe @ '' characters''
         else field @ '' must be at least '' @ fe_Param fe)
      else if fe_Tag fe = ''max'' then field @ '' must be at most '' @ fe_Param fe
      else if fe_Tag fe = ''gt'' then field @ '' must be greater than '' @ fe_Param fe
      else field @ '' is invalid'')"

definition friendlyValidationError :: "golib \<Rightarrow> bindError \<Rightarrow> apiError" where
  "friendlyValidationError g err =
     (case err of
        ValidationErrors ve m \<Rightarrow>
          ApiText (joinWith '', '' (map (\<lambda>fe. validationMessage (displayFieldName (toSnakeCase g (fe_Field fe))) fe) ve))
      | BindError m \<Rightarrow> ApiText m
      | MaxBytesError \<Rightarrow> ApiText ''http: request body too large'')"

definition bindingErrorText :: "bindError \<Rightarrow> apiError" where
  \<comment> \<open>The error itself, where a handler passes it on\<close>
  "bindingErrorText err =
     (case err of
        ValidationErrors ve m \<Rightarrow> ApiText m
      | BindError m \<Rightarrow> ApiText m
      | MaxBytesError \<Rightarrow> ApiText ''http: request body too large'')"

definition writeBindingError :: "server \<Rightarrow> request \<Rightarrow> bindError \<Rightarrow> 'a handler" where
  "writeBindingError sv rq err =
     (case err of
        MaxBytesError \<Rightarrow> replyM 413 (codedErrorResponse rq ''request_body_too_large'' ErrRequestBodyTooLarge)
      | _ \<Rightarrow> replyM 400 (errorResponse sv rq (friendlyValidationError (sr_lib sv) err)))"

definition bindJSON :: "server \<Rightarrow> request \<Rightarrow> 'a bound \<Rightarrow> 'a handler" where
  \<comment> \<open>\<open>if err := bindJSON(ctx, &req); err != nil { writeBindingError(ctx, err); return }\<close>\<close>
  "bindJSON sv rq b = (case b of Inl err \<Rightarrow> writeBindingError sv rq err | Inr req \<Rightarrow> returnM req)"

definition shouldBindQuery :: "server \<Rightarrow> request \<Rightarrow> 'a bound \<Rightarrow> 'a handler" where
  "shouldBindQuery sv rq b =
     (case b of Inl err \<Rightarrow> replyM 400 (errorResponse sv rq (bindingErrorText err)) | Inr req \<Rightarrow> returnM req)"
end
