(* ===== verification/Operations.thy ===== *)
theory Operations
  imports Service
begin

text \<open>
  Rate limits, request identities, the operations endpoints and the counters (\<open>api/operations.go\<close>,
  \<open>observability/metrics.go\<close>). Redis runs the limiter's script; its reply is a parameter.
\<close>

section \<open>Counters\<close>

definition escapeLabel :: "string \<Rightarrow> string" where
  "escapeLabel v = concat (map (\<lambda>c.
     if c = CHR 0x5C then [CHR 0x5C, CHR 0x5C] else if c = CHR 0x22 then [CHR 0x5C, CHR 0x22]
     else if c = CHR 0x0A then [CHR 0x5C, CHR ''n''] else [c]) v)"

definition prometheusLabels :: "(string \<times> string) list \<Rightarrow> string" where
  \<comment> \<open>The callers give their keys in the order the code sorts them into.\<close>
  "prometheusLabels values =
     ''{'' @ joinWith '','' (map (\<lambda>(k, v). k @ ''='' @ [CHR 0x22] @ escapeLabel v @ [CHR 0x22]) values) @ ''}''"

definition addTo :: "string \<Rightarrow> 64 word \<Rightarrow> (string \<Rightarrow> 64 word) \<Rightarrow> string \<Rightarrow> 64 word" where
  \<comment> \<open>\<open>labeledCounter.Add\<close>\<close>
  "addTo labels delta f = f(labels := f labels + delta)"

definition ObserveRequest :: "(int \<Rightarrow> string) \<Rightarrow> string \<Rightarrow> string \<Rightarrow> int \<Rightarrow> int \<Rightarrow> Registry \<Rightarrow> Registry" where
  "ObserveRequest showInt method route status elapsed m =
     (let labels = prometheusLabels [(''method'', method), (''route'', route), (''status'', showInt status)]
      in m\<lparr>mr_requests := addTo labels 1 (mr_requests m),
           mr_requestLatency := addTo labels (word_of_int (max 0 (elapsed div 1000))) (mr_requestLatency m)\<rparr>)"

definition RecordTransfer :: "string \<Rightarrow> Registry \<Rightarrow> Registry" where
  "RecordTransfer result m = m\<lparr>mr_transferResult := addTo (prometheusLabels [(''result'', result)]) 1 (mr_transferResult m)\<rparr>"

definition RecordRateLimit :: "string \<Rightarrow> Registry \<Rightarrow> Registry" where
  "RecordRateLimit endpoint m = m\<lparr>mr_rateLimited := addTo (prometheusLabels [(''endpoint'', endpoint)]) 1 (mr_rateLimited m)\<rparr>"

definition RecordDatabaseError :: "Registry \<Rightarrow> Registry" where
  "RecordDatabaseError m = m\<lparr>mr_databaseErrors := mr_databaseErrors m + 1\<rparr>"

definition RecordWorkerRetry :: "Registry \<Rightarrow> Registry" where
  "RecordWorkerRetry m = m\<lparr>mr_workerRetries := mr_workerRetries m + 1\<rparr>"

definition SetWorkerRetries :: "64 word \<Rightarrow> Registry \<Rightarrow> Registry" where
  "SetWorkerRetries value m = (if value \<le> mr_workerRetries m then m else m\<lparr>mr_workerRetries := value\<rparr>)"

section \<open>Rate limits\<close>

definition memoryAllow :: "string \<Rightarrow> int \<Rightarrow> int \<Rightarrow> (bool \<times> int) service" where
  \<comment> \<open>\<open>memoryRateLimiter.Allow\<close>\<close>
  "memoryAllow key limit window =
     failIf (key = '''' \<or> limit \<le> 0 \<or> window \<le> 0) (GoErr ''invalid local rate-limit configuration'')
     (bindM (onStore timeNow) (\<lambda>now.
      bindM (\<lambda>a. case admit key limit window now (ap_limiter a) of (r, l) \<Rightarrow> (r, a\<lparr>ap_limiter := l\<rparr>)) (\<lambda>(ok, entry).
      bindM (onStore timeNow) (\<lambda>later.
      returnM (ok, max 0 ((re_expiresAt entry - later) * 1000))))))"

definition memoryReset :: "string \<Rightarrow> unit service" where
  "memoryReset key = updateM (ap_limiter_update (resetEntry key))"

definition redisAllow :: "(string \<Rightarrow> int \<Rightarrow> int \<Rightarrow> app \<Rightarrow> error + int list) \<Rightarrow> string \<Rightarrow> int \<Rightarrow> int \<Rightarrow> (bool \<times> int) service" where
  \<comment> \<open>\<open>redisRateLimiter.Allow\<close>\<close>
  "redisAllow run key limit window =
     bindM (readM (run (''monierave:rate:'' @ key) (window div 1000000) limit)) (\<lambda>r.
     case r of
       Inl e \<Rightarrow> failM e
     | Inr result \<Rightarrow>
         failIf (length result \<noteq> 2) (GoErr ''unexpected Redis rate-limit response'')
         (returnM (result ! 0 = 1, wrap64 (max 0 (result ! 1) * 1000000))))"

definition resilientAllow :: "(string \<Rightarrow> int \<Rightarrow> int \<Rightarrow> app \<Rightarrow> error + int list) \<Rightarrow> string \<Rightarrow> int \<Rightarrow> int \<Rightarrow> (bool \<times> int) service" where
  \<comment> \<open>\<open>resilientRateLimiter.Allow\<close>\<close>
  "resilientAllow run key limit window =
     bindM (tryM (redisAllow run key limit window)) (\<lambda>r.
     case r of Inr answer \<Rightarrow> returnM answer | Inl e \<Rightarrow> memoryAllow key limit window)"

definition resilientReset :: "server \<Rightarrow> string \<Rightarrow> unit service" where
  "resilientReset sv key =
     bindM (memoryReset key) (\<lambda>_.
     bindM (readM (sr_redisDel sv (''monierave:rate:'' @ key))) (\<lambda>r.
     case r of None \<Rightarrow> returnM () | Some e \<Rightarrow> failM e))"

definition roundSeconds :: "int \<Rightarrow> int" where
  \<comment> \<open>\<open>d.Round(time.Second).Seconds()\<close> of a duration that is not negative\<close>
  "roundSeconds d = (d + 500000000) div 1000000000"

definition allowRateLimitedRequest :: "server \<Rightarrow> request \<Rightarrow> string \<Rightarrow> string \<Rightarrow> int \<Rightarrow> int \<Rightarrow> unit handler" where
  "allowRateLimitedRequest sv rq endpoint key limit window =
     (case sr_redis sv of
        None \<Rightarrow> returnM ()
      | Some run \<Rightarrow>
        bindM (attempt (resilientAllow run (endpoint @ '':'' @ key) limit window)) (\<lambda>r.
        case r of
          Inl e \<Rightarrow> replyM 503 (codedErrorResponse rq ''dependency_unavailable'' ErrServiceUnavailable)
        | Inr (ok, retryAfter) \<Rightarrow>
            if ok then returnM ()
            else bindM (updateM (ap_metrics_update (RecordRateLimit endpoint))) (\<lambda>_.
                 bindM (setHeader ''Retry-After'' (sr_showInt sv (max 1 (roundSeconds retryAfter)))) (\<lambda>_.
                 replyM 429 (codedErrorResponse rq ''rate_limited'' ErrRateLimited)))))"

definition resetRateLimit :: "server \<Rightarrow> string \<Rightarrow> string \<Rightarrow> unit handler" where
  \<comment> \<open>A failure is only logged.\<close>
  "resetRateLimit sv endpoint key =
     (case sr_redis sv of
        None \<Rightarrow> returnM ()
      | Some _ \<Rightarrow> bindM (attempt (resilientReset sv (endpoint @ '':'' @ key))) (\<lambda>_. returnM ()))"

definition rateLimitMiddleware :: "server \<Rightarrow> request \<Rightarrow> string \<Rightarrow> int \<Rightarrow> int \<Rightarrow> string \<Rightarrow> 'a handler \<Rightarrow> 'a handler" where
  "rateLimitMiddleware sv rq endpoint limit window key next =
     bindM (allowRateLimitedRequest sv rq endpoint key limit window) (\<lambda>_. next)"

definition clientIPRateLimitKey :: "request \<Rightarrow> string" where
  "clientIPRateLimitKey rq = rq_clientIP rq"

definition authenticatedRateLimitKey :: "request \<Rightarrow> Payload option \<Rightarrow> string" where
  "authenticatedRateLimitKey rq payload = (case payload of None \<Rightarrow> rq_clientIP rq | Some p \<Rightarrow> pl_Username p)"

definition privateRateLimitKey :: "server \<Rightarrow> string \<Rightarrow> string" where
  "privateRateLimitKey sv value = hexOfBytes (sha256 (sr_crypto sv) (gl_ToLower (sr_lib sv) (trimSpace value)))"

section \<open>Request identities\<close>

definition identityChar :: "char \<Rightarrow> bool" where
  "identityChar c = (List.member ''abcdefghijklmnopqrstuvwxyzABCDEFGHIJKLMNOPQRSTUVWXYZ0123456789._:-'' c)"

definition requestIDPattern :: "string \<Rightarrow> bool" where
  "requestIDPattern v = (list_all identityChar v \<and> 1 \<le> length v \<and> length v \<le> 128)"

definition requestContextMiddleware :: "server \<Rightarrow> request \<Rightarrow> request handler" where
  "requestContextMiddleware sv rq =
     (let given = trimSpace (rq_header rq ''X-Request-ID'')
      in bindM (if requestIDPattern given then returnM given
                else bindM (attempt (onStore nextUUID)) (\<lambda>r. returnM (case r of Inr u \<Rightarrow> uuidString u | Inl _ \<Rightarrow> ''''))) (\<lambda>requestID.
         bindM (case uuidParse (sr_crypto sv) (trimSpace (rq_header rq ''X-Correlation-ID'')) of
                  Inr u \<Rightarrow> returnM u
                | Inl _ \<Rightarrow> bindM (attempt (onStore nextUUID)) (\<lambda>r. returnM (case r of Inr u \<Rightarrow> u | Inl _ \<Rightarrow> 0))) (\<lambda>correlationID.
         bindM (setHeader ''X-Request-ID'' requestID) (\<lambda>_.
         bindM (setHeader ''X-Correlation-ID'' (uuidString correlationID)) (\<lambda>_.
         returnM (rq\<lparr>rq_requestID := requestID, rq_correlationID := correlationID\<rparr>))))))"

definition correlationID :: "request \<Rightarrow> uuid handler" where
  "correlationID rq =
     (if rq_correlationID rq = 0
      then bindM (attempt (onStore nextUUID)) (\<lambda>r. returnM (case r of Inr u \<Rightarrow> u | Inl _ \<Rightarrow> 0))
      else returnM (rq_correlationID rq))"

section \<open>Every request is counted\<close>

definition requestLoggerMiddleware :: "server \<Rightarrow> request \<Rightarrow> reply handler \<Rightarrow> app \<Rightarrow> reply \<times> app" where
  "requestLoggerMiddleware sv rq next a =
     (let started = clockAt (envir (ap_store a)) (clock_ctr (ap_store a));
          (r, b) = serve next (a\<lparr>ap_store := snd (timeNow (ap_store a))\<rparr>);
          ended = clockAt (envir (ap_store b)) (clock_ctr (ap_store b));
          route = (if rq_route rq = '''' then ''unmatched'' else rq_route rq);
          m0 = ObserveRequest (sr_showInt sv) (rq_method rq) route (rs_status r) ((ended - started) * 1000) (ap_metrics b);
          m1 = (if route = ''/transfers'' then RecordTransfer
                  (if 500 \<le> rs_status r then ''server_error'' else if 400 \<le> rs_status r then ''rejected'' else ''success'') m0
                else m0);
          m2 = (if 500 \<le> rs_status r then RecordDatabaseError m1 else m1)
      in (r, b\<lparr>ap_store := snd (timeNow (ap_store b)), ap_metrics := m2\<rparr>))"

section \<open>Operations endpoints\<close>

definition trimBearer :: "string \<Rightarrow> string" where
  "trimBearer v = (if take 7 v = ''Bearer '' then drop 7 v else v)"

definition requireOperationsToken :: "server \<Rightarrow> request \<Rightarrow> 'a handler \<Rightarrow> 'a handler" where
  "requireOperationsToken sv rq next =
     (let configured = trimSpace (cf_OperationsToken (sr_config sv))
      in if configured = '''' \<and> \<not> EqualFold (sr_lib sv) (cf_Environment (sr_config sv)) ''production'' then next
         else let provided = trimSpace (trimBearer (rq_header rq ''Authorization''))
              in if provided = '''' \<or> sha256 (sr_crypto sv) configured \<noteq> sha256 (sr_crypto sv) provided
                 then replyM 404 NoBody else next)"

definition readiness :: "(app \<Rightarrow> error option) option \<Rightarrow> app \<Rightarrow> string \<times> bool" where
  "readiness check a =
     (case check of
        None \<Rightarrow> (''not_configured'', True)
      | Some f \<Rightarrow> (case f a of Some e \<Rightarrow> (''unavailable'', False) | None \<Rightarrow> (''ready'', True)))"

definition ready :: "server \<Rightarrow> reply handler" where
  "ready sv =
     bindM (readM (readiness (sr_databaseReady sv))) (\<lambda>(postgres, ok).
     bindM (readM (readiness (sr_redisReady sv))) (\<lambda>(redis, ok').
     returnM \<lparr>rs_status = (if ok \<and> ok' then 200 else 503),
       rs_body = ReadyBody (if ok \<and> ok' then ''ready'' else ''not_ready'') [(''postgres'', postgres), (''redis'', redis)]\<rparr>))"

end
