(* ===== verification/Auth.thy ===== *)
theory Auth
  imports Operations
begin

text \<open>
  Who may call: the authentication middleware (\<open>api/middleware.go\<close>), cookies and origins
  (\<open>api/auth_cookie.go\<close>), and the renewal and end of sessions (\<open>api/token.go\<close>).
\<close>

section \<open>Fields of a header\<close>

definition spaceAt :: "string \<Rightarrow> nat" where
  \<comment> \<open>The length of the white space rune at the front, or zero\<close>
  "spaceAt s = (case find (\<lambda>w. w \<noteq> [] \<and> take (length w) s = w) goSpaces of None \<Rightarrow> 0 | Some w \<Rightarrow> length w)"

function fieldsFrom :: "string \<Rightarrow> string \<Rightarrow> string list" where
  "fieldsFrom s acc =
     (if s = [] then (if acc = [] then [] else [rev acc])
      else if spaceAt s = 0 then fieldsFrom (tl s) (hd s # acc)
      else (if acc = [] then [] else [rev acc]) @ fieldsFrom (drop (spaceAt s) s) [])"
  by pat_completeness auto
termination
  by (relation "measure (length \<circ> fst)") auto

declare fieldsFrom.simps [simp del]

definition fieldsOf :: "string \<Rightarrow> string list" where
  \<comment> \<open>\<open>strings.Fields\<close>\<close>
  "fieldsOf s = fieldsFrom s []"

section \<open>Cookies\<close>

definition refreshCookieSameSite :: "string \<Rightarrow> string" where
  "refreshCookieSameSite value = (if value = ''strict'' then ''Strict'' else if value = ''none'' then ''None'' else ''Lax'')"

definition setSessionCookie :: "server \<Rightarrow> string \<Rightarrow> string \<Rightarrow> time \<Rightarrow> unit handler" where
  "setSessionCookie sv name value expiresAt =
     bindM (attempt (onStore timeNow)) (\<lambda>r.
     let now = (case r of Inr t \<Rightarrow> t | Inl _ \<Rightarrow> 0)
     in updateM (ap_cookies_update (\<lambda>cs. cs @
          [\<lparr>ck_Name = name, ck_Value = value, ck_Domain = cf_RefreshCookieDomain (sr_config sv),
            ck_MaxAge = max 0 ((expiresAt - now) div 1000000), ck_Expires = expiresAt, ck_HttpOnly = True,
            ck_Secure = cf_RefreshCookieSecure (sr_config sv),
            ck_SameSite = refreshCookieSameSite (cf_RefreshCookieSameSite (sr_config sv))\<rparr>])))"

definition setRefreshCookie :: "server \<Rightarrow> string \<Rightarrow> time \<Rightarrow> unit handler" where
  "setRefreshCookie sv = setSessionCookie sv (cf_RefreshCookieName (sr_config sv))"

definition setDeviceCookie :: "server \<Rightarrow> string \<Rightarrow> time \<Rightarrow> unit handler" where
  "setDeviceCookie sv = setSessionCookie sv (cf_DeviceCookieName (sr_config sv))"

definition clearSessionCookie :: "server \<Rightarrow> string \<Rightarrow> unit handler" where
  "clearSessionCookie sv name =
     updateM (ap_cookies_update (\<lambda>cs. cs @
       [\<lparr>ck_Name = name, ck_Value = '''', ck_Domain = cf_RefreshCookieDomain (sr_config sv), ck_MaxAge = -1,
         ck_Expires = 1000000, ck_HttpOnly = True, ck_Secure = cf_RefreshCookieSecure (sr_config sv),
         ck_SameSite = refreshCookieSameSite (cf_RefreshCookieSameSite (sr_config sv))\<rparr>]))"

definition clearSessionCookies :: "server \<Rightarrow> unit handler" where
  "clearSessionCookies sv =
     bindM (clearSessionCookie sv (cf_RefreshCookieName (sr_config sv))) (\<lambda>_.
     clearSessionCookie sv (cf_DeviceCookieName (sr_config sv)))"

definition sessionCookie :: "request \<Rightarrow> string \<Rightarrow> string option" where
  \<comment> \<open>\<open>None\<close> is \<open>ErrInvalidToken\<close>.\<close>
  "sessionCookie rq name = (case rq_cookie rq name of Some v \<Rightarrow> if v = '''' then None else Some v | None \<Rightarrow> None)"

section \<open>Origins\<close>

definition originAllowed :: "server \<Rightarrow> request \<Rightarrow> bool" where
  "originAllowed sv rq =
     (let origin = rq_header rq ''Origin''
      in if origin = '''' then True
         else if list_ex (\<lambda>allowed. EqualFold (sr_lib sv) (trimSpace allowed) origin)
                (splitOn (CHR '','') (cf_AllowedOrigins (sr_config sv))) then True
         else case gl_ParseURL (sr_lib sv) origin of
                None \<Rightarrow> False
              | Some parsed \<Rightarrow>
                  if url_Host parsed = '''' \<or> rq_host rq = '''' then False
                  else if url_Scheme parsed \<noteq> ''http'' \<and> url_Scheme parsed \<noteq> ''https'' then False
                  else EqualFold (sr_lib sv) (url_Host parsed) (rq_host rq))"

definition requireTrustedBrowserOrigin :: "server \<Rightarrow> request \<Rightarrow> 'a handler \<Rightarrow> 'a handler" where
  "requireTrustedBrowserOrigin sv rq next =
     (if \<not> originAllowed sv rq then replyM 403 (errorResponse sv rq ErrForbidden) else next)"

definition corsMiddleware :: "server \<Rightarrow> request \<Rightarrow> 'a handler \<Rightarrow> 'a handler" where
  "corsMiddleware sv rq next =
     (let origin = rq_header rq ''Origin''; trusted = (origin \<noteq> '''' \<and> originAllowed sv rq)
      in bindM (if origin \<noteq> '''' then setHeader ''Vary'' ''Origin'' else returnM ()) (\<lambda>_.
         bindM (if trusted then
                  bindM (setHeader ''Access-Control-Allow-Origin'' origin) (\<lambda>_.
                  bindM (setHeader ''Access-Control-Allow-Credentials'' ''true'') (\<lambda>_.
                  bindM (setHeader ''Access-Control-Allow-Headers'' ''Authorization, Content-Type, Idempotency-Key'') (\<lambda>_.
                  bindM (setHeader ''Access-Control-Expose-Headers'' ''Idempotency-Replayed, X-Request-ID, X-Correlation-ID'') (\<lambda>_.
                  setHeader ''Access-Control-Allow-Methods'' ''GET, POST, PATCH, PUT, DELETE, OPTIONS''))))
                else returnM ()) (\<lambda>_.
         if rq_method rq = ''OPTIONS'' then
           (if \<not> trusted then replyM 403 (errorResponse sv rq ErrForbidden) else replyM 204 NoBody)
         else next)))"

section \<open>Authentication\<close>

definition sessionRefused :: "error \<Rightarrow> bool" where
  \<comment> \<open>The errors that mean the session does not hold, and not that the database failed\<close>
  "sessionRefused e \<longleftrightarrow> errIs e ErrNoRows \<or> errIs e ErrSessionExpired \<or> errIs e ErrSessionRevoked \<or>
     errIs e ErrDeviceMismatch \<or> errIs e ErrSessionMismatch"

definition authMiddleware :: "server \<Rightarrow> request \<Rightarrow> Payload handler" where
  \<comment> \<open>The payload it puts into the context is its result.\<close>
  "authMiddleware sv rq =
     (let unauthorized = replyM 401 (errorResponse sv rq ErrUnauthorized);
          authorizationHeader = rq_header rq ''Authorization''; fields = fieldsOf authorizationHeader
      in if authorizationHeader = '''' then unauthorized
         else if length fields \<noteq> 2 then unauthorized
         else if gl_ToLower (sr_lib sv) (fields ! 0) \<noteq> ''bearer'' then unauthorized
         else bindM (attempt (onStore (VerifyAccessToken (sr_crypto sv) (sr_tokenMaker sv) (fields ! 1)))) (\<lambda>r.
         case r of
           Inl e \<Rightarrow> unauthorized
         | Inr payload \<Rightarrow>
           let deviceToken = (case rq_cookie rq (cf_DeviceCookieName (sr_config sv)) of Some v \<Rightarrow> v | None \<Rightarrow> '''')
           in bindM (attempt (onStore (ValidateSession (Some (pl_SessionID payload)) (pl_Username payload)
                  (sha256 (sr_crypto sv) deviceToken)))) (\<lambda>v.
              case v of
                Inl e \<Rightarrow> if sessionRefused e then unauthorized else replyM 500 (errorResponse sv rq ErrInternalServer)
              | Inr _ \<Rightarrow> returnM payload)))"

definition verifiedAccountMiddleware :: "server \<Rightarrow> request \<Rightarrow> Payload \<Rightarrow> unit handler" where
  "verifiedAccountMiddleware sv rq payload =
     bindM (attempt (onStore (autocommit (GetUser (pl_Username payload))))) (\<lambda>r.
     case r of
       Inl e \<Rightarrow> if errIs e ErrNoRows then replyM 401 (errorResponse sv rq ErrUnauthorized)
                else replyM 500 (errorResponse sv rq ErrInternalServer)
     | Inr user \<Rightarrow>
       if us_account_status user = ''active'' \<and> us_email_verified_at user \<noteq> None then returnM ()
       else
         bindM (if us_account_status user = ''disabled'' then returnM True
                else if us_account_status user = ''pending'' \<and> us_registration_expires_at user \<noteq> None then
                  bindM (attempt (onStore timeNow)) (\<lambda>t.
                  returnM (case t of Inr now \<Rightarrow> \<not> before (Some now) (us_registration_expires_at user) | Inl _ \<Rightarrow> False))
                else returnM False) (\<lambda>expired.
         bindM (if expired \<and> us_account_status user = ''pending'' then
                  bindM (attempt (onStore (autocommit (DisableExpiredPendingUser (us_username user))))) (\<lambda>d.
                  case d of
                    Inl e \<Rightarrow> if errIs e ErrNoRows then returnM () else replyM 500 (errorResponse sv rq ErrInternalServer)
                  | Inr _ \<Rightarrow> returnM ())
                else returnM ()) (\<lambda>_.
         let message = (if expired then ErrRegistrationExpired else ErrEmailVerificationRequired)
         in replyM 403 (RestrictedBody (stableErrorCode (sr_lib sv) message) (apiErrorText message) (rq_requestID rq)
              (us_account_status user)))))"

section \<open>Renewing and ending sessions\<close>

definition renewAccessToken :: "server \<Rightarrow> request \<Rightarrow> reply handler" where
  "renewAccessToken sv rq =
     (let invalidToken = replyM 401 (errorResponse sv rq ErrInvalidTokenApi);
          invalidSession = replyM 401 (errorResponse sv rq ErrInvalidSession);
          internal = replyM 500 (errorResponse sv rq ErrInternalServer);
          c = sr_crypto sv; m = sr_tokenMaker sv
      in if \<not> originAllowed sv rq then replyM 403 (errorResponse sv rq ErrForbidden)
         else case sessionCookie rq (cf_RefreshCookieName (sr_config sv)) of
           None \<Rightarrow> invalidToken
         | Some currentRefreshToken \<Rightarrow>
           (case sessionCookie rq (cf_DeviceCookieName (sr_config sv)) of
              None \<Rightarrow> bindM (clearSessionCookies sv) (\<lambda>_. invalidToken)
            | Some deviceToken \<Rightarrow>
              bindM (attempt (onStore (VerifyRefreshToken c m currentRefreshToken))) (\<lambda>v.
              case v of
                Inl e \<Rightarrow> bindM (clearSessionCookies sv) (\<lambda>_. invalidToken)
              | Inr refreshPayload \<Rightarrow>
                bindM (attempt (onStore (autocommit (GetSession (Some (pl_SessionID refreshPayload)))))) (\<lambda>g.
                case g of
                  Inl e \<Rightarrow> if errIs e ErrNoRows then bindM (clearSessionCookies sv) (\<lambda>_. invalidSession) else internal
                | Inr session \<Rightarrow>
                  bindM (attempt (onStore timeNow)) (\<lambda>t.
                  let remaining = (case t of Inr now \<Rightarrow> (se_expires_at session - now) * 1000 | Inl _ \<Rightarrow> 0)
                  in if se_revoked_at session \<noteq> None \<or> remaining \<le> 0
                     then bindM (clearSessionCookies sv) (\<lambda>_. invalidSession)
                     else bindM (attempt (onStore (CreateRefreshToken c m (pl_Username refreshPayload)
                            (pl_SessionID refreshPayload) remaining))) (\<lambda>f.
                     case f of
                       Inl e \<Rightarrow> internal
                     | Inr (newRefreshToken, newRefreshPayload) \<Rightarrow>
                       bindM (attempt (onStore (CreateAccessToken c m (pl_Username refreshPayload)
                            (pl_SessionID refreshPayload) (cf_AccessTokenDuration (sr_config sv))))) (\<lambda>k.
                       case k of
                         Inl e \<Rightarrow> internal
                       | Inr (accessToken, accessPayload) \<Rightarrow>
                         bindM (attempt (onStore (RotateRefreshTokenTx
                           \<lparr>rr_SessionID = Some (pl_SessionID refreshPayload), rr_Username = pl_Username refreshPayload,
                            rr_PresentedTokenHash = sha256 c currentRefreshToken,
                            rr_PresentedRefreshID = Some (pl_ID refreshPayload),
                            rr_PresentedDeviceHash = sha256 c deviceToken, rr_NewTokenHash = sha256 c newRefreshToken,
                            rr_NewRefreshID = Some (pl_ID newRefreshPayload)\<rparr>))) (\<lambda>x.
                         case x of
                           Inl e \<Rightarrow> bindM (clearSessionCookies sv) (\<lambda>_.
                             if errIs e ErrRefreshTokenReuse \<or> sessionRefused e then invalidSession else internal)
                         | Inr _ \<Rightarrow>
                           bindM (setRefreshCookie sv newRefreshToken (pl_ExpiresAt newRefreshPayload)) (\<lambda>_.
                           returnM \<lparr>rs_status = 200, rs_body = RenewedBody accessToken (pl_ExpiresAt accessPayload)\<rparr>)))))))))"

definition logoutCurrentSession :: "server \<Rightarrow> request \<Rightarrow> reply handler" where
  "logoutCurrentSession sv rq =
     (if \<not> originAllowed sv rq then replyM 403 (errorResponse sv rq ErrForbidden)
      else bindM (clearSessionCookies sv) (\<lambda>_.
      case (sessionCookie rq (cf_RefreshCookieName (sr_config sv)), sessionCookie rq (cf_DeviceCookieName (sr_config sv))) of
        (Some value, Some deviceToken) \<Rightarrow>
          bindM (attempt (onStore (VerifyRefreshToken (sr_crypto sv) (sr_tokenMaker sv) value))) (\<lambda>v.
          case v of
            Inl e \<Rightarrow> replyM 204 NoBody
          | Inr payload \<Rightarrow>
            bindM (attempt (onStore (RevokeSessionTx (Some (pl_SessionID payload)) (sha256 (sr_crypto sv) deviceToken)
               ''user_logout'' ''user''))) (\<lambda>x.
            case x of
              Inl e \<Rightarrow> if errIs e ErrDeviceMismatch then replyM 204 NoBody
                       else replyM 500 (errorResponse sv rq ErrInternalServer)
            | Inr _ \<Rightarrow> returnM \<lparr>rs_status = 204, rs_body = NoBody\<rparr>))
      | _ \<Rightarrow> replyM 204 NoBody))"

definition logoutAllSessions :: "server \<Rightarrow> request \<Rightarrow> Payload \<Rightarrow> reply handler" where
  "logoutAllSessions sv rq payload =
     bindM (attempt (onStore (RevokeAllUserSessionsTx (pl_Username payload) ''user_logout_all'' ''all_sessions_logged_out''))) (\<lambda>x.
     case x of
       Inl e \<Rightarrow> replyM 500 (errorResponse sv rq ErrInternalServer)
     | Inr _ \<Rightarrow> bindM (clearSessionCookies sv) (\<lambda>_. returnM \<lparr>rs_status = 204, rs_body = NoBody\<rparr>))"

end
