(* ===== verification/BankApi.thy ===== *)
theory BankApi
  imports Auth
begin

text \<open>
  The handlers for accounts, transfers and beneficiaries (\<open>api/account.go\<close>, \<open>api/transfer.go\<close>,
  \<open>api/beneficiary.go\<close>). They take the payload the authentication left in the context.
\<close>

section \<open>Accounts\<close>

definition newAccountResponse :: "Account \<Rightarrow> accountResponse" where
  "newAccountResponse a =
     \<lparr>ar_ID = uuidString (ac_public_id a), ar_AccountNumber = ac_account_number a, ar_Balance = ac_balance a,
      ar_Currency = ac_currency a, ar_Status = ac_status a, ar_CreatedAt = ac_created_at a,
      ar_UpdatedAt = ac_updated_at a, ar_ClosedAt = ac_closed_at a\<rparr>"

definition newAccountResponses :: "Account list \<Rightarrow> accountResponse list" where
  "newAccountResponses rows = map newAccountResponse rows"

definition parsePublicID :: "server \<Rightarrow> string \<Rightarrow> uuid option" where
  \<comment> \<open>\<open>None\<close> is an error.\<close>
  "parsePublicID sv value = (case uuidParse (sr_crypto sv) value of Inl _ \<Rightarrow> None | Inr u \<Rightarrow> Some u)"

text \<open>The driver's error inside an error, by \<open>errors.As\<close>, and its codes 23505 and 23503.\<close>

fun pgError :: "error \<Rightarrow> error option" where
  "pgError (WrapErr m e) = pgError e"
| "pgError (JoinErr a b) = (case pgError a of Some e \<Rightarrow> Some e | None \<Rightarrow> pgError b)"
| "pgError (PermanentError e) = pgError e"
| "pgError e = (if pgConstraint e = None then None else Some e)"

definition isUniqueViolation :: "error \<Rightarrow> bool" where
  "isUniqueViolation e = (case pgError e of Some (PgUnique c) \<Rightarrow> True | _ \<Rightarrow> False)"

definition isForeignKeyViolation :: "error \<Rightarrow> bool" where
  "isForeignKeyViolation e = (case pgError e of Some (PgForeignKey c) \<Rightarrow> True | _ \<Rightarrow> False)"

definition createAccount :: "server \<Rightarrow> request \<Rightarrow> Payload \<Rightarrow> string bound \<Rightarrow> reply handler" where
  \<comment> \<open>\<open>createAccountRequest\<close> is its currency.\<close>
  "createAccount sv rq payload b =
     bindM (bindJSON sv rq b) (\<lambda>currency.
     bindM (attempt (onStore (CreateAccountTx \<lparr>ca_Owner = pl_Username payload, ca_Currency = currency\<rparr>))) (\<lambda>r.
     case r of
       Inl e \<Rightarrow> if isForeignKeyViolation e \<or> isUniqueViolation e then replyM 409 (errorResponse sv rq ErrAccountAlreadyExists)
                else replyM 500 (errorResponse sv rq ErrInternalServer)
     | Inr account \<Rightarrow> returnM \<lparr>rs_status = 201, rs_body = AccountBody (newAccountResponse account)\<rparr>))"

definition accountNumberPattern :: "string \<Rightarrow> bool" where
  "accountNumberPattern v = (length v = 10 \<and> list_all isDigit v)"

definition writeRecipientNotFound :: "request \<Rightarrow> 'a handler" where
  "writeRecipientNotFound rq = replyM 404 (codedErrorResponse rq ''recipient_not_found'' ErrRecipientNotFoundApi)"

definition maskAccountNumber :: "string \<Rightarrow> string" where
  "maskAccountNumber n = (if length n \<le> 4 then n else replicate (length n - 4) (CHR ''*'') @ drop (length n - 4) n)"

definition maskSegment :: "string \<Rightarrow> string" where
  \<comment> \<open>The first rune and a star for each other; a rune that is not well-formed is written as U+FFFD.\<close>
  "maskSegment s =
     (let k = runeSize (map of_char s); n = runeCount s;
          first = (if k = 1 \<and> 128 \<le> (of_char (hd s) :: int) then map char_of [239, 191, 189 :: int] else take k s)
      in if 1 < n then first @ replicate (n - 1) (CHR ''*'') else s)"

definition maskName :: "string \<Rightarrow> string" where
  "maskName name = joinWith '' '' (map maskSegment (fieldsOf name))"

definition resolveRecipient :: "server \<Rightarrow> request \<Rightarrow> string bound \<Rightarrow> reply handler" where
  "resolveRecipient sv rq b =
     bindM (bindJSON sv rq b) (\<lambda>number.
     let accountNumber = trimSpace number
     in if \<not> accountNumberPattern accountNumber then writeRecipientNotFound rq
        else bindM (attempt (onStore (autocommit (ResolveReceivableAccount accountNumber)))) (\<lambda>r.
        case r of
          Inl e \<Rightarrow> if errIs e ErrNoRows then writeRecipientNotFound rq else replyM 500 (errorResponse sv rq ErrInternalServer)
        | Inr recipient \<Rightarrow> returnM \<lparr>rs_status = 200, rs_body = RecipientBody
            \<lparr>rp_AccountNumber = maskAccountNumber (rr_account_number recipient),
             rp_AccountName = maskName (rr_account_name recipient), rp_Currency = rr_currency recipient,
             rp_CanReceive = True\<rparr>\<rparr>))"

definition bindAccountPublicID :: "server \<Rightarrow> request \<Rightarrow> uuid handler" where
  \<comment> \<open>The parameter of the path is never empty: the route would not match.\<close>
  "bindAccountPublicID sv rq =
     (case parsePublicID sv (rq_param rq ''public_id'') of
        None \<Rightarrow> replyM 400 (errorResponse sv rq ErrInvalidAccountID)
      | Some u \<Rightarrow> returnM u)"

definition getAccount :: "server \<Rightarrow> request \<Rightarrow> Payload \<Rightarrow> reply handler" where
  "getAccount sv rq payload =
     bindM (bindAccountPublicID sv rq) (\<lambda>publicID.
     bindM (attempt (onStore (autocommit (GetOwnedAccountByPublicID (Some publicID) (pl_Username payload))))) (\<lambda>r.
     case r of
       Inl e \<Rightarrow> if errIs e ErrNoRows then replyM 404 (errorResponse sv rq ErrAccountNotFoundApi)
                else replyM 500 (errorResponse sv rq ErrInternalServer)
     | Inr account \<Rightarrow> returnM \<lparr>rs_status = 200, rs_body = AccountBody (newAccountResponse account)\<rparr>))"

definition wrap32 :: "int \<Rightarrow> int" where
  "wrap32 x = (x + 2 ^ 31) mod 2 ^ 32 - 2 ^ 31"

definition pageOffset :: "int \<Rightarrow> int \<Rightarrow> int" where
  \<comment> \<open>\<open>(req.PageID - 1) * req.PageSize\<close> in \<open>int32\<close>\<close>
  "pageOffset pageID pageSize = wrap32 ((pageID - 1) * pageSize)"

definition listAccount :: "server \<Rightarrow> request \<Rightarrow> Payload \<Rightarrow> (int \<times> int) bound \<Rightarrow> reply handler" where
  \<comment> \<open>\<open>listAccountRequest\<close> is the page's number and its size.\<close>
  "listAccount sv rq payload b =
     bindM (shouldBindQuery sv rq b) (\<lambda>(pageID, pageSize).
     bindM (attempt (onStore (autocommit (ListAccount (pl_Username payload) pageSize (pageOffset pageID pageSize))))) (\<lambda>r.
     case r of
       Inl e \<Rightarrow> replyM 500 (errorResponse sv rq ErrInternalServer)
     | Inr rows \<Rightarrow> returnM \<lparr>rs_status = 200, rs_body = AccountsBody (newAccountResponses rows)\<rparr>))"

definition closeAccount :: "server \<Rightarrow> request \<Rightarrow> Payload \<Rightarrow> reply handler" where
  "closeAccount sv rq payload =
     bindM (bindAccountPublicID sv rq) (\<lambda>publicID.
     bindM (attempt (onStore (CloseAccountTx \<lparr>cl_PublicID = Some publicID, cl_Username = pl_Username payload\<rparr>))) (\<lambda>r.
     case r of
       Inl e \<Rightarrow>
         if errIs e ErrAccountNotFound \<or> errIs e ErrAccountNotOwned then replyM 404 (errorResponse sv rq ErrAccountNotFoundApi)
         else if errIs e ErrAccountBalanceNotZero then replyM 409 (errorResponse sv rq ErrAccountBalanceNotZeroApi)
         else if errIs e ErrAccountClosed then replyM 409 (errorResponse sv rq ErrAccountAlreadyClosed)
         else replyM 500 (errorResponse sv rq ErrInternalServer)
     | Inr account \<Rightarrow> returnM \<lparr>rs_status = 200, rs_body = AccountBody (newAccountResponse account)\<rparr>))"

section \<open>Transfers\<close>

record transferRequest =
  tq_FromAccountID :: string
  tq_ToAccountNumber :: string
  tq_Amount :: int
  tq_Currency :: string
  tq_Narration :: string

definition idempotencyKeyPattern :: "string \<Rightarrow> bool" where
  "idempotencyKeyPattern v =
     (case v of [] \<Rightarrow> False | c # cs \<Rightarrow>
        identityChar c \<and> \<not> List.member ''._:-'' c \<and> list_all identityChar cs \<and> length cs \<le> 127)"

definition newBankingTransactionResponse :: "BankingTransaction \<Rightarrow> bankingTransactionResponse" where
  "newBankingTransactionResponse t =
     \<lparr>br_ID = uuidString (bt_id t), br_Reference = bt_reference t, br_TransactionType = bt_transaction_type t,
      br_Status = bt_status t, br_Currency = bt_currency t, br_Amount = bt_amount t, br_Narration = bt_narration t,
      br_CreatedAt = bt_created_at t, br_PostedAt = bt_posted_at t\<rparr>"

definition hashTransferRequest :: "server \<Rightarrow> transferRequest \<Rightarrow> uuid \<Rightarrow> string \<Rightarrow> string" where
  \<comment> \<open>The hash of the request's JSON, after normalisation\<close>
  "hashTransferRequest sv req fromPublicID toAccountNumber =
     sha256 (sr_crypto sv) (sr_marshal sv (JObj
       [(''from_account_id'', JStr (uuidString fromPublicID)), (''to_account_number'', JStr toAccountNumber),
        (''amount'', JInt (tq_Amount req)), (''currency'', JStr (tq_Currency req)),
        (''narration'', JStr (trimSpace (tq_Narration req)))]))"

definition transferErrorReply :: "server \<Rightarrow> request \<Rightarrow> error \<Rightarrow> 'a handler" where
  "transferErrorReply sv rq e =
     (if errIs e ErrIdempotencyConflict then replyM 409 (codedErrorResponse rq ''idempotency_conflict'' ErrIdempotencyConflictApi)
      else if errIs e ErrAccountNotFound \<or> errIs e ErrAccountNotOwned
        then replyM 404 (codedErrorResponse rq ''account_not_found'' ErrAccountNotFoundApi)
      else if errIs e ErrRecipientNotFound then writeRecipientNotFound rq
      else if errIs e ErrInsufficientBalance then replyM 400 (codedErrorResponse rq ''insufficient_funds'' ErrInsufficientBalanceApi)
      else if errIs e ErrCurrencyMismatch then replyM 400 (codedErrorResponse rq ''currency_mismatch'' ErrCurrencyMismatchApi)
      else if errIs e ErrSameAccount then replyM 400 (codedErrorResponse rq ''same_account'' ErrSameAccountApi)
      else if errIs e ErrAccountFrozen then replyM 409 (codedErrorResponse rq ''account_frozen'' ErrAccountFrozenApi)
      else if errIs e ErrAccountClosed then replyM 409 (codedErrorResponse rq ''account_closed'' ErrAccountClosedApi)
      else if errIs e ErrPerTransferLimitExceeded
        then replyM 409 (codedErrorResponse rq ''per_transfer_limit_exceeded'' ErrPerTransferLimitExceededApi)
      else if errIs e ErrDailyTransferLimitExceeded
        then replyM 409 (codedErrorResponse rq ''daily_transfer_limit_exceeded'' ErrDailyTransferLimitExceededApi)
      else replyM 500 (errorResponse sv rq ErrTransferFailed))"

definition createTransfer :: "server \<Rightarrow> request \<Rightarrow> Payload \<Rightarrow> transferRequest bound \<Rightarrow> reply handler" where
  "createTransfer sv rq payload b =
     (let idempotencyKey = rq_header rq ''Idempotency-Key''
      in if idempotencyKey = '''' then replyM 400 (errorResponse sv rq ErrIdempotencyKeyRequired)
         else if \<not> idempotencyKeyPattern idempotencyKey then replyM 400 (errorResponse sv rq ErrInvalidIdempotencyKeyApi)
         else bindM (bindJSON sv rq b) (\<lambda>req.
         case parsePublicID sv (tq_FromAccountID req) of
           None \<Rightarrow> replyM 400 (errorResponse sv rq ErrInvalidAccountID)
         | Some fromPublicID \<Rightarrow>
           let toAccountNumber = trimSpace (tq_ToAccountNumber req)
           in if \<not> accountNumberPattern toAccountNumber then writeRecipientNotFound rq
              else bindM (correlationID rq) (\<lambda>correlation.
              bindM (attempt (onStore (IdempotentTransferTx
                \<lparr>it_TransferTxParams =
                   \<lparr>tp_FromAccountPublicID = Some fromPublicID, tp_ToAccountNumber = toAccountNumber,
                    tp_Amount = tq_Amount req, tp_Currency = tq_Currency req, tp_Username = pl_Username payload,
                    tp_Narration = trimSpace (tq_Narration req), tp_CorrelationID = Some correlation\<rparr>,
                 it_IdempotencyKey = idempotencyKey,
                 it_RequestHash = hashTransferRequest sv req fromPublicID toAccountNumber\<rparr>))) (\<lambda>r.
              case r of
                Inl e \<Rightarrow> transferErrorReply sv rq e
              | Inr result \<Rightarrow>
                bindM (setHeader ''Idempotency-Replayed'' (if tr_Replayed result then ''true'' else ''false'')) (\<lambda>_.
                returnM \<lparr>rs_status = 201, rs_body = TransferBody
                  \<lparr>fr_Transaction = newBankingTransactionResponse (tr_Transaction result),
                   fr_FromAccount = newAccountResponse (tr_FromAccount result),
                   fr_ToAccount = (maskAccountNumber (ac_account_number (tr_ToAccount result)), ac_currency (tr_ToAccount result)),
                   fr_Fee = 0\<rparr>\<rparr>)))))"

section \<open>Beneficiaries\<close>

definition canAccountReceive :: "string \<Rightarrow> bool" where
  "canAccountReceive status = (status = FinancialAccountStatusActive \<or> status = FinancialAccountStatusFrozen)"

definition bindBeneficiaryID :: "server \<Rightarrow> request \<Rightarrow> uuid handler" where
  "bindBeneficiaryID sv rq =
     (case uuidParse (sr_crypto sv) (rq_param rq ''id'') of
        Inl _ \<Rightarrow> replyM 400 (errorResponse sv rq ErrInvalidBeneficiaryID)
      | Inr u \<Rightarrow> returnM u)"

definition normalizedBeneficiaryNickname :: "server \<Rightarrow> request \<Rightarrow> string \<Rightarrow> string handler" where
  "normalizedBeneficiaryNickname sv rq value =
     (let v = trimSpace value
      in if v = '''' \<or> 50 < runeCount v then replyM 400 (errorResponse sv rq ErrInvalidBeneficiaryNickname) else returnM v)"

definition newBeneficiaryResponse :: "ListOwnedBeneficiariesRow \<Rightarrow> beneficiaryResponse" where
  "newBeneficiaryResponse row =
     \<lparr>bf_ID = uuidString (lb_id row), bf_Nickname = lb_nickname row,
      bf_DestinationAccountNumber = maskAccountNumber (lb_destination_account_number row), bf_Currency = lb_currency row,
      bf_CanReceive = canAccountReceive (lb_destination_account_status row),
      bf_CreatedAt = lb_created_at row, bf_UpdatedAt = lb_updated_at row\<rparr>"

definition createBeneficiary :: "server \<Rightarrow> request \<Rightarrow> Payload \<Rightarrow> (string \<times> string) bound \<Rightarrow> reply handler" where
  \<comment> \<open>\<open>createBeneficiaryRequest\<close> is the account number and the nickname.\<close>
  "createBeneficiary sv rq payload b =
     bindM (bindJSON sv rq b) (\<lambda>(number, name).
     bindM (normalizedBeneficiaryNickname sv rq name) (\<lambda>nickname.
     let destinationAccountNumber = trimSpace number
     in if \<not> accountNumberPattern destinationAccountNumber then writeRecipientNotFound rq
        else bindM (attempt (onStore (CreateBeneficiaryTx
          \<lparr>cb_Owner = pl_Username payload, cb_DestinationAccountNumber = destinationAccountNumber, cb_Nickname = nickname\<rparr>))) (\<lambda>r.
        case r of
          Inl e \<Rightarrow>
            if errIs e ErrAccountNotFound then writeRecipientNotFound rq
            else if errIs e ErrAccountClosed then replyM 409 (codedErrorResponse rq ''account_closed'' ErrAccountClosedApi)
            else if errIs e ErrBeneficiaryAlreadyExists
              then replyM 409 (codedErrorResponse rq ''beneficiary_already_exists'' ErrBeneficiaryAlreadyExistsApi)
            else replyM 500 (errorResponse sv rq ErrInternalServer)
        | Inr result \<Rightarrow> returnM \<lparr>rs_status = 201, rs_body = BeneficiaryBody
            \<lparr>bf_ID = uuidString (be_id (cr_Beneficiary result)), bf_Nickname = be_nickname (cr_Beneficiary result),
             bf_DestinationAccountNumber = maskAccountNumber (ac_account_number (cr_DestinationAccount result)),
             bf_Currency = ac_currency (cr_DestinationAccount result),
             bf_CanReceive = canAccountReceive (ac_status (cr_DestinationAccount result)),
             bf_CreatedAt = be_created_at (cr_Beneficiary result), bf_UpdatedAt = be_updated_at (cr_Beneficiary result)\<rparr>\<rparr>)))"

definition listBeneficiaries :: "server \<Rightarrow> request \<Rightarrow> Payload \<Rightarrow> (int \<times> int) bound \<Rightarrow> reply handler" where
  "listBeneficiaries sv rq payload b =
     bindM (shouldBindQuery sv rq b) (\<lambda>(page, size).
     let pageID = (if page = 0 then 1 else page); pageSize = (if size = 0 then 20 else size)
     in bindM (attempt (onStore (autocommit (ListOwnedBeneficiaries (pl_Username payload) pageSize (pageOffset pageID pageSize))))) (\<lambda>r.
        case r of
          Inl e \<Rightarrow> replyM 500 (errorResponse sv rq ErrInternalServer)
        | Inr rows \<Rightarrow> returnM \<lparr>rs_status = 200, rs_body = BeneficiariesBody (map newBeneficiaryResponse rows)\<rparr>))"

definition updateBeneficiary :: "server \<Rightarrow> request \<Rightarrow> Payload \<Rightarrow> string bound \<Rightarrow> reply handler" where
  "updateBeneficiary sv rq payload b =
     bindM (bindBeneficiaryID sv rq) (\<lambda>beneficiaryID.
     bindM (bindJSON sv rq b) (\<lambda>name.
     bindM (normalizedBeneficiaryNickname sv rq name) (\<lambda>nickname.
     bindM (attempt (onStore (autocommit (UpdateOwnedBeneficiaryNickname nickname (Some beneficiaryID) (pl_Username payload))))) (\<lambda>r.
     case r of
       Inl e \<Rightarrow> if errIs e ErrNoRows then replyM 404 (errorResponse sv rq ErrBeneficiaryNotFound)
                else replyM 500 (errorResponse sv rq ErrInternalServer)
     | Inr row \<Rightarrow> returnM \<lparr>rs_status = 200, rs_body = BeneficiaryBody (newBeneficiaryResponse row)\<rparr>))))"

definition deleteBeneficiary :: "server \<Rightarrow> request \<Rightarrow> Payload \<Rightarrow> reply handler" where
  "deleteBeneficiary sv rq payload =
     bindM (bindBeneficiaryID sv rq) (\<lambda>beneficiaryID.
     bindM (attempt (onStore (autocommit (DeleteOwnedBeneficiary (Some beneficiaryID) (pl_Username payload))))) (\<lambda>r.
     case r of
       Inl e \<Rightarrow> replyM 500 (errorResponse sv rq ErrInternalServer)
     | Inr deleted \<Rightarrow> if deleted = 0 then replyM 404 (errorResponse sv rq ErrBeneficiaryNotFound)
                     else returnM \<lparr>rs_status = 204, rs_body = NoBody\<rparr>))"

end
