(* ===== verification/HistoryApi.thy ===== *)
theory HistoryApi
  imports BankApi
begin

text \<open>
  The handlers for transactions, statements and money movement (\<open>api/transaction_history.go\<close>), with
  their date ranges, cursors and pages.
\<close>

section \<open>Cursors\<close>

definition cursorJSON :: "time \<Rightarrow> uuid \<Rightarrow> json" where
  "cursorJSON createdAt i = JObj [(''created_at'', JTime createdAt), (''id'', JUuid i)]"

definition encodeTransactionCursor :: "server \<Rightarrow> time \<Rightarrow> uuid \<Rightarrow> string" where
  "encodeTransactionCursor sv createdAt i = encodeToString (sr_marshal sv (cursorJSON createdAt i))"

definition decodeTransactionCursor :: "server \<Rightarrow> string \<Rightarrow> (time option \<times> uuid option) option" where
  \<comment> \<open>\<open>None\<close> is an error; no cursor is the pair of NULLs.\<close>
  "decodeTransactionCursor sv value =
     (if value = '''' then Some (None, None)
      else case decodeString value of
        None \<Rightarrow> None
      | Some payload \<Rightarrow>
        (case sr_unmarshalCursor sv payload of
           None \<Rightarrow> None
         | Some (createdAt, i) \<Rightarrow> if createdAt = goZeroTime \<or> i = 0 then None else Some (Some createdAt, Some i)))"

section \<open>Date ranges\<close>

definition parseTransactionBoundary :: "golib \<Rightarrow> string \<Rightarrow> bool \<Rightarrow> time option option" where
  \<comment> \<open>The outer \<open>None\<close> is an error, the inner one an absent boundary.\<close>
  "parseTransactionBoundary g value endOfDate =
     (if value = '''' then Some None
      else case gl_ParseDate g value of
        Some day \<Rightarrow> Some (Some (if endOfDate then day + dayMicros else day))
      | None \<Rightarrow> (case gl_ParseRFC3339 g value of None \<Rightarrow> None | Some t \<Rightarrow> Some (Some t)))"

definition parseTransactionDateRange :: "golib \<Rightarrow> string \<Rightarrow> string \<Rightarrow> (time option \<times> time option) option" where
  "parseTransactionDateRange g fromValue toValue =
     (case parseTransactionBoundary g fromValue False of
        None \<Rightarrow> None
      | Some f \<Rightarrow>
        (case parseTransactionBoundary g toValue True of
           None \<Rightarrow> None
         | Some t \<Rightarrow> if f \<noteq> None \<and> t \<noteq> None \<and> \<not> before f t then None else Some (f, t)))"

definition optionalText :: "string \<Rightarrow> string option" where
  "optionalText value = (if value = '''' then None else Some value)"

section \<open>Pages\<close>

definition publicCounterpartyType :: "string \<Rightarrow> string" where
  "publicCounterpartyType kind = (if kind = ''settlement'' then ''system'' else kind)"

definition transactionResponseFromList :: "ListOwnedAccountTransactionsRow \<Rightarrow> uuid \<Rightarrow> transactionResponse" where
  "transactionResponseFromList row accountPublicID =
     \<lparr>xr_ID = uuidString (tx_id row), xr_Reference = tx_reference row, xr_AccountID = uuidString accountPublicID,
      xr_Type = tx_transaction_type row, xr_Status = tx_status row, xr_Currency = tx_currency row,
      xr_Amount = tx_amount row, xr_Direction = tx_direction row, xr_Narration = tx_narration row,
      xr_CounterpartyType = publicCounterpartyType (tx_counterparty_kind row),
      xr_Counterparty = orElse (tx_counterparty row) '''', xr_BalanceAfter = Some (tx_balance_after row),
      xr_CreatedAt = tx_created_at row, xr_PostedAt = tx_posted_at row\<rparr>"

definition transactionResponseFromDetail :: "GetOwnedTransactionByReferenceRow \<Rightarrow> transactionResponse" where
  "transactionResponseFromDetail row =
     \<lparr>xr_ID = uuidString (tx_id row), xr_Reference = tx_reference row,
      xr_AccountID = uuidString (ot_account_public_id row), xr_Type = tx_transaction_type row, xr_Status = tx_status row,
      xr_Currency = tx_currency row, xr_Amount = tx_amount row, xr_Direction = tx_direction row,
      xr_Narration = tx_narration row, xr_CounterpartyType = publicCounterpartyType (tx_counterparty_kind row),
      xr_Counterparty = orElse (tx_counterparty row) '''', xr_BalanceAfter = None,
      xr_CreatedAt = tx_created_at row, xr_PostedAt = tx_posted_at row\<rparr>"

definition transactionPage ::
  "server \<Rightarrow> ListOwnedAccountTransactionsRow list \<Rightarrow> int \<Rightarrow> uuid \<Rightarrow> transactionResponse list \<times> string" where
  "transactionPage sv rows pageSize accountPublicID =
     (let hasNextPage = (pageSize < int (length rows));
          shown = (if hasNextPage then take (nat pageSize) rows else rows);
          transactions = map (\<lambda>row. transactionResponseFromList row accountPublicID) shown
      in if \<not> hasNextPage \<or> shown = [] then (transactions, '''')
         else (transactions, encodeTransactionCursor sv (tx_created_at (last shown)) (tx_id (last shown))))"

section \<open>The handlers\<close>

record transactionHistoryQuery =
  hq_Cursor :: string
  hq_PageSize :: int
  hq_From :: string
  hq_To :: string
  hq_Type :: string
  hq_Status :: string
  hq_Direction :: string

definition bindTransactionHistoryRequest :: "server \<Rightarrow> request \<Rightarrow> Payload \<Rightarrow> transactionHistoryQuery bound \<Rightarrow>
    (Account \<times> transactionHistoryQuery \<times> ListOwnedAccountTransactionsParams) handler" where
  "bindTransactionHistoryRequest sv rq payload b =
     bindM (shouldBindQuery sv rq b) (\<lambda>q.
     let query = (if hq_PageSize q = 0 then q\<lparr>hq_PageSize := 20\<rparr> else q)
     in bindM (bindAccountPublicID sv rq) (\<lambda>publicID.
        case parseTransactionDateRange (sr_lib sv) (hq_From query) (hq_To query) of
          None \<Rightarrow> replyM 400 (errorResponse sv rq ErrInvalidDateRange)
        | Some (fromTime, toTime) \<Rightarrow>
          (case decodeTransactionCursor sv (hq_Cursor query) of
             None \<Rightarrow> replyM 400 (errorResponse sv rq ErrInvalidCursor)
           | Some (cursorTime, cursorID) \<Rightarrow>
             bindM (attempt (onStore (autocommit (GetOwnedAccountByPublicID (Some publicID) (pl_Username payload))))) (\<lambda>r.
             case r of
               Inl e \<Rightarrow> if errIs e ErrNoRows then replyM 404 (errorResponse sv rq ErrAccountNotFoundApi)
                        else replyM 500 (errorResponse sv rq ErrInternalServer)
             | Inr account \<Rightarrow>
               returnM (account, query,
                 \<lparr>lt_PageLimit = wrap32 (hq_PageSize query + 1), lt_AccountPublicID = Some publicID,
                  lt_Username = pl_Username payload, lt_FromTime = fromTime, lt_ToTime = toTime,
                  lt_TransactionType = optionalText (hq_Type query), lt_TransactionStatus = optionalText (hq_Status query),
                  lt_Direction = optionalText (hq_Direction query), lt_CursorCreatedAt = cursorTime,
                  lt_CursorID = cursorID\<rparr>)))))"

definition getTransaction :: "server \<Rightarrow> request \<Rightarrow> Payload \<Rightarrow> reply handler" where
  "getTransaction sv rq payload =
     (let reference = trimSpace (rq_param rq ''reference'')
      in if reference = '''' then replyM 400 (errorResponse sv rq ErrTransactionNotFoundApi)
         else bindM (attempt (onStore (autocommit (GetOwnedTransactionByReference (pl_Username payload) reference)))) (\<lambda>r.
         case r of
           Inl e \<Rightarrow> if errIs e ErrNoRows then replyM 404 (errorResponse sv rq ErrTransactionNotFoundApi)
                    else replyM 500 (errorResponse sv rq ErrInternalServer)
         | Inr row \<Rightarrow> returnM \<lparr>rs_status = 200, rs_body = TransactionBody (transactionResponseFromDetail row)\<rparr>))"

definition listAccountTransactions :: "server \<Rightarrow> request \<Rightarrow> Payload \<Rightarrow> transactionHistoryQuery bound \<Rightarrow> reply handler" where
  "listAccountTransactions sv rq payload b =
     bindM (bindTransactionHistoryRequest sv rq payload b) (\<lambda>(account, query, params).
     bindM (attempt (onStore (autocommit (ListOwnedAccountTransactions params)))) (\<lambda>r.
     case r of
       Inl e \<Rightarrow> replyM 500 (errorResponse sv rq ErrInternalServer)
     | Inr rows \<Rightarrow>
       (case transactionPage sv rows (hq_PageSize query) (ac_public_id account) of (transactions, nextCursor) \<Rightarrow>
          returnM \<lparr>rs_status = 200, rs_body = HistoryBody \<lparr>hr_Transactions = transactions, hr_NextCursor = nextCursor\<rparr>\<rparr>)))"

definition getAccountStatement :: "server \<Rightarrow> request \<Rightarrow> Payload \<Rightarrow> transactionHistoryQuery bound \<Rightarrow> reply handler" where
  "getAccountStatement sv rq payload b =
     bindM (bindTransactionHistoryRequest sv rq payload b) (\<lambda>(account, query, params).
     bindM (attempt (onStore (autocommit (ListOwnedAccountTransactions params)))) (\<lambda>r.
     case r of
       Inl e \<Rightarrow> replyM 500 (errorResponse sv rq ErrInternalServer)
     | Inr rows \<Rightarrow>
       bindM (attempt (onStore (autocommit (GetOwnedAccountStatementBalances (lt_FromTime params) (lt_ToTime params)
          (lt_AccountPublicID params) (lt_Username params))))) (\<lambda>v.
       case v of
         Inl e \<Rightarrow> replyM 500 (errorResponse sv rq ErrInternalServer)
       | Inr (opening, closing) \<Rightarrow>
         (case transactionPage sv rows (hq_PageSize query) (ac_public_id account) of (transactions, nextCursor) \<Rightarrow>
            returnM \<lparr>rs_status = 200, rs_body = StatementBody
              \<lparr>sr_AccountID = uuidString (ac_public_id account), sr_Currency = ac_currency account,
               sr_From = lt_FromTime params, sr_To = lt_ToTime params, sr_OpeningBalance = opening,
               sr_ClosingBalance = closing, sr_Transactions = transactions, sr_NextCursor = nextCursor\<rparr>\<rparr>))))"

definition maxMoneyMovementRange :: int where
  "maxMoneyMovementRange = 366 * dayMicros"

definition getAccountMoneyMovement :: "server \<Rightarrow> request \<Rightarrow> Payload \<Rightarrow> (string \<times> string \<times> string) bound \<Rightarrow> reply handler" where
  \<comment> \<open>\<open>moneyMovementQuery\<close> is the two dates and the interval.\<close>
  "getAccountMoneyMovement sv rq payload b =
     bindM (shouldBindQuery sv rq b) (\<lambda>(fromValue, toValue, interval).
     case parseTransactionDateRange (sr_lib sv) fromValue toValue of
       Some (Some fromTime, Some toTime) \<Rightarrow>
         if maxMoneyMovementRange < toTime - fromTime then replyM 400 (errorResponse sv rq ErrInvalidDateRange)
         else bindM (bindAccountPublicID sv rq) (\<lambda>publicID.
         bindM (attempt (onStore (autocommit (GetOwnedAccountByPublicID (Some publicID) (pl_Username payload))))) (\<lambda>r.
         case r of
           Inl e \<Rightarrow> if errIs e ErrNoRows then replyM 404 (errorResponse sv rq ErrAccountNotFoundApi)
                    else replyM 500 (errorResponse sv rq ErrInternalServer)
         | Inr account \<Rightarrow>
           bindM (attempt (onStore (autocommit (GetOwnedAccountMoneyMovement (sr_zone sv) (Some publicID) (pl_Username payload)
              interval (Some fromTime) (Some toTime))))) (\<lambda>v.
           case v of
             Inl e \<Rightarrow> replyM 500 (errorResponse sv rq ErrInternalServer)
           | Inr rows \<Rightarrow> returnM \<lparr>rs_status = 200, rs_body = MovementBody
               \<lparr>mm_AccountID = uuidString (ac_public_id account), mm_Currency = ac_currency account, mm_From = fromTime,
                mm_To = toTime, mm_Interval = interval, mm_MoneyIn = foldl go_add 0 (map mv_incoming rows),
                mm_MoneyOut = foldl go_add 0 (map mv_outgoing rows), mm_Buckets = rows\<rparr>\<rparr>)))
     | _ \<Rightarrow> replyM 400 (errorResponse sv rq ErrInvalidDateRange))"

section \<open>Cursors come back\<close>

lemma cursor_roundtrip:
  assumes "sr_unmarshalCursor sv (sr_marshal sv (cursorJSON t i)) = Some (t, i)" "sr_marshal sv (cursorJSON t i) \<noteq> ''''"
    and "t \<noteq> goZeroTime" "i \<noteq> 0"
  shows "decodeTransactionCursor sv (encodeTransactionCursor sv t i) = Some (Some t, Some i)"
proof -
  have "encodeToString '''' = ''''"
    by (simp add: encodeToString_def)
  then have "encodeToString (sr_marshal sv (cursorJSON t i)) \<noteq> ''''"
    using assms(2) encode_inject by metis
  then show ?thesis
    using assms by (simp add: decodeTransactionCursor_def encodeTransactionCursor_def)
qed

end
