(* ===== verification/UserApi.thy ===== *)
theory UserApi
  imports BankApi
begin

text \<open>
  The handlers for users: sign-up, login, profile, email status and verification (\<open>api/user.go\<close>,
  \<open>api/email_verification_page.go\<close>), and the password policy in front of them.
\<close>

section \<open>Passwords\<close>

definition dummyPasswordHash :: string where
  "dummyPasswordHash = ''$2y$10$.YHQ0/Sslk.qBO8PUSiEyuvsGeHK9Mcjl4kEu2sW88rEcAp1WMFDK''"

definition checkBreached :: "server \<Rightarrow> string \<Rightarrow> bool service" where
  \<comment> \<open>\<open>passwordBreachChecker.IsCompromised\<close>; without a checker no password is known.\<close>
  "checkBreached sv password =
     (case sr_range sv of
        None \<Rightarrow> returnM False
      | Some get \<Rightarrow>
        bindM (onStore timeNow) (\<lambda>now.
        bindM (onStore timeNow) (\<lambda>later.
        \<lambda>a. case IsCompromised (sr_sha1 sv) (fetch (\<lambda>key. get key a) (sr_showInt sv)) password now later (ap_checker a) of
             (r, c) \<Rightarrow> (r, a\<lparr>ap_checker := c\<rparr>))))"

definition acceptNewPassword :: "server \<Rightarrow> request \<Rightarrow> string \<Rightarrow> unit handler" where
  "acceptNewPassword sv rq password =
     (if \<not> validateNewPassword password then replyM 400 (errorResponse sv rq ErrInvalidPasswordLength)
      else bindM (attempt (checkBreached sv password)) (\<lambda>r.
      case r of
        Inl e \<Rightarrow> replyM 503 (codedErrorResponse rq ''password_breach_check_unavailable'' ErrPasswordCheckUnavailable)
      | Inr compromised \<Rightarrow>
          if compromised then replyM 400 (codedErrorResponse rq ''password_compromised'' ErrPasswordCompromised)
          else returnM ()))"

section \<open>Sign-up\<close>

record createUserRequest =
  cq_Username :: string
  cq_Password :: string
  cq_FullName :: string
  cq_Email :: string

definition newUserResponse :: "User \<Rightarrow> userResponse" where
  "newUserResponse u =
     \<lparr>us'_Username = us_username u, us'_FullName = us_full_name u, us'_Email = us_email u,
      us'_EmailVerifiedAt = us_email_verified_at u, us'_EmailDeliverabilityStatus = us_email_deliverability_status u,
      us'_EmailBouncedAt = us_email_bounced_at u, us'_AccountStatus = us_account_status u,
      us'_RegistrationExpiresAt = us_registration_expires_at u, us'_PasswordChangedAt = us_password_changed_at u,
      us'_CreatedAt = us_created_at u\<rparr>"

definition getCurrentUser :: "server \<Rightarrow> request \<Rightarrow> Payload \<Rightarrow> reply handler" where
  "getCurrentUser sv rq payload =
     bindM (attempt (onStore (autocommit (GetUser (pl_Username payload))))) (\<lambda>r.
     case r of
       Inl e \<Rightarrow> if errIs e ErrNoRows then replyM 401 (errorResponse sv rq ErrUnauthorized)
                else replyM 500 (errorResponse sv rq ErrInternalServer)
     | Inr user \<Rightarrow> returnM \<lparr>rs_status = 200, rs_body = UserBody (newUserResponse user)\<rparr>)"

definition validFullName :: "string \<Rightarrow> bool" where
  "validFullName fullName \<longleftrightarrow> \<not> (runeCount fullName < 1 \<or> 100 < runeCount fullName)"

definition uniqueOn :: "error \<Rightarrow> string list \<Rightarrow> bool" where
  \<comment> \<open>A unique violation (code 23505) of one of the constraints\<close>
  "uniqueOn e names = (case pgError e of Some (PgUnique c) \<Rightarrow> List.member names c | _ \<Rightarrow> False)"

definition CreateUserHandler :: "server \<Rightarrow> request \<Rightarrow> createUserRequest bound \<Rightarrow> reply handler" where
  "CreateUserHandler sv rq b =
     bindM (bindJSON sv rq b) (\<lambda>req.
     let fullName = trimSpace (cq_FullName req)
     in if \<not> validFullName fullName then replyM 400 (errorResponse sv rq ErrInvalidFullName)
        else bindM (acceptNewPassword sv rq (cq_Password req)) (\<lambda>_.
        bindM (readM (sr_bcryptHash sv (cq_Password req))) (\<lambda>h.
        case h of
          Inl e \<Rightarrow> replyM 500 (errorResponse sv rq ErrInternalServer)
        | Inr hashedPassword \<Rightarrow>
          bindM (attempt (onStore (CreateUserTx
            \<lparr>cu_Username = gl_ToLower (sr_lib sv) (trimSpace (cq_Username req)), cu_HashedPassword = hashedPassword,
             cu_FullName = fullName, cu_Email = gl_ToLower (sr_lib sv) (trimSpace (cq_Email req))\<rparr>))) (\<lambda>r.
          case r of
            Inl e \<Rightarrow>
              if uniqueOn e [''users_pkey''] then replyM 403 (errorResponse sv rq ErrUsernameAlreadyExists)
              else if uniqueOn e [''users_email_lower_idx'', ''users_email_key'']
                then replyM 403 (errorResponse sv rq ErrEmailAlreadyExists)
              else replyM 500 (errorResponse sv rq ErrInternalServer)
          | Inr result \<Rightarrow> returnM \<lparr>rs_status = 201, rs_body = UserBody (newUserResponse (ur_User result))\<rparr>))))"

section \<open>Login\<close>

definition privateSecurityValue :: "server \<Rightarrow> string \<Rightarrow> string \<Rightarrow> string" where
  "privateSecurityValue sv label value =
     hexOfBytes (hmacSha256 (sr_crypto sv) (cf_SecretKey (sr_config sv)) (label @ [CHR 0x00] @ value))"

text \<open>
  \<open>boundedString\<close> cuts a text to a number of bytes at a rune's boundary, after invalid bytes were dropped.
\<close>

function validRunes :: "string \<Rightarrow> string" where
  \<comment> \<open>\<open>strings.ToValidUTF8(value, "")\<close>\<close>
  "validRunes s =
     (if s = [] then []
      else let k = runeSize (map of_char s)
           in (if k = 1 \<and> 128 \<le> (of_char (hd s) :: int) then [] else take k s) @ validRunes (drop k s))"
  by pat_completeness auto
termination
proof (relation "measure length")
  fix s :: string and x
  assume "s \<noteq> []" "x = runeSize (map of_char s)"
  then show "(drop x s, s) \<in> measure length"
    using runeSize_pos [of "map of_char s"] by (cases s) auto
qed simp

declare validRunes.simps [simp del]

fun cutValid :: "nat \<Rightarrow> string \<Rightarrow> string" where
  "cutValid 0 value = []"
| "cutValid (Suc n) value = (if validRunes (take (Suc n) value) = take (Suc n) value then take (Suc n) value else cutValid n value)"

definition boundedString :: "string \<Rightarrow> nat \<Rightarrow> string" where
  "boundedString s maxBytes =
     (let value = validRunes s in if length value \<le> maxBytes then value else cutValid maxBytes value)"

definition recordLoginFailure :: "server \<Rightarrow> request \<Rightarrow> string \<Rightarrow> string \<Rightarrow> unit handler" where
  \<comment> \<open>A failure to record is only logged.\<close>
  "recordLoginFailure sv rq username reason =
     bindM (attempt (onStore (RecordLoginFailure
       \<lparr>lf_Username = username, lf_ClientIP = privateSecurityValue sv ''client-ip'' (rq_clientIP rq),
        lf_UserAgent = privateSecurityValue sv ''user-agent'' (boundedString (rq_userAgent rq) 512),
        lf_Reason = reason\<rparr>))) (\<lambda>_. returnM ())"

definition orReset :: "server \<Rightarrow> string \<Rightarrow> 'a handler \<Rightarrow> 'a handler" where
  \<comment> \<open>The deferred call: a login that did not fail its credentials gives the attempt back.\<close>
  "orReset sv key m a =
     (case m a of (r, b) \<Rightarrow> (case resetRateLimit sv ''login_account'' key b of (_, c) \<Rightarrow> (r, c)))"

definition startSession :: "server \<Rightarrow> request \<Rightarrow> User \<Rightarrow> reply handler" where
  \<comment> \<open>The end of \<open>loginUser\<close>, once the password was checked\<close>
  "startSession sv rq user =
     (let internal = replyM 500 (errorResponse sv rq ErrInternalServer); c = sr_crypto sv; m = sr_tokenMaker sv
      in bindM (attempt (onStore nextUUID)) (\<lambda>i.
         let sessionUUID = (case i of Inr u \<Rightarrow> u | Inl _ \<Rightarrow> 0)
         in bindM (attempt (onStore (CreateRefreshToken c m (us_username user) sessionUUID
               (cf_RefreshTokenDuration (sr_config sv))))) (\<lambda>f.
            case f of
              Inl e \<Rightarrow> internal
            | Inr (refreshToken, refreshPayload) \<Rightarrow>
              bindM (attempt (onStore (CreateAccessToken c m (us_username user) sessionUUID
                 (cf_AccessTokenDuration (sr_config sv))))) (\<lambda>k.
              case k of
                Inl e \<Rightarrow> internal
              | Inr (accessToken, accessPayload) \<Rightarrow>
                bindM (attempt (onStore (NewDeviceSecret c))) (\<lambda>d.
                case d of
                  Inl e \<Rightarrow> internal
                | Inr deviceSecret \<Rightarrow>
                  bindM (attempt (onStore (CreateExclusiveSessionTx
                    \<lparr>cs_ID = Some sessionUUID, cs_Username = pl_Username refreshPayload,
                     cs_RefreshTokenHash = sha256 c refreshToken, cs_RefreshTokenID = Some (pl_ID refreshPayload),
                     cs_DeviceTokenHash = sha256 c deviceSecret,
                     cs_UserAgent = privateSecurityValue sv ''user-agent'' (boundedString (rq_userAgent rq) 512),
                     cs_ClientIp = privateSecurityValue sv ''client-ip'' (rq_clientIP rq),
                     cs_ExpiresAt = Some (pl_ExpiresAt refreshPayload)\<rparr>))) (\<lambda>x.
                  case x of
                    Inl e \<Rightarrow> internal
                  | Inr _ \<Rightarrow>
                    bindM (setRefreshCookie sv refreshToken (pl_ExpiresAt refreshPayload)) (\<lambda>_.
                    bindM (setDeviceCookie sv deviceSecret (pl_ExpiresAt refreshPayload)) (\<lambda>_.
                    returnM \<lparr>rs_status = 200,
                      rs_body = LoginBody accessToken (pl_ExpiresAt accessPayload) (newUserResponse user)\<rparr>))))))))"

definition loginUser :: "server \<Rightarrow> request \<Rightarrow> (string \<times> string) bound \<Rightarrow> reply handler" where
  \<comment> \<open>\<open>loginUserRequest\<close> is the user name and the password. An unknown user costs a comparison, too.\<close>
  "loginUser sv rq b =
     bindM (bindJSON sv rq b) (\<lambda>(username, password).
     if \<not> validateNewPassword password then replyM 400 (errorResponse sv rq ErrInvalidPasswordLength)
     else let normalizedUsername = gl_ToLower (sr_lib sv) username;
              accountRateKey = privateRateLimitKey sv normalizedUsername
          in bindM (allowRateLimitedRequest sv rq ''login_account'' accountRateKey 10 (15 * 60 * 1000000000)) (\<lambda>_.
             bindM (attempt (onStore (autocommit (GetUser normalizedUsername)))) (\<lambda>r.
             case r of
               Inl e \<Rightarrow>
                 if e = ErrNoRows then
                   bindM (recordLoginFailure sv rq normalizedUsername ''unknown_user'') (\<lambda>_.
                   replyM 401 (errorResponse sv rq ErrInvalidCredentials))
                 else orReset sv accountRateKey (replyM 500 (errorResponse sv rq ErrInternalServer))
             | Inr user \<Rightarrow>
                 if \<not> sr_bcryptMatches sv password (us_hashed_password user) then
                   bindM (recordLoginFailure sv rq normalizedUsername ''invalid_password'') (\<lambda>_.
                   replyM 401 (errorResponse sv rq ErrInvalidCredentials))
                 else orReset sv accountRateKey (startSession sv rq user))))"

section \<open>Profile\<close>

record updateUserRequest =
  uq_CurrentPassword :: "string option"
  uq_Password :: "string option"
  uq_FullName :: "string option"
  uq_Email :: "string option"

definition updateUser :: "server \<Rightarrow> request \<Rightarrow> Payload \<Rightarrow> updateUserRequest bound \<Rightarrow> reply handler" where
  "updateUser sv rq payload b =
     (let internal = replyM 500 (errorResponse sv rq ErrInternalServer)
      in bindM (bindJSON sv rq b) (\<lambda>req.
         if (case uq_FullName req of Some n \<Rightarrow> \<not> validFullName (trimSpace n) | None \<Rightarrow> False)
         then replyM 400 (errorResponse sv rq ErrInvalidFullName)
         else bindM (attempt (onStore (autocommit (GetUser (pl_Username payload))))) (\<lambda>r.
         case r of
           Inl e \<Rightarrow> if errIs e ErrNoRows then replyM 404 (errorResponse sv rq ErrUserNotFound) else internal
         | Inr currentUser \<Rightarrow>
           let normalizedEmail = (case uq_Email req of Some m \<Rightarrow> gl_ToLower (sr_lib sv) (trimSpace m) | None \<Rightarrow> us_email currentUser);
               emailChanged = (uq_Email req \<noteq> None \<and> \<not> EqualFold (sr_lib sv) normalizedEmail (us_email currentUser));
               sensitive = (uq_Password req \<noteq> None \<or> emailChanged)
           in if sensitive \<and> uq_CurrentPassword req = None then replyM 400 (errorResponse sv rq ErrCurrentPasswordRequired)
              else if sensitive \<and> \<not> sr_bcryptMatches sv (orElse (uq_CurrentPassword req) '''') (us_hashed_password currentUser)
                then replyM 401 (errorResponse sv rq ErrInvalidCredentials)
              else bindM (case uq_Password req of
                     None \<Rightarrow> returnM None
                   | Some password \<Rightarrow>
                     bindM (acceptNewPassword sv rq password) (\<lambda>_.
                     bindM (readM (sr_bcryptHash sv password)) (\<lambda>h.
                     case h of Inl e \<Rightarrow> replyM 500 (errorResponse sv rq ErrInternalServer) | Inr hashed \<Rightarrow> returnM (Some hashed)))) (\<lambda>hashed.
              let revoke = (hashed \<noteq> None \<or> emailChanged);
                  arg = \<lparr>uu_HashedPassword = hashed, uu_FullName = map_option trimSpace (uq_FullName req),
                    uu_Email = (if uq_Email req = None then None else Some normalizedEmail), uu_Username = pl_Username payload,
                    uu_RevokeSessions = revoke,
                    uu_SessionRevocationReason = (if emailChanged then ''email_changed'' else if hashed \<noteq> None then ''password_changed'' else ''''),
                    uu_SessionAuditEvent = (if emailChanged then ''sessions_revoked_email_change''
                      else if hashed \<noteq> None then ''sessions_revoked_password_change'' else '''')\<rparr>
              in bindM (attempt (onStore (UpdateUserTx arg))) (\<lambda>x.
                 case x of
                   Inl e \<Rightarrow>
                     if uniqueOn e [''users_email_lower_idx'', ''users_email_key''] then replyM 403 (errorResponse sv rq ErrEmailAlreadyExists)
                     else if e = ErrNoRows then replyM 404 (errorResponse sv rq ErrUserNotFound)
                     else internal
                 | Inr result \<Rightarrow>
                   bindM (if revoke then clearSessionCookies sv else returnM ()) (\<lambda>_.
                   returnM \<lparr>rs_status = 200, rs_body = UserBody (newUserResponse (ux_User result))\<rparr>))))))"

section \<open>Email status\<close>

definition unverifiedAllowedFeatures :: "string list" where
  "unverifiedAllowedFeatures =
     [''login, refresh access tokens, and log out'', ''view email verification status'',
      ''change profile details or email address'', ''request another verification email'',
      ''verify the current email address'']"

definition unverifiedRestrictedFeatures :: "string list" where
  "unverifiedRestrictedFeatures =
     [''create, view, freeze, or close accounts'', ''deposit or withdraw money'',
      ''create or manage beneficiaries'', ''view transactions or account statements'',
      ''send money or create transfers'']"

definition getUserEmailStatus :: "server \<Rightarrow> request \<Rightarrow> Payload \<Rightarrow> reply handler" where
  "getUserEmailStatus sv rq payload =
     bindM (attempt (onStore (autocommit (GetUser (pl_Username payload))))) (\<lambda>r.
     case r of
       Inl e \<Rightarrow> if errIs e ErrNoRows then replyM 404 (errorResponse sv rq ErrUserNotFound)
                else replyM 500 (errorResponse sv rq ErrInternalServer)
     | Inr user \<Rightarrow>
       bindM (attempt (onStore (autocommit (GetLatestEmailJobForCurrentAddress (pl_Username payload))))) (\<lambda>j.
       let restricted = (us_account_status user \<noteq> ''active'' \<or> us_email_verified_at user = None);
           response = (\<lambda>latest. EmailStatusBody
             \<lparr>es_Email = us_email user, es_VerifiedAt = us_email_verified_at user,
              es_DeliverabilityStatus = us_email_deliverability_status user, es_BouncedAt = us_email_bounced_at user,
              es_LatestJob = latest, es_AccountStatus = us_account_status user,
              es_RegistrationExpiresAt = us_registration_expires_at user,
              es_AllowedFeatures = (if restricted then unverifiedAllowedFeatures else []),
              es_RestrictedFeatures = (if restricted then unverifiedRestrictedFeatures else [])\<rparr>)
       in case j of
            Inl e \<Rightarrow> if errIs e ErrNoRows then returnM \<lparr>rs_status = 200, rs_body = response None\<rparr>
                     else replyM 500 (errorResponse sv rq ErrInternalServer)
          | Inr job \<Rightarrow> returnM \<lparr>rs_status = 200, rs_body = response (Some
              \<lparr>js_ID = ej_id job, js_WorkerStatus = ej_status job, js_DeliveryStatus = ej_delivery_status job,
               js_ProviderMessageID = ej_provider_message_id job, js_AcceptedAt = ej_accepted_at job,
               js_DeliveredAt = ej_delivered_at job, js_BouncedAt = ej_bounced_at job, js_BounceType = ej_bounce_type job,
               js_BounceSubtype = ej_bounce_subtype job, js_BounceMessage = ej_bounce_message job\<rparr>)\<rparr>))"

section \<open>Verification\<close>

definition setVerificationPageHeaders :: "unit handler" where
  "setVerificationPageHeaders =
     bindM (setHeader ''Cache-Control'' ''no-store'') (\<lambda>_.
     bindM (setHeader ''Referrer-Policy'' ''no-referrer'') (\<lambda>_.
     bindM (setHeader ''X-Content-Type-Options'' ''nosniff'') (\<lambda>_.
     bindM (setHeader ''X-Frame-Options'' ''DENY'') (\<lambda>_.
     setHeader ''Content-Security-Policy''
       (''default-src '' @ [CHR 0x27] @ ''none'' @ [CHR 0x27] @ ''; style-src '' @ [CHR 0x27] @ ''unsafe-inline'' @ [CHR 0x27] @
        ''; form-action '' @ [CHR 0x27] @ ''self'' @ [CHR 0x27] @ ''; base-uri '' @ [CHR 0x27] @ ''none'' @ [CHR 0x27] @
        ''; frame-ancestors '' @ [CHR 0x27] @ ''none'' @ [CHR 0x27])))))"

definition renderVerificationPage :: "int \<Rightarrow> string \<Rightarrow> string \<Rightarrow> string \<Rightarrow> bool \<Rightarrow> 'a handler" where
  "renderVerificationPage status title message token showConfirm =
     bindM setVerificationPageHeaders (\<lambda>_.
     bindM (setHeader ''Content-Type'' ''text/html; charset=utf-8'') (\<lambda>_.
     replyM status (PageBody title message token showConfirm)))"

definition wantsJSON :: "request \<Rightarrow> bool" where
  "wantsJSON rq = (rq_contentType rq = ''application/json'' \<or> rq_header rq ''Accept'' = ''application/json'')"

definition verificationErrorPage :: "int \<Rightarrow> apiError \<Rightarrow> 'a handler" where
  "verificationErrorPage status err = renderVerificationPage status ''Verification unavailable'' (apiErrorText err) '''' False"

definition verificationErrorCode :: "server \<Rightarrow> apiError \<Rightarrow> string" where
  "verificationErrorCode sv err =
     (if err = ErrInvalidTokenApi then ''invalid_token'' else if err = ErrExpiredTokenApi then ''expired_token''
      else if err = ErrRegistrationExpired then ''registration_expired''
      else if err = ErrEmailAddressUndeliverableApi then ''email_address_undeliverable''
      else stableErrorCode (sr_lib sv) err)"

definition writeVerificationError :: "server \<Rightarrow> request \<Rightarrow> int \<Rightarrow> apiError \<Rightarrow> 'a handler" where
  "writeVerificationError sv rq status err =
     (if wantsJSON rq then bindM setVerificationPageHeaders (\<lambda>_.
        replyM status (codedErrorResponse rq (verificationErrorCode sv err) err))
      else verificationErrorPage status err)"

definition verificationJobForToken :: "server \<Rightarrow> string \<Rightarrow> (EmailJob \<times> string) service" where
  "verificationJobForToken sv value =
     (case hashVerificationToken (sr_crypto sv) value of
        Inl e \<Rightarrow> failM ErrInvalidToken
      | Inr tokenHash \<Rightarrow>
        bindM (mapErrM (\<lambda>e. if errIs e ErrNoRows then ErrInvalidToken else e)
          (onStore (autocommit (GetEmailJobByVerificationTokenHash tokenHash)))) (\<lambda>job.
        case ej_verification_token_expires_at job of
          None \<Rightarrow> failM ErrExpiredToken
        | Some expiresAt \<Rightarrow>
          bindM (onStore timeNow) (\<lambda>now.
          failIf (\<not> now < expiresAt) ErrExpiredToken (returnM (job, tokenHash)))))"

definition verifyUserEmail :: "server \<Rightarrow> request \<Rightarrow> string bound \<Rightarrow> reply handler" where
  \<comment> \<open>\<open>verifyEmailRequest\<close> is the token. The job it returns always has an expiry.\<close>
  "verifyUserEmail sv rq b =
     (case b of
        Inl e \<Rightarrow> verificationErrorPage 400 ErrInvalidTokenApi
      | Inr token \<Rightarrow>
        bindM (attempt (verificationJobForToken sv token)) (\<lambda>r.
        case r of
          Inl e \<Rightarrow> if errIs e ErrExpiredToken then verificationErrorPage 410 ErrExpiredTokenApi
                   else verificationErrorPage 400 ErrInvalidTokenApi
        | Inr (job, _) \<Rightarrow>
          if ej_verification_token_expires_at job = None then verificationErrorPage 400 ErrInvalidTokenApi
          else renderVerificationPage 200 ''Confirm your email''
                 ''Select the button below to finish verifying your Monierave email address.'' token True))"

definition confirmUserEmail :: "server \<Rightarrow> request \<Rightarrow> string bound \<Rightarrow> reply handler" where
  "confirmUserEmail sv rq b =
     (case b of
        Inl e \<Rightarrow> writeVerificationError sv rq 400 ErrInvalidTokenApi
      | Inr token \<Rightarrow>
        bindM (attempt (verificationJobForToken sv token)) (\<lambda>r.
        case r of
          Inl e \<Rightarrow> if errIs e ErrExpiredToken then writeVerificationError sv rq 410 ErrExpiredTokenApi
                   else writeVerificationError sv rq 400 ErrInvalidTokenApi
        | Inr (job, tokenHash) \<Rightarrow>
          bindM (attempt (onStore (VerifyUserEmailTx
            \<lparr>ve_Username = ej_username job, ve_Email = ej_recipient job, ve_JobID = Some (ej_id job), ve_TokenHash = tokenHash\<rparr>))) (\<lambda>x.
          case x of
            Inl e \<Rightarrow>
              if errIs e ErrEmailVerificationAddressStale \<or> errIs e ErrEmailVerificationJobMismatch
                then writeVerificationError sv rq 409 ErrInvalidTokenApi
              else if errIs e ErrEmailVerificationTokenExpired then writeVerificationError sv rq 410 ErrExpiredTokenApi
              else if errIs e ErrEmailAddressUndeliverable then writeVerificationError sv rq 409 ErrEmailAddressUndeliverableApi
              else if errIs e ErrRegistrationDisabled then writeVerificationError sv rq 410 ErrRegistrationExpired
              else writeVerificationError sv rq 500 ErrInternalServer
          | Inr user \<Rightarrow>
            if wantsJSON rq then bindM setVerificationPageHeaders (\<lambda>_.
              returnM \<lparr>rs_status = 200, rs_body = VerifiedBody (newUserResponse user)\<rparr>)
            else renderVerificationPage 200 ''Email verified''
                   ''Your email address has been verified successfully. You can return to Monierave.'' '''' False)))"

definition resendUserEmailVerification :: "server \<Rightarrow> request \<Rightarrow> Payload \<Rightarrow> reply handler" where
  "resendUserEmailVerification sv rq payload =
     bindM (attempt (onStore (RequestEmailVerificationTx (pl_Username payload)))) (\<lambda>r.
     case r of
       Inl e \<Rightarrow>
         if errIs e ErrEmailAlreadyVerified then replyM 409 (errorResponse sv rq ErrEmailAlreadyVerifiedApi)
         else if errIs e ErrEmailVerificationCooldown then replyM 429 (errorResponse sv rq ErrVerificationCooldown)
         else if errIs e ErrEmailAddressUndeliverable
           then replyM 409 (codedErrorResponse rq ''email_address_undeliverable'' ErrEmailAddressUndeliverableApi)
         else if errIs e ErrNoRows then replyM 404 (errorResponse sv rq ErrUserNotFound)
         else replyM 500 (errorResponse sv rq ErrInternalServer)
     | Inr result \<Rightarrow> returnM \<lparr>rs_status = 202, rs_body = QueuedBody (ej_id (rq_EmailJob result))\<rparr>)"
end
