(* ===== verification/Routes.thy ===== *)
theory Routes
  imports HistoryApi UserApi
begin

text \<open>
  The webhook of the mail provider (\<open>api/resend_webhook.go\<close>) and the routes with their middleware
  (\<open>setupRouter\<close> of \<open>api/server.go\<close>): \<open>handle\<close> is what the server does with one request.
\<close>

section \<open>The webhook\<close>

record resendWebhookEvent =
  we_Type :: string
  we_CreatedAt :: string
  we_EmailID :: string
  we_JobTag :: string
  we_BounceType :: string
  we_BounceSubtype :: string

text \<open>
  What the handler calls: the provider's library checks the signature of a body (secret, body, and the
  headers for id, time and signature), and the JSON library decodes it; \<open>we_JobTag\<close> is
  \<open>Tags["job_id"]\<close>, empty when it is missing.
\<close>

record webhookLib =
  wl_Verify :: "string \<Rightarrow> string \<Rightarrow> string \<Rightarrow> string \<Rightarrow> string \<Rightarrow> bool"
  wl_Unmarshal :: "string \<Rightarrow> resendWebhookEvent option"

definition parseOptionalWebhookJobID :: "server \<Rightarrow> string \<Rightarrow> uuid option" where
  "parseOptionalWebhookJobID sv value = (case uuidParse (sr_crypto sv) value of Inl _ \<Rightarrow> None | Inr u \<Rightarrow> Some u)"

definition normalizeResendWebhookPayload :: "server \<Rightarrow> resendWebhookEvent \<Rightarrow> string \<Rightarrow> time \<Rightarrow> string \<Rightarrow> json" where
  "normalizeResendWebhookPayload sv event providerMessageID occurredAt rawPayload =
     JObj ([(''event_type'', JStr (we_Type event)), (''provider_message_id'', JStr providerMessageID)] @
           omitEmpty ''job_id'' (we_JobTag event) @ [(''occurred_at'', JTime occurredAt)] @
           (if we_BounceType event \<noteq> '''' \<or> we_BounceSubtype event \<noteq> '''' then
              [(''bounce'', JObj (omitEmpty ''type'' (we_BounceType event) @ omitEmpty ''subtype'' (we_BounceSubtype event)))]
            else []) @
           [(''raw_payload_sha256'', JStr (hexOfBytes (sha256 (sr_crypto sv) rawPayload)))])"

definition handleResendWebhook :: "server \<Rightarrow> webhookLib \<Rightarrow> request \<Rightarrow> string option \<Rightarrow> reply handler" where
  \<comment> \<open>The last argument is the body, \<open>None\<close> when it could not be read or is longer than a megabyte.\<close>
  "handleResendWebhook sv wl rq b =
     (let coded = (\<lambda>status code message. replyM status (codedErrorResponse rq code (ApiText message)));
          webhookID = rq_header rq ''svix-id''
      in if cf_ResendWebhookSecret (sr_config sv) = '''' then coded 503 ''webhook_not_configured'' ''webhook is not configured''
         else case b of
           None \<Rightarrow> coded 400 ''invalid_request_body'' ''invalid request body''
         | Some body \<Rightarrow>
           if \<not> wl_Verify wl (cf_ResendWebhookSecret (sr_config sv)) body webhookID (rq_header rq ''svix-timestamp'')
                (rq_header rq ''svix-signature'')
           then coded 401 ''invalid_signature'' ''invalid signature''
           else case wl_Unmarshal wl body of
             None \<Rightarrow> coded 400 ''invalid_webhook_event'' ''invalid webhook event''
           | Some event \<Rightarrow>
             if take 6 (we_Type event) = ''email.'' \<and> we_EmailID event = ''''
             then coded 400 ''missing_email_id'' ''email webhook is missing email_id''
             else case gl_ParseRFC3339 (sr_lib sv) (we_CreatedAt event) of
               None \<Rightarrow> coded 400 ''invalid_webhook_timestamp'' ''email webhook has invalid created_at''
             | Some occurredAt \<Rightarrow>
               let providerMessageID = (if we_EmailID event = '''' then webhookID else we_EmailID event)
               in bindM (attempt (onStore (ProcessEmailDeliveryEventTx
                    \<lparr>pe_WebhookID = webhookID, pe_EventType = we_Type event, pe_ProviderMessageID = providerMessageID,
                     pe_JobID = parseOptionalWebhookJobID sv (we_JobTag event), pe_OccurredAt = occurredAt,
                     pe_Payload = normalizeResendWebhookPayload sv event providerMessageID occurredAt body,
                     pe_DeliveryStatus = deliveryStatusForResendEvent (we_Type event),
                     pe_BounceType = we_BounceType event, pe_BounceSubtype = we_BounceSubtype event,
                     pe_BounceMessage = safeDeliveryFailureMessage (we_Type event)\<rparr>))) (\<lambda>r.
                  case r of
                    Inl e \<Rightarrow> coded 500 ''webhook_processing_failed'' ''failed to process webhook''
                  | Inr _ \<Rightarrow> returnM \<lparr>rs_status = 200, rs_body = NoBody\<rparr>))"

section \<open>Routes\<close>

datatype publicRoute =
    GetRoot
  | GetLivez
  | GetReadyz
  | PostUsers "createUserRequest bound"
  | PostLogin "(string \<times> string) bound"
  | GetVerifyEmail "string bound"
  | PostVerifyEmail "string bound"
  | PostRenewAccess
  | PostLogout
  | PostWebhook "string option"

datatype userRoute =
    GetMe
  | PatchMe "updateUserRequest bound"
  | GetEmailStatus
  | PostResendVerification
  | PostLogoutAll

datatype financialRoute =
    PostAccounts "string bound"
  | PostResolve "string bound"
  | GetAccountRoute
  | GetAccounts "(int \<times> int) bound"
  | GetAccountTransactions "transactionHistoryQuery bound"
  | GetStatement "transactionHistoryQuery bound"
  | GetMoneyMovement "(string \<times> string \<times> string) bound"
  | PostClose
  | PostBeneficiaries "(string \<times> string) bound"
  | GetBeneficiaries "(int \<times> int) bound"
  | PatchBeneficiary "string bound"
  | DeleteBeneficiary
  | GetTransactionRoute
  | PostTransfers "transferRequest bound"

datatype route = Public publicRoute | User userRoute | Financial financialRoute

definition minutes :: "int \<Rightarrow> int" where
  "minutes n = n * 60 * 1000000000"

fun publicHandler :: "server \<Rightarrow> webhookLib \<Rightarrow> request \<Rightarrow> publicRoute \<Rightarrow> reply handler" where
  "publicHandler sv wl rq GetRoot = returnM \<lparr>rs_status = 200, rs_body = ReadyBody ''Monierave API is running'' []\<rparr>"
| "publicHandler sv wl rq GetLivez = returnM \<lparr>rs_status = 200, rs_body = ReadyBody ''alive'' []\<rparr>"
| "publicHandler sv wl rq GetReadyz = requireOperationsToken sv rq (ready sv)"
| "publicHandler sv wl rq (PostUsers b) =
     requireTrustedBrowserOrigin sv rq
       (rateLimitMiddleware sv rq ''signup'' 5 (minutes 60) (clientIPRateLimitKey rq) (CreateUserHandler sv rq b))"
| "publicHandler sv wl rq (PostLogin b) =
     requireTrustedBrowserOrigin sv rq
       (rateLimitMiddleware sv rq ''login'' 5 (minutes 1) (clientIPRateLimitKey rq) (loginUser sv rq b))"
| "publicHandler sv wl rq (GetVerifyEmail b) = verifyUserEmail sv rq b"
| "publicHandler sv wl rq (PostVerifyEmail b) = confirmUserEmail sv rq b"
| "publicHandler sv wl rq PostRenewAccess =
     rateLimitMiddleware sv rq ''refresh'' 10 (minutes 1) (clientIPRateLimitKey rq) (renewAccessToken sv rq)"
| "publicHandler sv wl rq PostLogout = logoutCurrentSession sv rq"
| "publicHandler sv wl rq (PostWebhook b) = handleResendWebhook sv wl rq b"

fun userHandler :: "server \<Rightarrow> request \<Rightarrow> Payload \<Rightarrow> userRoute \<Rightarrow> reply handler" where
  "userHandler sv rq p GetMe = getCurrentUser sv rq p"
| "userHandler sv rq p (PatchMe b) = updateUser sv rq p b"
| "userHandler sv rq p GetEmailStatus = getUserEmailStatus sv rq p"
| "userHandler sv rq p PostResendVerification =
     rateLimitMiddleware sv rq ''resend_verification'' 3 (minutes 60) (authenticatedRateLimitKey rq (Some p))
       (resendUserEmailVerification sv rq p)"
| "userHandler sv rq p PostLogoutAll = logoutAllSessions sv rq p"

fun financialHandler :: "server \<Rightarrow> request \<Rightarrow> Payload \<Rightarrow> financialRoute \<Rightarrow> reply handler" where
  "financialHandler sv rq p (PostAccounts b) = createAccount sv rq p b"
| "financialHandler sv rq p (PostResolve b) =
     rateLimitMiddleware sv rq ''recipient_resolve'' 20 (minutes 1) (authenticatedRateLimitKey rq (Some p))
       (resolveRecipient sv rq b)"
| "financialHandler sv rq p GetAccountRoute = getAccount sv rq p"
| "financialHandler sv rq p (GetAccounts b) = listAccount sv rq p b"
| "financialHandler sv rq p (GetAccountTransactions b) = listAccountTransactions sv rq p b"
| "financialHandler sv rq p (GetStatement b) = getAccountStatement sv rq p b"
| "financialHandler sv rq p (GetMoneyMovement b) = getAccountMoneyMovement sv rq p b"
| "financialHandler sv rq p PostClose = closeAccount sv rq p"
| "financialHandler sv rq p (PostBeneficiaries b) = createBeneficiary sv rq p b"
| "financialHandler sv rq p (GetBeneficiaries b) = listBeneficiaries sv rq p b"
| "financialHandler sv rq p (PatchBeneficiary b) = updateBeneficiary sv rq p b"
| "financialHandler sv rq p DeleteBeneficiary = deleteBeneficiary sv rq p"
| "financialHandler sv rq p GetTransactionRoute = getTransaction sv rq p"
| "financialHandler sv rq p (PostTransfers b) =
     rateLimitMiddleware sv rq ''transfer'' 30 (minutes 1) (authenticatedRateLimitKey rq (Some p)) (createTransfer sv rq p b)"

fun dispatch :: "server \<Rightarrow> webhookLib \<Rightarrow> request \<Rightarrow> route \<Rightarrow> reply handler" where
  "dispatch sv wl rq (Public r) = publicHandler sv wl rq r"
| "dispatch sv wl rq (User r) = bindM (authMiddleware sv rq) (\<lambda>p. userHandler sv rq p r)"
| "dispatch sv wl rq (Financial r) =
     bindM (authMiddleware sv rq) (\<lambda>p.
     bindM (if cf_EnforceEmailVerification (sr_config sv) then verifiedAccountMiddleware sv rq p else returnM ()) (\<lambda>_.
     financialHandler sv rq p r))"

definition handle :: "server \<Rightarrow> webhookLib \<Rightarrow> request \<Rightarrow> route \<Rightarrow> app \<Rightarrow> reply \<times> app" where
  \<comment> \<open>One request: its identity, the log and counters, CORS, and the route's chain. A reply starts without headers.\<close>
  "handle sv wl rq0 r a =
     (case requestContextMiddleware sv rq0 (a\<lparr>ap_headers := [], ap_cookies := []\<rparr>) of
        (Inl early, b) \<Rightarrow> (early, b)
      | (Inr rq, b) \<Rightarrow> requestLoggerMiddleware sv rq (corsMiddleware sv rq (dispatch sv wl rq r)) b)"

end
