(* ===== verification/Commands.thy ===== *)
theory Commands
  imports BankApi
begin

text \<open>
  The command line of the operator (\<open>main.go\<close>): \<open>runBanking\<close> and \<open>runJobs\<close> with their flags, checks and
  outputs, the choice of the process's role, and how the roles of a combined process are supervised. A
  command is a program on the database that returns what it prints, and the error it exits with after
  printing, if any.
\<close>

section \<open>The flag package\<close>

datatype numError = ErrSyntax | ErrRange

definition digitValue :: "char \<Rightarrow> nat option" where
  "digitValue c =
     (let k = of_char c in
      if 48 \<le> k \<and> k \<le> (57 :: nat) then Some (k - 48)
      else if 97 \<le> k \<and> k \<le> 122 then Some (k - 87)
      else if 65 \<le> k \<and> k \<le> 90 then Some (k - 55) else None)"

fun parseDigits :: "nat \<Rightarrow> nat \<Rightarrow> string \<Rightarrow> numError + nat" where
  \<comment> \<open>The loop of \<open>strconv.ParseUint\<close>; underscores are passed over, and checked afterwards.\<close>
  "parseDigits b n [] = Inr n"
| "parseDigits b n (c # cs) =
     (if c = CHR ''_'' then parseDigits b n cs
      else case digitValue c of
        None \<Rightarrow> Inl ErrSyntax
      | Some d \<Rightarrow> if b \<le> d then Inl ErrSyntax
                  else if 2 ^ 64 \<le> n * b + d then Inl ErrRange else parseDigits b (n * b + d) cs)"

definition basePrefix :: "string \<Rightarrow> nat \<times> string" where
  "basePrefix s =
     (if s = '''' \<or> hd s \<noteq> CHR ''0'' then (10, s)
      else if 3 \<le> length s \<and> s ! 1 \<in> {CHR ''b'', CHR ''B''} then (2, drop 2 s)
      else if 3 \<le> length s \<and> s ! 1 \<in> {CHR ''o'', CHR ''O''} then (8, drop 2 s)
      else if 3 \<le> length s \<and> s ! 1 \<in> {CHR ''x'', CHR ''X''} then (16, drop 2 s)
      else (8, tl s))"

fun underscoresFrom :: "bool \<Rightarrow> char \<Rightarrow> string \<Rightarrow> bool" where
  \<comment> \<open>The second argument is the kind of the last character: \<open>0\<close> a digit, \<open>_\<close> an underscore, or another.\<close>
  "underscoresFrom hex saw [] = (saw \<noteq> CHR ''_'')"
| "underscoresFrom hex saw (c # cs) =
     (if (case digitValue c of Some d \<Rightarrow> d < 10 \<or> (hex \<and> d < 16) | None \<Rightarrow> False) then underscoresFrom hex (CHR ''0'') cs
      else if c = CHR ''_'' then saw = CHR ''0'' \<and> underscoresFrom hex (CHR ''_'') cs
      else saw \<noteq> CHR ''_'' \<and> underscoresFrom hex (CHR ''!'') cs)"

definition underscoreOK :: "string \<Rightarrow> bool" where
  \<comment> \<open>The sign is gone already.\<close>
  "underscoreOK s =
     (if 2 \<le> length s \<and> hd s = CHR ''0'' \<and> List.member ''bBoOxX'' (s ! 1)
      then underscoresFrom (List.member ''xX'' (s ! 1)) (CHR ''0'') (drop 2 s)
      else underscoresFrom False (CHR ''^'') s)"

definition parseUintAny :: "string \<Rightarrow> numError + nat" where
  \<comment> \<open>\<open>strconv.ParseUint(s, 0, 64)\<close>\<close>
  "parseUintAny s =
     (if s = '''' then Inl ErrSyntax
      else case basePrefix s of (b, ds) \<Rightarrow>
        (case parseDigits b 0 ds of
           Inl e \<Rightarrow> Inl e
         | Inr n \<Rightarrow> if CHR ''_'' \<in> set ds \<and> \<not> underscoreOK s then Inl ErrSyntax else Inr n))"

definition parseIntAny :: "string \<Rightarrow> numError + int" where
  \<comment> \<open>\<open>strconv.ParseInt(s, 0, 64)\<close>\<close>
  "parseIntAny s =
     (if s = '''' then Inl ErrSyntax
      else let negative = (hd s = CHR ''-''); digits = (if hd s = CHR ''-'' \<or> hd s = CHR ''+'' then tl s else s)
        in case parseUintAny digits of
             Inl e \<Rightarrow> Inl e
           | Inr n \<Rightarrow> if (if negative then 2 ^ 63 < n else 2 ^ 63 \<le> n) then Inl ErrRange
                      else Inr (if negative then - int n else int n))"

datatype flagValue = FString string | FInt int

type_synonym flagSet = "(string \<times> flagValue) list"

fun setFlag :: "golib \<Rightarrow> string \<Rightarrow> string \<Rightarrow> flagValue \<Rightarrow> error + flagValue" where
  "setFlag g name v (FString old) = Inr (FString v)"
| "setFlag g name v (FInt old) =
     (case parseIntAny v of
        Inr n \<Rightarrow> Inr (FInt n)
      | Inl e \<Rightarrow> Inl (GoErr (''invalid value '' @ gl_Quote g v @ '' for flag -'' @ name @ '': '' @
          (if e = ErrRange then ''value out of range'' else ''parse error''))))"

definition splitFlag :: "string \<Rightarrow> string \<times> string option" where
  \<comment> \<open>At the first equals sign after the first character\<close>
  "splitFlag arg = (case cutAt (CHR ''='') (tl arg) of Some (a, b) \<Rightarrow> (hd arg # a, Some b) | None \<Rightarrow> (arg, None))"

fun parseFlags :: "golib \<Rightarrow> flagSet \<Rightarrow> string list \<Rightarrow> error + flagSet" where
  \<comment> \<open>\<open>FlagSet.Parse\<close>: the set holds the defaults; the first argument that is no flag ends it.\<close>
  "parseFlags g flags [] = Inr flags"
| "parseFlags g flags (s # rest) =
     (if length s < 2 \<or> hd s \<noteq> CHR ''-'' \<or> s = ''--'' then Inr flags
      else let arg = (if s ! 1 = CHR ''-'' then drop 2 s else drop 1 s)
        in if arg = '''' \<or> hd arg = CHR ''-'' \<or> hd arg = CHR ''='' then Inl (GoErr (''bad flag syntax: '' @ s))
           else case splitFlag arg of (name, given) \<Rightarrow>
             (case map_of flags name of
                None \<Rightarrow> Inl (GoErr (if name = ''help'' \<or> name = ''h'' then ''flag: help requested''
                                     else ''flag provided but not defined: -'' @ name))
              | Some old \<Rightarrow>
                (case given of
                   Some v \<Rightarrow>
                     (case setFlag g name v old of
                        Inl e \<Rightarrow> Inl e
                      | Inr new \<Rightarrow> parseFlags g (AList.update name new flags) rest)
                 | None \<Rightarrow>
                   (case rest of
                      [] \<Rightarrow> Inl (GoErr (''flag needs an argument: -'' @ name))
                    | v # rest' \<Rightarrow>
                      (case setFlag g name v old of
                         Inl e \<Rightarrow> Inl e
                       | Inr new \<Rightarrow> parseFlags g (AList.update name new flags) rest')))))"

definition stringFlag :: "flagSet \<Rightarrow> string \<Rightarrow> string" where
  "stringFlag flags name = (case map_of flags name of Some (FString v) \<Rightarrow> v | _ \<Rightarrow> '''')"

definition intFlag :: "flagSet \<Rightarrow> string \<Rightarrow> int" where
  "intFlag flags name = (case map_of flags name of Some (FInt n) \<Rightarrow> n | _ \<Rightarrow> 0)"

section \<open>The process\<close>

text \<open>
  What a command finds around it: the libraries for texts and UUIDs, two environment variables, the name
  of the system's user (\<open>None\<close> when it is unknown), and the error of opening the database, if any.
\<close>

record host =
  ho_lib :: golib
  ho_uuidParse :: "string \<Rightarrow> error + uuid"
  ho_MONIERAVE_OPERATOR :: string
  ho_PORT :: string
  ho_currentUser :: "string option"
  ho_openStore :: "error option"

definition resolveRuntimeRole :: "string list \<Rightarrow> string \<Rightarrow> string" where
  "resolveRuntimeRole args configuredRole =
     (if 1 < length args \<and> trimSpace (args ! 1) \<noteq> '''' then trimSpace (args ! 1)
      else if trimSpace configuredRole \<noteq> '''' then trimSpace configuredRole
      else ''api'')"

definition Atoi :: "string \<Rightarrow> numError + int" where
  \<comment> \<open>\<open>strconv.Atoi\<close>\<close>
  "Atoi s =
     (let digits = (if s \<noteq> '''' \<and> (hd s = CHR ''-'' \<or> hd s = CHR ''+'') then tl s else s);
          n = foldl (\<lambda>n d. 10 * n + (of_char d - 48)) 0 digits;
          v = (if s \<noteq> '''' \<and> hd s = CHR ''-'' then - n else n)
      in if digits = '''' \<or> \<not> list_all isDigit digits then Inl ErrSyntax
         else if v < - (2 ^ 63) \<or> 2 ^ 63 \<le> v then Inl ErrRange else Inr v)"

definition configureRuntimeServerAddress :: "host \<Rightarrow> Config \<Rightarrow> error + Config" where
  \<comment> \<open>The error of \<open>Atoi\<close> has the text of the package \<open>strconv\<close>.\<close>
  "configureRuntimeServerAddress h config =
     (let port = trimSpace (ho_PORT h)
      in if port = '''' then Inr config
         else case Atoi port of
           Inl e \<Rightarrow> Inl (WrapErr (''invalid PORT '' @ gl_Quote (ho_lib h) port) (GoErr (''strconv.Atoi: parsing '' @
               gl_Quote (ho_lib h) port @ '': '' @ (if e = ErrRange then ''value out of range'' else ''invalid syntax''))))
         | Inr _ \<Rightarrow> Inr (config\<lparr>cf_ServerAddress := ''0.0.0.0:'' @ port\<rparr>))"

definition prepareAll :: "host \<Rightarrow> Config \<Rightarrow> error + Config" where
  \<comment> \<open>\<open>runAll\<close> up to the point where it opens the database\<close>
  "prepareAll h config0 =
     (case configureRuntimeServerAddress h config0 of
        Inl e \<Rightarrow> Inl e
      | Inr config \<Rightarrow>
        (case ValidateAPIConfig (ho_lib h) config of
           Some e \<Rightarrow> Inl (WrapErr ''invalid API config'' e)
         | None \<Rightarrow>
           (case ValidateRelayConfig (ho_lib h) config of
              Some e \<Rightarrow> Inl (WrapErr ''invalid relay config'' e)
            | None \<Rightarrow>
              (case ValidateWorkerConfig (ho_lib h) config of
                 Some e \<Rightarrow> Inl (WrapErr ''invalid worker config'' e)
               | None \<Rightarrow> Inr config))))"

definition superviseRuntimeRoles ::
  "(error \<Rightarrow> bool) \<Rightarrow> bool \<Rightarrow> string list \<Rightarrow> (string \<times> error option) list \<Rightarrow> error option" where
  \<comment> \<open>Arguments: \<open>errors.Is(err, context.Canceled)\<close>; whether the parent was cancelled when the first role
    ended; the roles; and their results in the order they came in. The first role that ends cancels the
    others, and all of them are waited for.\<close>
  "superviseRuntimeRoles canceled parentCanceled roles completed =
     (if roles = [] then Some (GoErr ''no runtime roles configured'')
      else case find (\<lambda>(name, err). case err of Some e \<Rightarrow> \<not> canceled e | None \<Rightarrow> False) completed of
        Some (name, Some e) \<Rightarrow> Some (WrapErr (name @ '' runtime stopped'') e)
      | _ \<Rightarrow> if parentCanceled then None
             else Some (GoErr (fst (hd completed) @ '' runtime stopped unexpectedly'')))"

definition defaultOperatorActor :: "host \<Rightarrow> string" where
  "defaultOperatorActor h =
     (if trimSpace (ho_MONIERAVE_OPERATOR h) \<noteq> '''' then trimSpace (ho_MONIERAVE_OPERATOR h)
      else case ho_currentUser h of
        Some u \<Rightarrow> if trimSpace u \<noteq> '''' then u else ''operator_cli''
      | None \<Rightarrow> ''operator_cli'')"

section \<open>What the commands print\<close>

record bankingCommandOutput =
  bo_TransactionID :: string
  bo_Reference :: string
  bo_Type :: string
  bo_Status :: string
  bo_AccountID :: string
  bo_Balance :: int
  bo_Currency :: string
  bo_Actor :: string
  bo_CorrelationID :: string
  bo_AuditLogID :: int

record accountControlOutput =
  co_AccountID :: string
  co_Status :: string
  co_Actor :: string
  co_Reason :: string
  co_CorrelationID :: string
  co_AuditLogID :: int

record reversalAccountOutput =
  rc_AccountID :: string
  rc_Balance :: int
  rc_Currency :: string
  rc_Status :: string

record reversalOutput =
  ro_OriginalTransactionID :: string
  ro_OriginalReference :: string
  ro_OriginalStatus :: string
  ro_ReversalTransactionID :: string
  ro_ReversalReference :: string
  ro_Actor :: string
  ro_Reason :: string
  ro_CorrelationID :: string
  ro_AuditLogID :: int
  ro_Accounts :: "reversalAccountOutput list"

record reconciliationOutput =
  rn_RunID :: string
  rn_AccountPublicID :: string
  rn_CheckedAt :: time
  rn_Consistent :: bool
  rn_IssueCount :: int
  rn_Issues :: "ReconciliationIssue list"
  rn_AuditLogID :: int

record financialAuditPostingOutput =
  fo_Amount :: int
  fo_Ledger :: string
  fo_AccountID :: string
  fo_Currency :: string
  fo_CreatedAt :: time

record auditLogOutput =
  al_ID :: int
  al_EntityType :: string
  al_EntityID :: uuid
  al_CorrelationID :: uuid
  al_EventType :: string
  al_Actor :: string
  al_FromState :: "string option"
  al_ToState :: "string option"
  al_Message :: "string option"
  al_Metadata :: json
  al_CreatedAt :: time

record transactionAuditOutput =
  ta_TransactionID :: string
  ta_Reference :: string
  ta_Type :: string
  ta_Status :: string
  ta_Currency :: string
  ta_Amount :: int
  ta_Narration :: string
  ta_ReversalOf :: string
  ta_Postings :: "financialAuditPostingOutput list"
  ta_AuditLogs :: "auditLogOutput list"

record accountAuditOutput =
  aa_AccountID :: string
  aa_Owner :: string
  aa_Currency :: string
  aa_Status :: string
  aa_CachedBalance :: int
  aa_LedgerExists :: bool
  aa_LedgerBalance :: int
  aa_AuditLogs :: "auditLogOutput list"

datatype commandOutput =
    MovementOutput bankingCommandOutput
  | ControlOutput accountControlOutput
  | ReversalOutput reversalOutput
  | ReconcileOutput reconciliationOutput
  | TransactionAudit transactionAuditOutput
  | AccountAudit accountAuditOutput
  | AuditLogsOutput "auditLogOutput list"
  | JobsOutput "EmailJob list"
  | JobOutput EmailJob
  | ReplayOutput ReplayEmailJobTxResult

type_synonym command = "(commandOutput \<times> error option) query"

definition printM :: "commandOutput \<Rightarrow> command" where
  \<comment> \<open>\<open>return json.NewEncoder(os.Stdout).Encode(output)\<close>\<close>
  "printM out = returnM (out, None)"

definition newAuditLogOutputs :: "AuditLog list \<Rightarrow> auditLogOutput list" where
  "newAuditLogOutputs logs = map (\<lambda>l. \<lparr>al_ID = au_id l, al_EntityType = au_entity_type l, al_EntityID = au_entity_id l,
     al_CorrelationID = au_correlation_id l, al_EventType = au_event_type l, al_Actor = au_actor l,
     al_FromState = au_from_state l, al_ToState = au_to_state l, al_Message = au_message l,
     al_Metadata = au_metadata l, al_CreatedAt = au_created_at l\<rparr>) logs"

definition withFlags :: "host \<Rightarrow> flagSet \<Rightarrow> string list \<Rightarrow> (flagSet \<Rightarrow> 'a query) \<Rightarrow> 'a query" where
  "withFlags h defaults args k = (case parseFlags (ho_lib h) defaults args of Inl e \<Rightarrow> failM e | Inr flags \<Rightarrow> k flags)"

definition parsedUUID :: "host \<Rightarrow> string \<Rightarrow> string \<Rightarrow> (uuid \<Rightarrow> 'a query) \<Rightarrow> 'a query" where
  \<comment> \<open>\<open>uuid.Parse\<close>, and the message its error is wrapped with\<close>
  "parsedUUID h what v k = (case ho_uuidParse h v of Inl e \<Rightarrow> failM (WrapErr what e) | Inr u \<Rightarrow> k u)"

section \<open>Banking commands\<close>

definition runBankingMovement :: "host \<Rightarrow> string \<Rightarrow> string list \<Rightarrow> command" where
  "runBankingMovement h cmd args =
     withFlags h [(''account'', FString ''''), (''amount'', FInt 0), (''narration'', FString ''''),
         (''actor'', FString (defaultOperatorActor h))] args (\<lambda>flags.
     let amount = intFlag flags ''amount''; narration = stringFlag flags ''narration''; actor = trimSpace (stringFlag flags ''actor'')
     in parsedUUID h ''invalid account ID'' (stringFlag flags ''account'') (\<lambda>accountID.
        failIf (amount \<le> 0) (GoErr ''amount must be greater than zero'')
        (failIf (actor = '''') (GoErr ''actor is required'')
        (bindM nextUUID (\<lambda>correlationID.
         bindM (if cmd = ''deposit''
                then DepositTx \<lparr>dp_AccountPublicID = Some accountID, dp_Amount = amount, dp_Narration = narration,
                  dp_Actor = actor, dp_CorrelationID = Some correlationID\<rparr>
                else WithdrawTx \<lparr>wp_AccountPublicID = Some accountID, wp_Amount = amount, wp_Narration = narration,
                  wp_Actor = actor, wp_CorrelationID = Some correlationID\<rparr>) (\<lambda>result.
         printM (MovementOutput
           \<lparr>bo_TransactionID = uuidString (bt_id (mm_Transaction result)), bo_Reference = bt_reference (mm_Transaction result),
            bo_Type = bt_transaction_type (mm_Transaction result), bo_Status = bt_status (mm_Transaction result),
            bo_AccountID = uuidString (ac_public_id (mm_Account result)), bo_Balance = ac_balance (mm_Account result),
            bo_Currency = ac_currency (mm_Account result), bo_Actor = actor, bo_CorrelationID = uuidString correlationID,
            bo_AuditLogID = au_id (mm_AuditLog result)\<rparr>)))))))"

definition runBankingAccountControl :: "host \<Rightarrow> string \<Rightarrow> string list \<Rightarrow> command" where
  "runBankingAccountControl h cmd args =
     withFlags h [(''account'', FString ''''), (''reason'', FString (if cmd = ''unfreeze'' then ''Operator unfreeze'' else '''')),
         (''actor'', FString (defaultOperatorActor h))] args (\<lambda>flags.
     let reason = trimSpace (stringFlag flags ''reason''); actor = trimSpace (stringFlag flags ''actor'')
     in parsedUUID h ''invalid account ID'' (stringFlag flags ''account'') (\<lambda>accountID.
        failIf (reason = '''') (GoErr ''reason is required'')
        (failIf (actor = '''') (GoErr ''actor is required'')
        (bindM nextUUID (\<lambda>correlationID.
         bindM (SetAccountStatusTx \<lparr>as_AccountPublicID = Some accountID,
             as_TargetStatus = (if cmd = ''unfreeze'' then FinancialAccountStatusActive else FinancialAccountStatusFrozen),
             as_Actor = actor, as_Reason = reason, as_CorrelationID = Some correlationID\<rparr>) (\<lambda>result.
         printM (ControlOutput
           \<lparr>co_AccountID = uuidString (ac_public_id (sr_Account result)), co_Status = ac_status (sr_Account result),
            co_Actor = actor, co_Reason = reason, co_CorrelationID = uuidString correlationID,
            co_AuditLogID = au_id (sr_AuditLog result)\<rparr>)))))))"

definition runBankingReversal :: "host \<Rightarrow> string list \<Rightarrow> command" where
  "runBankingReversal h args =
     withFlags h [(''transaction'', FString ''''), (''reason'', FString ''''), (''actor'', FString (defaultOperatorActor h))] args
     (\<lambda>flags.
     let reason = trimSpace (stringFlag flags ''reason''); actor = trimSpace (stringFlag flags ''actor'')
     in parsedUUID h ''invalid transaction ID'' (stringFlag flags ''transaction'') (\<lambda>transactionID.
        failIf (reason = '''') (GoErr ''reason is required'')
        (failIf (actor = '''') (GoErr ''actor is required'')
        (bindM nextUUID (\<lambda>correlationID.
         bindM (ReverseTransactionTx \<lparr>rt_TransactionID = Some transactionID, rt_Actor = actor, rt_Reason = reason,
             rt_CorrelationID = Some correlationID\<rparr>) (\<lambda>result.
         printM (ReversalOutput
           \<lparr>ro_OriginalTransactionID = uuidString (bt_id (rv_Original result)), ro_OriginalReference = bt_reference (rv_Original result),
            ro_OriginalStatus = bt_status (rv_Original result), ro_ReversalTransactionID = uuidString (bt_id (rv_Reversal result)),
            ro_ReversalReference = bt_reference (rv_Reversal result), ro_Actor = actor, ro_Reason = reason,
            ro_CorrelationID = uuidString correlationID, ro_AuditLogID = au_id (rv_AuditLog result),
            ro_Accounts = map (\<lambda>a. \<lparr>rc_AccountID = uuidString (ac_public_id a), rc_Balance = ac_balance a,
              rc_Currency = ac_currency a, rc_Status = ac_status a\<rparr>) (rv_Accounts result)\<rparr>)))))))"

definition errReconciliationDrift :: error where
  "errReconciliationDrift = GoErr ''reconciliation detected financial drift''"

definition runBankingReconcile :: "host \<Rightarrow> string list \<Rightarrow> command" where
  "runBankingReconcile h args =
     withFlags h [(''account'', FString ''''), (''actor'', FString (defaultOperatorActor h))] args (\<lambda>flags.
     let account = stringFlag flags ''account''; actor = trimSpace (stringFlag flags ''actor'')
     in failIf (actor = '''') (GoErr ''actor is required'')
        (bindM (if trimSpace account \<noteq> '''' then parsedUUID h ''invalid account ID'' account (\<lambda>u. returnM (Some u))
                else returnM None) (\<lambda>accountID.
         bindM (Reconcile \<lparr>rp_AccountPublicID = accountID, rp_Actor = actor\<rparr>) (\<lambda>report.
         returnM (ReconcileOutput
           \<lparr>rn_RunID = rawUuidString (re_RunID report),
            rn_AccountPublicID = uuidStringOrEmpty (re_AccountPublicID report),
            rn_CheckedAt = re_CheckedAt report, rn_Consistent = re_Consistent report,
            rn_IssueCount = int (length (re_Issues report)), rn_Issues = re_Issues report,
            rn_AuditLogID = au_id (re_AuditLog report)\<rparr>,
            if re_Consistent report then None else Some errReconciliationDrift)))))"

definition runTransactionAudit :: "host \<Rightarrow> string \<Rightarrow> command" where
  "runTransactionAudit h v =
     parsedUUID h ''invalid transaction ID'' v (\<lambda>transactionID.
     bindM (mapErrM (errIfNoRows ErrTransactionNotFound) (autocommit (GetBankingTransaction (Some transactionID)))) (\<lambda>transaction.
     bindM (autocommit (ListFinancialAuditPostings (Some transactionID))) (\<lambda>postings.
     bindM (autocommit (ListAuditLogsByEntity ''banking_transaction'' (Some transactionID))) (\<lambda>logs.
     printM (TransactionAudit
       \<lparr>ta_TransactionID = uuidString (bt_id transaction), ta_Reference = bt_reference transaction,
        ta_Type = bt_transaction_type transaction, ta_Status = bt_status transaction, ta_Currency = bt_currency transaction,
        ta_Amount = bt_amount transaction, ta_Narration = bt_narration transaction,
        ta_ReversalOf = uuidStringOrEmpty (bt_reversal_of transaction),
        ta_Postings = map (\<lambda>p. \<lparr>fo_Amount = fp_amount p,
          fo_Ledger = (case fp_code p of Some code \<Rightarrow> code | None \<Rightarrow> fp_kind p),
          fo_AccountID = uuidStringOrEmpty (fp_account_public_id p), fo_Currency = fp_currency p,
          fo_CreatedAt = fp_created_at p\<rparr>) postings,
        ta_AuditLogs = newAuditLogOutputs logs\<rparr>)))))"

definition auditedBalance :: "int \<Rightarrow> (bool \<times> int) query" where
  \<comment> \<open>Whether the account has a ledger account, and that one's balance\<close>
  "auditedBalance account_id =
     bindM (tryM (autocommit (GetCustomerLedgerAccount (Some account_id)))) (\<lambda>r.
     case r of
       Inr ledger \<Rightarrow> bindM (autocommit (GetLedgerAccountBalance (la_id ledger))) (\<lambda>balance. returnM (True, balance))
     | Inl e \<Rightarrow> if errIs e ErrNoRows then returnM (False, 0) else failM e)"

definition runAccountAudit :: "host \<Rightarrow> string \<Rightarrow> command" where
  "runAccountAudit h v =
     parsedUUID h ''invalid account ID'' v (\<lambda>accountID.
     bindM (mapErrM (errIfNoRows ErrAccountNotFound) (autocommit (GetAccountByPublicID (Some accountID)))) (\<lambda>account.
     bindM (auditedBalance (ac_id account)) (\<lambda>(ledgerExists, ledgerBalance).
     bindM (autocommit (ListAccountFinancialAuditLogs (Some accountID))) (\<lambda>logs.
     printM (AccountAudit
       \<lparr>aa_AccountID = uuidString (ac_public_id account), aa_Owner = ac_owner account, aa_Currency = ac_currency account,
        aa_Status = ac_status account, aa_CachedBalance = ac_balance account, aa_LedgerExists = ledgerExists,
        aa_LedgerBalance = ledgerBalance, aa_AuditLogs = newAuditLogOutputs logs\<rparr>)))))"

definition runBankingAudit :: "host \<Rightarrow> string list \<Rightarrow> command" where
  "runBankingAudit h args =
     withFlags h [(''transaction'', FString ''''), (''account'', FString '''')] args (\<lambda>flags.
     let transaction = stringFlag flags ''transaction''; account = stringFlag flags ''account''
     in failIf ((trimSpace transaction \<noteq> '''') = (trimSpace account \<noteq> '''')) (GoErr ''provide exactly one of --transaction or --account'')
        (if trimSpace transaction \<noteq> '''' then runTransactionAudit h transaction else runAccountAudit h account))"

definition bankingCommands :: "string list" where
  "bankingCommands = [''deposit'', ''withdraw'', ''freeze'', ''unfreeze'', ''reverse'', ''reconcile'', ''audit'']"

definition openedStore :: "host \<Rightarrow> 'a query \<Rightarrow> 'a query" where
  "openedStore h k = (case ho_openStore h of Some e \<Rightarrow> failM e | None \<Rightarrow> k)"

definition runBanking :: "host \<Rightarrow> Config \<Rightarrow> string list \<Rightarrow> command" where
  "runBanking h config args =
     failIf (cf_DBSource config = '''') (GoErr ''DB_SOURCE is required'')
     (case args of
        [] \<Rightarrow> failM (GoErr ''banking command requires deposit, withdraw, freeze, unfreeze, reverse, reconcile, or audit'')
      | cmd # rest \<Rightarrow>
        failIf (cmd \<notin> set bankingCommands) (GoErr (''unknown banking command '' @ gl_Quote (ho_lib h) cmd @
          ''; expected deposit, withdraw, freeze, unfreeze, reverse, reconcile, or audit''))
        (openedStore h
          (if cmd = ''deposit'' \<or> cmd = ''withdraw'' then runBankingMovement h cmd rest
           else if cmd = ''freeze'' \<or> cmd = ''unfreeze'' then runBankingAccountControl h cmd rest
           else if cmd = ''reverse'' then runBankingReversal h rest
           else if cmd = ''reconcile'' then runBankingReconcile h rest
           else runBankingAudit h rest)))"

section \<open>Mail job commands\<close>

definition parseCLIJobID :: "host \<Rightarrow> string list \<Rightarrow> (uuid \<Rightarrow> 'a query) \<Rightarrow> 'a query" where
  "parseCLIJobID h args k =
     withFlags h [(''id'', FString '''')] args (\<lambda>flags. parsedUUID h ''invalid job ID'' (stringFlag flags ''id'') k)"

definition runJobsAudit :: "host \<Rightarrow> string list \<Rightarrow> command" where
  "runJobsAudit h args =
     withFlags h [(''id'', FString ''''), (''limit'', FInt 100)] args (\<lambda>flags.
     let limit = intFlag flags ''limit''; job = stringFlag flags ''id''
     in failIf (limit \<le> 0) (GoErr ''limit must be greater than zero'')
        (bindM (if job = '''' then autocommit (ListRecentAuditLogs (wrap32 limit))
                else parsedUUID h ''invalid job ID'' job (\<lambda>u. autocommit (ListAuditLogsByJob (Some u) (wrap32 limit)))) (\<lambda>logs.
         printM (AuditLogsOutput (newAuditLogOutputs logs)))))"

definition runJobs :: "host \<Rightarrow> Config \<Rightarrow> string list \<Rightarrow> command" where
  "runJobs h config args =
     failIf (cf_DBSource config = '''') (GoErr ''DB_SOURCE is required'')
     (case args of
        [] \<Rightarrow> failM (GoErr ''jobs command requires list, show, replay, or audit'')
      | cmd # rest \<Rightarrow>
        openedStore h
          (if cmd = ''list'' then
             withFlags h [(''limit'', FInt 50)] rest (\<lambda>flags.
             let limit = intFlag flags ''limit''
             in failIf (limit \<le> 0) (GoErr ''limit must be greater than zero'')
                (bindM (autocommit (ListDeadLetterEmailJobs (wrap32 limit))) (\<lambda>jobs. printM (JobsOutput jobs))))
           else if cmd = ''show'' then
             parseCLIJobID h rest (\<lambda>u. bindM (autocommit (GetEmailJob (Some u))) (\<lambda>job. printM (JobOutput job)))
           else if cmd = ''replay'' then
             parseCLIJobID h rest (\<lambda>u. bindM (ReplayEmailJobTx (Some u)) (\<lambda>result. printM (ReplayOutput result)))
           else if cmd = ''audit'' then runJobsAudit h rest
           else failM (GoErr (''unknown jobs command '' @ gl_Quote (ho_lib h) cmd))))"

end
