(* ===== verification/CommandRules.thy ===== *)
theory CommandRules
  imports Commands
begin

text \<open>
  What the operator's commands keep and report: they change the database through the operations of the
  store only, and on books that are in order they report no drift.
\<close>

lemma unrecorded [simp]:
  "tablesOf (uuid_ctr_update g s) = tablesOf s" "tablesOf (clock_ctr_update g s) = tablesOf s"
  "tablesOf (rand_ctr_update g s) = tablesOf s" "tableField tablesOf"
  by (simp_all add: tablesOf_def tableField_def)

section \<open>Commands are made of operations\<close>

text \<open>\<open>calls_within R\<close>: a relation between tables that every operation of the store respects.\<close>

locale calls_within = table_relation R for R :: "world \<Rightarrow> world \<Rightarrow> bool" +
  assumes perform: "R s (perform op s)"
begin

lemma operation: "(\<And>s. perform op s = snd (m s)) \<Longrightarrow> within R m"
  unfolding within_def by (metis perform)

lemma reading: "keeps tablesOf m \<Longrightarrow> within R m"
  unfolding keeps_def within_def by (metis same_tables)

lemma command_parts:
  "within R (printM out)"
  "(\<And>flags. within R (k flags)) \<Longrightarrow> within R (withFlags h defaults args k)"
  "(\<And>u. within R (k' u)) \<Longrightarrow> within R (parsedUUID h what v k')"
  "(\<And>u. within R (k' u)) \<Longrightarrow> within R (parseCLIJobID h args k')"
  "within R m \<Longrightarrow> within R (openedStore h m)"
  by (simp_all add: printM_def withFlags_def parsedUUID_def parseCLIJobID_def openedStore_def returnM failM
      split: sum.split option.split)

lemma command_operations:
  "within R (DepositTx dp)" "within R (WithdrawTx wp)" "within R (SetAccountStatusTx st)"
  "within R (ReverseTransactionTx rt)" "within R (Reconcile rc)" "within R (ReplayEmailJobTx j)"
  by (rule operation, rule perform.simps)+

lemma command_reads:
  "within R nextUUID" "within R (autocommit (GetBankingTransaction tid))" "within R (autocommit (ListFinancialAuditPostings tid))"
  "within R (autocommit (ListAuditLogsByEntity ty tid))" "within R (autocommit (GetCustomerLedgerAccount aid))"
  "within R (autocommit (GetLedgerAccountBalance lid))" "within R (autocommit (GetAccountByPublicID pid))"
  "within R (autocommit (ListAccountFinancialAuditLogs pid))" "within R (autocommit (ListRecentAuditLogs lim))"
  "within R (autocommit (ListAuditLogsByJob tid lim))" "within R (autocommit (ListDeadLetterEmailJobs lim))"
  "within R (autocommit (GetEmailJob tid))"
  by (rule reading, intro frame; simp)+

lemmas commands = rules command_parts command_operations command_reads

lemma banking: "within R (runBanking h config args)"
  unfolding runBanking_def runBankingMovement_def runBankingAccountControl_def runBankingReversal_def
    runBankingReconcile_def runBankingAudit_def runTransactionAudit_def runAccountAudit_def auditedBalance_def Let_def
  by (intro commands)

lemma jobs: "within R (runJobs h config args)"
  unfolding runJobs_def runJobsAudit_def Let_def by (intro commands)

end

text \<open>The least such relation: operations, and steps that change no table.\<close>

definition worked :: "world \<Rightarrow> world \<Rightarrow> bool" where
  "worked = (\<lambda>s t. tablesOf s = tablesOf t \<or> (\<exists>op. t = perform op s))\<^sup>*\<^sup>*"

interpretation worked: calls_within worked
proof
  show "worked s s" for s
    by (simp add: worked_def)
  show "worked s t \<Longrightarrow> worked t u \<Longrightarrow> worked s u" for s t u
    unfolding worked_def by (rule rtranclp_trans)
  show "worked s (perform op s)" for s op
    unfolding worked_def by (rule r_into_rtranclp) blast
  show "worked s' t'" if "tablesOf s = tablesOf s'" "tablesOf t = tablesOf t'" "worked s t" for s s' t t'
    using that unfolding worked_def
    by (intro converse_rtranclp_into_rtranclp [of _ s' s] rtranclp.rtrancl_into_rtrancl [of _ s t t']) auto
qed

section \<open>Reports on books that are in order\<close>

lemma reconciled_group:
  assumes "reconciled s" "g \<in> set (accountGroups pid s)"
  shows "ai_customer_ledger_account_id g \<noteq> None \<and> ai_cached_balance g = ai_ledger_balance g"
proof -
  obtain a l where a: "a \<in> set (accounts s)"
    and l: "l \<in> set (leftJoin (filter (\<lambda>l. la_customer_account_id l = Some (ac_id a) \<and> la_kind l = ''customer'') (ledger_accounts s)))"
    and g: "ai_customer_ledger_account_id g = map_option la_id l" "ai_cached_balance g = ac_balance a"
      "ai_ledger_balance g = (case l of None \<Rightarrow> 0 | Some k \<Rightarrow> ledgerTotal (ledger_postings s) (la_id k))"
    using assms(2) unfolding accountGroups_def ledgerTotal_def by auto
  obtain k where "l = Some k" "k \<in> set (ledger_accounts s)" "la_customer_account_id k = Some (ac_id a)" "la_kind k = ''customer''"
    using assms(1) a l unfolding reconciled_def leftJoin_def by (auto simp: filter_empty_conv split: if_splits)
  with assms(1) a g show ?thesis
    unfolding reconciled_def by simp
qed

lemma no_account_issues:
  assumes "reconciled s" "ListAccountReconciliationIssues pid s = (Inr is, t)"
  shows "is = []"
  using assms(2) reconciled_group [OF assms(1), of _ pid]
  unfolding ListAccountReconciliationIssues_def bindM_iff readM_iff failIf_iff returnM_iff
  by (auto simp: filter_empty_conv simp flip: set_empty2 [of "sort_key _ _"])

lemma no_transaction_issues:
  assumes "reconciled s" "ListTransactionReconciliationIssues c s = (Inr is, t)"
  shows "concat (map transactionIssues is) = []"
  using assms unfolding ListTransactionReconciliationIssues_def bindM_iff readM_iff failIf_iff returnM_iff
  by (auto simp: reconciled_def transactionIssues_def transactionIssueRow_def transactionGroups_def settled_def Let_def
      split: if_splits)

lemma no_reversal_issues:
  assumes "reconciled s" "ListDuplicateReversalIssues c s = (Inr is, t)"
  shows "is = []"
proof -
  have "set is = {}"
    using assms unfolding ListDuplicateReversalIssues_def readM_iff reconciled_def by (auto simp flip: not_le)
  then show ?thesis by simp
qed

lemma autocommit_saw:
  assumes "autocommit q s = (Inr x, t)" "keeps bookTables q"
  shows "q (startTx s) = (Inr x, t)" "bookTables (startTx s) = bookTables s" "bookTables t = bookTables s"
proof -
  show run: "q (startTx s) = (Inr x, t)"
    by (rule autocommit_ok [OF assms(1)])
  show st: "bookTables (startTx s) = bookTables s"
    by (simp add: bookTables_def)
  show "bookTables t = bookTables s"
    using keepsD [OF assms(2) run] st by simp
qed

lemma reconcile_reads: "keeps bookTables (ListAccountReconciliationIssues pid)"
  "keeps bookTables (ListTransactionReconciliationIssues c)" "keeps bookTables (ListDuplicateReversalIssues c)"
  by (intro frame)+

lemma Reconcile_clean:
  assumes ok: "books s" and run: "Reconcile arg s = (Inr rep, s')"
  shows "re_Consistent rep \<and> re_Issues rep = []"
proof -
  obtain x1 x2 x3 x4 x5 x6 ais tis ris u1 u2 cust cid where
    a: "nextUUID s = (Inr u1, x1)" "timeNow x1 = (Inr u2, x2)" "cust x2 = (Inr cid, x3)"
    and cust: "cust = (case rp_AccountPublicID arg of None \<Rightarrow> returnM None
        | Some _ \<Rightarrow> bindM (mapErrM (errIfNoRows ErrAccountNotFound) (autocommit (GetAccountByPublicID (rp_AccountPublicID arg))))
            (\<lambda>account. returnM (Some (ac_id account))))"
    and q1: "autocommit (ListAccountReconciliationIssues (rp_AccountPublicID arg)) x3 = (Inr ais, x4)"
    and q2: "autocommit (ListTransactionReconciliationIssues cid) x4 = (Inr tis, x5)"
    and q3: "autocommit (ListDuplicateReversalIssues cid) x5 = (Inr ris, x6)"
    and rep: "re_Issues rep = map accountIssue ais @ concat (map transactionIssues tis) @ map reversalIssue ris"
      "re_Consistent rep \<longleftrightarrow> re_Issues rep = []"
    using run unfolding Reconcile_def Let_def
    by (elim run_elims) (rule that, assumption+, simp_all)
  have kept: "keeps bookTables cust"
    unfolding cust by (intro frame; simp)
  have x3: "bookTables x3 = bookTables s"
    using a keepsD [OF kept, of x2] unfolding nextUUID_iff timeNow_iff by (auto simp: bookTables_def)
  have good: "reconciled w" if "bookTables w = bookTables s" for w
    using reconciled_cong [OF that] books_reconciled [OF ok] by simp
  note saw1 = autocommit_saw [OF q1 reconcile_reads(1)] and saw2 = autocommit_saw [OF q2 reconcile_reads(2)]
    and saw3 = autocommit_saw [OF q3 reconcile_reads(3)]
  have "ais = []"
    using saw1 x3 by (intro no_account_issues [OF good saw1(1)]) simp
  moreover have "concat (map transactionIssues tis) = []"
    using saw1 saw2 x3 by (intro no_transaction_issues [OF good saw2(1)]) simp
  moreover have "ris = []"
    using saw1 saw2 saw3 x3 by (intro no_reversal_issues [OF good saw3(1)]) simp
  ultimately show ?thesis
    using rep by simp
qed

section \<open>Audits on books that are in order\<close>

text \<open>A fault of the connection is not the error for an empty result.\<close>

definition honestFaults :: "env \<Rightarrow> bool" where
  "honestFaults e \<longleftrightarrow> (\<forall>n x c. (beginFault e n = Some x \<or> commitFault e n = Some (x, c)) \<longrightarrow> \<not> errIs x ErrNoRows)"

lemma found_customer_ledger:
  assumes "books s" "a \<in> set (accounts s)"
  obtains l where "GetCustomerLedgerAccount (Some (ac_id a)) s = (Inr l, s)" "l \<in> set (ledger_accounts s)" "ledgerFor a l"
proof -
  let ?p = "\<lambda>l. la_customer_account_id l = Some (ac_id a) \<and> la_kind l = ''customer''"
  obtain l where "l \<in> set (ledger_accounts s)" "?p l"
    using books_reconciled [OF assms(1)] assms(2) unfolding reconciled_def by blast
  then obtain k where k: "find ?p (ledger_accounts s) = Some k"
    by (cases "find ?p (ledger_accounts s)") (auto simp: find_None_iff)
  then have "k \<in> set (ledger_accounts s)" "?p k"
    by (auto dest: find_Some_iff2)
  moreover have "GetCustomerLedgerAccount (Some (ac_id a)) s = (Inr k, s)"
    using k by (simp add: GetCustomerLedgerAccount_def selectOne_def)
  ultimately show thesis
    using that by (simp add: ledgerFor_def)
qed

lemma ledger_lookup:
  assumes "books s" "honestFaults (envir s)" "a \<in> set (accounts s)"
    and run: "autocommit (GetCustomerLedgerAccount (Some (ac_id a))) s = (r, t)" and "\<And>e. r = Inl e \<Longrightarrow> errIs e ErrNoRows"
  shows "\<exists>l\<in>set (ledger_accounts s). r = Inr l \<and> ledgerFor a l \<and> t = startTx s"
proof -
  have "books (startTx s)" "a \<in> set (accounts (startTx s))"
    using assms(1,3) by simp_all
  then obtain l where l: "GetCustomerLedgerAccount (Some (ac_id a)) (startTx s) = (Inr l, startTx s)"
      "l \<in> set (ledger_accounts s)" "ledgerFor a l"
    using found_customer_ledger by (metis startTx_simps)
  have "deferredChecks s (startTx s) = []"
    by (simp add: deferredChecks_def touchedTransactions_def filter_empty_conv)
  then have "r = Inr l \<and> t = startTx s"
    using run l(1) assms(2,5) unfolding honestFaults_def
    by (auto simp: autocommit_def runTx_def commitTx_def split: option.splits if_splits)
  with l show ?thesis by blast
qed

lemma audited_balance:
  assumes "books s" "honestFaults (envir s)" "a \<in> set (accounts s)" "auditedBalance (ac_id a) s = (Inr (found, b), t)"
  shows "found \<and> b = ac_balance a"
proof -
  obtain r s1 where look: "autocommit (GetCustomerLedgerAccount (Some (ac_id a))) s = (r, s1)"
    by (cases "autocommit (GetCustomerLedgerAccount (Some (ac_id a))) s")
  have rest: "(case r of Inr ledger \<Rightarrow> bindM (autocommit (GetLedgerAccountBalance (la_id ledger))) (\<lambda>balance. returnM (True, balance))
     | Inl e \<Rightarrow> if errIs e ErrNoRows then returnM (False, 0) else failM e) s1 = (Inr (found, b), t)"
    using assms(4) look by (simp add: auditedBalance_def bindM_def tryM_def)
  then have "\<exists>l\<in>set (ledger_accounts s). r = Inr l \<and> ledgerFor a l \<and> s1 = startTx s"
    by (intro ledger_lookup [OF assms(1-3) look]) (auto split: if_splits)
  then obtain l where l: "l \<in> set (ledger_accounts s)" "r = Inr l" "ledgerFor a l" "s1 = startTx s"
    by blast
  then have "found" and "autocommit (GetLedgerAccountBalance (la_id l)) s1 = (Inr b, t)"
    using rest by (auto simp: bindM_iff returnM_iff)
  then have "b = ledgerTotal (ledger_postings s) (la_id l)"
    using autocommit_ok(1) [of "GetLedgerAccountBalance (la_id l)" s1 b t] l(4)
    by (simp add: GetLedgerAccountBalance_def bindM_iff readM_iff sumBigint_iff ledgerTotal_def)
  with \<open>found\<close> show ?thesis
    using books_balance(1) [OF assms(1,3) l(1,3)] by simp
qed

text \<open>What a report of a banking command says when the books are in order.\<close>

definition noDrift :: "commandOutput \<Rightarrow> bool" where
  "noDrift out =
     (case out of
        ReconcileOutput r \<Rightarrow> rn_Consistent r \<and> rn_IssueCount r = 0 \<and> rn_Issues r = []
      | AccountAudit r \<Rightarrow> aa_LedgerExists r \<and> aa_LedgerBalance r = aa_CachedBalance r
      | _ \<Rightarrow> True)"

definition reportsOk :: "command \<Rightarrow> world \<Rightarrow> bool" where
  "reportsOk c s \<longleftrightarrow> (\<forall>out err t. c s = (Inr (out, err), t) \<longrightarrow> err = None \<and> noDrift out)"

lemma reports_rules:
  "reportsOk (failM e) s" "noDrift out \<Longrightarrow> reportsOk (printM out) s"
  "(\<And>flags. reportsOk (k flags) s) \<Longrightarrow> reportsOk (withFlags h defaults args k) s"
  "(\<And>u. reportsOk (k' u) s) \<Longrightarrow> reportsOk (parsedUUID h what v k') s"
  "reportsOk c s \<Longrightarrow> reportsOk (failIf b e c) s"
  "reportsOk c s \<Longrightarrow> reportsOk (openedStore h c) s"
  "reportsOk c s \<Longrightarrow> reportsOk c' s \<Longrightarrow> reportsOk (if b then c else c') s"
  "(\<And>x t. m s = (Inr x, t) \<Longrightarrow> reportsOk (k'' x) t) \<Longrightarrow> reportsOk (bindM m k'') s"
  by (auto simp: reportsOk_def withFlags_def parsedUUID_def openedStore_def printM_def failIf_def bindM_iff
      split: sum.splits option.splits)

lemma reconcile_reports:
  assumes "books s"
  shows "reportsOk (runBankingReconcile h args) s"
  unfolding runBankingReconcile_def Let_def
  by (intro reports_rules)
    (auto simp: reportsOk_def returnM_def parsedUUID_def failM_def noDrift_def dest!: Reconcile_clean [OF assms]
      split: if_splits sum.splits)

lemma found_account:
  assumes "mapErrM f (autocommit (GetAccountByPublicID pid)) s = (Inr a, t)"
  shows "a \<in> set (accounts s) \<and> t = startTx s"
proof -
  have "autocommit (GetAccountByPublicID pid) s = (Inr a, t)"
    using assms by (simp add: mapErrM_iff)
  then have "GetAccountByPublicID pid (startTx s) = (Inr a, t)"
    by (rule autocommit_ok)
  then show ?thesis
    by (auto simp: GetAccountByPublicID_def selectOne_iff dest: find_Some_iff2)
qed

lemma account_audit_reports:
  assumes "books s" "honestFaults (envir s)"
  shows "reportsOk (runAccountAudit h v) s"
proof -
  have "noDrift (AccountAudit \<lparr>aa_AccountID = i, aa_Owner = n, aa_Currency = c, aa_Status = st, aa_CachedBalance = ac_balance a,
      aa_LedgerExists = found, aa_LedgerBalance = b, aa_AuditLogs = logs\<rparr>)"
    if "mapErrM f (autocommit (GetAccountByPublicID pid)) s = (Inr a, t)" "auditedBalance (ac_id a) t = (Inr (found, b), u)"
    for i n c st a f pid t found b u logs
  proof -
    have "a \<in> set (accounts s)" "t = startTx s"
      using found_account [OF that(1)] by blast+
    then have "found \<and> b = ac_balance a"
      using assms by (intro audited_balance [OF _ _ _ that(2)]) simp_all
    then show ?thesis by (simp add: noDrift_def)
  qed
  then show ?thesis
    unfolding runAccountAudit_def by (intro reports_rules) (auto simp: split_beta intro!: reports_rules)
qed

lemma banking_reports:
  assumes "books s" "honestFaults (envir s)"
  shows "reportsOk (runBanking h config args) s"
proof -
  have plain: "reportsOk (runBankingMovement h cmd rest) s" "reportsOk (runBankingAccountControl h cmd rest) s"
      "reportsOk (runBankingReversal h rest) s" "reportsOk (runTransactionAudit h v) s" for cmd rest v
    unfolding runBankingMovement_def runBankingAccountControl_def runBankingReversal_def runTransactionAudit_def Let_def
    by (intro reports_rules; simp add: noDrift_def)+
  have "reportsOk (runBankingAudit h rest) s" for rest
    unfolding runBankingAudit_def Let_def by (intro reports_rules plain account_audit_reports assms)
  then show ?thesis
    unfolding runBanking_def
    by (cases args) (auto intro!: reports_rules plain reconcile_reports assms)
qed

end
