(* ===== verification/RequestRules.thy ===== *)
theory RequestRules
  imports Routes CommandRules
begin

text \<open>
  What the operations of the store promise, a request keeps: the handlers, the middleware and the
  webhook change the database through those operations only, and the memory of the process through the
  limiter and the password checker. \<open>request_relation\<close> is that interface.
\<close>

named_theorems calls \<open>handlers that stay within the relation\<close>

lemma ValidateSession_frame [frame]:
  "tableField f \<Longrightarrow> (\<And>g s. f (clock_ctr_update g s) = f s) \<Longrightarrow> keeps f (ValidateSession sid n h)"
  unfolding ValidateSession_def by (intro frame; simp)

text \<open>
  \<open>request_relation Q\<close>: a relation between server states that every elementary step of a handler
  respects. A whole request then respects it.
\<close>

locale request_relation = step_order Q for Q :: "app \<Rightarrow> app \<Rightarrow> bool" +
  assumes read_step: "tablesOf w = tablesOf (ap_store a) \<Longrightarrow> Q a (a\<lparr>ap_store := w\<rparr>)"
    and perform_step: "Q a (a\<lparr>ap_store := perform op (ap_store a)\<rparr>)"
    and header_step: "Q a (a\<lparr>ap_headers := hs\<rparr>)"
    and cookie_step: "Q a (a\<lparr>ap_cookies := cs\<rparr>)"
    and metrics_step: "Q a (a\<lparr>ap_metrics := mt\<rparr>)"
    and admit_step: "Q a (a\<lparr>ap_limiter := snd (admit key lim win now (ap_limiter a))\<rparr>)"
    and reset_step: "Q a (a\<lparr>ap_limiter := resetEntry key (ap_limiter a)\<rparr>)"
    and check_step: "Q a (a\<lparr>ap_checker := snd (IsCompromised sha f pw now then' (ap_checker a))\<rparr>)"
begin

lemmas [calls] = rules

section \<open>The store\<close>

lemma attempt [calls]: "within Q m \<Longrightarrow> within Q (attempt m)"
  by (auto simp: within_def attempt_def split: prod.split) (metis snd_conv)

lemma read: "keeps tablesOf m \<Longrightarrow> within Q (onStore m)"
  unfolding within_def onStore_def
  by (auto split: prod.split dest: keepsD intro: read_step)

lemma performs: "(\<And>s. perform op s = snd (m s)) \<Longrightarrow> within Q (onStore m)"
  using perform_step [of _ op] by (auto simp: within_def onStore_def split: prod.split) (metis snd_conv)

lemma operations [calls]:
  "within Q (onStore (CreateAccountTx ca))" "within Q (onStore (CloseAccountTx cl))" "within Q (onStore (IdempotentTransferTx it))"
  "within Q (onStore (RecordLoginFailure lf))" "within Q (onStore (CreateUserTx cu))" "within Q (onStore (UpdateUserTx uu))"
  "within Q (onStore (VerifyUserEmailTx ve))" "within Q (onStore (RequestEmailVerificationTx n))"
  "within Q (onStore (autocommit (DisableExpiredPendingUser n)))" "within Q (onStore (CreateExclusiveSessionTx cs))"
  "within Q (onStore (RotateRefreshTokenTx rt))" "within Q (onStore (RevokeSessionTx sid h rr ac))"
  "within Q (onStore (RevokeAllUserSessionsTx n rr ev))" "within Q (onStore (ProcessEmailDeliveryEventTx pe))"
  "within Q (onStore (CreateBeneficiaryTx cb))" "within Q (onStore (autocommit (UpdateOwnedBeneficiaryNickname k i n)))"
  "within Q (onStore (autocommit (DeleteOwnedBeneficiary i n)))"
  by (rule performs, rule perform.simps)+

lemma reads [calls]:
  "within Q (onStore timeNow)" "within Q (onStore nextUUID)" "within Q (onStore (CreateAccessToken c m n sid d))"
  "within Q (onStore (CreateRefreshToken c m n sid d))" "within Q (onStore (VerifyAccessToken c m t))" "within Q (onStore (VerifyRefreshToken c m t))"
  "within Q (onStore (NewDeviceSecret c))" "within Q (onStore (ValidateSession sid' n h))" "within Q (onStore (autocommit (GetSession sid')))"
  "within Q (onStore (autocommit (GetUser n)))" "within Q (onStore (autocommit (GetLatestEmailJobForCurrentAddress n)))"
  "within Q (onStore (autocommit (GetEmailJobByVerificationTokenHash h')))"
  "within Q (onStore (autocommit (GetOwnedAccountByPublicID u n)))" "within Q (onStore (autocommit (ResolveReceivableAccount v)))"
  "within Q (onStore (autocommit (ListAccount n k off)))" "within Q (onStore (autocommit (ListOwnedBeneficiaries n k off)))"
  "within Q (onStore (autocommit (ListOwnedAccountTransactions p)))" "within Q (onStore (autocommit (GetOwnedTransactionByReference n ref)))"
  "within Q (onStore (autocommit (GetOwnedAccountStatementBalances ft tt u n)))"
  "within Q (onStore (autocommit (GetOwnedAccountMoneyMovement z u n iv ft tt)))"
  by (rule read, intro frame; simp)+

section \<open>Replies and middleware\<close>

lemma replies [calls]:
  "within Q (replyM st bd)"
  "within Q (setHeader nm vl)"
  "within Q (updateM (ap_cookies_update ck))"
  "within Q (updateM (ap_metrics_update mt))"
  "within Q (updateM (ap_limiter_update (resetEntry key)))"
proof -
  have "Q a (ap_headers_update f a)" "Q a (ap_cookies_update ck a)" "Q a (ap_metrics_update mt a)"
    "Q a (ap_limiter_update (resetEntry key) a)" for a f
    using header_step [of a "f (ap_headers a)"] cookie_step [of a "ck (ap_cookies a)"]
      metrics_step [of a "mt (ap_metrics a)"] reset_step [of a key]
    by (cases a; simp)+
  then show "within Q (replyM st bd)" "within Q (setHeader nm vl)" "within Q (updateM (ap_cookies_update ck))"
    "within Q (updateM (ap_metrics_update mt))" "within Q (updateM (ap_limiter_update (resetEntry key)))"
    by (simp_all add: within_def replyM_def setHeader_def updateM_def refl)
qed

lemma binding [calls]:
  "within Q (bindJSON sv rq bj)"
  "within Q (shouldBindQuery sv rq bq)"
proof -
  have "within Q (writeBindingError sv rq err)" for err
    by (cases err) (simp_all add: writeBindingError_def replies)
  then show "within Q (bindJSON sv rq bj)"
    unfolding bindJSON_def by (intro calls)
  show "within Q (shouldBindQuery sv rq bq)"
    unfolding shouldBindQuery_def by (intro calls)
qed

lemma limiter [calls]:
  "within Q (allowRateLimitedRequest sv rq ep key lim win)"
  "within Q (resetRateLimit sv ep key)"
proof -
  have "within Q (memoryAllow k l w)" for k l w
    unfolding memoryAllow_def
    by (intro calls) (use admit_step in \<open>auto simp: within_def split: prod.split\<close>, metis snd_conv)
  then show "within Q (allowRateLimitedRequest sv rq ep key lim win)"
    unfolding allowRateLimitedRequest_def resilientAllow_def redisAllow_def by (intro calls)
  show "within Q (resetRateLimit sv ep key)"
    unfolding resetRateLimit_def resilientReset_def memoryReset_def by (intro calls)
qed

lemma middleware [calls]:
  "within Q next \<Longrightarrow> within Q (rateLimitMiddleware sv rq ep lim win key next)"
  "within Q next \<Longrightarrow> within Q (requireTrustedBrowserOrigin sv rq next)"
  "within Q next \<Longrightarrow> within Q (corsMiddleware sv rq next)"
  "within Q next \<Longrightarrow> within Q (requireOperationsToken sv rq next)"
  unfolding rateLimitMiddleware_def requireTrustedBrowserOrigin_def corsMiddleware_def requireOperationsToken_def Let_def
  by (intro calls; assumption)+

lemma identity [calls]:
  "within Q (requestContextMiddleware sv rq)"
  "within Q (correlationID rq)"
  "within Q (authMiddleware sv rq)"
  "within Q (verifiedAccountMiddleware sv rq pl)"
  unfolding requestContextMiddleware_def correlationID_def authMiddleware_def verifiedAccountMiddleware_def Let_def
  by (intro calls)+

section \<open>Handlers\<close>

lemma cookies [calls]:
  "within Q (clearSessionCookies sv)"
  "within Q (setRefreshCookie sv vl ex)"
  "within Q (setDeviceCookie sv vl ex)"
  unfolding clearSessionCookies_def clearSessionCookie_def setRefreshCookie_def setDeviceCookie_def setSessionCookie_def Let_def
  by (intro calls)+

lemma session_handlers [calls]:
  "within Q (renewAccessToken sv rq)"
  "within Q (logoutCurrentSession sv rq)"
  "within Q (logoutAllSessions sv rq pl)"
  unfolding renewAccessToken_def logoutCurrentSession_def logoutAllSessions_def Let_def by (intro calls)+

lemma path_parameters [calls]:
  "within Q (bindAccountPublicID sv rq)"
  "within Q (bindBeneficiaryID sv rq)"
  "within Q (normalizedBeneficiaryNickname sv rq nk)"
  "within Q (writeRecipientNotFound rq)"
  "within Q (transferErrorReply sv rq er)"
  "within Q (bindTransactionHistoryRequest sv rq pl hb)"
  unfolding bindAccountPublicID_def bindBeneficiaryID_def normalizedBeneficiaryNickname_def writeRecipientNotFound_def
    transferErrorReply_def bindTransactionHistoryRequest_def Let_def
  by (intro calls)+

lemma financial_handlers [calls]: "within Q (financialHandler sv rq pl fr)"
  by (cases fr; simp only: financialHandler.simps createAccount_def resolveRecipient_def getAccount_def listAccount_def
      closeAccount_def createTransfer_def createBeneficiary_def listBeneficiaries_def updateBeneficiary_def
      deleteBeneficiary_def getTransaction_def listAccountTransactions_def getAccountStatement_def
      getAccountMoneyMovement_def Let_def; intro calls)

lemma sign_up_handlers [calls]:
  "within Q (acceptNewPassword sv rq pw)"
  "within Q (CreateUserHandler sv rq cb)"
proof -
  have "within Q (checkBreached sv pw)" for pw
    unfolding checkBreached_def
    by (intro calls) (use check_step in \<open>auto simp: within_def split: prod.split\<close>, metis snd_conv)
  then show *: "within Q (acceptNewPassword sv rq pw)" for pw
    unfolding acceptNewPassword_def by (intro calls)
  show "within Q (CreateUserHandler sv rq cb)"
    unfolding CreateUserHandler_def Let_def by (intro calls *)
qed

lemma orReset [calls]: "within Q m \<Longrightarrow> within Q (orReset sv key m)"
  unfolding within_def
proof (intro allI)
  fix a
  assume m: "\<forall>a. Q a (snd (m a))"
  obtain r b where run: "m a = (r, b)"
    by (cases "m a")
  have "Q b (snd (resetRateLimit sv ''login_account'' key b))"
    using limiter(2) unfolding within_def by blast
  with m [rule_format, of a] show "Q a (snd (orReset sv key m a))"
    by (auto simp: orReset_def run split: prod.split intro: trans)
qed

lemma user_handlers [calls]:
  "within Q (loginUser sv rq lb)"
  "within Q (userHandler sv rq pl ur)"
proof -
  show "within Q (loginUser sv rq lb)"
    unfolding loginUser_def startSession_def recordLoginFailure_def Let_def by (intro calls)
  show "within Q (userHandler sv rq pl ur)"
    by (cases ur; simp only: userHandler.simps getCurrentUser_def updateUser_def getUserEmailStatus_def
        resendUserEmailVerification_def Let_def; intro calls)
qed

lemma verification_handlers [calls]:
  "within Q (verifyUserEmail sv rq vb)"
  "within Q (confirmUserEmail sv rq vb)"
  "within Q (handleResendWebhook sv wl rq wb)"
  unfolding verifyUserEmail_def confirmUserEmail_def handleResendWebhook_def verificationJobForToken_def
    writeVerificationError_def verificationErrorPage_def renderVerificationPage_def setVerificationPageHeaders_def Let_def
  by (intro calls)+

section \<open>Requests\<close>

lemma dispatch: "within Q (dispatch sv wl rq r)"
proof (cases r)
  case (Public p)
  then show ?thesis
    by (cases p; simp only: dispatch.simps publicHandler.simps ready_def; intro calls)
qed (simp_all only: dispatch.simps, (intro calls)+)

lemma clock_step: "Q a (a\<lparr>ap_store := snd (timeNow (ap_store a))\<rparr>)"
  by (rule read_step) (simp add: timeNow_def)

lemma serves: "within Q h \<Longrightarrow> Q a (snd (serve h a))"
  by (auto simp: within_def serve_def split: prod.split sum.split) (metis snd_conv)+

lemma logged: "within Q h \<Longrightarrow> Q a (snd (requestLoggerMiddleware sv rq h a))"
proof -
  assume h: "within Q h"
  let ?a = "a\<lparr>ap_store := snd (timeNow (ap_store a))\<rparr>"
  obtain r b where run: "serve h ?a = (r, b)"
    by (cases "serve h ?a")
  have "Q a b"
    using trans [OF clock_step [of a] serves [OF h, of ?a]] by (simp add: run)
  then have "Q a (b\<lparr>ap_store := snd (timeNow (ap_store b)), ap_metrics := mt\<rparr>)" for mt
    using trans clock_step metrics_step by blast
  then show ?thesis
    by (simp add: requestLoggerMiddleware_def run Let_def)
qed

lemma handled: "Q a (snd (handle sv wl rq r a))"
proof -
  let ?a = "a\<lparr>ap_headers := [], ap_cookies := []\<rparr>"
  obtain c b where ctx: "requestContextMiddleware sv rq ?a = (c, b)"
    by (cases "requestContextMiddleware sv rq ?a")
  have "Q a ?a"
    using trans [OF header_step cookie_step] .
  then have begun: "Q a b"
    using withinD [OF identity(1) ctx] trans by blast
  show ?thesis
  proof (cases c)
    case (Inl early)
    then show ?thesis
      using begun by (simp add: handle_def ctx)
  next
    case (Inr rq')
    then show ?thesis
      using begun trans logged [OF middleware(3) [OF dispatch]] by (simp add: handle_def ctx)
  qed
qed

end

section \<open>The running service\<close>

text \<open>
  A server starts on an empty database with empty counters, limiter and cache; then requests arrive, and
  the operator's commands, the relay and the worker do their work in between.
\<close>

definition initialApp :: "env \<Rightarrow> int \<Rightarrow> int \<Rightarrow> app" where
  "initialApp e maxEntries ttl =
     \<lparr>ap_store = initialWorld e [], ap_limiter = NewMemoryRateLimiter maxEntries,
      ap_checker = NewHIBPPasswordBreachChecker ttl,
      ap_metrics = \<lparr>mr_requests = (\<lambda>_. 0), mr_requestLatency = (\<lambda>_. 0), mr_transferResult = (\<lambda>_. 0),
        mr_rateLimited = (\<lambda>_. 0), mr_databaseErrors = 0, mr_workerRetries = 0\<rparr>,
      ap_headers = [], ap_cookies = []\<rparr>"

inductive served :: "server \<Rightarrow> webhookLib \<Rightarrow> app \<Rightarrow> app \<Rightarrow> bool" for sv wl where
  idle: "served sv wl a a"
| request: "served sv wl a b \<Longrightarrow> served sv wl a (snd (handle sv wl rq r b))"
| background: "served sv wl a b \<Longrightarrow> served sv wl a (b\<lparr>ap_store := perform op (ap_store b)\<rparr>)"
| banking: "served sv wl a b \<Longrightarrow> served sv wl a (b\<lparr>ap_store := snd (runBanking h config args (ap_store b))\<rparr>)"
| jobs: "served sv wl a b \<Longrightarrow> served sv wl a (b\<lparr>ap_store := snd (runJobs h config args (ap_store b))\<rparr>)"

context request_relation
begin

lemma worked_step: "worked (ap_store a) t \<Longrightarrow> Q a (a\<lparr>ap_store := t\<rparr>)"
  unfolding worked_def
proof (induction rule: rtranclp_induct)
  case base
  show ?case using read_step [of "ap_store a" a] by simp
next
  case (step y z)
  let ?b = "a\<lparr>ap_store := y\<rparr>"
  have "Q ?b (?b\<lparr>ap_store := z\<rparr>)"
    using step(2) read_step [of z ?b] perform_step [of ?b] by auto
  then show ?case
    using trans [OF step(3)] by simp
qed

lemma commanded:
  "Q a (a\<lparr>ap_store := snd (runBanking h config args (ap_store a))\<rparr>)"
  "Q a (a\<lparr>ap_store := snd (runJobs h config args (ap_store a))\<rparr>)"
  using worked.banking [of h config args] worked.jobs [of h config args]
  by (auto simp: within_def intro: worked_step)

lemma served: "served sv wl a b \<Longrightarrow> Q a b"
proof (induction rule: served.induct)
  case (idle a)
  show ?case by (rule refl)
next
  case (request a b rq r)
  then show ?case using handled trans by blast
next
  case (background a b op)
  then show ?case using perform_step trans by blast
next
  case (banking a b h config args)
  then show ?case using commanded(1) trans by blast
next
  case (jobs a b h config args)
  then show ?case using commanded(2) trans by blast
qed

end

text \<open>A relation between tables that every operation respects is one that every request respects.\<close>

sublocale calls_within \<subseteq> app: request_relation "\<lambda>a b. R (ap_store a) (ap_store b)"
  by unfold_locales (auto simp: perform intro: refl trans same_tables)

sublocale statements_within \<subseteq> requests: calls_within R
  by unfold_locales (rule perform)

interpretation books_requests: calls_within "\<lambda>s t. books s \<longrightarrow> books t"
  by unfold_locales (auto simp: perform_books tablesOf_def)

text \<open>The limiter and the cache of the process keep within their sizes.\<close>

interpretation limiter_requests: request_relation "\<lambda>a b. limiterOk (ap_limiter a) \<longrightarrow> limiterOk (ap_limiter b)"
  by unfold_locales (auto simp: admit_ok limiter_parts)

interpretation cache_requests: request_relation "\<lambda>a b. cacheOk (ap_checker a) \<longrightarrow> cacheOk (ap_checker b)"
  by unfold_locales (auto simp: IsCompromised_ok)

end
