(* ===== verification/Paging.thy ===== *)
theory Paging
  imports RequestRules
begin

text \<open>
  A client that follows the cursors sees every transaction once, newest first: the pages together are
  the unpaged list. The order is strict because a ledger has at most one posting of a transaction, which
  is an invariant of the tables.
\<close>

section \<open>One posting per transaction and ledger\<close>

definition postingKey :: "LedgerPosting \<Rightarrow> uuid \<times> int" where
  "postingKey p = (lp_transaction_id p, lp_ledger_account_id p)"

definition postingsOk :: "world \<Rightarrow> bool" where
  "postingsOk s \<longleftrightarrow> distinct (map postingKey (ledger_postings s))"

interpretation postingsOk: table_invariant postingsOk
  by unfold_locales (simp add: postingsOk_def tablesOf_def)

lemma keeps_postingsOk: "keeps ledger_postings m \<Longrightarrow> preserves postingsOk m"
  unfolding preserves_def postingsOk_def keeps_def within_def by simp

lemma posting_insert_ok: "preserves postingsOk (CreateLedgerPosting tid lid n)"
  unfolding CreateLedgerPosting_def
  by (intro preserves_rules row_writes_preserve, (rule keeps_postingsOk, intro frame; simp)+)
    (auto simp: postingsOk_def ledgerPostingChecks_def list_ex_iff postingKey_def)

interpretation postingsOk_ops: statements_within "\<lambda>s t. postingsOk s \<longrightarrow> postingsOk t"
  by (unfold_locales, unfold preserves_within)
    ((rule posting_insert_ok) | (rule keeps_postingsOk, (intro frame; simp)))+

lemma single_key:
  assumes "distinct (map f xs)" "\<And>x. x \<in> set xs \<Longrightarrow> f x = k"
  shows "length xs \<le> 1"
proof -
  have "length xs = card (f ` set xs)"
    using assms(1) by (metis distinct_card length_map set_map)
  also have "\<dots> \<le> card {k}"
    using assms(2) by (intro card_mono) auto
  finally show ?thesis by simp
qed

section \<open>Accounts have their own public ids and numbers\<close>

definition accountKeysOk :: "world \<Rightarrow> bool" where
  "accountKeysOk s \<longleftrightarrow> distinct (map ac_public_id (accounts s)) \<and> distinct (map ac_account_number (accounts s))"

interpretation accountKeysOk: table_invariant accountKeysOk
  by unfold_locales (simp add: accountKeysOk_def tablesOf_def)

lemma keeps_accountKeysOk: "keeps accounts m \<Longrightarrow> preserves accountKeysOk m"
  unfolding preserves_def accountKeysOk_def keeps_def within_def by simp

lemma account_update_keys:
  assumes "\<And>a. ac_public_id (f a) = ac_public_id a" "\<And>a. ac_account_number (f a) = ac_account_number a"
  shows "preserves accountKeysOk (updateAccount p f)"
  unfolding updateAccount_def
  by (rule row_writes_preserve) (simp add: accountKeysOk_def map_if_key assms del: map_map)

lemma account_writes_keys:
  "preserves accountKeysOk (CreateAccount ow c n)" "preserves accountKeysOk (CloseAccount i)"
  "preserves accountKeysOk (SetAccountStatus i' st)" "preserves accountKeysOk (AddAccountBalanceInternal m i2)"
  "preserves accountKeysOk (subtractAccountBalance i3 m')"
proof -
  show "preserves accountKeysOk (CreateAccount ow c n)"
    unfolding CreateAccount_def
    by (intro preserves_rules row_writes_preserve, (rule keeps_accountKeysOk, intro frame; simp)+)
      (auto simp: accountKeysOk_def accountChecks_def list_ex_iff)
  show "preserves accountKeysOk (CloseAccount i)" "preserves accountKeysOk (SetAccountStatus i' st)"
      "preserves accountKeysOk (AddAccountBalanceInternal m i2)" "preserves accountKeysOk (subtractAccountBalance i3 m')"
    unfolding CloseAccount_def SetAccountStatus_def AddAccountBalanceInternal_def subtractAccountBalance_def
    by (intro preserves_rules account_update_keys keeps_accountKeysOk; (intro frame)?; simp)+
qed

interpretation accountKeysOk_ops: statements_within "\<lambda>s t. accountKeysOk s \<longrightarrow> accountKeysOk t"
  by (unfold_locales, unfold preserves_within)
    ((rule account_writes_keys) | (rule keeps_accountKeysOk, (intro frame; simp)))+

lemma targetLedgers_single:
  assumes books: "books s" and keys: "accountKeysOk s"
  shows "length (targetLedgers pid username s) \<le> 1"
proof -
  have "distinct (map ac_public_id (filter (\<lambda>a. Some (ac_public_id a) = pid \<and> ac_owner a = username) (accounts s)))"
    using keys by (simp add: accountKeysOk_def distinct_map_filter)
  then have own: "length (filter (\<lambda>a. Some (ac_public_id a) = pid \<and> ac_owner a = username) (accounts s)) \<le> 1"
    by (rule single_key [where k = "the pid"]) auto
  have one: "length (filter (\<lambda>l. la_customer_account_id l = Some c \<and> la_kind l = ''customer'') (ledger_accounts s)) \<le> 1" (is "length ?ls \<le> 1") for c
  proof (rule single_key)
    show "distinct (map la_id ?ls)"
      using booksD(2) [OF books] by (simp add: distinct_map_filter)
    show "la_id l = la_id (hd ?ls)" if "l \<in> set ?ls" for l
    proof -
      have "hd ?ls \<in> set ?ls"
        using that by (cases ?ls) auto
      then have both: "hd ?ls \<in> set (ledger_accounts s)" "l \<in> set (ledger_accounts s)"
          "la_customer_account_id (hd ?ls) = Some c" "la_customer_account_id l = Some c"
        using that by simp_all
      obtain a where "ledgerFor a l" "ac_id a = c"
        using books_account_of_ledger [OF books both(2,4)] .
      then have "ledgerFor a (hd ?ls)"
        using both by (simp add: ledgerFor_def)
      then show ?thesis
        using books_ledger_unique [OF books both(2,1) \<open>ledgerFor a l\<close>] by simp
    qed
  qed
  show ?thesis
  proof (cases "filter (\<lambda>a. Some (ac_public_id a) = pid \<and> ac_owner a = username) (accounts s)")
    case (Cons a as)
    then show ?thesis
      using own one [of "ac_id a"] by (simp add: targetLedgers_def)
  qed (simp add: targetLedgers_def)
qed

section \<open>An account's activity\<close>

lemma runningBalance_map: "map f (runningBalance acc rs) = map f rs"
  if "\<And>r n. f (tx_balance_after_update n r) = f r" for f :: "ListOwnedAccountTransactionsRow \<Rightarrow> 'c"
  by (induction acc rs rule: runningBalance.induct) (simp_all add: that)

lemma accountActivity_ids: "mset (map tx_id (accountActivity lids s)) = mset (map (bt_id \<circ> snd) (movements lids s))"
proof -
  have "mset (map tx_id (accountActivity lids s)) = image_mset tx_id (mset (map (activityRow s) (movements lids s)))"
    unfolding accountActivity_def by (subst runningBalance_map) simp_all
  then show ?thesis
    by (simp add: activityRow_def case_prod_beta image_mset.compositionality comp_def)
qed

lemma distinct_joined:
  assumes "distinct (map key ts)" "distinct (map link ps)"
  shows "distinct (map (key \<circ> snd) (concat (map (\<lambda>p. map (Pair p) (filter (\<lambda>t. key t = link p) ts)) ps)))"
  using assms(2)
proof (induction ps)
  case (Cons p ps)
  let ?rows = "\<lambda>p. map (Pair p) (filter (\<lambda>t. key t = link p) ts)"
  have "set (map (key \<circ> snd) (?rows q)) \<subseteq> {link q}" for q
    by auto
  then have "set (map (key \<circ> snd) (?rows p)) \<inter> set (map (key \<circ> snd) (concat (map ?rows ps))) = {}"
    using Cons.prems by fastforce
  moreover have "distinct (map (key \<circ> snd) (?rows p))"
    using assms(1) by (simp add: comp_def distinct_map_filter)
  ultimately show ?case
    using Cons by (simp add: comp_def)
qed simp

lemma distinct_movements:
  assumes "postingsOk s" "distinct (map bt_id (banking_transactions s))" "length lids \<le> 1"
  shows "distinct (map (bt_id \<circ> snd) (movements lids s))"
proof (cases lids)
  case (Cons lid rest)
  let ?ps = "filter (\<lambda>p. lp_ledger_account_id p = lid) (ledger_postings s)"
  have "distinct (map postingKey ?ps)"
    using assms(1) by (simp add: postingsOk_def distinct_map_filter)
  moreover have "map lp_transaction_id ?ps = map fst (map postingKey ?ps)"
    by (simp add: postingKey_def)
  moreover have "inj_on fst (set (map postingKey ?ps))"
    by (auto simp: inj_on_def postingKey_def)
  ultimately have "distinct (map lp_transaction_id ?ps)"
    by (metis distinct_map)
  from distinct_joined [OF assms(2) this] show ?thesis
    using Cons assms(3) by (simp add: movements_def)
qed (simp add: movements_def)

lemma distinct_activity:
  assumes "books s" "postingsOk s" "accountKeysOk s"
  shows "distinct (map tx_id (accountActivity (targetLedgers pid username s) s))"
proof -
  have "distinct (map (bt_id \<circ> snd) (movements (targetLedgers pid username s) s))"
    using distinct_movements [OF assms(2) _ targetLedgers_single [OF assms(1,3)]] assms(1) by (simp add: booksOk_def)
  then show ?thesis
    using accountActivity_ids by (metis distinct_count_atmost_1 set_mset_mset mset_eq_imp_distinct_iff)
qed

section \<open>The order of the list\<close>

lemma sorted_lex:
  assumes "sorted (map f xs)" "\<And>k. sorted (map g (filter (\<lambda>y. f y = k) xs))"
  shows "sorted_wrt (\<lambda>a b. f a < f b \<or> f a = f b \<and> g a \<le> g b) xs"
  using assms
proof (induction xs)
  case (Cons x xs)
  have tail: "sorted (map g (filter (\<lambda>y. f y = k) xs))" for k
    using Cons.prems(2) [of k] by (auto split: if_splits)
  have "f x < f y \<or> f x = f y \<and> g x \<le> g y" if "y \<in> set xs" for y
    using Cons.prems(1) Cons.prems(2) [of "f x"] that by (fastforce simp: less_le)
  with Cons tail show ?case by simp
qed simp

lemma sorted_strict:
  assumes "sorted_wrt P xs" "distinct (map k xs)" "\<And>a b. P a b \<Longrightarrow> k a \<noteq> k b \<Longrightarrow> Q a b"
  shows "sorted_wrt Q xs"
  using assms(1,2) by (induction xs) (auto intro!: assms(3) simp: image_iff)

definition newer :: "ListOwnedAccountTransactionsRow \<Rightarrow> ListOwnedAccountTransactionsRow \<Rightarrow> bool" where
  "newer a b \<longleftrightarrow> tx_created_at b < tx_created_at a \<or> tx_created_at b = tx_created_at a \<and> tx_id b < tx_id a"

lemma newer_asym: "newer a b \<Longrightarrow> \<not> newer b a"
  by (auto simp: newer_def)

lemma newestFirst_sorted:
  assumes "distinct (map tx_id rs)"
  shows "sorted_wrt newer (newestFirst rs)"
proof -
  have ids: "distinct (map tx_id (newestFirst rs))"
    using assms by (simp add: newestFirst_def sortDesc_def distinct_map)
  have "sorted (map (\<lambda>r. - tx_created_at r) (newestFirst rs))"
    by (simp add: newestFirst_def sortDesc_def)
  moreover have "sorted (map (\<lambda>r. - uint (tx_id r)) (filter (\<lambda>r. - tx_created_at r = k) (newestFirst rs)))" for k
  proof -
    have "filter (\<lambda>r. - tx_created_at r = k) (newestFirst rs) = filter (\<lambda>r. - tx_created_at r = k) (sortDesc (uint \<circ> tx_id) rs)"
      unfolding newestFirst_def sortDesc_def [of tx_created_at] by (rule sort_key_stable)
    then show ?thesis
      by (simp add: sortDesc_def sorted_filter)
  qed
  ultimately have "sorted_wrt (\<lambda>a b. - tx_created_at a < - tx_created_at b \<or>
      - tx_created_at a = - tx_created_at b \<and> - uint (tx_id a) \<le> - uint (tx_id b)) (newestFirst rs)"
    by (rule sorted_lex)
  then show ?thesis
    using ids by (rule sorted_strict) (auto simp: newer_def word_less_def less_le word_uint_eq_iff)
qed

lemma after_row:
  assumes "sorted_wrt newer (us @ r # vs)"
  shows "filter (beforeCursor (Some (tx_created_at r)) (Some (tx_id r))) (us @ r # vs) = vs"
proof -
  have same: "beforeCursor (Some (tx_created_at r)) (Some (tx_id r)) = newer r"
    by (auto simp: beforeCursor_def allowed_def newer_def fun_eq_iff)
  have "\<not> newer r u" if "u \<in> set us" for u
    using assms that newer_asym by (auto simp: sorted_wrt_append)
  moreover have "newer r v" if "v \<in> set vs" for v
    using assms that by (auto simp: sorted_wrt_append)
  ultimately show ?thesis
    unfolding same by (auto simp: newer_def filter_empty_conv)
qed

section \<open>Following the cursors\<close>

text \<open>
  A client that asks for the first page and then, as long as a page has a cursor, for the next one.
  The first argument bounds the number of pages; \<open>None\<close> is an error of a page, or too low a bound.
\<close>

fun browse :: "nat \<Rightarrow> server \<Rightarrow> int \<Rightarrow> uuid \<Rightarrow> ListOwnedAccountTransactionsParams \<Rightarrow> string \<Rightarrow> world \<Rightarrow> transactionResponse list option" where
  "browse 0 sv pageSize pid arg cursor s = None"
| "browse (Suc n) sv pageSize pid arg cursor s =
     (case decodeTransactionCursor sv cursor of
        None \<Rightarrow> None
      | Some (cursorTime, cursorID) \<Rightarrow>
        (case fst (ListOwnedAccountTransactions (arg\<lparr>lt_PageLimit := wrap32 (pageSize + 1), lt_CursorCreatedAt := cursorTime,
             lt_CursorID := cursorID\<rparr>) s) of
           Inl e \<Rightarrow> None
         | Inr rows \<Rightarrow>
           (case transactionPage sv rows pageSize pid of (transactions, nextCursor) \<Rightarrow>
              if nextCursor = [] then Some transactions
              else map_option ((@) transactions) (browse n sv pageSize pid arg nextCursor s))))"

definition matching :: "ListOwnedAccountTransactionsParams \<Rightarrow> world \<Rightarrow> ListOwnedAccountTransactionsRow list" where
  \<comment> \<open>What there is to see: the rows the filters select, newest first\<close>
  "matching arg s = newestFirst (filter (activityFilter arg)
     (accountActivity (targetLedgers (lt_AccountPublicID arg) (lt_Username arg) s) s))"

definition readable :: "server \<Rightarrow> ListOwnedAccountTransactionsParams \<Rightarrow> world \<Rightarrow> bool" where
  \<comment> \<open>The rows can be scanned, and the JSON library restores the cursors made of them.\<close>
  "readable sv arg s \<longleftrightarrow>
     (\<forall>r\<in>set (accountActivity (targetLedgers (lt_AccountPublicID arg) (lt_Username arg) s) s).
        in_int64 (tx_balance_after r) \<and> tx_counterparty r \<noteq> None \<and> tx_created_at r \<noteq> goZeroTime \<and> tx_id r \<noteq> 0 \<and>
        sr_marshal sv (cursorJSON (tx_created_at r) (tx_id r)) \<noteq> [] \<and>
        sr_unmarshalCursor sv (sr_marshal sv (cursorJSON (tx_created_at r) (tx_id r))) = Some (tx_created_at r, tx_id r))"

lemma scan_all: "\<forall>r\<in>set rs. tx_counterparty r \<noteq> None \<Longrightarrow> forM rs scanRow s = (Inr rs, s)"
  by (induction rs) (auto simp: scanRow_def bindM_def returnM_def)

lemma page_rows:
  assumes "readable sv arg s" "0 \<le> limit"
  shows "ListOwnedAccountTransactions (arg\<lparr>lt_PageLimit := limit, lt_CursorCreatedAt := ct, lt_CursorID := ci\<rparr>) s =
     (Inr (take (nat limit) (filter (beforeCursor ct ci) (matching arg s))), s)"
proof -
  let ?act = "accountActivity (targetLedgers (lt_AccountPublicID arg) (lt_Username arg) s) s"
  let ?rows = "take (nat limit) (filter (beforeCursor ct ci) (matching arg s))"
  have same: "activityFilter (arg\<lparr>lt_PageLimit := limit, lt_CursorCreatedAt := ct, lt_CursorID := ci\<rparr>) = activityFilter arg"
    by (simp add: fun_eq_iff activityFilter_def)
  have "filter (beforeCursor ct ci) (matching arg s) = newestFirst (filter (\<lambda>r. activityFilter arg r \<and> beforeCursor ct ci r) ?act)"
    unfolding matching_def newestFirst_def sortDesc_def by (simp add: filter_sort conj_commute)
  moreover have "set ?rows \<subseteq> set ?act"
    by (auto simp: matching_def newestFirst_def dest!: in_set_takeD)
  then have "forM ?rows scanRow s = (Inr ?rows, s)"
    using assms(1) by (intro scan_all) (auto simp: readable_def)
  moreover have "\<not> list_ex (\<lambda>r. \<not> in_int64 (tx_balance_after r)) ?act"
    using assms(1) by (auto simp: readable_def list_ex_iff)
  ultimately show ?thesis
    using assms(2) by (simp add: ListOwnedAccountTransactions_def failIf_def bindM_def readM_def same)
qed
lemma browse_from:
  assumes "readable sv arg s" "sorted_wrt newer (matching arg s)" "1 \<le> pageSize" "pageSize < 2 ^ 31 - 1"
    and "decodeTransactionCursor sv cursor = Some (ct, ci)" "filter (beforeCursor ct ci) (matching arg s) = vs"
    and "matching arg s = us @ vs" "length vs < n"
  shows "browse n sv pageSize pid arg cursor s = Some (map (\<lambda>r. transactionResponseFromList r pid) vs)"
  using assms(5-8)
proof (induction n arbitrary: cursor ct ci us vs)
  case (Suc n)
  have limit: "wrap32 (pageSize + 1) = pageSize + 1"
    using assms(3,4) by (simp add: wrap32_def)
  then have page: "ListOwnedAccountTransactions (arg\<lparr>lt_PageLimit := wrap32 (pageSize + 1), lt_CursorCreatedAt := ct,
      lt_CursorID := ci\<rparr>) s = (Inr (take (nat (pageSize + 1)) vs), s)"
    using page_rows [OF assms(1), where limit = "pageSize + 1" and ct = ct and ci = ci] assms(3) Suc.prems(2) by simp
  show ?case
  proof (cases "int (length vs) \<le> pageSize")
    case True
    then show ?thesis
      using Suc.prems(1) page by (simp add: transactionPage_def)
  next
    case False
    define k where "k = nat pageSize"
    have k: "0 < k" "k < length vs" "nat (pageSize + 1) = Suc k"
      using False assms(3) by (auto simp: k_def)
    define r where "r = last (take k vs)"
    have parts: "take k vs = butlast (take k vs) @ [r]"
      using k by (cases "vs = []") (simp_all add: r_def)
    then have vs: "vs = butlast (take k vs) @ r # drop k vs"
      by (metis append_Cons append_Nil append_assoc append_take_drop_id)
    then have split: "matching arg s = (us @ butlast (take k vs)) @ r # drop k vs"
      using Suc.prems(3) by simp
    have "r \<in> set (matching arg s)"
      unfolding split by simp
    then have "r \<in> set (accountActivity (targetLedgers (lt_AccountPublicID arg) (lt_Username arg) s) s)"
      by (simp add: matching_def newestFirst_def)
    then have decode: "decodeTransactionCursor sv (encodeTransactionCursor sv (tx_created_at r) (tx_id r)) =
        Some (Some (tx_created_at r), Some (tx_id r))"
      using assms(1) by (intro cursor_roundtrip) (auto simp: readable_def)
    then have nonempty: "encodeTransactionCursor sv (tx_created_at r) (tx_id r) \<noteq> []"
      by (auto simp: decodeTransactionCursor_def)
    have "filter (beforeCursor (Some (tx_created_at r)) (Some (tx_id r))) (matching arg s) = drop k vs"
      using assms(2) unfolding split by (rule after_row)
    moreover have "matching arg s = (us @ butlast (take k vs) @ [r]) @ drop k vs"
      using split by simp
    ultimately have "browse n sv pageSize pid arg (encodeTransactionCursor sv (tx_created_at r) (tx_id r)) s =
        Some (map (\<lambda>r. transactionResponseFromList r pid) (drop k vs))"
      using k Suc.prems(4) by (intro Suc.IH [OF decode]) simp_all
    moreover have "transactionPage sv (take (Suc k) vs) pageSize pid =
        (map (\<lambda>r. transactionResponseFromList r pid) (take k vs), encodeTransactionCursor sv (tx_created_at r) (tx_id r))"
      using k assms(3) by (auto simp: transactionPage_def Let_def r_def k_def min_def)
    ultimately show ?thesis
      using Suc.prems(1) page nonempty k(3)
      by (simp flip: map_append)
  qed
qed simp

lemma browse_complete:
  assumes "books s" "postingsOk s" "accountKeysOk s"
    and "readable sv arg s" "1 \<le> pageSize" "pageSize < 2 ^ 31 - 1"
  shows "browse (length (matching arg s) + 1) sv pageSize pid arg '''' s =
     Some (map (\<lambda>r. transactionResponseFromList r pid) (matching arg s))"
proof (rule browse_from [where us = "[]"])
  have "distinct (map tx_id (filter (activityFilter arg) (accountActivity (targetLedgers (lt_AccountPublicID arg) (lt_Username arg) s) s)))"
    using distinct_activity [OF assms(1-3)] by (simp add: distinct_map_filter)
  then show "sorted_wrt newer (matching arg s)"
    unfolding matching_def by (rule newestFirst_sorted)
  show "filter (beforeCursor None None) (matching arg s) = matching arg s"
    by (simp add: beforeCursor_def allowed_def)
qed (use assms in \<open>simp_all add: decodeTransactionCursor_def\<close>)
end
