(* ===== verification/BankModel.thy ===== *)
theory BankModel
  imports RequestRules OperatorRules AccountRules
begin

text \<open>
  The bank as its customers see it: who holds how much, and a journal of what every transaction moved.
  \<open>bankStep\<close> is the contract; the lemmas show that whatever the store and the service do is a sequence
  of its steps.
\<close>

section \<open>The contract\<close>

record holding =
  ho_owner :: string
  ho_currency :: string
  ho_balance :: int
  ho_status :: string

text \<open>A journal entry stands, was undone by a reversal, or is itself a reversal.\<close>

datatype entryState = Standing | Undone | Undoing

record bank =
  bk_holdings :: "int \<rightharpoonup> holding"
  bk_journal :: "uuid \<rightharpoonup> (int \<Rightarrow> int) \<times> entryState"

definition post :: "(int \<Rightarrow> int) \<Rightarrow> (int \<rightharpoonup> holding) \<Rightarrow> (int \<rightharpoonup> holding)" where
  "post d h = (\<lambda>i. map_option (\<lambda>x. x\<lparr>ho_balance := ho_balance x + d i\<rparr>) (h i))"

text \<open>What one transaction may move: a transfer, a deposit or a withdrawal.\<close>

inductive movement :: "(int \<rightharpoonup> holding) \<Rightarrow> (int \<Rightarrow> int) \<Rightarrow> bool" for h where
  transfer: "h i = Some x \<Longrightarrow> h k = Some y \<Longrightarrow> i \<noteq> k \<Longrightarrow> ho_currency x = ho_currency y \<Longrightarrow>
    ho_status x = ''active'' \<Longrightarrow> ho_status y \<noteq> ''closed'' \<Longrightarrow> 0 < n \<Longrightarrow> n \<le> ho_balance x \<Longrightarrow> n \<le> 1000000 \<Longrightarrow>
    movement h ((\<lambda>_. 0)(i := - n, k := n))"
| deposit: "h i = Some x \<Longrightarrow> ho_status x \<noteq> ''closed'' \<Longrightarrow> 0 < n \<Longrightarrow> movement h ((\<lambda>_. 0)(i := n))"
| withdrawal: "h i = Some x \<Longrightarrow> ho_status x = ''active'' \<Longrightarrow> 0 < n \<Longrightarrow> n \<le> ho_balance x \<Longrightarrow>
    movement h ((\<lambda>_. 0)(i := - n))"

inductive bankStep :: "bank \<Rightarrow> bank \<Rightarrow> bool" where
  opens: "bk_holdings b i = None \<Longrightarrow> \<forall>x\<in>ran (bk_holdings b). (ho_owner x, ho_currency x) \<noteq> (owner, currency) \<Longrightarrow>
    bankStep b (b\<lparr>bk_holdings := (bk_holdings b)(i \<mapsto>
      \<lparr>ho_owner = owner, ho_currency = currency, ho_balance = 0, ho_status = ''active''\<rparr>)\<rparr>)"
| status: "bk_holdings b i = Some x \<Longrightarrow> ho_status x \<noteq> ''closed'' \<Longrightarrow> st \<in> {''active'', ''frozen'', ''closed''} \<Longrightarrow>
    (st = ''closed'' \<Longrightarrow> ho_balance x = 0) \<Longrightarrow>
    bankStep b (b\<lparr>bk_holdings := (bk_holdings b)(i \<mapsto> x\<lparr>ho_status := st\<rparr>)\<rparr>)"
| posting: "movement (bk_holdings b) d \<Longrightarrow> bk_journal b u = None \<Longrightarrow>
    bankStep b \<lparr>bk_holdings = post d (bk_holdings b), bk_journal = (bk_journal b)(u \<mapsto> (d, Standing))\<rparr>"
| reversal: "bk_journal b t = Some (d, Standing) \<Longrightarrow> bk_journal b u = None \<Longrightarrow>
    (\<And>i x. bk_holdings b i = Some x \<Longrightarrow> d i \<noteq> 0 \<Longrightarrow> ho_status x \<noteq> ''closed'' \<and> d i \<le> ho_balance x) \<Longrightarrow>
    bankStep b \<lparr>bk_holdings = post (\<lambda>i. - d i) (bk_holdings b),
      bk_journal = (bk_journal b)(t \<mapsto> (d, Undone), u \<mapsto> (\<lambda>i. - d i, Undoing))\<rparr>"

section \<open>The bank in the tables\<close>

definition holdingOf :: "Account \<Rightarrow> holding" where
  "holdingOf a = \<lparr>ho_owner = ac_owner a, ho_currency = ac_currency a, ho_balance = ac_balance a, ho_status = ac_status a\<rparr>"

definition entryOf :: "BankingTransaction \<Rightarrow> entryState" where
  "entryOf t = (if bt_transaction_type t = ''reversal'' then Undoing else if bt_status t = ''reversed'' then Undone else Standing)"

definition holdings :: "Account list \<Rightarrow> int \<rightharpoonup> holding" where
  "holdings A = map_of (map (\<lambda>a. (ac_id a, holdingOf a)) A)"

definition journal ::
  "LedgerAccount list \<Rightarrow> BankingTransaction list \<Rightarrow> LedgerPosting list \<Rightarrow> uuid \<rightharpoonup> (int \<Rightarrow> int) \<times> entryState" where
  "journal L T P = map_of (map (\<lambda>t. (bt_id t, moved L P (bt_id t), entryOf t)) T)"

definition bankOf :: "world \<Rightarrow> bank" where
  "bankOf s = \<lparr>bk_holdings = holdings (accounts s),
     bk_journal = journal (ledger_accounts s) (banking_transactions s) (ledger_postings s)\<rparr>"

lemma bankOf_cong: "bookTables t = bookTables s \<Longrightarrow> bankOf t = bankOf s"
  by (simp add: bankOf_def bookTables_def)

lemma holdings_lookup: "distinct (map ac_id A) \<Longrightarrow> a \<in> set A \<Longrightarrow> holdings A (ac_id a) = Some (holdingOf a)"
  unfolding holdings_def by (rule map_of_is_SomeI) (auto simp: comp_def)

lemma holdings_None: "holdings A i = None \<longleftrightarrow> i \<notin> ac_id ` set A"
  by (simp add: holdings_def map_of_eq_None_iff image_image)

lemma holdings_SomeD: "holdings A i = Some x \<Longrightarrow> \<exists>a\<in>set A. ac_id a = i \<and> x = holdingOf a"
  unfolding holdings_def by (drule map_of_SomeD) auto

lemma map_of_values: "map_of (map (\<lambda>x. (key x, g (key x) (v x))) xs) = (\<lambda>i. map_option (g i) (map_of (map (\<lambda>x. (key x, v x)) xs) i))"
  by (induction xs) (auto simp: fun_eq_iff)

lemma holdings_map:
  assumes "\<And>a. ac_id (f a) = ac_id a \<and> holdingOf (f a) = g (ac_id a) (holdingOf a)"
  shows "holdings (map f A) = (\<lambda>i. map_option (g i) (holdings A i))"
  using map_of_values [of ac_id g holdingOf A] assms by (simp add: holdings_def comp_def)

lemma map_of_row_added:
  "key a \<notin> key ` set xs \<Longrightarrow> map_of (map (\<lambda>x. (key x, v x)) (xs @ [a])) = (map_of (map (\<lambda>x. (key x, v x)) xs))(key a \<mapsto> v a)"
  by (induction xs) (auto simp: fun_eq_iff)

lemma journal_lookup:
  "distinct (map bt_id T) \<Longrightarrow> t \<in> set T \<Longrightarrow> journal L T P (bt_id t) = Some (moved L P (bt_id t), entryOf t)"
  unfolding journal_def by (rule map_of_is_SomeI) (auto simp: comp_def)

lemma journal_fresh: "u \<notin> bt_id ` set T \<Longrightarrow> journal L T P u = None"
  by (simp add: journal_def map_of_eq_None_iff image_image)

lemma moved_old: "\<forall>q\<in>set qs. lp_transaction_id q \<noteq> tid \<Longrightarrow> moved L (P @ qs) tid = moved L P tid"
  by (rule ext) (simp add: moved_def postingsOf_def filter_empty_conv filter_False)

lemma journal_append:
  assumes "bt_id u \<notin> bt_id ` set T" "\<forall>q\<in>set qs. lp_transaction_id q = bt_id u"
  shows "journal L (T @ [u]) (P @ qs) = (journal L T P)(bt_id u \<mapsto> (moved L (P @ qs) (bt_id u), entryOf u))"
proof -
  have "map (\<lambda>t. (bt_id t, moved L (P @ qs) (bt_id t), entryOf t)) T = map (\<lambda>t. (bt_id t, moved L P (bt_id t), entryOf t)) T"
    using assms by (intro map_cong HOL.refl) (subst moved_old; force)
  then show ?thesis
    unfolding journal_def using map_of_row_added [OF assms(1), where v = "\<lambda>t. (moved L (P @ qs) (bt_id t), entryOf t)"]
    by (simp only:)
qed

lemma postings_of_fresh:
  assumes "books s" "u \<notin> bt_id ` set (banking_transactions s)" "\<forall>q\<in>set qs. lp_transaction_id q = u"
  shows "postingsOf u (ledger_postings s @ qs) = qs"
proof -
  have "\<forall>p\<in>set (ledger_postings s). lp_transaction_id p \<noteq> u"
    using booksD(9) [OF assms(1)] assms(2) by metis
  with assms(3) show ?thesis
    by (simp add: postingsOf_def filter_False)
qed

section \<open>Money moves\<close>

lemma moved_two:
  assumes "books s" "u \<notin> bt_id ` set (banking_transactions s)" "lp_transaction_id p = u" "lp_transaction_id q = u"
    and "l \<in> set (ledger_accounts s)" "lp_ledger_account_id p = la_id l"
    and "m \<in> set (ledger_accounts s)" "lp_ledger_account_id q = la_id m"
  shows "moved (ledger_accounts s) (ledger_postings s @ [p, q]) u =
    (\<lambda>i. (if la_customer_account_id l = Some i then lp_amount p else 0) + (if la_customer_account_id m = Some i then lp_amount q else 0))"
  using assms postings_of_fresh [OF assms(1,2), of "[p, q]"] ledgerOf_mem [OF booksD(2) [OF assms(1)]]
  by (intro ext) (simp add: moved_def)

lemma posting_step:
  assumes "books s" "movement (holdings (accounts s)) d" "ledger_accounts s' = ledger_accounts s"
    and "holdings (accounts s') = post d (holdings (accounts s))"
    and "banking_transactions s' = banking_transactions s @ [t]" "ledger_postings s' = ledger_postings s @ qs"
    and "bt_id t \<notin> bt_id ` set (banking_transactions s)" "\<forall>q\<in>set qs. lp_transaction_id q = bt_id t"
    and "moved (ledger_accounts s) (ledger_postings s @ qs) (bt_id t) = d"
    and "bt_status t = ''posted''" "bt_transaction_type t \<noteq> ''reversal''"
  shows "bankStep (bankOf s) (bankOf s')"
proof -
  have "journal (ledger_accounts s') (banking_transactions s') (ledger_postings s') =
      (journal (ledger_accounts s) (banking_transactions s) (ledger_postings s))(bt_id t \<mapsto> (d, Standing))"
    using assms journal_append [OF assms(7,8)] by (simp add: entryOf_def)
  moreover have "bankStep (bankOf s) \<lparr>bk_holdings = post d (bk_holdings (bankOf s)),
      bk_journal = (bk_journal (bankOf s))(bt_id t \<mapsto> (d, Standing))\<rparr>"
    using assms(2) journal_fresh [OF assms(7)] by (intro bankStep.posting) (simp_all add: bankOf_def)
  ultimately show ?thesis
    by (simp add: bankOf_def assms(4))
qed

lemma transfer_step:
  assumes ok: "books s" and dn: "transferDone arg s a b la lb t p q r s'" and L: "ledger_accounts s' = ledger_accounts s"
  shows "bankStep (bankOf s) (bankOf s')"
proof (rule posting_step [OF ok _ L])
  note d = dn [unfolded transferDone_def]
  let ?d = "(\<lambda>_. 0)(ac_id a := - tp_Amount arg, ac_id b := tp_Amount arg)"
  have ids: "distinct (map ac_id (accounts s))"
    by (rule booksD(1) [OF ok])
  have "ac_status a = ''active''"
    using booksD(4) [OF ok, of a] d by (simp add: accountRowOk_def)
  then show "movement (holdings (accounts s)) ?d"
    using d by (intro movement.transfer [OF holdings_lookup [OF ids, of a] holdings_lookup [OF ids, of b]])
      (simp_all add: holdingOf_def)
  show "holdings (accounts s') = post ?d (holdings (accounts s))"
    using d unfolding post_def by (simp only:) (rule holdings_map, auto simp: creditAccount_def holdingOf_def)
  show "moved (ledger_accounts s) (ledger_postings s @ [p, q]) (bt_id t) = ?d"
    using d moved_two [OF ok, of "bt_id t" p q la lb] by (auto simp: ledgerFor_def fun_eq_iff)
qed (use dn in \<open>simp_all add: transferDone_def\<close>)

lemma movement_step:
  assumes ok: "books s" and dn: "movementDone pid n tt s a la ls t p q r s'" and L: "ledger_accounts s' = ledger_accounts s"
  shows "bankStep (bankOf s) (bankOf s')"
proof (rule posting_step [OF ok _ L])
  note d = dn [unfolded movementDone_def Let_def]
  let ?n = "if tt = ''withdrawal'' then - n else n"
  let ?d = "(\<lambda>_. 0)(ac_id a := ?n)"
  have look: "holdings (accounts s) (ac_id a) = Some (holdingOf a)"
    using d by (intro holdings_lookup booksD(1) [OF ok]) simp
  have row: "ac_status a = ''active'' \<or> ac_status a = ''frozen''"
    using booksD(4) [OF ok, of a] d by (simp add: accountRowOk_def)
  show "movement (holdings (accounts s)) ?d"
  proof (cases "tt = ''withdrawal''")
    case True
    then show ?thesis
      using d row movement.withdrawal [of "holdings (accounts s)", OF look, of n] by (simp add: holdingOf_def)
  next
    case False
    then show ?thesis
      using d movement.deposit [of "holdings (accounts s)", OF look, of n] by (simp add: holdingOf_def)
  qed
  show "holdings (accounts s') = post ?d (holdings (accounts s))"
    using d unfolding post_def by (simp only:) (rule holdings_map, auto simp: creditAccount_def holdingOf_def)
  have "la_customer_account_id ls = None"
    using d booksD(8) [OF ok, of ls] by simp
  then show "moved (ledger_accounts s) (ledger_postings s @ [p, q]) (bt_id t) = ?d"
    using d moved_two [OF ok, of "bt_id t" p q ls la] by (auto simp: ledgerFor_def fun_eq_iff)
qed (use dn in \<open>simp_all add: movementDone_def Let_def\<close>)

section \<open>Accounts open, close and change their status\<close>

lemma status_step:
  assumes ok: "books s" and sc: "statusChanged pid st a s r s'" and st: "st \<in> {''active'', ''frozen'', ''closed''}"
    and zero: "st = ''closed'' \<Longrightarrow> ac_balance a = 0"
  shows "bankStep (bankOf s) (bankOf s')"
proof -
  note d = sc [unfolded statusChanged_def]
  let ?H = "\<lambda>(i, ow, bal, cur, num, stat). (i, \<lparr>ho_owner = ow, ho_currency = cur, ho_balance = bal, ho_status = stat\<rparr>)"
  let ?g = "\<lambda>i x. x\<lparr>ho_status := if i = ac_id a then st else ho_status x\<rparr>"
  have "map (\<lambda>x. (ac_id x, holdingOf x)) (accounts s') = map (\<lambda>x. (ac_id x, ?g (ac_id x) (holdingOf x))) (accounts s)"
  proof -
    have "map ?H (map (\<lambda>x. (ac_id x, ac_owner x, ac_balance x, ac_currency x, ac_account_number x, ac_status x)) (accounts s')) =
        map ?H (map (\<lambda>x. (ac_id x, ac_owner x, ac_balance x, ac_currency x, ac_account_number x,
          if ac_id x = ac_id a then st else ac_status x)) (accounts s))"
      using d by (simp only:)
    then show ?thesis
      by (simp add: comp_def holdingOf_def)
  qed
  then have "holdings (accounts s') = (\<lambda>i. map_option (?g i) (holdings (accounts s) i))"
    unfolding holdings_def by (simp only: map_of_values [of ac_id ?g holdingOf])
  moreover have look: "holdings (accounts s) (ac_id a) = Some (holdingOf a)"
    using d by (intro holdings_lookup booksD(1) [OF ok]) simp
  ultimately have "holdings (accounts s') = (holdings (accounts s))(ac_id a \<mapsto> (holdingOf a)\<lparr>ho_status := st\<rparr>)"
    by (auto simp: fun_eq_iff option.map_ident)
  moreover have "bankStep (bankOf s) ((bankOf s)\<lparr>bk_holdings := (bk_holdings (bankOf s))(ac_id a \<mapsto> (holdingOf a)\<lparr>ho_status := st\<rparr>)\<rparr>)"
    using d look st zero by (intro bankStep.status) (simp_all add: bankOf_def holdingOf_def)
  ultimately show ?thesis
    using d by (simp add: bankOf_def)
qed

lemma opening_step:
  assumes ok: "books s" "books s'" and op: "opened ow cur s a s'"
  shows "bankStep (bankOf s) (bankOf s')"
proof -
  obtain l where d: "accounts s' = accounts s @ [a]" "ac_owner a = ow" "ac_currency a = cur" "ac_balance a = 0"
      "ac_status a = ''active''" "(ow, cur) \<notin> (\<lambda>b. (ac_owner b, ac_currency b)) ` set (accounts s)"
      "ledger_accounts s' = ledger_accounts s @ [l]"
      "banking_transactions s' = banking_transactions s" "ledger_postings s' = ledger_postings s"
    using op unfolding opened_def by blast
  have new: "ac_id a \<notin> ac_id ` set (accounts s)"
    using booksD(1) [OF ok(2)] d(1) by simp
  have "moved (ledger_accounts s @ [l]) (ledger_postings s) tid = moved (ledger_accounts s) (ledger_postings s) tid" for tid
  proof -
    have "ledgerOf (ledger_accounts s @ [l]) (lp_ledger_account_id p) = ledgerOf (ledger_accounts s) (lp_ledger_account_id p)"
      if p: "p \<in> set (ledger_postings s)" for p
    proof -
      obtain k where "k \<in> set (ledger_accounts s)" "la_id k = lp_ledger_account_id p"
        using booksD(10) [OF ok(1) p] by force
      moreover have "distinct (map la_id (ledger_accounts s @ [l]))"
        using booksD(2) [OF ok(2)] d(7) by simp
      ultimately show ?thesis
        using ledgerOf_mem [of "ledger_accounts s @ [l]" k] ledgerOf_mem [of "ledger_accounts s" k] by simp
    qed
    then show ?thesis
      unfolding moved_def by (intro ext arg_cong [of _ _ sum_list] map_cong filter_cong HOL.refl) (simp add: postingsOf_def)
  qed
  then have "journal (ledger_accounts s') (banking_transactions s') (ledger_postings s') =
      journal (ledger_accounts s) (banking_transactions s) (ledger_postings s)"
    by (simp add: journal_def d)
  moreover have "holdings (accounts s') = (holdings (accounts s))(ac_id a \<mapsto> holdingOf a)"
    unfolding holdings_def d(1) by (rule map_of_row_added [OF new])
  moreover have "bankStep (bankOf s) ((bankOf s)\<lparr>bk_holdings := (bk_holdings (bankOf s))(ac_id a \<mapsto>
      \<lparr>ho_owner = ow, ho_currency = cur, ho_balance = 0, ho_status = ''active''\<rparr>)\<rparr>)"
    using new d(6) by (intro bankStep.opens)
      (auto simp: bankOf_def holdings_None ran_def holdingOf_def dest!: holdings_SomeD)
  ultimately show ?thesis
    using d by (simp add: bankOf_def holdingOf_def)
qed

section \<open>Reversals\<close>

lemma map_of_replace:
  "k \<in> key ` set xs \<Longrightarrow>
   map_of (map (\<lambda>x. (key x, if key x = k then v else f x)) xs) = (map_of (map (\<lambda>x. (key x, f x)) xs))(k \<mapsto> v)"
proof (induction xs)
  case (Cons x xs)
  show ?case
  proof (cases "k \<in> key ` set xs")
    case True
    then show ?thesis
      using Cons.IH by (auto simp: fun_eq_iff)
  next
    case False
    then have "map (\<lambda>x. (key x, if key x = k then v else f x)) xs = map (\<lambda>x. (key x, f x)) xs"
      by auto
    moreover have "key x = k"
      using False Cons.prems by simp
    ultimately show ?thesis
      by (simp add: fun_eq_iff del: map_eq_conv)
  qed
qed simp

lemma moved_opposite:
  assumes "books s" "u \<notin> bt_id ` set (banking_transactions s)" "\<forall>q\<in>set qs. lp_transaction_id q = u"
    and "mset (map (\<lambda>q. (lp_ledger_account_id q, lp_amount q)) qs) =
      mset (map (\<lambda>p. (lp_ledger_account_id p, - lp_amount p)) (postingsOf tid (ledger_postings s)))"
  shows "moved (ledger_accounts s) (ledger_postings s @ qs) u =
    (\<lambda>i. - moved (ledger_accounts s) (ledger_postings s) tid i)"
proof
  fix i
  let ?F = "\<lambda>(l, n). if la_customer_account_id (ledgerOf (ledger_accounts s) l) = Some i then n else 0"
  have "sum_list (map ?F (map (\<lambda>q. (lp_ledger_account_id q, lp_amount q)) qs)) =
      sum_list (map ?F (map (\<lambda>p. (lp_ledger_account_id p, - lp_amount p)) (postingsOf tid (ledger_postings s))))"
    using arg_cong [OF assms(4), of "\<lambda>m. sum_mset (image_mset ?F m)"] by (simp only: mset_map [symmetric] sum_mset_sum_list)
  also have "\<dots> = - (\<Sum>p\<leftarrow>postingsOf tid (ledger_postings s). ?F (lp_ledger_account_id p, lp_amount p))"
    unfolding uminus_sum_list_map by (simp add: comp_def if_distrib cong: if_cong)
  finally show "moved (ledger_accounts s) (ledger_postings s @ qs) u i = - moved (ledger_accounts s) (ledger_postings s) tid i"
    unfolding moved_def postings_of_fresh [OF assms(1-3)] sum_list_map_filter' by (simp add: comp_def)
qed

lemma reversal_journal:
  assumes ok: "books s" and dn: "reversalDone arg s t u qs r s'" and L: "ledger_accounts s' = ledger_accounts s"
  shows "journal (ledger_accounts s') (banking_transactions s') (ledger_postings s') =
    (journal (ledger_accounts s) (banking_transactions s) (ledger_postings s))
      (bt_id t \<mapsto> (moved (ledger_accounts s) (ledger_postings s) (bt_id t), Undone),
       bt_id u \<mapsto> (\<lambda>i. - moved (ledger_accounts s) (ledger_postings s) (bt_id t) i, Undoing))"
proof -
  note d = dn [unfolded reversalDone_def]
  let ?L = "ledger_accounts s" and ?T = "banking_transactions s" and ?P = "ledger_postings s"
  let ?T' = "map (\<lambda>x. if bt_id x = bt_id t then reverseTransaction (tx_now s) x else x) ?T"
  have listed: "bt_id t \<in> bt_id ` set ?T"
    using d by blast
  have ids: "bt_id ` set ?T' = bt_id ` set ?T"
    unfolding set_map image_image by (intro image_cong HOL.refl) (simp add: reverseTransaction_def)
  have own: "bt_transaction_type x \<noteq> ''reversal''" if "x \<in> set ?T" "bt_id x = bt_id t" for x
  proof -
    have "t \<in> set ?T" "bt_transaction_type t \<noteq> ''reversal''"
      using d by simp_all
    moreover have "x = t"
      using booksD(3) [OF ok] that \<open>t \<in> set ?T\<close> by (metis distinct_map inj_onD)
    ultimately show ?thesis by simp
  qed
  have "map (\<lambda>x. (bt_id x, moved ?L ?P (bt_id x), entryOf x)) ?T' =
      map (\<lambda>x. (bt_id x, if bt_id x = bt_id t then (moved ?L ?P (bt_id t), Undone) else (moved ?L ?P (bt_id x), entryOf x))) ?T"
    using own by (auto simp: reverseTransaction_def entryOf_def)
  then have marked: "journal ?L ?T' ?P = (journal ?L ?T ?P)(bt_id t \<mapsto> (moved ?L ?P (bt_id t), Undone))"
    unfolding journal_def by (simp only: map_of_replace [OF listed])
  have "journal ?L (?T' @ [u]) (?P @ qs) = (journal ?L ?T' ?P)(bt_id u \<mapsto> (moved ?L (?P @ qs) (bt_id u), entryOf u))"
    using d by (intro journal_append) (simp_all add: ids del: set_map)
  moreover have "moved ?L (?P @ qs) (bt_id u) = (\<lambda>i. - moved ?L ?P (bt_id t) i)"
    using d by (intro moved_opposite [OF ok _ _ reversalDone_postings [OF dn]]) simp_all
  ultimately show ?thesis
    using d L marked by (simp add: entryOf_def)
qed

lemma reversal_step:
  assumes ok: "books s" "books s'" and dn: "reversalDone arg s t u qs r s'" and L: "ledger_accounts s' = ledger_accounts s"
  shows "bankStep (bankOf s) (bankOf s')"
proof -
  note d = dn [unfolded reversalDone_def]
  let ?d = "moved (ledger_accounts s) (ledger_postings s) (bt_id t)"
  let ?f = "reverseCredit (tx_now s) (filter (\<lambda>r. rs_kind r = ''customer'') (sourceRows s (bt_id t)))"
  have credit: "holdingOf (?f a) = (holdingOf a)\<lparr>ho_balance := ho_balance (holdingOf a) + - ?d (ac_id a)\<rparr>" for a
    by (simp add: holdingOf_def reverseCredit_balance moved_rows [OF ok(1)] del: filter_filter)
  have A: "accounts s' = map ?f (accounts s)"
    using d by simp
  have h: "holdings (accounts s') = post (\<lambda>i. - ?d i) (holdings (accounts s))"
    unfolding post_def A by (rule holdings_map) (simp only: credit reverseCredit_simps simp_thms)
  have guard: "ho_status x \<noteq> ''closed'' \<and> ?d i \<le> ho_balance x" if x: "holdings (accounts s) i = Some x" "?d i \<noteq> 0" for i x
  proof -
    obtain a where a: "a \<in> set (accounts s)" "ac_id a = i" "x = holdingOf a"
      using holdings_SomeD [OF x(1)] by blast
    have "0 \<le> ac_balance (?f a)"
      using booksD(4) [OF ok(2), of "?f a"] a(1) by (simp add: A accountRowOk_def)
    then have "?d i \<le> ac_balance a"
      using arg_cong [OF credit [of a], of ho_balance] a(2) by (simp add: holdingOf_def)
    moreover have "\<exists>p\<in>set (postingsOf (bt_id t) (ledger_postings s)).
        la_customer_account_id (ledgerOf (ledger_accounts s) (lp_ledger_account_id p)) = Some i"
      using x(2) unfolding moved_def by (metis (mono_tags, lifting) filter_False list.simps(8) sum_list.Nil)
    then have "Some (ac_id a) \<in> rs_customer_account_id ` set (sourceRows s (bt_id t))"
      using a(2) by (force simp: sourceRows_def)
    with d a(1) have "ac_status a \<noteq> ''closed''"
      by blast
    ultimately show ?thesis
      by (simp add: a(3) holdingOf_def)
  qed
  have "bk_journal (bankOf s) (bt_id t) = Some (?d, Standing)"
    using d journal_lookup [OF booksD(3) [OF ok(1)], of t] by (simp add: bankOf_def entryOf_def)
  then have "bankStep (bankOf s) \<lparr>bk_holdings = post (\<lambda>i. - ?d i) (bk_holdings (bankOf s)),
      bk_journal = (bk_journal (bankOf s))(bt_id t \<mapsto> (?d, Undone), bt_id u \<mapsto> (\<lambda>i. - ?d i, Undoing))\<rparr>"
    by (rule bankStep.reversal) (use d guard in \<open>simp_all add: bankOf_def journal_fresh\<close>)
  then show ?thesis
    using h reversal_journal [OF ok(1) dn L] by (simp add: bankOf_def)
qed

section \<open>Every operation is simulated\<close>

text \<open>On books that are in order, the books stay so and the bank takes a number of its steps.\<close>

definition simulated :: "world \<Rightarrow> world \<Rightarrow> bool" where
  "simulated s t \<longleftrightarrow> (books s \<longrightarrow> books t \<and> bankStep\<^sup>*\<^sup>* (bankOf s) (bankOf t))"

interpretation simulated: table_relation simulated
proof
  fix s s' t t'
  assume "tablesOf s = tablesOf s'" "tablesOf t = tablesOf t'" "simulated s t"
  then show "simulated s' t'"
    using bankOf_cong [of s s'] bankOf_cong [of t t'] tableFieldD [OF bookTables_fields(1)] books_cong
    unfolding simulated_def by metis
qed (auto simp: simulated_def)

lemma simulatedI: "(books s \<Longrightarrow> books t) \<Longrightarrow> (books s \<Longrightarrow> bankStep (bankOf s) (bankOf t)) \<Longrightarrow> simulated s t"
  by (auto simp: simulated_def)

lemma unmoved: "bookTables t = bookTables s \<Longrightarrow> simulated s t"
  using bankOf_cong books_cong unfolding simulated_def by (metis rtranclp.rtrancl_refl)

lemma unmoving: "keeps bookTables m \<Longrightarrow> within simulated m"
  unfolding keeps_def within_def using unmoved by blast

lemma transfer_simulated:
  assumes run: "transferWithQueries arg s = (Inr r, t)"
  shows "simulated s t"
proof (rule simulatedI)
  assume ok: "books s"
  have L: "ledger_accounts t = ledger_accounts s"
    by (rule keepsD [OF money_frame(1) run]) simp
  show "bankStep (bankOf s) (bankOf t)"
    by (rule transferWithQueries_ok [OF run ok]) (rule transfer_step [OF ok _ L])
qed (rule transferWithQueries_books [OF run])

lemma settlement_simulated:
  assumes run: "settlementBody pid n na tt ac cid s = (Inr r, t)"
  shows "simulated s t"
proof (rule simulatedI)
  assume ok: "books s"
  have L: "ledger_accounts t = ledger_accounts s"
    by (rule keepsD [OF money_frame(2) run]) simp
  show "bankStep (bankOf s) (bankOf t)"
    by (rule settlementBody_ok [OF run ok]) (rule movement_step [OF ok _ L])
qed (rule settlementBody_books [OF run])

lemma reversal_simulated:
  assumes run: "reverseTransactionBody arg s = (Inr r, t)"
  shows "simulated s t"
proof (rule simulatedI)
  assume ok: "books s"
  have L: "ledger_accounts t = ledger_accounts s"
    by (rule keepsD [OF reverse_frame run]) simp
  show "bankStep (bankOf s) (bankOf t)"
    by (rule reverseTransactionBody_ok [OF run ok]) (rule reversal_step [OF ok reverseTransactionBody_books [OF run ok] _ L])
qed (rule reverseTransactionBody_books [OF run])

lemma idempotent_simulated:
  assumes "idempotentTransferBody arg s = (Inr r, t)"
  shows "simulated s t"
  using assms
proof (cases rule: idempotentTransferBody_cases)
  case (replayed n s1 e s2)
  then have "bookTables t = bookTables s"
    using keepsD [OF idempotency_books_frame(1)] keepsD [OF idempotency_books_frame(2)] keepsD [OF replay_frame] by metis
  then show ?thesis
    by (rule unmoved)
next
  case (performed n s1 k s2 s3 k')
  have "simulated s s2" "simulated s3 t"
    using performed keepsD [OF idempotency_books_frame(1)] keepsD [OF idempotency_books_frame(2)]
      keepsD [OF idempotency_books_frame(3)] by (metis unmoved)+
  with transfer_simulated [OF performed(3)] show ?thesis
    using simulated.trans by blast
qed

lemma orAudit_simulated:
  "(\<And>s x t. body s = (Inr x, t) \<Longrightarrow> simulated s t) \<Longrightarrow> (\<And>e. keeps bookTables (audit e)) \<Longrightarrow>
   within simulated (orAudit (execTx body) audit)"
  unfolding orAudit_def by (intro simulated.rules simulated.execTx_successful unmoving) assumption+

lemma CreateAccountTx_simulated: "within simulated (CreateAccountTx arg)"
proof -
  have "within simulated (createAccountAttempt ow cur number)" for ow cur number
    unfolding within_def
  proof
    fix s
    obtain x t where run: "createAccountAttempt ow cur number s = (x, t)"
      by (cases "createAccountAttempt ow cur number s")
    then have "simulated s t"
    proof (cases rule: attempt_cases)
      case refused
      then show ?thesis by (intro unmoved)
    next
      case (opens a)
      then show ?thesis
        using opening_step preservesD [OF createAccountAttempt_books _ run] by (intro simulatedI) blast+
    qed
    with run show "simulated s (snd (createAccountAttempt ow cur number s))"
      by simp
  qed
  moreover have "within simulated generateAccountNumber"
    by (rule unmoving) (intro frame; simp add: bookTables_def)
  ultimately have "within simulated (createAccountWithGeneratedNumber k generateAccountNumber (createAccountAttempt ow cur))" for k ow cur
    by (induction k) (simp_all, intro simulated.rules, intro simulated.rules)
  then show ?thesis
    unfolding CreateAccountTx_def .
qed

lemma SetAccountStatusTx_simulated: "within simulated (SetAccountStatusTx arg)"
proof (cases "as_TargetStatus arg = ''frozen'' \<or> as_TargetStatus arg = ''active''")
  case True
  have "simulated s t" if run: "setAccountStatusBody arg s = (Inr r, t)" for s r t
  proof (rule simulatedI)
    assume ok: "books s"
    obtain a where "statusChanged (as_AccountPublicID arg) (as_TargetStatus arg) a s (sr_Account r) t"
      by (rule setAccountStatusBody_ok [OF run ok])
    then show "bankStep (bankOf s) (bankOf t)"
      using True by (intro status_step [OF ok]) auto
  qed (rule setAccountStatusBody_books [OF run])
  then show ?thesis
    unfolding SetAccountStatusTx_def
    by (intro simulated.rules orAudit_simulated frame) (assumption | simp)+
next
  case False
  then show ?thesis
    by (simp add: SetAccountStatusTx_def within_def failIf_def simulated.refl)
qed

lemma CloseAccountTx_simulated: "within simulated (CloseAccountTx arg)"
  unfolding CloseAccountTx_def
proof (rule simulated.execTx_successful, rule simulatedI)
  fix s r t
  assume run: "closeAccountBody arg s = (Inr r, t)" and ok: "books s"
  obtain a where "statusChanged (cl_PublicID arg) ''closed'' a s r t" "ac_balance a = 0"
    by (rule closeAccountBody_ok [OF run ok])
  then show "bankStep (bankOf s) (bankOf t)"
    by (intro status_step [OF ok]) auto
qed (rule closeAccountBody_books)

lemma money_simulated:
  "within simulated (TransferTx tp)" "within simulated (IdempotentTransferTx it)" "within simulated (DepositTx dp)"
  "within simulated (WithdrawTx wp)" "within simulated (ReverseTransactionTx rt)"
proof -
  have audit: "within simulated (auditCorrelation c)" for c
    by (rule unmoving) (intro frame; simp add: bookTables_def)
  have note_: "keeps bookTables (auditTransferFailure p e)" "keeps bookTables (auditOperatorFailure o' e)" for p e o'
    by (intro auditTransferFailure_frame frame; simp)+
  show "within simulated (TransferTx tp)" "within simulated (IdempotentTransferTx it)"
    unfolding TransferTx_def IdempotentTransferTx_def Let_def
    by (intro simulated.rules audit orAudit_simulated note_ transfer_simulated idempotent_simulated; assumption)+
  show "within simulated (DepositTx dp)" "within simulated (WithdrawTx wp)"
    unfolding DepositTx_def WithdrawTx_def settlementMovementTx_def
    by (intro simulated.rules audit simulated.execTx_successful settlement_simulated; assumption)+
  show "within simulated (ReverseTransactionTx rt)"
    unfolding ReverseTransactionTx_def
    by (intro simulated.rules orAudit_simulated note_ reversal_simulated; assumption)
qed

lemma quiet_simulated:
  "within simulated (Reconcile ra)" "within simulated (RecordLoginFailure lf)"
  "within simulated (autocommit DeleteExpiredIdempotencyKeys)" "within simulated (autocommit (DisableExpiredPendingUser n))"
proof -
  have drift: "bookTables (reconciliationDrift_update g s) = bookTables s" for g s
    by (simp add: bookTables_def)
  show "within simulated (Reconcile ra)" "within simulated (RecordLoginFailure lf)"
    by (rule unmoving, intro Reconcile_frame RecordLoginFailure_frame drift; simp)+
  show "within simulated (autocommit DeleteExpiredIdempotencyKeys)" "within simulated (autocommit (DisableExpiredPendingUser n))"
    by (rule unmoving, intro frame; simp)+
qed

lemma other_simulated:
  "within simulated (CreateExclusiveSessionTx cs)" "within simulated (RotateRefreshTokenTx rr)"
  "within simulated (RevokeSessionTx sid h r a)" "within simulated (RevokeAllUserSessionsTx n r' ev)"
  "within simulated (CreateUserTx cu)" "within simulated (VerifyUserEmailTx vu)"
  "within simulated (RequestEmailVerificationTx n')" "within simulated (UpdateUserTx uu)" "within simulated (ReplayEmailJobTx jid)"
  "within simulated (ProcessEmailDeliveryEventTx de)" "within simulated (CreateBeneficiaryTx cb)"
  "within simulated (autocommit (DeleteOwnedBeneficiary bid ow))"
  "within simulated (autocommit (UpdateOwnedBeneficiaryNickname nick bid ow))"
  "within simulated (publishBatch sv c)" "within simulated (cleanup c)"
  "within simulated (ProcessTaskSendEmail sv rp task)" "within simulated (handleError sv task e rt' m)"
  by (rule unmoving, intro frame; simp)+

lemma perform_simulated: "simulated s (perform op s)"
  using CreateAccountTx_simulated CloseAccountTx_simulated SetAccountStatusTx_simulated money_simulated quiet_simulated
    other_simulated unfolding within_def by (cases op) simp_all

interpretation bank: calls_within simulated
  by unfold_locales (rule perform_simulated)

end
