(* ===== verification/Guards.thy ===== *)
theory Guards
  imports RequestRules
begin

text \<open>
  Who gets past the middleware: what the authentication and the check of the account have seen when
  they let a request through, and that a refusal answers with an error and leaves the books alone.
\<close>

section \<open>Steps on the store keep what the store's programs keep\<close>

lemma onStore_keeps: "keeps f m \<Longrightarrow> keeps (\<lambda>a. f (ap_store a)) (onStore m)"
  unfolding keeps_def within_def onStore_def by (auto split: prod.split) (metis snd_conv)

lemma attempt_keeps: "keeps f m \<Longrightarrow> keeps f (attempt m)"
  unfolding keeps_def within_def attempt_def by (auto split: prod.split) (metis snd_conv)

lemma reply_keeps:
  "keeps f (replyM st bd)" "(\<And>g a. f (ap_headers_update g a) = f a) \<Longrightarrow> keeps f (setHeader nm vl)"
  unfolding keeps_def within_def by (simp_all add: replyM_def setHeader_def updateM_def)

lemmas store_keeps = keeps_rules attempt_keeps onStore_keeps reply_keeps

lemma attempt_iff [runs]: "attempt m s = (Inr r, t) \<longleftrightarrow> m s = (r, t)"
  by (auto simp: attempt_def split: prod.split)

lemma onStore_iff [runs]:
  "onStore m a = (r, b) \<longleftrightarrow> (\<exists>w. m (ap_store a) = (r, w) \<and> b = a\<lparr>ap_store := w\<rparr>)"
  by (auto simp: onStore_def split: prod.split)

lemma replyM_iff [runs]: "replyM st bd a = (Inr x, b) \<longleftrightarrow> False"
  by (simp add: replyM_def)

lemma call_elim:
  assumes "bindM (attempt (onStore q)) k a = (Inr x, b)"
  obtains r w where "q (ap_store a) = (r, w)" "k r (a\<lparr>ap_store := w\<rparr>) = (Inr x, b)"
  using assms by (auto simp: bindM_iff attempt_iff onStore_iff)

section \<open>Refusals\<close>

text \<open>\<open>onlyRefuses m\<close>: when the middleware answers itself, it answers with an error.\<close>

definition onlyRefuses :: "'a handler \<Rightarrow> bool" where
  "onlyRefuses m \<longleftrightarrow> (\<forall>a r b. m a = (Inl r, b) \<longrightarrow> 400 \<le> rs_status r)"

lemma onlyRefuses_rules:
  "onlyRefuses (returnM x)" "400 \<le> st \<Longrightarrow> onlyRefuses (replyM st bd)"
  "onlyRefuses m \<Longrightarrow> (\<And>x. onlyRefuses (k x)) \<Longrightarrow> onlyRefuses (bindM m k)"
  "onlyRefuses m1 \<Longrightarrow> onlyRefuses m2 \<Longrightarrow> onlyRefuses (if c then m1 else m2)"
  "(\<And>d. onlyRefuses (k3 d)) \<Longrightarrow> (\<And>x. onlyRefuses (k4 x)) \<Longrightarrow> onlyRefuses (case r of Inl d \<Rightarrow> k3 d | Inr x \<Rightarrow> k4 x)"
  "onlyRefuses (attempt q)"
  unfolding onlyRefuses_def
  by (auto simp: replyM_def bindM_def attempt_def split: prod.splits sum.splits)

lemma authMiddleware_refuses: "onlyRefuses (authMiddleware sv rq)"
  unfolding authMiddleware_def Let_def by (intro onlyRefuses_rules) simp_all

lemma verifiedAccount_refuses: "onlyRefuses (verifiedAccountMiddleware sv rq p)"
  unfolding verifiedAccountMiddleware_def Let_def by (intro onlyRefuses_rules) simp_all

lemma authMiddleware_keeps: "keeps (\<lambda>a. tablesOf (ap_store a)) (authMiddleware sv rq)"
proof -
  have reads: "keeps tablesOf (VerifyAccessToken c m t)" "keeps tablesOf (ValidateSession sid n h)" for c m t sid n h
    by (intro frame; simp)+
  show ?thesis
    unfolding authMiddleware_def Let_def by (intro store_keeps reads)
qed

lemma verifiedAccount_keeps: "keeps (\<lambda>a. bookTables (ap_store a)) (verifiedAccountMiddleware sv rq p)"
proof -
  have calls: "keeps bookTables (autocommit (GetUser n))" "keeps bookTables (autocommit (DisableExpiredPendingUser n))"
      "keeps bookTables timeNow" for n
    by (intro frame; simp add: bookTables_def)+
  show ?thesis
    unfolding verifiedAccountMiddleware_def Let_def by (intro store_keeps calls)
qed

section \<open>Passing\<close>

text \<open>
  What a request had to show: a bearer token that verifies, and with the device's cookie a session of the
  token's user that is neither revoked nor expired.
\<close>

definition authorised :: "server \<Rightarrow> request \<Rightarrow> Payload \<Rightarrow> world \<Rightarrow> bool" where
  "authorised sv rq payload s \<longleftrightarrow>
     (\<exists>scheme value w k session.
        fieldsOf (rq_header rq ''Authorization'') = [scheme, value] \<and> gl_ToLower (sr_lib sv) scheme = ''bearer'' \<and>
        fst (VerifyAccessToken (sr_crypto sv) (sr_tokenMaker sv) value w) = Inr payload \<and>
        envir w = envir s \<and> clockAt (envir s) k < se_expires_at session \<and>
        session \<in> set (sessions s) \<and> se_id session = pl_SessionID payload \<and> se_username session = pl_Username payload \<and>
        se_revoked_at session = None \<and>
        se_device_token_hash session = sha256 (sr_crypto sv)
          (case rq_cookie rq (cf_DeviceCookieName (sr_config sv)) of Some v \<Rightarrow> v | None \<Rightarrow> ''''))"

definition verifiedUser :: "Payload \<Rightarrow> world \<Rightarrow> bool" where
  "verifiedUser payload s \<longleftrightarrow> (\<exists>u\<in>set (users s). us_username u = pl_Username payload \<and>
     us_account_status u = ''active'' \<and> us_email_verified_at u \<noteq> None)"

lemma ValidateSession_ok:
  assumes "ValidateSession sid n h s = (Inr x, t)"
  shows "\<exists>session k. session \<in> set (sessions s) \<and> Some (se_id session) = sid \<and> se_username session = n \<and>
    se_revoked_at session = None \<and> clockAt (envir s) k < se_expires_at session \<and> se_device_token_hash session = h"
proof -
  obtain session u now v where get: "autocommit (GetSession sid) s = (Inr session, u)" and now: "timeNow u = (Inr now, v)"
    and rest: "se_username session = n" "se_revoked_at session = None" "now < se_expires_at session"
      "constantTimeHashEqual (se_device_token_hash session) h"
    using assms unfolding ValidateSession_def by (auto simp: bindM_iff failIf_iff returnM_iff)
  have "GetSession sid (startTx s) = (Inr session, u)"
    by (rule autocommit_ok [OF get])
  then have "session \<in> set (sessions s)" "Some (se_id session) = sid" "u = startTx s"
    by (auto simp: GetSession_def runs dest: find_Some_iff2)
  moreover from this(3) have "now = clockAt (envir s) (clock_ctr u)"
    using now by (simp add: timeNow_def startTx_def)
  ultimately show ?thesis
    using rest by (auto simp: constantTimeHashEqual_def)
qed

lemma authMiddleware_ok:
  assumes "authMiddleware sv rq a = (Inr payload, b)"
  shows "authorised sv rq payload (ap_store a)"
proof -
  let ?fields = "fieldsOf (rq_header rq ''Authorization'')"
  let ?device = "case rq_cookie rq (cf_DeviceCookieName (sr_config sv)) of Some v \<Rightarrow> v | None \<Rightarrow> ''''"
  obtain w x t where two: "length ?fields = 2" "gl_ToLower (sr_lib sv) (?fields ! 0) = ''bearer''"
    and token: "VerifyAccessToken (sr_crypto sv) (sr_tokenMaker sv) (?fields ! 1) (ap_store a) = (Inr payload, w)"
    and session: "ValidateSession (Some (pl_SessionID payload)) (pl_Username payload) (sha256 (sr_crypto sv) ?device) w = (Inr x, t)"
    using assms unfolding authMiddleware_def Let_def
    by (auto simp: replyM_iff split: if_splits sum.splits elim!: call_elim)
  let ?check = "VerifyAccessToken (sr_crypto sv) (sr_tokenMaker sv) (?fields ! 1)"
  have "keeps tablesOf ?check" "keeps envir ?check"
    by (intro frame; simp)+
  then have kept: "tablesOf w = tablesOf (ap_store a)" "envir w = envir (ap_store a)"
    using keepsD [of tablesOf ?check] keepsD [of envir ?check] token by blast+
  then have "sessions w = sessions (ap_store a)"
    by (simp add: tablesOf_def)
  moreover have "?fields = [?fields ! 0, ?fields ! 1]"
    using two(1) by (cases ?fields; cases "tl ?fields") auto
  ultimately show ?thesis
    using two(2) token kept(2) ValidateSession_ok [OF session] unfolding authorised_def
    by (intro exI [of _ "?fields ! 0"] exI [of _ "?fields ! 1"] exI [of _ "ap_store a"]) (auto simp: option.inject)
qed

lemma verifiedAccount_ok:
  assumes "verifiedAccountMiddleware sv rq payload a = (Inr x, b)"
  shows "verifiedUser payload (ap_store a)"
proof -
  obtain user w where get: "autocommit (GetUser (pl_Username payload)) (ap_store a) = (Inr user, w)"
    and ok: "us_account_status user = ''active''" "us_email_verified_at user \<noteq> None"
    using assms unfolding verifiedAccountMiddleware_def Let_def
    by (elim call_elim) (auto simp: bindM_iff replyM_iff split: if_splits sum.splits)
  have "GetUser (pl_Username payload) (startTx (ap_store a)) = (Inr user, w)"
    by (rule autocommit_ok [OF get])
  then show ?thesis
    using ok by (auto simp: verifiedUser_def GetUser_def runs dest: find_Some_iff2)
qed

section \<open>A financial request\<close>

lemma requestContext_total:
  "\<exists>i c b. requestContextMiddleware sv rq a = (Inr (rq\<lparr>rq_requestID := i, rq_correlationID := c\<rparr>), b)"
  by (auto simp: requestContextMiddleware_def Let_def bindM_def attempt_def setHeader_def updateM_def
      split: prod.split sum.split)

lemma requestContext_keeps:
  "keeps (\<lambda>a. (tablesOf (ap_store a), envir (ap_store a))) (requestContextMiddleware sv rq)"
proof -
  have "keeps (\<lambda>s. (tablesOf s, envir s)) nextUUID"
    by (intro frame) simp
  from onStore_keeps [OF this] show ?thesis
    unfolding requestContextMiddleware_def Let_def by (intro store_keeps(1-13) attempt_keeps reply_keeps) simp_all
qed

lemma setHeader_run [simp]: "setHeader n v a = (Inr (), ap_headers_update (\<lambda>hs. hs @ [(n, v)]) a)"
  by (simp add: setHeader_def updateM_def)

lemma cors_next:
  assumes "rq_method rq \<noteq> ''OPTIONS''"
  shows "\<exists>c. corsMiddleware sv rq next a = next c \<and> ap_store c = ap_store a"
  using assms
  by (cases "rq_header rq ''Origin'' = []"; cases "originAllowed sv rq") (auto simp: corsMiddleware_def Let_def bindM_def)

lemma logger_passes:
  assumes "requestLoggerMiddleware sv rq h a = (r, b)" "serve h (a\<lparr>ap_store := snd (timeNow (ap_store a))\<rparr>) = (r', b')"
  shows "r' = r" "ap_store b = snd (timeNow (ap_store b'))"
  using assms by (auto simp: requestLoggerMiddleware_def Let_def)

lemma authorised_cong:
  "tablesOf t = tablesOf s \<Longrightarrow> envir t = envir s \<Longrightarrow>
   authorised sv (rq\<lparr>rq_requestID := i, rq_correlationID := c\<rparr>) p t = authorised sv rq p s"
  by (simp add: authorised_def tablesOf_def)

lemma verifiedUser_cong: "tablesOf t = tablesOf s \<Longrightarrow> verifiedUser p t = verifiedUser p s"
  by (simp add: verifiedUser_def tablesOf_def)

lemma financial_chain:
  assumes run: "serve (dispatch sv wl rq (Financial r)) a = (rep, b)"
    and passed: "rs_status rep < 400 \<or> bookTables (ap_store b) \<noteq> bookTables (ap_store a)"
  shows "\<exists>p. authorised sv rq p (ap_store a) \<and> (cf_EnforceEmailVerification (sr_config sv) \<longrightarrow> verifiedUser p (ap_store a))"
proof -
  obtain x a1 where auth: "authMiddleware sv rq a = (x, a1)"
    by (cases "authMiddleware sv rq a")
  have same: "tablesOf (ap_store a1) = tablesOf (ap_store a)"
    by (rule keepsD [OF authMiddleware_keeps auth])
  then have books: "bookTables (ap_store a1) = bookTables (ap_store a)"
    by (rule tableFieldD [OF bookTables_fields(1)])
  show ?thesis
  proof (cases x)
    case (Inl e)
    then have "rep = e" "b = a1"
      using run auth by (simp_all add: serve_def)
    moreover have "400 \<le> rs_status e"
      using authMiddleware_refuses auth Inl unfolding onlyRefuses_def by blast
    ultimately show ?thesis
      using passed books by simp
  next
    case (Inr p)
    have seen: "authorised sv rq p (ap_store a)"
      by (rule authMiddleware_ok) (use auth Inr in simp)
    have "verifiedUser p (ap_store a)" if on: "cf_EnforceEmailVerification (sr_config sv)"
    proof (cases "verifiedAccountMiddleware sv rq p a1")
      case (Pair y a2)
      show ?thesis
      proof (cases y)
        case (Inl e)
        then have "rep = e" "b = a2"
          using run auth Inr Pair on by (simp_all add: serve_def)
        moreover have "400 \<le> rs_status e"
          using verifiedAccount_refuses Pair Inl unfolding onlyRefuses_def by blast
        ultimately show ?thesis
          using passed books keepsD [OF verifiedAccount_keeps Pair] by simp
      next
        case (Inr u)
        then show ?thesis
          using verifiedAccount_ok [of sv rq p a1] Pair verifiedUser_cong [OF same] by simp
      qed
    qed
    with seen show ?thesis by blast
  qed
qed

lemma financial_authorised:
  assumes run: "handle sv wl rq (Financial r) a = (rep, b)" and verb: "rq_method rq \<noteq> ''OPTIONS''"
    and passed: "rs_status rep < 400 \<or> bookTables (ap_store b) \<noteq> bookTables (ap_store a)"
  shows "\<exists>p. authorised sv rq p (ap_store a) \<and> (cf_EnforceEmailVerification (sr_config sv) \<longrightarrow> verifiedUser p (ap_store a))"
proof -
  let ?a0 = "a\<lparr>ap_headers := [], ap_cookies := []\<rparr>"
  obtain i c a1 where ctx: "requestContextMiddleware sv rq ?a0 = (Inr (rq\<lparr>rq_requestID := i, rq_correlationID := c\<rparr>), a1)"
    using requestContext_total by blast
  let ?rq = "rq\<lparr>rq_requestID := i, rq_correlationID := c\<rparr>"
  have same: "tablesOf (ap_store a1) = tablesOf (ap_store a)" "envir (ap_store a1) = envir (ap_store a)"
    using keepsD [OF requestContext_keeps ctx] by simp_all
  let ?a2 = "a1\<lparr>ap_store := snd (timeNow (ap_store a1))\<rparr>"
  obtain a3 where cors: "corsMiddleware sv ?rq (dispatch sv wl ?rq (Financial r)) ?a2 = dispatch sv wl ?rq (Financial r) a3"
      "ap_store a3 = ap_store ?a2"
    using cors_next [of ?rq sv "dispatch sv wl ?rq (Financial r)" ?a2] verb by auto
  have a3: "tablesOf (ap_store a3) = tablesOf (ap_store a)" "envir (ap_store a3) = envir (ap_store a)"
    using same cors(2) by (simp_all add: timeNow_def)
  obtain rep' b' where chain: "serve (dispatch sv wl ?rq (Financial r)) a3 = (rep', b')"
    by (cases "serve (dispatch sv wl ?rq (Financial r)) a3")
  have served: "serve (corsMiddleware sv ?rq (dispatch sv wl ?rq (Financial r))) ?a2 = (rep', b')"
    using chain cors(1) by (simp add: serve_def)
  have "rep' = rep" "ap_store b = snd (timeNow (ap_store b'))"
    using logger_passes [OF _ served] run by (simp_all add: handle_def ctx)
  moreover have "bookTables (snd (timeNow w)) = bookTables w" for w
    by (simp add: timeNow_def bookTables_def)
  moreover have "bookTables (ap_store a3) = bookTables (ap_store a)"
    by (rule tableFieldD [OF bookTables_fields(1) a3(1)])
  ultimately show ?thesis
    using financial_chain [OF chain] passed authorised_cong [OF a3] verifiedUser_cong [OF a3(1)] by simp
qed

end
