(* ===== verification/Mailer.thy ===== *)
theory Mailer
  imports Worker Config
begin

text \<open>
  The package \<open>mailer\<close>: the mailer for development (\<open>log_mailer.go\<close>) and the one that sends through Resend
  (\<open>resend_mailer.go\<close>), with the checks of a message, the texts of the financial notifications and the
  format of an amount. The HTTP client of Resend, the address parser and the templates are parameters.
\<close>

section \<open>Messages\<close>

text \<open>
  \<open>VerificationEmail\<close> and \<open>FinancialNotificationEmail\<close> have the same fields. The payload is the document of
  a job's row, so it is never empty.
\<close>

record emailMessage =
  em_JobID :: string
  em_Username :: string
  em_Recipient :: string
  em_Payload :: json

record resendPayload =
  rp_VerificationURL :: string
  rp_VerificationExpiresAt :: string

definition unmarshalResendPayload :: "json \<Rightarrow> error + resendPayload" where
  "unmarshalResendPayload j =
     (if \<not> isObject j then jsonErr else
      thenE (getStr (lookupField j ''verification_url'')) (\<lambda>url.
      thenE (getStr (lookupField j ''verification_expires_at'')) (\<lambda>expires.
      Inr \<lparr>rp_VerificationURL = url, rp_VerificationExpiresAt = expires\<rparr>)))"

record resendTemplateData =
  td_Username :: string
  td_VerificationURL :: string
  td_VerificationExpiresAt :: string

record financialPayload =
  fp_EventID :: string
  fp_CorrelationID :: string
  fp_EventType :: string
  fp_Reference :: string
  fp_Amount :: int
  fp_Currency :: string
  fp_Direction :: string
  fp_OccurredAt :: time
  fp_AccountStatus :: string
  fp_Reason :: string

definition unmarshalFinancialPayload :: "json \<Rightarrow> error + financialPayload" where
  "unmarshalFinancialPayload j =
     (if \<not> isObject j then jsonErr else
      thenE (getStr (lookupField j ''event_id'')) (\<lambda>event.
      thenE (getStr (lookupField j ''correlation_id'')) (\<lambda>correlation.
      thenE (getStr (lookupField j ''event_type'')) (\<lambda>type.
      thenE (getStr (lookupField j ''reference'')) (\<lambda>reference.
      thenE (getInt (lookupField j ''amount'')) (\<lambda>amount.
      thenE (getStr (lookupField j ''currency'')) (\<lambda>currency.
      thenE (getStr (lookupField j ''direction'')) (\<lambda>direction.
      thenE (getOptTime (lookupField j ''occurred_at'')) (\<lambda>occurred.
      thenE (getStr (lookupField j ''account_status'')) (\<lambda>status.
      thenE (getStr (lookupField j ''reason'')) (\<lambda>reason.
      Inr \<lparr>fp_EventID = event, fp_CorrelationID = correlation, fp_EventType = type, fp_Reference = reference,
           fp_Amount = amount, fp_Currency = currency, fp_Direction = direction, fp_OccurredAt = orZeroTime occurred,
           fp_AccountStatus = status, fp_Reason = reason\<rparr>)))))))))))"

record financialTemplateData =
  ft_Username :: string
  ft_Title :: string
  ft_Summary :: string
  ft_Reference :: string
  ft_Amount :: string
  ft_Direction :: string
  ft_OccurredAt :: string
  ft_AccountStatus :: string
  ft_Reason :: string

section \<open>The provider\<close>

record sendRequest =
  sq_From :: string
  sq_To :: string
  sq_Subject :: string
  sq_Html :: string
  sq_Text :: string
  sq_Tags :: "(string \<times> string) list"

text \<open>An error of the client, and whether it is a \<open>MissingRequiredFieldsError\<close>; \<open>None\<close> is a nil response.\<close>

datatype sendReply = SendError bool error | SendResponse "string option"

text \<open>
  What the mailer calls: \<open>mail.ParseAddress\<close>, the two pairs of templates (HTML and text), the format RFC 3339
  in UTC, and the client, whose answers depend on the state because they change from call to call.
\<close>

record resendClient =
  rs_ParseAddress :: "string \<Rightarrow> error option"
  rs_verificationTemplates :: "resendTemplateData \<Rightarrow> error + string \<times> string"
  rs_financialTemplates :: "financialTemplateData \<Rightarrow> error + string \<times> string"
  rs_formatTime :: "time \<Rightarrow> string"
  rs_SendWithOptions :: "sendRequest \<Rightarrow> string \<Rightarrow> world \<Rightarrow> sendReply"

datatype Mailer = LogMailer | ResendMailer string

definition NewResendMailer :: "resendClient \<Rightarrow> string \<Rightarrow> string \<Rightarrow> error + Mailer" where
  "NewResendMailer c apiKey from0 =
     (let from = trimSpace from0
      in if trimSpace apiKey = '''' then Inl (GoErr ''Resend API key is required'')
         else case rs_ParseAddress c from of
           Some e \<Rightarrow> Inl (WrapErr ''invalid EMAIL_FROM'' e)
         | None \<Rightarrow> Inr (ResendMailer from))"

definition buildMailer :: "golib \<Rightarrow> resendClient \<Rightarrow> Config \<Rightarrow> error + Mailer" where
  "buildMailer g c config =
     (if cf_MailerProvider config = ''log'' then Inr LogMailer
      else if cf_MailerProvider config = ''resend'' then NewResendMailer c (cf_ResendAPIKey config) (cf_EmailFrom config)
      else Inl (GoErr (''unsupported MAILER_PROVIDER '' @ gl_Quote g (cf_MailerProvider config))))"

section \<open>Amounts\<close>

function groupLoop :: "int \<Rightarrow> string \<Rightarrow> string" where
  \<comment> \<open>The loop of \<open>formatGroupedInteger\<close>, with its variables \<open>position\<close> and \<open>digits\<close>\<close>
  "groupLoop position ds =
     (if 0 < position then groupLoop (position - 3) (take (nat position) ds @ CHR '','' # drop (nat position) ds) else ds)"
  by pat_completeness auto
termination by (relation "measure (nat \<circ> fst)") auto

declare groupLoop.simps [simp del]

fun decimal :: "nat \<Rightarrow> string" where
  \<comment> \<open>\<open>%d\<close> of an unsigned integer\<close>
  "decimal n = (if n < 10 then [''0123456789'' ! n] else decimal (n div 10) @ [''0123456789'' ! (n mod 10)])"

declare decimal.simps [simp del]

definition formatGroupedInteger :: "nat \<Rightarrow> string" where
  "formatGroupedInteger v = groupLoop (int (length (decimal v)) - 3) (decimal v)"

definition magnitude :: "int \<Rightarrow> nat" where
  \<comment> \<open>In \<open>int64\<close> and then in \<open>uint64\<close>, so that the smallest number does not overflow\<close>
  "magnitude amount =
     nat (if amount < 0 then (go_neg (go_add amount 1) mod 2 ^ 64 + 1) mod 2 ^ 64 else amount mod 2 ^ 64)"

definition formatFinancialAmount :: "int \<Rightarrow> string \<Rightarrow> string" where
  "formatFinancialAmount amount currency =
     (if currency = '''' then ''''
      else let m = magnitude amount;
               formatted = currency @ '' '' @ formatGroupedInteger (m div 100) @ ''.'' @ decimalPadded 2 (int (m mod 100))
           in if amount < 0 then ''-'' @ formatted else formatted)"

section \<open>Sending\<close>

definition financialEventCopy :: "golib \<Rightarrow> string \<Rightarrow> error + string \<times> string" where
  "financialEventCopy g eventType =
     (if eventType = ''transaction.posted'' then Inr (''Transaction posted'', ''a transaction was posted on your account.'')
      else if eventType = ''transaction.failed'' then Inr (''Transaction failed'', ''a transaction could not be completed.'')
      else if eventType = ''transaction.reversed'' then Inr (''Transaction reversed'', ''a transaction was reversed.'')
      else if eventType = ''account.frozen'' then Inr (''Account frozen'', ''your account has been frozen.'')
      else if eventType = ''account.unfrozen'' then Inr (''Account unfrozen'', ''your account has been unfrozen.'')
      else if eventType = ''account.closed'' then Inr (''Account closed'', ''your account has been closed.'')
      else Inl (GoErr (''unsupported financial event type '' @ gl_Quote g eventType)))"

definition acceptedID :: "string \<Rightarrow> sendReply \<Rightarrow> error + string" where
  \<comment> \<open>What both methods do with the provider's answer; the first argument is the message of a failed request.\<close>
  "acceptedID what r =
     (case r of
        SendError invalid e \<Rightarrow> if invalid then Inl (PermanentError (WrapErr ''Resend rejected email request'' e))
                               else Inl (WrapErr what e)
      | SendResponse i \<Rightarrow> (if i = None \<or> i = Some '''' then Inl (GoErr ''Resend accepted email without returning a message ID'')
                           else Inr (the i)))"

definition verificationProblem :: "golib \<Rightarrow> resendPayload \<Rightarrow> time \<Rightarrow> error option" where
  "verificationProblem g payload now =
     (if rp_VerificationURL payload = '''' then None
      else if \<not> httpURL g (rp_VerificationURL payload) then
        Some (GoErr ''verification_url must be an absolute HTTP or HTTPS URL'')
      else case gl_ParseRFC3339 g (rp_VerificationExpiresAt payload) of
        Some expiresAt \<Rightarrow> if now < expiresAt then None
                          else Some (GoErr ''verification_expires_at must be a future RFC3339 timestamp'')
      | None \<Rightarrow> Some (GoErr ''verification_expires_at must be a future RFC3339 timestamp''))"

definition resendVerification :: "golib \<Rightarrow> resendClient \<Rightarrow> string \<Rightarrow> emailMessage \<Rightarrow> world \<Rightarrow> error + string" where
  "resendVerification g c from message w =
     (let now = clockAt (envir w) (clock_ctr w)
      in case rs_ParseAddress c (em_Recipient message) of
           Some e \<Rightarrow> Inl (PermanentError (WrapErr ''invalid recipient'' e))
         | None \<Rightarrow>
           (case unmarshalResendPayload (em_Payload message) of
              Inl e \<Rightarrow> Inl (PermanentError (WrapErr ''invalid verification email payload'' e))
            | Inr payload \<Rightarrow>
              (case verificationProblem g payload now of
                 Some e \<Rightarrow> Inl (PermanentError e)
               | None \<Rightarrow>
                 (case rs_verificationTemplates c \<lparr>td_Username = em_Username message,
                     td_VerificationURL = rp_VerificationURL payload,
                     td_VerificationExpiresAt = rp_VerificationExpiresAt payload\<rparr> of
                    Inl e \<Rightarrow> Inl (PermanentError (WrapErr ''render verification email'' e))
                  | Inr (html, txt) \<Rightarrow>
                    acceptedID ''send email with Resend''
                      (rs_SendWithOptions c
                        \<lparr>sq_From = from, sq_To = em_Recipient message,
                         sq_Subject = (if rp_VerificationURL payload = '''' then ''Welcome to Monierave''
                                       else ''Verify your Monierave email''),
                         sq_Html = html, sq_Text = txt,
                         sq_Tags = [(''category'', ''verify_email''), (''job_id'', em_JobID message)]\<rparr>
                        (''verify-email/'' @ em_JobID message) w)))))"

definition financialSubject :: string where
  "financialSubject = ''Monierave account activity''"

definition dotsToUnderscores :: "string \<Rightarrow> string" where
  "dotsToUnderscores = map (\<lambda>c. if c = CHR ''.'' then CHR ''_'' else c)"

definition financialProblem :: "golib \<Rightarrow> financialPayload \<Rightarrow> error option" where
  "financialProblem g payload =
     (case financialEventCopy g (fp_EventType payload) of
        Inl e \<Rightarrow> Some e
      | Inr _ \<Rightarrow>
        if fp_OccurredAt payload = goZeroTime then Some (GoErr ''financial notification occurred_at is required'')
        else if take 12 (fp_EventType payload) = ''transaction.'' \<and> fp_Reference payload = ''''
        then Some (GoErr ''financial transaction reference is required'') else None)"

definition financialData :: "golib \<Rightarrow> resendClient \<Rightarrow> string \<Rightarrow> financialPayload \<Rightarrow> financialTemplateData" where
  "financialData g c username payload =
     (let (title, summary) = projr (financialEventCopy g (fp_EventType payload))
      in \<lparr>ft_Username = username, ft_Title = title, ft_Summary = summary, ft_Reference = fp_Reference payload,
          ft_Amount = formatFinancialAmount (fp_Amount payload) (fp_Currency payload), ft_Direction = fp_Direction payload,
          ft_OccurredAt = rs_formatTime c (fp_OccurredAt payload), ft_AccountStatus = fp_AccountStatus payload,
          ft_Reason = fp_Reason payload\<rparr>)"

definition resendFinancial :: "golib \<Rightarrow> resendClient \<Rightarrow> string \<Rightarrow> emailMessage \<Rightarrow> world \<Rightarrow> error + string" where
  "resendFinancial g c from message w =
     (case rs_ParseAddress c (em_Recipient message) of
        Some e \<Rightarrow> Inl (PermanentError (WrapErr ''invalid recipient'' e))
      | None \<Rightarrow>
        (case unmarshalFinancialPayload (em_Payload message) of
           Inl e \<Rightarrow> Inl (PermanentError (WrapErr ''invalid financial notification payload'' e))
         | Inr payload \<Rightarrow>
           (case financialProblem g payload of
              Some e \<Rightarrow> Inl (PermanentError e)
            | None \<Rightarrow>
              (case rs_financialTemplates c (financialData g c (em_Username message) payload) of
                 Inl e \<Rightarrow> Inl (PermanentError (WrapErr ''render financial notification'' e))
               | Inr (html, txt) \<Rightarrow>
                 acceptedID ''send financial notification with Resend''
                   (rs_SendWithOptions c
                     \<lparr>sq_From = from, sq_To = em_Recipient message,
                      sq_Subject = financialSubject @ '': '' @ ft_Title (financialData g c (em_Username message) payload),
                      sq_Html = html, sq_Text = txt,
                      sq_Tags = [(''category'', dotsToUnderscores (fp_EventType payload)), (''job_id'', em_JobID message),
                        (''event_id'', fp_EventID payload), (''correlation_id'', fp_CorrelationID payload)]\<rparr>
                     (''financial-notification/'' @ em_JobID message) w)))))"

fun SendVerificationEmail :: "golib \<Rightarrow> resendClient \<Rightarrow> Mailer \<Rightarrow> emailMessage \<Rightarrow> world \<Rightarrow> error + string" where
  "SendVerificationEmail g c LogMailer message w = Inr (''log-'' @ em_JobID message)"
| "SendVerificationEmail g c (ResendMailer from) message w = resendVerification g c from message w"

fun SendFinancialNotification :: "golib \<Rightarrow> resendClient \<Rightarrow> Mailer \<Rightarrow> emailMessage \<Rightarrow> world \<Rightarrow> error + string" where
  "SendFinancialNotification g c LogMailer message w = Inr (''log-'' @ em_JobID message)"
| "SendFinancialNotification g c (ResendMailer from) message w = resendFinancial g c from message w"

text \<open>The worker with this mailer\<close>

definition withMailer :: "golib \<Rightarrow> resendClient \<Rightarrow> Mailer \<Rightarrow> services \<Rightarrow> services" where
  "withMailer g c m sv = sv
     \<lparr>sv_SendVerificationEmail := (\<lambda>i u r p. SendVerificationEmail g c m \<lparr>em_JobID = i, em_Username = u, em_Recipient = r, em_Payload = p\<rparr>),
      sv_SendFinancialNotification := (\<lambda>i u r p. SendFinancialNotification g c m \<lparr>em_JobID = i, em_Username = u, em_Recipient = r, em_Payload = p\<rparr>)\<rparr>"

section \<open>What an amount looks like\<close>

text \<open>The reference: groups of three from the right. And reading the digits back.\<close>

fun grouped :: "string \<Rightarrow> string" where
  "grouped ds = (if length ds \<le> 3 then ds else grouped (take (length ds - 3) ds) @ CHR '','' # drop (length ds - 3) ds)"

declare grouped.simps [simp del]

definition digitsValue :: "string \<Rightarrow> nat" where
  "digitsValue t = foldl (\<lambda>n d. 10 * n + (of_char d - 48)) 0 (filter isDigit t)"

lemma groupLoop_grouped: "a \<noteq> [] \<Longrightarrow> groupLoop (int (length a)) (a @ b) = grouped a @ CHR '','' # b"
proof (induction a arbitrary: b rule: grouped.induct)
  case (1 ds)
  let ?k = "length ds - 3"
  have step: "groupLoop (int (length ds)) (ds @ b) = groupLoop (int (length ds) - 3) (ds @ CHR '','' # b)"
    using 1(2) by (subst groupLoop.simps) simp
  show ?case
  proof (cases "length ds \<le> 3")
    case True
    then show ?thesis
      by (simp add: step groupLoop.simps [of "int (length ds) - 3"] grouped.simps [of ds])
  next
    case False
    have "groupLoop (int (length (take ?k ds))) (take ?k ds @ drop ?k ds @ CHR '','' # b) =
        grouped (take ?k ds) @ CHR '','' # drop ?k ds @ CHR '','' # b"
      using 1(1) [OF False, of "drop ?k ds @ CHR '','' # b"] False by (cases "take ?k ds = []") auto
    moreover have "int (length (take ?k ds)) = int (length ds) - 3" "take ?k ds @ drop ?k ds @ CHR '','' # b = ds @ CHR '','' # b"
      using False by (auto simp flip: append_assoc)
    ultimately show ?thesis
      using False by (simp add: step grouped.simps [of ds])
  qed
qed

lemma formatGroupedInteger_grouped: "formatGroupedInteger v = grouped (decimal v)"
proof (cases "length (decimal v) \<le> 3")
  case True
  then show ?thesis
    by (simp add: formatGroupedInteger_def groupLoop.simps grouped.simps)
next
  case False
  let ?ds = "decimal v" let ?k = "length ?ds - 3"
  have "groupLoop (int (length (take ?k ?ds))) (take ?k ?ds @ drop ?k ?ds) = grouped (take ?k ?ds) @ CHR '','' # drop ?k ?ds"
    using False by (intro groupLoop_grouped) auto
  moreover have "int (length (take ?k ?ds)) = int (length ?ds) - 3"
    using False by simp
  ultimately show ?thesis
    using False by (simp add: formatGroupedInteger_def grouped.simps [of ?ds])
qed

lemma digit_chars: "d < 10 \<Longrightarrow> isDigit (''0123456789'' ! d) \<and> of_char (''0123456789'' ! d) - 48 = (d :: nat)"
  by (auto simp: isDigit_def less_Suc_eq numeral_eq_Suc)

lemma filter_grouped: "filter isDigit (grouped ds) = filter isDigit ds"
proof (induction ds rule: grouped.induct)
  case (1 ds)
  have comma: "\<not> isDigit (CHR '','')"
    by (simp add: isDigit_def)
  show ?case
  proof (cases "length ds \<le> 3")
    case False
    have "filter isDigit (grouped ds) = filter isDigit (take (length ds - 3) ds @ drop (length ds - 3) ds)"
      using 1 [OF False] False by (subst grouped.simps) (simp add: comma del: append_take_drop_id)
    then show ?thesis by simp
  qed (simp add: grouped.simps)
qed

lemma filter_decimal: "filter isDigit (decimal n) = decimal n"
  by (induction n rule: decimal.induct) (subst (1 2) decimal.simps, simp add: digit_chars)

lemma decimal_value: "foldl (\<lambda>n d. 10 * n + (of_char d - 48)) 0 (decimal n) = n"
  by (induction n rule: decimal.induct) (subst decimal.simps, simp add: digit_chars)

lemma cents: "r < 100 \<Longrightarrow> decimalPadded 2 (int r) = [''0123456789'' ! (r div 10), ''0123456789'' ! (r mod 10)]"
proof -
  assume r: "r < 100"
  have "[0..<2] = [0, 1 :: nat]"
    by (simp add: upt_rec)
  moreover have "nat (int r div 10 mod 10) = r div 10" "nat (int r mod 10) = r mod 10"
    using r by (simp_all add: nat_div_distrib nat_mod_distrib)
  moreover have "nat (int r div 10) = r div 10"
    by (simp add: nat_div_distrib)
  ultimately show ?thesis
    by (simp add: decimalPadded_def)
qed

lemma digitsValue_append: "digitsValue (s @ t) = foldl (\<lambda>n d. 10 * n + (of_char d - 48)) (digitsValue s) (filter isDigit t)"
  by (simp add: digitsValue_def)

lemma digitsValue_grouped: "digitsValue (formatGroupedInteger v) = v"
  by (simp add: digitsValue_def formatGroupedInteger_grouped filter_grouped filter_decimal decimal_value)

lemma amount_digits: "digitsValue (formatGroupedInteger (m div 100) @ ''.'' @ decimalPadded 2 (int (m mod 100))) = m"
proof -
  define r where "r = m mod 100"
  have small: "r div 10 < 10" "r mod 10 < 10"
    by (auto simp: r_def)
  have point: "\<not> isDigit (CHR ''.'')"
    by (simp add: isDigit_def)
  have "decimalPadded 2 (int r) = [''0123456789'' ! (r div 10), ''0123456789'' ! (r mod 10)]"
    by (rule cents) (simp add: r_def)
  moreover have "filter isDigit (''.'' @ [''0123456789'' ! (r div 10), ''0123456789'' ! (r mod 10)]) =
      [''0123456789'' ! (r div 10), ''0123456789'' ! (r mod 10)]"
    using digit_chars [OF small(1)] digit_chars [OF small(2)] point by (simp del: nth_Cons_numeral)
  ultimately have "digitsValue (formatGroupedInteger (m div 100) @ ''.'' @ decimalPadded 2 (int r)) =
      10 * (10 * (m div 100) + r div 10) + r mod 10"
    using digit_chars [OF small(1)] digit_chars [OF small(2)]
    by (simp only: digitsValue_append digitsValue_grouped foldl.simps)
  also have "\<dots> = 100 * (m div 100) + (10 * (r div 10) + r mod 10)"
    by simp
  also have "\<dots> = m"
    by (simp only: mult_div_mod_eq) (simp add: r_def)
  finally show ?thesis
    by (simp only: r_def)
qed

lemma magnitude_abs: "in_int64 amount \<Longrightarrow> magnitude amount = nat \<bar>amount\<bar>"
  by (auto simp: magnitude_def in_int64_def go_neg_def go_add_def wrap64_def)

lemma format_amount:
  assumes "in_int64 amount" "currency \<noteq> ''''"
  shows "\<exists>t. formatFinancialAmount amount currency = (if amount < 0 then ''-'' else '''') @ currency @ '' '' @ t \<and>
    digitsValue t = nat \<bar>amount\<bar>"
  using amount_digits [of "nat \<bar>amount\<bar>"] assms
  by (intro exI [of _ "formatGroupedInteger (nat \<bar>amount\<bar> div 100) @ ''.'' @ decimalPadded 2 (int (nat \<bar>amount\<bar> mod 100))"])
    (simp add: formatFinancialAmount_def magnitude_abs Let_def)

section \<open>Every notification of the store can be sent\<close>

definition domainEvents :: "string list" where
  "domainEvents = [DomainEventTransactionPosted, DomainEventTransactionFailed, DomainEventTransactionReversed,
     DomainEventAccountFrozen, DomainEventAccountUnfrozen, DomainEventAccountClosed]"

lemma notification_decoded:
  assumes "in_int64 (fn_Amount arg)"
  shows "unmarshalFinancialPayload (notificationPayload eventID occurredAt arg) =
    Inr \<lparr>fp_EventID = rawUuidString eventID, fp_CorrelationID = rawUuidString (fn_CorrelationID arg),
         fp_EventType = fn_EventType arg, fp_Reference = fn_Reference arg, fp_Amount = fn_Amount arg,
         fp_Currency = fn_Currency arg, fp_Direction = fn_Direction arg, fp_OccurredAt = occurredAt,
         fp_AccountStatus = fn_AccountStatus arg, fp_Reason = fn_Reason arg\<rparr>"
  using assms
  by (simp add: unmarshalFinancialPayload_def notificationPayload_def isObject_def lookupField_def getStr_def getInt_def
      getOptTime_def orZeroTime_def thenE_def omitEmpty_def map_add_def in_int64_def)

lemma supported: "ev \<in> set domainEvents \<Longrightarrow> \<not> isl (financialEventCopy g ev)"
  by (auto simp: domainEvents_def financialEventCopy_def DomainEventTransactionPosted_def DomainEventTransactionFailed_def
      DomainEventTransactionReversed_def DomainEventAccountFrozen_def DomainEventAccountUnfrozen_def
      DomainEventAccountClosed_def)

lemma notification_accepted:
  assumes "in_int64 (fn_Amount arg)" "fn_EventType arg \<in> set domainEvents" "occurredAt \<noteq> goZeroTime"
    and "take 12 (fn_EventType arg) = ''transaction.'' \<Longrightarrow> fn_Reference arg \<noteq> ''''"
  obtains payload where "unmarshalFinancialPayload (notificationPayload eventID occurredAt arg) = Inr payload"
    "financialProblem g payload = None" "fp_EventID payload = rawUuidString eventID"
    "fp_Amount payload = fn_Amount arg" "fp_Currency payload = fn_Currency arg"
  using notification_decoded [OF assms(1)] supported [OF assms(2), of g] assms(3,4)
  by (auto simp: financialProblem_def isl_def split: sum.split)

lemma notification_request:
  assumes "in_int64 (fn_Amount arg)" "fn_EventType arg \<in> set domainEvents" "occurredAt \<noteq> goZeroTime"
    and "take 12 (fn_EventType arg) = ''transaction.'' \<Longrightarrow> fn_Reference arg \<noteq> ''''"
    and "rs_ParseAddress c recipient = None" "\<And>d. \<not> isl (rs_financialTemplates c d)"
  shows "\<exists>rq d. SendFinancialNotification g c (ResendMailer sender) \<lparr>em_JobID = i, em_Username = u, em_Recipient = recipient,
        em_Payload = notificationPayload eventID occurredAt arg\<rparr> w =
      acceptedID ''send financial notification with Resend'' (rs_SendWithOptions c rq (''financial-notification/'' @ i) w) \<and>
    sq_From rq = sender \<and> sq_To rq = recipient \<and> (''event_id'', rawUuidString eventID) \<in> set (sq_Tags rq) \<and>
    rs_financialTemplates c d = Inr (sq_Html rq, sq_Text rq) \<and> ft_Username d = u \<and>
    (fn_Currency arg \<noteq> '''' \<longrightarrow> (\<exists>t. ft_Amount d = (if fn_Amount arg < 0 then ''-'' else '''') @ fn_Currency arg @ '' '' @ t \<and>
       digitsValue t = nat \<bar>fn_Amount arg\<bar>))"
proof -
  obtain payload where p: "unmarshalFinancialPayload (notificationPayload eventID occurredAt arg) = Inr payload"
      "financialProblem g payload = None" "fp_EventID payload = rawUuidString eventID"
      "fp_Amount payload = fn_Amount arg" "fp_Currency payload = fn_Currency arg"
    by (rule notification_accepted [OF assms(1-4)])
  define d where "d = financialData g c u payload"
  obtain html plain where body: "rs_financialTemplates c d = Inr (html, plain)"
    using assms(6) [of d] by (cases "rs_financialTemplates c d") auto
  let ?rq = "\<lparr>sq_From = sender, sq_To = recipient, sq_Subject = financialSubject @ '': '' @ ft_Title d, sq_Html = html, sq_Text = plain,
    sq_Tags = [(''category'', dotsToUnderscores (fp_EventType payload)), (''job_id'', i), (''event_id'', fp_EventID payload),
      (''correlation_id'', fp_CorrelationID payload)]\<rparr>"
  have "SendFinancialNotification g c (ResendMailer sender) \<lparr>em_JobID = i, em_Username = u, em_Recipient = recipient,
        em_Payload = notificationPayload eventID occurredAt arg\<rparr> w =
      acceptedID ''send financial notification with Resend'' (rs_SendWithOptions c ?rq (''financial-notification/'' @ i) w)"
    using p(1,2) body assms(5) by (simp add: resendFinancial_def d_def)
  moreover have "ft_Username d = u" "ft_Amount d = formatFinancialAmount (fn_Amount arg) (fn_Currency arg)"
    using p(4,5) by (simp_all add: d_def financialData_def split_beta Let_def)
  ultimately show ?thesis
    using body p(3) format_amount [OF assms(1), of "fn_Currency arg"] by (intro exI [of _ ?rq] exI [of _ d]) auto
qed

end
