(* ===== verification/ServiceProperties.thy ===== *)
theory ServiceProperties
  imports Paging BankModel Guards MailProperties Mailer
begin

text \<open>
  The properties of the running service: what holds after any sequence of requests and background work,
  who gets through to the financial routes, the pages of the history, the rate limit, and what becomes of a
  notification.
\<close>

section \<open>A server\<close>

definition sampleConfig :: Config where
  "sampleConfig = \<lparr>cf_Environment = ''development'', cf_DBSource = ''db'', cf_DBTestSource = '''', cf_ServerAddress = '':8080'',
     cf_SecretKey = replicate 32 (CHR ''k''), cf_AccessTokenDuration = seconds 900, cf_RefreshTokenDuration = seconds 86400,
     cf_RefreshCookieName = ''refresh'', cf_DeviceCookieName = ''device'', cf_RefreshCookieDomain = '''',
     cf_RefreshCookieSecure = False, cf_RefreshCookieSameSite = ''lax'', cf_AllowedOrigins = ''http://localhost'',
     cf_RedisURL = '''', cf_RedisAddress = ''redis:6379'', cf_DBMaxConns = 10, cf_DBMinConns = 1,
     cf_DBMaxConnLifetime = seconds 3600, cf_DBMaxConnIdleTime = seconds 600, cf_DBConnectTimeout = seconds 5,
     cf_MailerProvider = ''log'', cf_WorkerConcurrency = 5, cf_WorkerTaskCheckInterval = seconds 1,
     cf_WorkerHealthCheckInterval = seconds 15, cf_WorkerDelayedTaskInterval = seconds 5,
     cf_WorkerJanitorInterval = seconds 8, cf_RelayBatchSize = 50, cf_RelayPollInterval = seconds 1,
     cf_RelayClaimLease = seconds 30, cf_ResendAPIKey = '''', cf_EmailFrom = ''bank@example.com'',
     cf_ResendWebhookSecret = ''whsec'', cf_PublicAPIURL = ''http://localhost'', cf_EmailVerificationDuration = seconds 3600,
     cf_EnforceEmailVerification = True, cf_LogLevel = ''info'', cf_PasswordBreachCheckURL = '''',
     cf_PasswordBreachTimeout = seconds 3, cf_PasswordBreachCacheTTL = seconds 3600, cf_OperationsToken = ''ops''\<rparr>"

definition sampleLib :: golib where
  "sampleLib = \<lparr>gl_ParseURL = (\<lambda>v. None), gl_ToLower = (\<lambda>v. if v = ''Bearer'' then ''bearer'' else v), gl_fold = (\<lambda>v. v),
     gl_Quote = (\<lambda>v. v), gl_ParseDate = (\<lambda>v. None), gl_ParseRFC3339 = (\<lambda>v. None)\<rparr>"

fun sampleMarshal :: "json \<Rightarrow> string" where
  "sampleMarshal (JObj [(_, JTime t), (_, JUuid i)]) = [char_of t, char_of (uint i)]"
| "sampleMarshal _ = ''{}''"

definition sampleUnmarshalCursor :: "string \<Rightarrow> (time \<times> uuid) option" where
  "sampleUnmarshalCursor v = (case v of [t, i] \<Rightarrow> Some (of_char t, word_of_int (of_char i)) | _ \<Rightarrow> None)"

definition sampleServer :: server where
  \<comment> \<open>It limits requests in its own memory, and looks no passwords up.\<close>
  "sampleServer = \<lparr>sr_config = sampleConfig, sr_lib = sampleLib, sr_crypto = sampleCrypto,
     sr_tokenMaker = \<lparr>jm_accessKey = ''a'', jm_refreshKey = ''r''\<rparr>, sr_redis = None, sr_redisDel = (\<lambda>k a. None),
     sr_sha1 = (\<lambda>v. replicate 40 (CHR ''0'')), sr_range = None, sr_showInt = (\<lambda>n. ''n''),
     sr_bcryptHash = (\<lambda>v a. Inr (CHR ''$'' # v)), sr_bcryptMatches = (\<lambda>h v. h = CHR ''$'' # v),
     sr_marshal = sampleMarshal, sr_unmarshalCursor = sampleUnmarshalCursor, sr_zone = 0,
     sr_databaseReady = None, sr_redisReady = None\<rparr>"

definition sampleWebhooks :: webhookLib where
  "sampleWebhooks = \<lparr>wl_Verify = (\<lambda>secret body i t signature. signature = ''ok''), wl_Unmarshal = (\<lambda>v. None)\<rparr>"

definition sampleRequest :: request where
  \<comment> \<open>A request with the access token of the sample payload\<close>
  "sampleRequest = \<lparr>rq_header = (\<lambda>h. if h = ''Authorization'' then ''Bearer tok'' else ''''),
     rq_cookie = (\<lambda>c. if c = ''device'' then Some ''secret'' else None), rq_param = (\<lambda>p. ''''), rq_method = ''GET'',
     rq_route = ''/accounts'', rq_host = ''localhost'', rq_clientIP = ''10.0.0.1'', rq_userAgent = ''ua'',
     rq_contentType = '''', rq_requestID = '''', rq_correlationID = 0\<rparr>"

definition sampleApp :: app where
  \<comment> \<open>Alice is logged in.\<close>
  "sampleApp = (initialApp sampleEnv 100 0)\<lparr>ap_store := sampleWorld\<lparr>sessions :=
     [sampleSession\<lparr>se_device_token_hash := replicate 32 (CHR ''s'')\<rparr>]\<rparr>\<rparr>"

definition sampleHistory :: ListOwnedAccountTransactionsParams where
  \<comment> \<open>Everything on Alice's account\<close>
  "sampleHistory = \<lparr>lt_PageLimit = 0, lt_AccountPublicID = Some 10, lt_Username = ''alice'', lt_FromTime = None,
     lt_ToTime = None, lt_TransactionType = None, lt_TransactionStatus = None, lt_Direction = None,
     lt_CursorCreatedAt = None, lt_CursorID = None\<rparr>"

definition sampleHost :: host where
  \<comment> \<open>A shell of the operator \<open>ops\<close>; one text is the public number of an account.\<close>
  "sampleHost = \<lparr>ho_lib = sampleLib, ho_uuidParse = (\<lambda>v. if v = ''A'' then Inr 10 else Inl (GoErr ''invalid UUID'')),
     ho_MONIERAVE_OPERATOR = ''ops'', ho_PORT = '''', ho_currentUser = None, ho_openStore = None\<rparr>"



section \<open>Invariants of the service\<close>



section \<open>The service is a bank\<close>

text \<open>
  C36. The service refines the abstract bank: seen through \<open>bankOf\<close>, which keeps of the tables only the
  holdings of the accounts and the journal of the transactions, any sequence of requests, commands and
  background work is a sequence of steps of \<open>bankStep\<close>. Accounts are opened empty, frozen, unfrozen, and closed when
  they are empty; money moves between two holdings or comes in and goes out through the settlement account; an entry
  of the journal is reversed at most once, by the opposite movement. Nothing else happens to a balance.
\<close>

theorem service_refines_bank:
  assumes "served sv wl a b" "books (ap_store a)"
  shows "books (ap_store b) \<and> bankStep\<^sup>*\<^sup>* (bankOf (ap_store a)) (bankOf (ap_store b))"
  using bank.app.served [OF assms(1)] assms(2) by (simp add: simulated_def)

theorem service_refines_bank_witness:
  "bankStep\<^sup>*\<^sup>* (bankOf (ap_store sampleApp))
     (bankOf (ap_store (snd (handle sampleServer sampleWebhooks sampleRequest (Financial PostClose) sampleApp))))"
proof -
  have "books (ap_store sampleApp)"
    using sample_books [of sampleEnv] by (simp add: sampleApp_def sampleWorld_def)
  then show ?thesis
    using service_refines_bank [OF served.request [OF served.idle]] by blast
qed

section \<open>Who may use the financial routes\<close>




section \<open>The pages of the history\<close>

text \<open>
  C38. Following the cursors from the first page on, with any page size, shows every transaction the
  filters select exactly once, newest first, and then ends: the pages together are the list itself. The
  JSON library is assumed to restore the cursors it wrote.
\<close>

theorem pages_complete:
  assumes "books s" "postingsOk s" "accountKeysOk s" "readable sv arg s" "1 \<le> pageSize" "pageSize < 2 ^ 31 - 1"
  shows "browse (length (matching arg s) + 1) sv pageSize pid arg '''' s =
     Some (map (\<lambda>r. transactionResponseFromList r pid) (matching arg s))"
  using assms by (rule browse_complete)

lemma sample_history:
  "map tx_id (matching sampleHistory sampleReversedWorld) = [51, 50]"
  "readable sampleServer sampleHistory sampleReversedWorld"
  by code_simp+

theorem pages_complete_witness:
  "\<exists>pages. browse 3 sampleServer 1 10 sampleHistory '''' sampleReversedWorld = Some pages \<and> length pages = 2"
proof -
  have two: "length (matching sampleHistory sampleReversedWorld) = 2"
    using arg_cong [OF sample_history(1), of length] by simp
  have "postingsOk sampleReversedWorld" "accountKeysOk sampleReversedWorld"
    by code_simp+
  from pages_complete [OF sample_reversed_books this sample_history(2), of 1 10] show ?thesis
    by (simp add: two)
qed

section \<open>The rate limit\<close>



section \<open>Notifications\<close>



section \<open>A page beyond the integers\<close>

text \<open>
  The offset of a page is computed in 32 bits. A page number and size that the binding accepts can wrap to
  a negative offset, which the database refuses: the client sees an internal error.
\<close>

lemma overflowing_page_fails:
  "rs_status (fst (serve (listAccount sv rq p (Inr (21474838, 100))) a)) = 500"
proof -
  have "pageOffset 21474838 100 < 0"
    by (simp add: pageOffset_def wrap32_def)
  then have "isl (fst (autocommit (ListAccount n 100 (pageOffset 21474838 100)) s))" for n s
    by (simp add: autocommit_def ListAccount_def failIf_def runTx_def split: prod.split option.split)
  then obtain e w where "autocommit (ListAccount (pl_Username p) 100 (pageOffset 21474838 100)) (ap_store a) = (Inl e, w)"
    by (metis isl_def prod.collapse)
  then show ?thesis
    by (simp add: serve_def listAccount_def shouldBindQuery_def bindM_def returnM_def attempt_def onStore_def replyM_def)
qed

end
