(* ===== verification/Metrics.thy ===== *)
theory Metrics
  imports CommandRules
begin

text \<open>
  The operational gauges: the query behind them (\<open>operational_metrics.sql.go\<close>), how they are stored
  (\<open>observability/metrics.go\<close>), and the refresh before \<open>/metrics\<close> is rendered (\<open>metricsHandler\<close> of
  \<open>api/operations.go\<close>). The drift gauge agrees with reconciliation.
\<close>

section \<open>The query\<close>

record GetFinancialOperationalMetricsRow =
  om_OutboxLag :: int
  om_EmailDlqSize :: int
  om_WorkerRetries :: int
  om_ReconciliationDrift :: int

definition outboxLag :: "world \<Rightarrow> int" where
  \<comment> \<open>In microseconds, before it becomes a floating-point number of seconds\<close>
  "outboxLag s =
     (let waiting = map ob_created_at (filter (\<lambda>ev. ob_status ev = ''pending'' \<or> ob_status ev = ''publishing'') (outbox_events s))
      in if waiting = [] then 0 else tx_now s - Min (set waiting))"

definition driftedAccounts :: "world \<Rightarrow> ListAccountReconciliationIssuesRow list" where
  "driftedAccounts s = filter (\<lambda>g. ai_customer_ledger_account_id g = None \<or> ai_cached_balance g \<noteq> ai_ledger_balance g)
     (accountGroups None s)"

definition driftedTransactions :: "world \<Rightarrow> BankingTransaction list" where
  "driftedTransactions s = filter (\<lambda>t. settled t \<and>
     (length (postingsOf (bt_id t) (ledger_postings s)) < 2 \<or>
      sum_list (map lp_amount (postingsOf (bt_id t) (ledger_postings s))) \<noteq> 0)) (banking_transactions s)"

definition duplicateReversals :: "world \<Rightarrow> uuid list" where
  "duplicateReversals s = filter (\<lambda>i. 1 < length (filter (\<lambda>u. bt_reversal_of u = Some i) (banking_transactions s)))
     (remdups (List.map_filter bt_reversal_of (banking_transactions s)))"

definition GetFinancialOperationalMetrics :: "GetFinancialOperationalMetricsRow query" where
  "GetFinancialOperationalMetrics =
     bindM (readM id) (\<lambda>s.
     failIf (list_ex (\<lambda>g. \<not> in_int64 (ai_ledger_balance g)) (accountGroups None s) \<or>
             list_ex (\<lambda>t. settled t \<and> \<not> in_int64 (sum_list (map lp_amount (postingsOf (bt_id t) (ledger_postings s)))))
               (banking_transactions s) \<or>
             \<not> in_int64 (sum_list (map (\<lambda>j. max (ej_attempt_count j - 1) 0) (email_jobs s)))) PgOutOfRange
     (returnM \<lparr>om_OutboxLag = outboxLag s,
               om_EmailDlqSize = int (length (filter (\<lambda>j. ej_status j = ''dead_letter'') (email_jobs s))),
               om_WorkerRetries = sum_list (map (\<lambda>j. max (ej_attempt_count j - 1) 0) (email_jobs s)),
               om_ReconciliationDrift = int (length (driftedAccounts s) + length (driftedTransactions s) +
                 length (duplicateReversals s))\<rparr>))"

section \<open>The gauges\<close>

text \<open>
  The two gauges that are not part of the state elsewhere; the drift is \<open>reconciliationDrift\<close> of the world,
  which reconciliation also sets, and the retries are a counter of the registry.
\<close>

record gauges =
  ga_outboxLag :: int
  ga_dlqSize :: int

definition SetOperationalGauges :: "int \<Rightarrow> int \<Rightarrow> int \<Rightarrow> int \<Rightarrow> gauges \<times> app \<Rightarrow> gauges \<times> app" where
  "SetOperationalGauges lag dlqSize drift workerRetries st =
     (case st of (g, a) \<Rightarrow>
        (g\<lparr>ga_outboxLag := max 0 lag, ga_dlqSize := max 0 dlqSize\<rparr>,
         a\<lparr>ap_store := (ap_store a)\<lparr>reconciliationDrift := max 0 drift\<rparr>,
           ap_metrics := SetWorkerRetries (word_of_int (max 0 workerRetries)) (ap_metrics a)\<rparr>))"

definition metricsHandler :: "gauges \<times> app \<Rightarrow> gauges \<times> app" where
  \<comment> \<open>The state in which the registry is rendered. The two seconds of the context are part of the faults.\<close>
  "metricsHandler st =
     (case st of (g, a) \<Rightarrow>
        (case autocommit GetFinancialOperationalMetrics (ap_store a) of
           (Inl e, w) \<Rightarrow> (g, a\<lparr>ap_store := w, ap_metrics := RecordDatabaseError (ap_metrics a)\<rparr>)
         | (Inr values, w) \<Rightarrow>
           SetOperationalGauges (om_OutboxLag values) (om_EmailDlqSize values) (om_ReconciliationDrift values)
             (om_WorkerRetries values) (g, a\<lparr>ap_store := w\<rparr>)))"

section \<open>The drift gauge\<close>

lemma no_drift_reconciled:
  assumes "driftedAccounts s = []" "driftedTransactions s = []" "duplicateReversals s = []"
  shows "reconciled s"
proof -
  have reversals: "length (filter (\<lambda>u. bt_reversal_of u = Some i) (banking_transactions s)) \<le> 1" for i
  proof (cases "filter (\<lambda>u. bt_reversal_of u = Some i) (banking_transactions s) = []")
    case False
    then obtain u where "u \<in> set (banking_transactions s)" "bt_reversal_of u = Some i"
      by (auto simp: filter_empty_conv)
    then have "i \<in> set (List.map_filter bt_reversal_of (banking_transactions s))"
      by (force simp: List.map_filter_def)
    then show ?thesis
      using assms(3) by (auto simp: duplicateReversals_def filter_empty_conv not_less)
  qed simp
  let ?ls = "\<lambda>a. filter (\<lambda>l. la_customer_account_id l = Some (ac_id a) \<and> la_kind l = ''customer'') (ledger_accounts s)"
  have accounts: "?ls a \<noteq> [] \<and> (\<forall>l\<in>set (?ls a). ac_balance a = ledgerTotal (ledger_postings s) (la_id l))"
    if "a \<in> set (accounts s)" for a
  proof -
    have "\<forall>l\<in>set (leftJoin (?ls a)). l \<noteq> None \<and>
        ac_balance a = (case l of None \<Rightarrow> 0 | Some k \<Rightarrow> ledgerTotal (ledger_postings s) (la_id k))"
      using assms(1) that unfolding driftedAccounts_def accountGroups_def ledgerTotal_def
      by (simp add: filter_empty_conv)
    then show ?thesis
      by (auto simp: leftJoin_def split: if_splits)
  qed
  have "\<forall>t\<in>set (banking_transactions s). settled t \<longrightarrow> 2 \<le> length (postingsOf (bt_id t) (ledger_postings s)) \<and>
      sum_list (map lp_amount (postingsOf (bt_id t) (ledger_postings s))) = 0"
    using assms(2) by (auto simp: driftedTransactions_def filter_empty_conv not_less)
  with reversals accounts show ?thesis
    unfolding reconciled_def by (simp add: filter_empty_conv)
qed

lemma single_reversal:
  assumes "books s"
  shows "length (filter (\<lambda>u. bt_reversal_of u = Some i) (banking_transactions s)) \<le> 1"
proof (rule same_key_length)
  show "bt_id x = bt_id y"
    if "x \<in> set (filter (\<lambda>u. bt_reversal_of u = Some i) (banking_transactions s))"
      "y \<in> set (filter (\<lambda>u. bt_reversal_of u = Some i) (banking_transactions s))" for x y
    using that reversalsD(1) [OF booksD(15) [OF assms]] by simp
  show "distinct (map bt_id (filter (\<lambda>u. bt_reversal_of u = Some i) (banking_transactions s)))"
    by (rule distinct_map_filter [OF booksD(3) [OF assms]])
qed

lemma books_no_drift:
  assumes "books s"
  shows "driftedAccounts s = []" "driftedTransactions s = []" "duplicateReversals s = []"
proof -
  have ok: "reconciled s"
    by (rule books_reconciled [OF assms])
  show "driftedAccounts s = []"
    using reconciled_group [OF ok, of _ None] by (auto simp: driftedAccounts_def filter_empty_conv)
  show "driftedTransactions s = []"
    using ok by (auto simp: reconciled_def driftedTransactions_def filter_empty_conv)
  show "duplicateReversals s = []"
    using single_reversal [OF assms] by (simp add: duplicateReversals_def filter_empty_conv not_less)
qed

text \<open>The gauge is zero only on reconciled tables, and a refresh on books that are in order sets it to zero.\<close>

lemma drift_value:
  assumes "GetFinancialOperationalMetrics s = (Inr row, t)"
  shows "om_ReconciliationDrift row =
    int (length (driftedAccounts s) + length (driftedTransactions s) + length (duplicateReversals s))"
  using assms by (auto simp: GetFinancialOperationalMetrics_def bindM_iff readM_iff failIf_iff returnM_iff)

lemma drift_gauge_sound:
  assumes "GetFinancialOperationalMetrics s = (Inr row, t)" "om_ReconciliationDrift row = 0"
  shows "reconciled s"
proof -
  have "length (driftedAccounts s) + length (driftedTransactions s) + length (duplicateReversals s) = 0"
    using drift_value [OF assms(1)] assms(2) by linarith
  then show ?thesis
    by (intro no_drift_reconciled) simp_all
qed

lemma startTx_drift: "reconciliationDrift (startTx s) = reconciliationDrift s"
  by (simp add: startTx_def)

lemma drift_gauge_zero:
  assumes "books (ap_store a)" "reconciliationDrift (ap_store a) = 0" "metricsHandler (g, a) = (g', b)"
  shows "reconciliationDrift (ap_store b) = 0"
proof -
  obtain r w where run: "autocommit GetFinancialOperationalMetrics (ap_store a) = (r, w)"
    by (cases "autocommit GetFinancialOperationalMetrics (ap_store a)")
  have reads: "reconciliationDrift v' = reconciliationDrift v" if "GetFinancialOperationalMetrics v = (x, v')" for x v v'
    using that by (auto simp: GetFinancialOperationalMetrics_def bindM_def readM_def failIf_def failM_def returnM_def split: if_splits)
  have kept: "reconciliationDrift w = 0"
    using run assms(2) reads [of "startTx (ap_store a)"] startTx_drift [of "ap_store a"]
    by (auto simp: autocommit_def runTx_def commitTx_def rollbackTo_def split: option.splits prod.splits sum.splits if_splits)
  show ?thesis
  proof (cases r)
    case (Inl e)
    then show ?thesis
      using assms(3) run kept by (auto simp: metricsHandler_def)
  next
    case (Inr row)
    have "autocommit GetFinancialOperationalMetrics (ap_store a) = (Inr row, w)"
      using run Inr by simp
    then have "GetFinancialOperationalMetrics (startTx (ap_store a)) = (Inr row, w)"
      by (rule autocommit_ok)
    moreover have "books (startTx (ap_store a))"
      using assms(1) by simp
    ultimately have "om_ReconciliationDrift row = 0"
      using books_no_drift drift_value by simp
    then show ?thesis
      using assms(3) run Inr by (auto simp: metricsHandler_def SetOperationalGauges_def)
  qed
qed

end
