(* ===== verification/Spec2Isabelle.thy ===== *)
theory Spec2Isabelle
  imports AccessProperties MailProperties OperatorRules AccountRules HistoryQueries ServiceProperties Metrics
begin

text \<open>
  \<^bold>\<open>Monierave: a retail bank on PostgreSQL.\<close>

  Monierave is a Go server. HTTP handlers (\<open>api/\<close>), the operator's commands (\<open>main.go\<close>), the outbox relay
  and the mail worker (\<open>worker/\<close>) call the store (\<open>db/sqlc\<close>): statements that sqlc generated from SQL, and
  transactions written by hand on top of them. This development models the store with the tables,
  constraints and triggers of the migrations, the worker, the tokens, the mailer, the command line and the
  HTTP service down to the middleware, and proves what they promise, alone and together.

  \<^bold>\<open>State and programs.\<close> \<open>Prelude\<close> has the monad of the model: a program takes a state and returns an
  error or a value together with the new state (\<open>bindM\<close>, \<open>failIf\<close>, \<open>tryM\<close>, \<open>forM\<close>), the primitives for
  tables (\<open>selectOne\<close>, \<open>insertRow\<close>, \<open>updateOne\<close>, \<open>deleteWhere\<close>), 64-bit arithmetic of Go and PostgreSQL,
  and the frame rules that say which fields a program leaves alone. \<open>Schema\<close> has a record for every row
  type of \<open>models.go\<close>, the errors as a datatype with \<open>errors.Is\<close>, and the record \<open>world\<close>: the tables, the
  sequences, and counters into the environment \<open>env\<close>. The environment holds what the program cannot
  foresee, as functions of a counter: UUIDs, the clock, random numbers, and the faults of the connection
  when a transaction begins, rolls back or commits. A commit may fail after it took effect. \<open>GoStrings\<close> and
  \<open>Base64\<close> model the string functions the code uses.

  \<^bold>\<open>Statements.\<close> \<open>AccountQueries\<close>, \<open>LedgerQueries\<close>, \<open>AuditQueries\<close>, \<open>IdempotencyQueries\<close>, \<open>UserQueries\<close>,
  \<open>EmailQueries\<close>, \<open>SessionQueries\<close>, \<open>BeneficiaryQueries\<close> and \<open>HistoryQueries\<close> translate the \<open>.sql.go\<close> files,
  one definition per method, with the checks of the tables (in the order a violation is reported) and the
  row triggers. \<open>Store\<close> has \<open>execTx\<close>, with the deferred trigger at commit, and statements outside a
  transaction.

  \<^bold>\<open>Transactions.\<close> \<open>Financial\<close> (audit rows and notifications), \<open>Snapshot\<close> (the JSON of a stored result),
  \<open>Transfers\<close> (\<open>transaction_tx.go\<close>), \<open>Accounts\<close> (\<open>account_tx.go\<close>, \<open>account_number.go\<close>), \<open>Operator\<close>
  (\<open>operator_tx.go\<close>), \<open>Reconcile\<close> (\<open>reconciliation.go\<close> and its queries), \<open>Sessions\<close> (\<open>session_tx.go\<close>),
  \<open>Users\<close> (sign-up, profile, verification), \<open>Delivery\<close> (reports of the mail provider) and \<open>Beneficiaries\<close>
  translate the hand-written part, one definition per function; a closure passed to \<open>execTx\<close> is a
  definition with the suffix \<open>Body\<close>. \<open>Worker\<close> has the relay and the mail task, \<open>Tokens\<close> the package
  \<open>token\<close>, \<open>Mailer\<close> the package \<open>mailer\<close>.

  \<^bold>\<open>The service.\<close> \<open>Config\<close> has the validation of the configuration, \<open>RateLimits\<close> and \<open>PasswordPolicy\<close> the
  memory of the process, \<open>Service\<close> the state of a server (\<open>app\<close>: the database, that memory, the counters,
  and the headers and cookies of the reply), the errors and the bodies. \<open>Operations\<close>, \<open>Auth\<close>, \<open>BankApi\<close>,
  \<open>HistoryApi\<close> and \<open>UserApi\<close> translate the middleware and the handlers of \<open>api/\<close>, one definition per
  function; a handler stops with the reply it writes. \<open>Routes\<close> puts them together as \<open>setupRouter\<close> does:
  \<open>handle\<close> is one request. \<open>Commands\<close> has the command line (\<open>runBanking\<close>, \<open>runJobs\<close>, the \<open>flag\<close> package) and
  the supervision of the roles, \<open>Metrics\<close> the operational gauges.

  \<^bold>\<open>Invariants and contracts.\<close> \<open>Books\<close> states when the double-entry books are in order (\<open>booksOk\<close>) and which
  changes keep them so; \<open>Effects\<close>, \<open>TransferProofs\<close>, \<open>Moves\<close> and \<open>Reversal\<close> derive from a successful run
  what it did. \<open>History\<close> has the relation \<open>extends\<close> for what is never rewritten; \<open>Keys\<close>, \<open>SessionRules\<close> and
  \<open>Paging\<close> the keys and row constraints of the other tables. \<open>Bank\<close> puts the operations together: \<open>perform\<close>
  is one call, \<open>reachable\<close> the states calls lead to from a freshly migrated database, by rule induction.
  \<open>TransferRules\<close>, \<open>Idempotency\<close>, \<open>OperatorRules\<close>, \<open>AccountRules\<close>, \<open>UserRules\<close>, \<open>DeliveryRules\<close> and
  \<open>WorkerRules\<close> have the contracts of the calls and their failures. \<open>CommandRules\<close> and \<open>RequestRules\<close> lift what
  the operations keep to commands and requests; \<open>served\<close> are the runs of the service with requests,
  commands and background work in any order. \<open>Guards\<close> shows what a request had to prove to get past the
  middleware, \<open>Paging\<close> that the pages of the history are complete. \<open>BankModel\<close> is the abstract
  specification: a bank of holdings and a journal with its steps, and the simulation.

  \<^bold>\<open>Properties.\<close> This theory has those of the books, transfers, deposits, operator actions and
  reconciliation; \<open>AccessProperties\<close> those of sessions and users, \<open>MailProperties\<close> those of mail and tokens,
  \<open>ServiceProperties\<close> those of the whole service: its invariants, the refinement of the abstract bank,
  authorisation, pages, rate limits and notifications. \<open>Scenario\<close> and \<open>Runs\<close> have the concrete states and
  evaluated calls that show the hypotheses can hold.

  \<^bold>\<open>Interfaces.\<close> The locales are the contracts between the parts. \<open>step_order\<close>, \<open>table\<close> and \<open>keyed_table\<close> in
  \<open>Prelude\<close>: what a program inherits from its steps, and what an insertion or update keeps; interpreted by
  every table. \<open>table_relation\<close> and \<open>table_invariant\<close> in \<open>Store\<close>: what a transaction inherits from its body.
  \<open>statements_within\<close> in \<open>Closure\<close>: a relation that every statement respects is one that every operation
  respects; interpreted for each invariant and for the history. \<open>failure_audit\<close> in \<open>Idempotency\<close>: the
  routines that record a failed call. \<open>calls_within\<close> in \<open>CommandRules\<close> and \<open>request_relation\<close> in
  \<open>RequestRules\<close>: what every operation respects, every command and every request respects; \<open>sublocale\<close>
  derives them from \<open>statements_within\<close>, and they are interpreted on the books, the abstract bank, the
  limiter and the cache.

  \<^bold>\<open>Choices.\<close> Transactions run one after the other: the row locks the code takes serialise those that
  touch the same rows, and interleavings below a transaction are not modelled; a request runs to its end
  before the next. Integers of Go and of \<open>bigint\<close> columns are \<open>int\<close> with wrap-around or range errors written
  out where the code computes with them; counters are 64-bit words. Strings are lists of bytes. A time is a
  number of microseconds, a duration one of nanoseconds. No operation needs fuel: the one unbounded loop of
  the code, the search for an account number, stops after five attempts, and the model counts them down;
  the fuel of \<open>browse\<close>, a client that follows cursors, is one more than the number of transactions, which
  is enough for any page size.

  Third-party code is a parameter: bcrypt and the other cryptography, the JWT and JSON libraries, Redis,
  the queue, the client of the mail provider, and of Go's library what is more than a function on bytes
  (URLs, dates, Unicode case, address parser, templates). Bodies and queries arrive decoded and validated
  by gin, or as the error it reports.

  \<^bold>\<open>Not modelled.\<close> Reading the configuration (viper) and opening connections, sockets, signals and the
  wiring of the processes, loggers, the HTML of the mails and pages, the text of \<open>/metrics\<close>, and the
  generated mock of the store.
\<close>

section \<open>The books\<close>

text \<open>
  C1. In every state the operations of the store can reach from a freshly migrated database, whatever
  faults the connections show, the double-entry books are in order: keys are unique, every account
  satisfies the table's constraints and has exactly one ledger account in its currency whose postings
  add up to its cached balance, every posting belongs to a transaction and a ledger account, every
  transaction is settled and balances to zero in one currency, and a transaction is reversed exactly
  when one reversal of it exists.
\<close>

theorem reachable_books:
  assumes "reachable e s"
  shows "booksOk (accounts s) (ledger_accounts s) (banking_transactions s) (ledger_postings s)"
  by (rule reachable_inv [OF assms])

theorem reachable_books_witness:
  "booksOk (accounts (perform sampleOpen (perform sampleSignUp (initialWorld sampleEnv []))))
     (ledger_accounts (perform sampleOpen (perform sampleSignUp (initialWorld sampleEnv []))))
     (banking_transactions (perform sampleOpen (perform sampleSignUp (initialWorld sampleEnv []))))
     (ledger_postings (perform sampleOpen (perform sampleSignUp (initialWorld sampleEnv []))))"
  using reachable_books [OF reachable.step [OF reachable.step [OF reachable.start]]] .

text \<open>
  C2. In every reachable state and every currency the customers' balances and the settlement ledgers
  add up to zero: customers hold exactly what came in through settlement.
\<close>

theorem money_conserved:
  assumes "reachable e s"
  shows "customerMoney c (accounts s) + settlementMoney c (ledger_accounts s) (ledger_postings s) = 0"
  by (rule books_conserve_money [OF reachable_inv [OF assms]])

theorem money_conserved_witness:
  "customerMoney ''USD'' (accounts (initialWorld sampleEnv [])) +
   settlementMoney ''USD'' (ledger_accounts (initialWorld sampleEnv [])) (ledger_postings (initialWorld sampleEnv [])) = 0"
  using money_conserved [OF reachable.start] .

text \<open>
  C3. Nothing that was recorded is rewritten: in any later state the audit log and the ledger postings
  continue those of the earlier state, and every banking transaction is still there, in its place, with
  the same reference, type, currency, amount, narration, initiator and reversed transaction.
\<close>

theorem history_kept:
  assumes "later s t"
  shows "extends s t"
  by (rule later_extends [OF assms])

theorem history_kept_witness: "extends sampleWorld (perform sampleOpen sampleWorld)"
  using history_kept [OF later.after [OF later.now]] .

section \<open>Transfers\<close>

text \<open>
  C4. A transfer that returns a result has moved the amount: the sender owns the source account, which
  is active and held at least the amount; the destination has the given number and is not closed; both
  have the transfer's currency. The source is debited and the destination credited by exactly the
  amount, no other balance changes, and one posted transaction with two opposite postings, on the two
  accounts' ledgers, is added.
\<close>

theorem transfer_effect:
  assumes "booksOk (accounts s) (ledger_accounts s) (banking_transactions s) (ledger_postings s)"
    and "TransferTx arg s = (Inr r, s')"
  shows "transferred arg s r s'"
  by (rule TransferTx_transferred [OF assms(2,1)])

theorem transfer_effect_witness:
  "\<not> isl (fst (TransferTx sampleTransfer sampleWorld)) \<and>
   transferred sampleTransfer sampleWorld (projr (fst (TransferTx sampleTransfer sampleWorld)))
     (snd (TransferTx sampleTransfer sampleWorld))"
  using sample_transfer_succeeds
    transfer_effect [OF sample_books [of sampleEnv, folded sampleWorld_def] run_pair [OF sample_transfer_succeeds]]
  by (rule conjI)

text \<open>
  C5. An idempotent transfer that reports an error has changed neither the books nor the idempotency
  keys, unless the acknowledgement of a commit that took effect was lost.
\<close>

theorem failed_transfer_moves_nothing:
  assumes "IdempotentTransferTx arg s = (Inl e, s')" and "commitKnown (envir s) (tx_ctr s)"
  shows "accounts s' = accounts s \<and> ledger_accounts s' = ledger_accounts s \<and>
    banking_transactions s' = banking_transactions s \<and> ledger_postings s' = ledger_postings s \<and>
    idempotency_keys s' = idempotency_keys s"
  using IdempotentTransferTx_error [OF assms, of bookTables] IdempotentTransferTx_error [OF assms, of idempotency_keys]
  by (simp add: bookTables_def)

theorem failed_transfer_moves_nothing_witness:
  "isl (fst (IdempotentTransferTx (sampleKeyed\<lparr>it_TransferTxParams := sampleTooMuch\<rparr>) sampleWorld)) \<and>
   accounts (snd (IdempotentTransferTx (sampleKeyed\<lparr>it_TransferTxParams := sampleTooMuch\<rparr>) sampleWorld)) = accounts sampleWorld"
  using sample_keyed_refused failed_transfer_moves_nothing [OF run_pair_error [OF sample_keyed_refused]]
  by (simp add: sampleWorld_def sampleWorldIn_def initialWorld_def sampleEnv_def commitKnown_def)

text \<open>
  C6. A keyed transfer happens at most once. When a call has moved money, whether its caller received
  the result or an error, a retry within the following 24 hours returns that very result, marked as
  replayed, and changes neither the books nor the mail queue.
\<close>

theorem transfer_at_most_once:
  assumes "booksOk (accounts s) (ledger_accounts s) (banking_transactions s) (ledger_postings s)"
    and "IdempotentTransferTx arg s = (x, s1)" and "bookTables s1 \<noteq> bookTables s"
    and "clockAt (envir s1) (clock_ctr s1) < clockAt (envir s) (clock_ctr s) + dayMicros"
    and "beginFault (envir s1) (tx_ctr s1) = None" and "commitFault (envir s1) (tx_ctr s1) = None"
    and "in_int64 (idempotency_keys_id_seq s1)"
  shows "\<exists>r s2. transferred (it_TransferTxParams arg) s r s1 \<and> (x = Inr r \<or> isl x) \<and>
    IdempotentTransferTx arg s1 = (Inr (r\<lparr>tr_Replayed := True\<rparr>), s2) \<and>
    bookTables s2 = bookTables s1 \<and> email_jobs s2 = email_jobs s1"
proof -
  obtain r where "storedResult arg r (clockAt (envir s) (clock_ctr s) + dayMicros) s1" "resultInRange r" "validKey arg"
    and moved: "transferred (it_TransferTxParams arg) s r s1" "x = Inr r \<or> isl x"
    by (rule idempotent_stores [OF assms(2,1,3)])
  then obtain s2 where "IdempotentTransferTx arg s1 = (Inr (r\<lparr>tr_Replayed := True\<rparr>), s2)"
    "bookTables s2 = bookTables s1" "email_jobs s2 = email_jobs s1"
    using idempotent_replays [OF _ _ _ assms(4,7,5,6)] by blast
  with moved show ?thesis by blast
qed

theorem transfer_at_most_once_witness:
  "\<exists>r s2. transferred sampleTransfer sampleWorld r (snd (IdempotentTransferTx sampleKeyed sampleWorld)) \<and>
    IdempotentTransferTx sampleKeyed (snd (IdempotentTransferTx sampleKeyed sampleWorld)) = (Inr (r\<lparr>tr_Replayed := True\<rparr>), s2)"
proof -
  let ?s1 = "snd (IdempotentTransferTx sampleKeyed sampleWorld)"
  have run: "length (banking_transactions ?s1) = 2" "idempotency_keys_id_seq ?s1 = 2"
      "clockAt (envir ?s1) (clock_ctr ?s1) < 1700080000000000"
      "beginFault (envir ?s1) (tx_ctr ?s1) = None" "commitFault (envir ?s1) (tx_ctr ?s1) = None"
    using sample_keyed_moves by (simp_all add: case_prod_beta)
  have now: "clockAt (envir sampleWorld) (clock_ctr sampleWorld) = 1700000000000000"
    "length (banking_transactions sampleWorld) = 1"
    by (simp_all add: sampleWorld_def sampleWorldIn_def initialWorld_def sampleEnv_def)
  have "bookTables ?s1 \<noteq> bookTables sampleWorld"
    using run(1) now(2) by (auto simp: bookTables_def)
  then show ?thesis
    using transfer_at_most_once [OF sample_books [of sampleEnv, folded sampleWorld_def] prod.collapse [symmetric], of sampleKeyed]
      run now(1) by (simp add: sampleKeyed_def dayMicros_def in_int64_def) blast
qed

text \<open>
  C7. A live idempotency key that was used for another request is refused: the call reports the conflict
  and changes neither the books nor the keys.
\<close>

theorem key_conflict_refused:
  assumes "find (sameKey (tp_Username (it_TransferTxParams arg)) IdempotencyOperationInternalTransfer
      (it_IdempotencyKey arg)) (idempotency_keys s) = Some k"
    and "ik_request_hash k \<noteq> it_RequestHash arg" and "clockAt (envir s) (clock_ctr s) < ik_expires_at k"
    and "validKey arg" and "in_int64 (idempotency_keys_id_seq s)"
    and "beginFault (envir s) (tx_ctr s) = None" and "rollbackFault (envir s) (tx_ctr s) = None"
    and "commitKnown (envir s) (tx_ctr s)"
  shows "\<exists>e s'. IdempotentTransferTx arg s = (Inl e, s') \<and> errIs e ErrIdempotencyConflict \<and>
    bookTables s' = bookTables s \<and> idempotency_keys s' = idempotency_keys s"
  by (rule idempotent_conflict [OF assms(1-3,5,4,6-8)])

theorem key_conflict_refused_witness:
  "\<exists>e s'. IdempotentTransferTx sampleKeyed (sampleWorld\<lparr>idempotency_keys := [sampleKeyRow]\<rparr>) = (Inl e, s') \<and>
     errIs e ErrIdempotencyConflict \<and> accounts s' = accounts sampleWorld"
proof -
  let ?s = "sampleWorld\<lparr>idempotency_keys := [sampleKeyRow]\<rparr>"
  have "\<exists>e s'. IdempotentTransferTx sampleKeyed ?s = (Inl e, s') \<and> errIs e ErrIdempotencyConflict \<and>
      bookTables s' = bookTables ?s \<and> idempotency_keys s' = idempotency_keys ?s"
    by (rule key_conflict_refused [of _ _ sampleKeyRow])
      (simp_all add: sampleKeyed_def sampleTransfer_def sampleKeyRow_def sameKey_def sampleWorld_def sampleWorldIn_def
        initialWorld_def sampleEnv_def validKey_def in_int64_def commitKnown_def IdempotencyOperationInternalTransfer_def)
  then show ?thesis
    by (elim exE conjE) (intro exI conjI, assumption+, simp add: bookTables_def)
qed

text \<open>
  C8. The limits bind: after a successful transfer, all that the source account has sent on the day of
  the transaction, reversed transfers included, is at most 25,000.00, and the transfer itself at most
  10,000.00.
\<close>

theorem daily_limit_respected:
  assumes "booksOk (accounts s) (ledger_accounts s) (banking_transactions s) (ledger_postings s)"
    and "TransferTx arg s = (Inr r, s')"
  shows "\<exists>a la. a \<in> set (accounts s) \<and> Some (ac_public_id a) = tp_FromAccountPublicID arg \<and>
    la \<in> set (ledger_accounts s) \<and> ledgerFor a la \<and> tp_Amount arg \<le> 1000000 \<and>
    sum_list (dailyOutgoing (ledger_postings s') (banking_transactions s') (la_id la)
      (startOfDay (clockAt (envir s) (clock_ctr s)))) \<le> 2500000"
proof -
  let ?s = "s\<lparr>tx_now := clockAt (envir s) (clock_ctr s)\<rparr>"
  obtain a b la lb t p q where dn: "transferDone arg ?s a b la lb t p q r s'"
    by (rule TransferTx_done [OF assms(2,1)])
  have "books ?s"
    using assms(1) by simp
  from transferDone_daily [OF this dn] dn show ?thesis
    unfolding transferDone_def by (intro exI [of _ a] exI [of _ la]) simp
qed

theorem daily_limit_respected_witness:
  "\<exists>a la. Some (ac_public_id a) = Some 10 \<and> la \<in> set (ledger_accounts sampleWorld) \<and> ledgerFor a la \<and>
    sum_list (dailyOutgoing (ledger_postings (snd (TransferTx sampleTransfer sampleWorld)))
      (banking_transactions (snd (TransferTx sampleTransfer sampleWorld))) (la_id la)
      (startOfDay (clockAt (envir sampleWorld) (clock_ctr sampleWorld)))) \<le> 2500000"
  using daily_limit_respected [OF sample_books [of sampleEnv, folded sampleWorld_def] run_pair [OF sample_transfer_succeeds]]
  by (elim exE conjE) (intro exI conjI; (assumption | simp add: sampleTransfer_def))

text \<open>
  C9. The deferred constraint trigger of the ledger never refuses a transfer whose statements have
  succeeded: when the connection holds, its transaction commits.
\<close>

theorem transfer_commits:
  assumes "booksOk (accounts s) (ledger_accounts s) (banking_transactions s) (ledger_postings s)"
    and "transferWithQueries arg (startTx s) = (Inr r, t)"
    and "beginFault (envir s) (tx_ctr s) = None" and "commitFault (envir s) (tx_ctr s) = None"
  shows "execTx (transferWithQueries arg) s = (Inr r, t)"
  by (rule execTx_through [where body = "transferWithQueries arg", OF assms(3,4,2) transfer_passes_trigger [OF assms(2,1)]])

theorem transfer_commits_witness:
  "execTx (transferWithQueries sampleTransfer) sampleWorld =
     (Inr (projr (fst (transferWithQueries sampleTransfer (startTx sampleWorld)))),
      snd (transferWithQueries sampleTransfer (startTx sampleWorld)))"
  by (rule transfer_commits [OF sample_books [of sampleEnv, folded sampleWorld_def] run_pair [OF sample_body_succeeds]])
    (simp_all add: sampleWorld_def sampleWorldIn_def initialWorld_def sampleEnv_def)

section \<open>Deposits and withdrawals\<close>

text \<open>
  C10. A deposit that returns a result has credited the account, which is not closed, by the amount
  against the settlement ledger of its currency, with one posted transaction of two opposite postings.
  A withdrawal that returns a result has debited the account in the same way; the account was neither
  frozen nor closed and held at least the amount. No other balance changes.
\<close>

theorem settlement_effect:
  assumes "booksOk (accounts s) (ledger_accounts s) (banking_transactions s) (ledger_postings s)"
  shows "(DepositTx dep s = (Inr r, s') \<longrightarrow> settledMovement (dp_AccountPublicID dep) ''deposit'' (dp_Amount dep) s r s') \<and>
    (WithdrawTx wd s = (Inr r, s') \<longrightarrow> settledMovement (wp_AccountPublicID wd) ''withdrawal'' (- wp_Amount wd) s r s')"
proof (intro conjI impI)
  assume "DepositTx dep s = (Inr r, s')"
  from settlement_ok [OF this [unfolded DepositTx_def] assms]
  show "settledMovement (dp_AccountPublicID dep) ''deposit'' (dp_Amount dep) s r s'" by simp
next
  assume "WithdrawTx wd s = (Inr r, s')"
  from settlement_ok [OF this [unfolded WithdrawTx_def] assms]
  show "settledMovement (wp_AccountPublicID wd) ''withdrawal'' (- wp_Amount wd) s r s'" by simp
qed

theorem settlement_effect_witness:
  "\<not> isl (fst (DepositTx sampleDepositArg sampleWorld)) \<and> \<not> isl (fst (WithdrawTx sampleWithdrawArg sampleWorld)) \<and>
   settledMovement (Some 20) ''deposit'' 70 sampleWorld (projr (fst (DepositTx sampleDepositArg sampleWorld)))
     (snd (DepositTx sampleDepositArg sampleWorld)) \<and>
   settledMovement (Some 10) ''withdrawal'' (- 70) sampleWorld (projr (fst (WithdrawTx sampleWithdrawArg sampleWorld)))
     (snd (WithdrawTx sampleWithdrawArg sampleWorld))"
proof -
  note effect = settlement_effect [OF sample_books [of sampleEnv, folded sampleWorld_def]]
  show ?thesis
    using sample_deposit_succeeds sample_withdraw_succeeds
      conjunct1 [OF effect, rule_format, OF run_pair [OF sample_deposit_succeeds]]
      conjunct2 [OF effect, rule_format, OF run_pair [OF sample_withdraw_succeeds]]
    by (simp add: sampleDepositArg_def sampleWithdrawArg_def)
qed

section \<open>The operator\<close>

text \<open>
  C11. A reversal that returns a result has marked the posted original as reversed and added one posted
  transaction that refers to it and carries exactly the opposite postings; every customer's balance
  moves back by what the original had moved.
\<close>

theorem reversal_effect:
  assumes "booksOk (accounts s) (ledger_accounts s) (banking_transactions s) (ledger_postings s)"
    and "ReverseTransactionTx arg s = (Inr r, s')"
  shows "reversed arg s r s'"
  by (rule ReverseTransactionTx_reversed [OF assms(2,1)])

theorem reversal_effect_witness:
  "\<not> isl (fst (ReverseTransactionTx sampleReverse sampleWorld)) \<and>
   reversed sampleReverse sampleWorld (projr (fst (ReverseTransactionTx sampleReverse sampleWorld)))
     (snd (ReverseTransactionTx sampleReverse sampleWorld))"
  using sample_reverse_succeeds
    reversal_effect [OF sample_books [of sampleEnv, folded sampleWorld_def] run_pair [OF sample_reverse_succeeds]]
  by (rule conjI)

text \<open>
  C12. A transaction is reversed at most once: asked for a transaction that is already reversed, the
  reversal reports so and leaves the books alone.
\<close>

theorem second_reversal_refused:
  assumes "booksOk (accounts s) (ledger_accounts s) (banking_transactions s) (ledger_postings s)"
    and "t \<in> set (banking_transactions s)" and "Some (bt_id t) = rt_TransactionID arg"
    and "bt_transaction_type t \<noteq> ''reversal''" and "bt_status t = ''reversed''"
    and "validateOperatorAction (rt_Actor arg) (rt_Reason arg) (rt_CorrelationID arg)"
    and "beginFault (envir s) (tx_ctr s) = None" and "rollbackFault (envir s) (tx_ctr s) = None"
    and "commitKnown (envir s) (tx_ctr s)"
  shows "\<exists>e s'. ReverseTransactionTx arg s = (Inl e, s') \<and> errIs e ErrTransactionAlreadyReversed \<and>
    bookTables s' = bookTables s"
  using ReverseTransactionTx_refused [OF assms(2,3,1,6) _ assms(7-9), of ErrTransactionAlreadyReversed] assms(4,5)
  by blast

theorem second_reversal_refused_witness:
  "\<exists>e s'. ReverseTransactionTx sampleReverse sampleReversedWorld = (Inl e, s') \<and>
     errIs e ErrTransactionAlreadyReversed \<and> bookTables s' = bookTables sampleReversedWorld"
  by (rule second_reversal_refused [OF sample_reversed_books, of "sampleDeposit\<lparr>bt_status := ''reversed'', bt_reversed_at := Some 20\<rparr>"])
    (use sample_action_valid in \<open>simp_all add: sampleReversedWorld_def sampleWorld_def sampleWorldIn_def initialWorld_def
      sampleEnv_def sampleDeposit_def sampleReverse_def commitKnown_def\<close>)

text \<open>
  C13. Freezing and unfreezing change one account's status, and nothing else of any account: the
  account was neither closed nor already in the requested status, and the balances, the ledger and the
  transactions stay as they were.
\<close>

theorem status_change_effect:
  assumes "booksOk (accounts s) (ledger_accounts s) (banking_transactions s) (ledger_postings s)"
    and "SetAccountStatusTx arg s = (Inr r, s')"
  shows "\<exists>a. statusChanged (as_AccountPublicID arg) (as_TargetStatus arg) a s (sr_Account r) s' \<and>
    (as_TargetStatus arg = ''frozen'' \<or> as_TargetStatus arg = ''active'')"
  by (rule SetAccountStatusTx_ok [OF assms(2,1)]) blast

theorem status_change_effect_witness:
  "\<exists>a. statusChanged (Some 20) ''frozen'' a sampleWorld (sr_Account (projr (fst (SetAccountStatusTx sampleFreeze sampleWorld))))
     (snd (SetAccountStatusTx sampleFreeze sampleWorld))"
  using status_change_effect [OF sample_books [of sampleEnv, folded sampleWorld_def] run_pair [OF sample_freeze_succeeds]]
  by (auto simp: sampleFreeze_def)

section \<open>Accounts\<close>

text \<open>
  C14. Opening an account adds one active account with balance zero for the owner and currency, who had
  none in it, under a ten-digit number no other account has, together with its ledger account.
\<close>

theorem open_effect:
  assumes "CreateAccountTx arg s = (Inr a, s')"
  shows "opened (ca_Owner arg) (ca_Currency arg) s a s'"
  by (rule CreateAccountTx_opens [OF assms])

theorem open_effect_witness:
  "opened ''alice'' ''EUR'' sampleWorld
     (projr (fst (CreateAccountTx \<lparr>ca_Owner = ''alice'', ca_Currency = ''EUR''\<rparr> sampleWorld)))
     (snd (CreateAccountTx \<lparr>ca_Owner = ''alice'', ca_Currency = ''EUR''\<rparr> sampleWorld))"
  using open_effect [OF run_pair [OF sample_open_succeeds]] by simp

text \<open>C15. The search for an unused account number ends after at most five draws of the random source.\<close>

theorem open_draws_at_most_five: "rand_ctr (snd (CreateAccountTx arg s)) \<le> rand_ctr s + 5"
  by (rule CreateAccountTx_draws [OF prod.collapse [symmetric]])

text \<open>
  C16. Closing an account needs its owner and a zero balance; it changes that account's status to
  closed, for an account that was not closed, and nothing else of the books.
\<close>

theorem close_effect:
  assumes "booksOk (accounts s) (ledger_accounts s) (banking_transactions s) (ledger_postings s)"
    and "CloseAccountTx arg s = (Inr r, s')"
  shows "\<exists>a. statusChanged (cl_PublicID arg) ''closed'' a s r s' \<and> ac_owner a = cl_Username arg \<and> ac_balance a = 0"
  by (rule CloseAccountTx_ok [OF assms(2,1)]) blast

theorem close_effect_witness:
  "\<exists>a. statusChanged (Some 20) ''closed'' a sampleWorld (projr (fst (CloseAccountTx sampleClose sampleWorld)))
     (snd (CloseAccountTx sampleClose sampleWorld)) \<and> ac_owner a = ''bob''"
  using close_effect [OF sample_books [of sampleEnv, folded sampleWorld_def] run_pair [OF sample_close_succeeds]]
  by (auto simp: sampleClose_def)

section \<open>Reconciliation\<close>

text \<open>
  C17. The reconciliation of the whole bank is exact: its report says consistent if and only if every
  account has a customer ledger account and a balance equal to the sum of its postings, every settled
  transaction has at least two postings that sum to zero, and no transaction has two reversals.
\<close>

theorem reconciliation_exact:
  assumes "Reconcile \<lparr>rp_AccountPublicID = None, rp_Actor = actor\<rparr> s = (Inr rep, s')"
  shows "re_Consistent rep \<longleftrightarrow> reconciled s"
  by (rule Reconcile_detects [OF assms])

theorem reconciliation_exact_witness:
  "re_Consistent (projr (fst (Reconcile sampleReconcile sampleWorld))) \<longleftrightarrow> reconciled sampleWorld"
  using reconciliation_exact [OF run_pair [OF sample_reconcile_succeeds [unfolded sampleReconcile_def]]]
  by (simp add: sampleReconcile_def)

text \<open>
  C18. While the books are in order, as they are in every reachable state, no banking command of the
  operator reports a discrepancy: a reconciliation of the whole bank or of one account that runs to its
  end finds no issue, and an audit of an account finds its ledger account with the balance that is cached,
  provided that a fault of the connection is not mistaken for an empty result.
\<close>

theorem operator_sees_no_drift:
  assumes "booksOk (accounts s) (ledger_accounts s) (banking_transactions s) (ledger_postings s)"
    and "honestFaults (envir s)" "runBanking h config args s = (Inr (out, err), t)"
  shows "err = None \<and> noDrift out"
  using banking_reports [OF assms(1,2), of h config args] assms(3) unfolding reportsOk_def by blast

lemma sample_audit:
  "case runBanking sampleHost sampleConfig [''audit'', ''--account'', ''A''] sampleWorld of
     (Inr (AccountAudit r, err), t) \<Rightarrow> True | _ \<Rightarrow> False"
  by code_simp

lemma account_audited:
  assumes "case x of (Inr (AccountAudit r, err), t) \<Rightarrow> True | _ \<Rightarrow> False"
  shows "\<exists>r err t. x = (Inr (AccountAudit r, err), t)"
proof (cases x)
  case (Pair y t)
  with assms obtain out err where y: "y = Inr (out, err)"
    by (cases y) auto
  with assms Pair show ?thesis
    by (cases out) simp_all
qed

theorem operator_sees_no_drift_witness:
  "\<exists>r t. runBanking sampleHost sampleConfig [''audit'', ''--account'', ''A''] sampleWorld = (Inr (AccountAudit r, None), t) \<and>
    aa_LedgerExists r \<and> aa_LedgerBalance r = aa_CachedBalance r"
proof -
  obtain r err t where run: "runBanking sampleHost sampleConfig [''audit'', ''--account'', ''A''] sampleWorld = (Inr (AccountAudit r, err), t)"
    using account_audited [OF sample_audit] by blast
  have "honestFaults (envir sampleWorld)"
    by (simp add: honestFaults_def sampleWorld_def sampleWorldIn_def initialWorld_def sampleEnv_def)
  from operator_sees_no_drift [OF sample_books [of sampleEnv, folded sampleWorld_def] this run] show ?thesis
    using run by (simp add: noDrift_def)
qed

section \<open>Stored results and transactions\<close>



text \<open>
  C20. A database transaction is atomic: after it, the tables are those before it and it reports an
  error, or its body has succeeded, the deferred trigger has accepted the result, and the tables are
  those the body left.
\<close>

theorem transaction_atomic:
  "(\<exists>e. fst (execTx body s) = Inl e) \<and> tablesOf (snd (execTx body s)) = tablesOf s \<or>
   (\<exists>x. body (startTx s) = (Inr x, snd (execTx body s)) \<and>
      list_all (\<lambda>c. \<not> fst c) (deferredChecks s (snd (execTx body s))) \<and>
      (fst (execTx body s) = Inr x \<or> isl (fst (execTx body s))))"
proof -
  obtain r s' where run: "execTx body s = (r, s')"
    by (cases "execTx body s")
  show ?thesis
    unfolding run fst_conv snd_conv using run by (cases rule: execTx_cases) (auto simp: list_all_iff)
qed

end
